(* ===== verification/Prelude.thy ===== *)
theory Prelude
  imports Main "HOL-Library.State_Monad" "HOL-Library.Word"
begin

text \<open>
  Shared vocabulary of the development: results of Go functions, programs over a state with a
  weakest-precondition calculus, Go's \<open>map[string]V\<close> as association lists, the decimal
  notation of \<open>strconv\<close>, and the few string functions of the Go library the sources use.
\<close>

section \<open>Results and stateful programs\<close>

text \<open>
  A Go function returning \<open>(T, error)\<close> is a program whose value is a sum: \<open>Inl\<close> the
  error, \<open>Inr\<close> the value. \<open>time.Time\<close> and \<open>time.Duration\<close> are nanosecond counts,
  with Go's zero time as 0.
\<close>

type_synonym ('s, 'a) prog = "('s, 'a) state"
type_synonym time = int
type_synonym duration = int

named_theorems wp_simps \<open>weakest preconditions of the program constructs\<close>

abbreviation ret :: "'a \<Rightarrow> ('s, 'a) prog" where
  "ret \<equiv> State_Monad.return"

abbreviation ok :: "'a \<Rightarrow> ('s, 'e + 'a) prog" where
  "ok x \<equiv> State_Monad.return (Inr x)"

abbreviation fail :: "'e \<Rightarrow> ('s, 'e + 'a) prog" where
  "fail e \<equiv> State_Monad.return (Inl e)"

text \<open>
  \<open>call m k\<close> is the Go idiom \<open>x, err := m; if err != nil { return err }; k x\<close>.
\<close>

definition call :: "('s, 'e + 'a) prog \<Rightarrow> ('a \<Rightarrow> ('s, 'e + 'b) prog) \<Rightarrow> ('s, 'e + 'b) prog" where
  "call m k = do { r \<leftarrow> m; (case r of Inl e \<Rightarrow> fail e | Inr x \<Rightarrow> k x) }"

text \<open>
  \<open>zoom g p m\<close> runs a program on one component of a larger state.
\<close>

definition zoom :: "('w \<Rightarrow> 's) \<Rightarrow> ('s \<Rightarrow> 'w \<Rightarrow> 'w) \<Rightarrow> ('s, 'a) prog \<Rightarrow> ('w, 'a) prog" where
  "zoom g p m = State (\<lambda>w. case run_state m (g w) of (a, s') \<Rightarrow> (a, p s' w))"

definition wp :: "('s, 'a) prog \<Rightarrow> ('a \<Rightarrow> 's \<Rightarrow> bool) \<Rightarrow> 's \<Rightarrow> bool" where
  "wp m Q s \<longleftrightarrow> (case run_state m s of (a, s') \<Rightarrow> Q a s')"

text \<open>
  The rules rewrite \<open>wp m Q\<close> as a predicate of the state, so that they also apply to the
  continuations of a program.
\<close>

lemma wp_ret [wp_simps, simp]: "wp (ret a) Q = Q a"
  by (simp add: wp_def fun_eq_iff)

lemma wp_bind [wp_simps, simp]: "wp (State_Monad.bind m f) Q = wp m (\<lambda>a. wp (f a) Q)"
  by (simp add: wp_def fun_eq_iff split: prod.splits)

lemma wp_call [wp_simps, simp]:
  "wp (call m k) Q = wp m (\<lambda>r. case r of Inl e \<Rightarrow> Q (Inl e) | Inr x \<Rightarrow> wp (k x) Q)"
  by (simp add: call_def wp_def fun_eq_iff split: prod.splits sum.splits)

lemma wp_zoom [wp_simps, simp]: "wp (zoom g p m) Q = (\<lambda>w. wp m (\<lambda>a s'. Q a (p s' w)) (g w))"
  by (simp add: zoom_def wp_def fun_eq_iff split: prod.splits)

lemma wp_State [wp_simps, simp]: "wp (State f) Q = (\<lambda>s. case f s of (a, s') \<Rightarrow> Q a s')"
  by (simp add: wp_def fun_eq_iff)

lemma wp_if [wp_simps, simp]:
  "wp (if b then m else n) Q = (if b then wp m Q else wp n Q)"
  by simp

lemma wp_case_sum [wp_simps, simp]:
  "wp (case r of Inl e \<Rightarrow> f e | Inr x \<Rightarrow> g x) Q = (case r of Inl e \<Rightarrow> wp (f e) Q | Inr x \<Rightarrow> wp (g x) Q)"
  by (simp split: sum.splits)

lemma wp_case_option [wp_simps, simp]:
  "wp (case r of None \<Rightarrow> f | Some x \<Rightarrow> g x) Q = (case r of None \<Rightarrow> wp f Q | Some x \<Rightarrow> wp (g x) Q)"
  by (simp split: option.splits)

lemma wp_case_prod [wp_simps, simp]:
  "wp (case p of (x, y) \<Rightarrow> f x y) Q = (case p of (x, y) \<Rightarrow> wp (f x y) Q)"
  by (simp split: prod.splits)

lemma wp_mono: "wp m P s \<Longrightarrow> (\<And>a s'. P a s' \<Longrightarrow> Q a s') \<Longrightarrow> wp m Q s"
  by (auto simp: wp_def split: prod.splits)

lemma wp_conj: "wp m (\<lambda>a s'. P a s' \<and> Q a s') s \<longleftrightarrow> wp m P s \<and> wp m Q s"
  by (auto simp: wp_def split: prod.splits)

lemma wp_run: "run_state m s = (a, s') \<Longrightarrow> wp m Q s \<Longrightarrow> Q a s'"
  by (simp add: wp_def)

lemma wpI: "(\<And>a s'. run_state m s = (a, s') \<Longrightarrow> Q a s') \<Longrightarrow> wp m Q s"
  by (auto simp: wp_def split: prod.splits)

text \<open>Programs that keep a predicate of the state, whatever they return.\<close>

definition keeps :: "('s \<Rightarrow> bool) \<Rightarrow> ('s, 'a) prog \<Rightarrow> bool" where
  "keeps I m \<longleftrightarrow> (\<forall>s. I s \<longrightarrow> wp m (\<lambda>_. I) s)"

named_theorems keeps_intros \<open>programs that keep a predicate\<close>

lemma keepsI: "(\<And>s. I s \<Longrightarrow> wp m (\<lambda>_. I) s) \<Longrightarrow> keeps I m"
  by (simp add: keeps_def)

lemma keepsD: "keeps I m \<Longrightarrow> I s \<Longrightarrow> wp m (\<lambda>_. I) s"
  by (simp add: keeps_def)

lemma keeps_run: "keeps I m \<Longrightarrow> I s \<Longrightarrow> run_state m s = (a, s') \<Longrightarrow> I s'"
  by (auto dest: keepsD wp_run)

lemma keeps_ret [keeps_intros]: "keeps I (ret a)"
  by (simp add: keeps_def)

lemma keeps_bind [keeps_intros]:
  "keeps I m \<Longrightarrow> (\<And>a. keeps I (f a)) \<Longrightarrow> keeps I (State_Monad.bind m f)"
  by (rule keepsI, simp, erule (1) wp_mono [OF keepsD]) (auto intro: keepsD)

lemma keeps_call [keeps_intros]:
  "keeps I m \<Longrightarrow> (\<And>a. keeps I (k a)) \<Longrightarrow> keeps I (call m k)"
  by (rule keepsI, simp, erule (1) wp_mono [OF keepsD]) (auto intro: keepsD split: sum.splits)

lemma keeps_if [keeps_intros]: "keeps I m \<Longrightarrow> keeps I n \<Longrightarrow> keeps I (if b then m else n)"
  by simp

lemma keeps_case_sum [keeps_intros]:
  "(\<And>e. keeps I (f e)) \<Longrightarrow> (\<And>x. keeps I (g x)) \<Longrightarrow>
   keeps I (case r of Inl e \<Rightarrow> f e | Inr x \<Rightarrow> g x)"
  by (simp split: sum.splits)

lemma keeps_case_option [keeps_intros]:
  "keeps I f \<Longrightarrow> (\<And>x. keeps I (g x)) \<Longrightarrow> keeps I (case r of None \<Rightarrow> f | Some x \<Rightarrow> g x)"
  by (simp split: option.splits)

lemma keeps_case_prod [keeps_intros]:
  "(\<And>x y. keeps I (f x y)) \<Longrightarrow> keeps I (case p of (x, y) \<Rightarrow> f x y)"
  by (simp split: prod.splits)

section \<open>Go maps with string keys\<close>

text \<open>
  A \<open>map[string]V\<close> inside a value (claims, error maps) is an association list with at most
  one entry per key; \<open>map_put\<close> is the assignment \<open>m[k] = v\<close>.
\<close>

fun map_put :: "'k \<Rightarrow> 'v \<Rightarrow> ('k \<times> 'v) list \<Rightarrow> ('k \<times> 'v) list" where
  "map_put k v [] = [(k, v)]"
| "map_put k v ((k', v') # m) = (if k = k' then (k, v) # m else (k', v') # map_put k v m)"

lemma map_of_map_put [simp]: "map_of (map_put k v m) = (map_of m)(k \<mapsto> v)"
  by (induction k v m rule: map_put.induct) auto

lemma keys_map_put [simp]: "fst ` set (map_put k v m) = insert k (fst ` set m)"
  by (induction k v m rule: map_put.induct) auto

lemma distinct_map_put: "distinct (map fst m) \<Longrightarrow> distinct (map fst (map_put k v m))"
proof (induction k v m rule: map_put.induct)
  case (2 k v k' v' m)
  have "set (map fst (map_put k v m)) = insert k (set (map fst m))"
    using keys_map_put [of k v m] by simp
  with 2 show ?case by auto
qed simp

section \<open>Strings\<close>

text \<open>
  A Go string is its list of bytes, as HOL's \<open>char\<close> is a byte; \<open>len\<close> is \<open>length\<close>.
  \<open>strings.TrimSpace\<close> is modelled on the ASCII white space.
\<close>

definition is_space :: "char \<Rightarrow> bool" where
  "is_space c \<longleftrightarrow> c \<in> {CHR 0x09, CHR 0x0A, CHR 0x0B, CHR 0x0C, CHR 0x0D, CHR '' ''}"

definition TrimSpace :: "string \<Rightarrow> string" where
  "TrimSpace s = rev (dropWhile is_space (rev (dropWhile is_space s)))"

lemma TrimSpace_Nil [simp]: "TrimSpace [] = []"
  by (simp add: TrimSpace_def)

lemma TrimSpace_empty_iff: "TrimSpace s = [] \<longleftrightarrow> (\<forall>c \<in> set s. is_space c)"
  by (auto simp: TrimSpace_def dest: set_dropWhileD)
     (metis dropWhile_eq_Nil_conv hd_dropWhile list.set_sel(1))

lemma TrimSpace_Cons [simp]: "\<not> is_space c \<Longrightarrow> TrimSpace (c # cs) \<noteq> []"
  by (simp add: TrimSpace_empty_iff)

section \<open>Decimal notation: strconv.FormatInt and strconv.ParseInt\<close>

definition digit_char :: "nat \<Rightarrow> char" where
  "digit_char n = char_of (48 + n)"

definition digit_val :: "char \<Rightarrow> nat option" where
  "digit_val c = (let n = of_char c in if 48 \<le> n \<and> n \<le> 57 then Some (n - 48) else None)"

fun dec_nat :: "nat \<Rightarrow> string" where
  "dec_nat n = (if n < 10 then [digit_char n] else dec_nat (n div 10) @ [digit_char (n mod 10)])"

declare dec_nat.simps [simp del]

definition FormatInt :: "int \<Rightarrow> string" where
  "FormatInt i = (if i < 0 then CHR ''-'' # dec_nat (nat (- i)) else dec_nat (nat i))"

text \<open>
  The digit loop of \<open>strconv.ParseUint\<close> in base 10 with 64 bits: it stops with a syntax error at
  the first character that is no digit and with a range error at the first overflow.
\<close>

datatype parse_uint = USyntax | URange | UVal nat

fun parse_digits :: "nat \<Rightarrow> string \<Rightarrow> parse_uint" where
  "parse_digits n [] = UVal n"
| "parse_digits n (c # cs) =
     (case digit_val c of
        None \<Rightarrow> USyntax
      | Some d \<Rightarrow> if 2 ^ 64 \<le> 10 * n + d then URange else parse_digits (10 * n + d) cs)"

text \<open>
  The value \<open>strconv.ParseInt(s, 10, 64)\<close> returns (the error is dropped by its only caller):
  0 on a syntax error, the nearest bound on a range error.
\<close>

definition ParseInt_value :: "string \<Rightarrow> int" where
  "ParseInt_value s =
     (let neg = (s \<noteq> [] \<and> hd s = CHR ''-'');
          t = (if s \<noteq> [] \<and> (hd s = CHR ''-'' \<or> hd s = CHR ''+'') then tl s else s)
      in if t = [] then 0
         else (case parse_digits 0 t of
                 USyntax \<Rightarrow> 0
               | URange \<Rightarrow> if neg then - (2 ^ 63) else 2 ^ 63 - 1
               | UVal un \<Rightarrow>
                   if \<not> neg \<and> 2 ^ 63 \<le> un then 2 ^ 63 - 1
                   else if neg \<and> 2 ^ 63 < un then - (2 ^ 63)
                   else if neg then - int un else int un))"

lemma digit_val_char [simp]: "n < 10 \<Longrightarrow> digit_val (digit_char n) = Some n"
  by (simp add: digit_val_def digit_char_def)

lemma digit_char_sep:
  assumes "n < 10" and "digit_val c = None" shows "digit_char n \<noteq> c"
  using digit_val_char [OF assms(1)] assms(2) by auto

lemma digit_val_sep: "digit_val CHR ''-'' = None" "digit_val CHR ''+'' = None" "digit_val CHR '':'' = None"
  by (simp_all add: digit_val_def)

lemmas digit_char_not_sep = digit_char_sep [OF _ digit_val_sep(1)] digit_char_sep [OF _ digit_val_sep(2)]
  digit_char_sep [OF _ digit_val_sep(3)]

lemma dec_nat_not_Nil [simp]: "dec_nat n \<noteq> []"
  by (subst dec_nat.simps) simp

lemma dec_nat_digits: "c \<in> set (dec_nat n) \<Longrightarrow> \<exists>d < 10. c = digit_char d"
proof (induction n rule: dec_nat.induct)
  case (1 n)
  show ?case
  proof (cases "n < 10")
    case True
    with "1.prems" show ?thesis by (subst (asm) dec_nat.simps) auto
  next
    case False
    with "1.prems" have "c \<in> set (dec_nat (n div 10)) \<or> c = digit_char (n mod 10)"
      by (subst (asm) dec_nat.simps) auto
    with "1.IH" False show ?thesis
      by (metis mod_less_divisor zero_less_numeral)
  qed
qed

lemma dec_nat_no_sep:
  assumes "digit_val c = None" shows "c \<notin> set (dec_nat n)"
  using assms dec_nat_digits [of c n] digit_char_sep by metis

lemma parse_digits_dec_nat:
  "n < 2 ^ 64 \<Longrightarrow> parse_digits 0 (dec_nat n @ cs) = parse_digits n cs"
proof (induction n arbitrary: cs rule: dec_nat.induct)
  case (1 n)
  show ?case
  proof (cases "n < 10")
    case True
    with "1.prems" show ?thesis by (subst dec_nat.simps) simp
  next
    case False
    then have "parse_digits 0 (dec_nat n @ cs)
        = parse_digits 0 (dec_nat (n div 10) @ digit_char (n mod 10) # cs)"
      by (subst dec_nat.simps) simp
    also have "\<dots> = parse_digits (n div 10) (digit_char (n mod 10) # cs)"
      using False "1.prems" by (intro "1.IH") auto
    also have "\<dots> = parse_digits n cs"
      using "1.prems" by simp
    finally show ?thesis .
  qed
qed

lemma ParseInt_FormatInt:
  assumes "- (2 ^ 63) \<le> i" and "i < 2 ^ 63"
  shows "ParseInt_value (FormatInt i) = i"
proof -
  have d: "parse_digits 0 (dec_nat n) = UVal n" if "n < 2 ^ 64" for n
    using parse_digits_dec_nat [of n "[]"] that by simp
  have h: "hd (dec_nat n) \<noteq> CHR ''-''" "hd (dec_nat n) \<noteq> CHR ''+''" for n
    using dec_nat_no_sep [OF digit_val_sep(1)] dec_nat_no_sep [OF digit_val_sep(2)]
    by (metis dec_nat_not_Nil list.set_sel(1))+
  show ?thesis
  proof (cases "i < 0")
    case True
    then have "nat (- i) < 2 ^ 64" "\<not> 2 ^ 63 < nat (- i)" using assms by auto
    with True d [of "nat (- i)"] show ?thesis
      by (simp add: ParseInt_value_def FormatInt_def Let_def)
  next
    case False
    then have "nat i < 2 ^ 64" "\<not> 2 ^ 63 \<le> nat i" using assms by auto
    with False d [of "nat i"] h [of "nat i"] show ?thesis
      by (simp add: ParseInt_value_def FormatInt_def Let_def)
  qed
qed

lemma dec_nat_inj: "dec_nat m = dec_nat n \<Longrightarrow> m = n"
proof (induction m arbitrary: n rule: dec_nat.induct)
  case (1 m)
  have ne: "dec_nat k \<noteq> []" for k by simp
  have dc: "x = y" if "digit_char x = digit_char y" "x < 10" "y < 10" for x y
    using that by (metis digit_val_char option.inject)
  consider "m < 10" "n < 10" | "m < 10" "\<not> n < 10" | "\<not> m < 10" "n < 10" | "\<not> m < 10" "\<not> n < 10"
    by blast
  then show ?case
  proof cases
    case 1
    with "1.prems" dc show ?thesis by (simp add: dec_nat.simps)
  next
    case 2
    with "1.prems" ne show ?thesis by (metis append_Nil append1_eq_conv dec_nat.simps)
  next
    case 3
    with "1.prems" ne show ?thesis by (metis append_Nil append1_eq_conv dec_nat.simps)
  next
    case 4
    with "1.prems" have "dec_nat (m div 10) = dec_nat (n div 10)" "digit_char (m mod 10) = digit_char (n mod 10)"
      by (simp_all add: dec_nat.simps [of m] dec_nat.simps [of n])
    with 4 "1.IH" dc [of "m mod 10" "n mod 10"] have "m div 10 = n div 10" "m mod 10 = n mod 10"
      by simp_all
    then show ?thesis by (metis div_mult_mod_eq)
  qed
qed

lemma FormatInt_inj: "FormatInt i = FormatInt j \<Longrightarrow> i = j"
proof -
  assume eq: "FormatInt i = FormatInt j"
  have h: "dec_nat m \<noteq> CHR ''-'' # cs" for m cs
    using dec_nat_no_sep [OF digit_val_sep(1), of m] by (metis list.set_intros(1))
  then have h': "CHR ''-'' # cs \<noteq> dec_nat m" for m cs by metis
  show "i = j"
    using eq by (auto simp: FormatInt_def h h' split: if_splits dest!: dec_nat_inj)
qed

end
