(* ===== verification/Errors.thy ===== *)
theory Errors
  imports Prelude
begin

text \<open>
  Package \<open>internal/core/domain/errors\<close>: the structured error type of the service, its
  sentinels, and the \<open>errors.Is\<close> walk of the Go library over it. The other errors a call can
  return are those of the Go library and of the drivers: \<open>PgErr\<close> is \<open>*pgconn.PgError\<close> (its
  SQLSTATE and constraint name), \<open>Fmt\<close> is \<open>fmt.Errorf\<close> with the error its \<open>%w\<close> wraps.
\<close>

datatype go_error =
    CustomError (Code: int) (Message: string) (Errors: "(string \<times> string list) list") (Cause: "go_error option")
  | PgErr string string
  | PgxErrNoRows
  | RedisNil
  | ContextCanceled
  | ContextDeadlineExceeded
  | JwtErrTokenExpired
  | Fmt string "go_error option"

type_synonym 'a result = "go_error + 'a"

definition NewCustomError :: "int \<Rightarrow> string \<Rightarrow> (string \<times> string list) list \<Rightarrow> go_error" where
  "NewCustomError code message errs = CustomError code message errs None"

text \<open>\<open>WithCause\<close> copies the error with a cause.\<close>

fun WithCause :: "go_error \<Rightarrow> go_error \<Rightarrow> go_error" where
  "WithCause (CustomError c m es _) cause = CustomError c m es (Some cause)"
| "WithCause e cause = e"

fun Unwrap :: "go_error \<Rightarrow> go_error option" where
  "Unwrap (CustomError c m es cause) = cause"
| "Unwrap (Fmt s w) = w"
| "Unwrap _ = None"

text \<open>The method \<open>Is\<close> of \<open>CustomError\<close>: the target is a \<open>CustomError\<close> with the same code.\<close>

fun Is :: "go_error \<Rightarrow> go_error \<Rightarrow> bool" where
  "Is (CustomError c _ _ _) (CustomError c' _ _ _) \<longleftrightarrow> c = c'"
| "Is _ _ \<longleftrightarrow> False"

text \<open>
  \<open>errors.Is(err, target)\<close>: some error of the unwrap chain equals the target or accepts it with
  its \<open>Is\<close> method.
\<close>

fun errors_Is :: "go_error \<Rightarrow> go_error \<Rightarrow> bool" where
  "errors_Is (CustomError c m es cause) t \<longleftrightarrow>
     CustomError c m es cause = t \<or> Is (CustomError c m es cause) t \<or>
     (case cause of None \<Rightarrow> False | Some e \<Rightarrow> errors_Is e t)"
| "errors_Is (Fmt s w) t \<longleftrightarrow> Fmt s w = t \<or> (case w of None \<Rightarrow> False | Some e \<Rightarrow> errors_Is e t)"
| "errors_Is e t \<longleftrightarrow> e = t"

text \<open>The text of an error: \<open>[code] message\<close>, followed by the cause's text if there is one.\<close>

fun Error_text :: "go_error \<Rightarrow> string" where
  "Error_text (CustomError c m es cause) =
     (case cause of
        Some e \<Rightarrow> ''['' @ FormatInt c @ ''] '' @ m @ '': '' @ Error_text e
      | None \<Rightarrow> ''['' @ FormatInt c @ ''] '' @ m)"
| "Error_text (Fmt s w) = s"
| "Error_text (PgErr code cn) = code"
| "Error_text PgxErrNoRows = ''no rows in result set''"
| "Error_text RedisNil = ''redis: nil''"
| "Error_text ContextCanceled = ''context canceled''"
| "Error_text ContextDeadlineExceeded = ''context deadline exceeded''"
| "Error_text JwtErrTokenExpired = ''token is expired''"

section \<open>The sentinels\<close>

subsection \<open>errors/general.go\<close>

definition ErrInternalServerError :: go_error where
  "ErrInternalServerError = NewCustomError 10001 ''internal server error'' []"

definition ErrTraceInformationMissing :: go_error where
  "ErrTraceInformationMissing = NewCustomError 10002 ''trace information missing in request'' []"

definition ErrRequestCanceled :: go_error where
  "ErrRequestCanceled = NewCustomError 10003 ''request canceled'' []"

definition ErrRequestTimeout :: go_error where
  "ErrRequestTimeout = NewCustomError 10004 ''request timeout'' []"

definition ErrRequestAborted :: go_error where
  "ErrRequestAborted = NewCustomError 10005 ''request aborted'' []"

definition ErrUnimplemented :: go_error where
  "ErrUnimplemented = NewCustomError 10006 ''unimplemented'' []"

definition ErrNotFound :: go_error where
  "ErrNotFound = NewCustomError 10007 ''resource not found'' []"

definition ErrInvalidArgument :: go_error where
  "ErrInvalidArgument = NewCustomError 10008 ''invalid argument'' []"

definition ErrValidation :: go_error where
  "ErrValidation = NewCustomError 10009 ''validation error'' []"

definition ErrPermissionDenied :: go_error where
  "ErrPermissionDenied = NewCustomError 10010 ''permission denied'' []"

definition ErrResourceConflict :: go_error where
  "ErrResourceConflict = NewCustomError 10011 ''resource conflict'' []"

definition ErrInvalidEntity :: go_error where
  "ErrInvalidEntity = NewCustomError 10012 ''entity validation failed: missing required fields'' []"

subsection \<open>errors/auth.go\<close>

definition ErrInvalidCredentials :: go_error where
  "ErrInvalidCredentials = NewCustomError 20001 ''invalid credentials'' []"

definition ErrInvalidIdentifierType :: go_error where
  "ErrInvalidIdentifierType = NewCustomError 20002 ''invalid identifier type'' []"

definition ErrAuthTooManyAttempts :: go_error where
  "ErrAuthTooManyAttempts = NewCustomError 20003 ''too many failed attempts'' []"

definition ErrRateLimitExceeded :: go_error where
  "ErrRateLimitExceeded = NewCustomError 20004 ''rate limit exceeded'' []"

definition ErrTokenRevoked :: go_error where
  "ErrTokenRevoked = NewCustomError 20005 ''token: token has been revoked'' []"

definition ErrTokenBlacklisted :: go_error where
  "ErrTokenBlacklisted = NewCustomError 20006 ''token: token is blacklisted'' []"

definition ErrTokenInvalid :: go_error where
  "ErrTokenInvalid = NewCustomError 20007 ''token: invalid token'' []"

definition ErrTokenInvalidClaim :: go_error where
  "ErrTokenInvalidClaim = NewCustomError 20008 ''token: invalid token claim'' []"

definition ErrTokenExpired :: go_error where
  "ErrTokenExpired = NewCustomError 20009 ''token: token expired'' []"

definition ErrInvalidTokenType :: go_error where
  "ErrInvalidTokenType = NewCustomError 20010 ''token: invalid token type'' []"

definition ErrOAuthClientIDRequired :: go_error where
  "ErrOAuthClientIDRequired = NewCustomError 20011 ''oauth: client id is required'' []"

definition ErrOAuthClientSecretRequired :: go_error where
  "ErrOAuthClientSecretRequired = NewCustomError 20012 ''oauth: client secret is required'' []"

definition ErrOAuthFailedGenerateCodeVerifier :: go_error where
  "ErrOAuthFailedGenerateCodeVerifier = NewCustomError 20013 ''oauth: failed to generate code verifier'' []"

definition ErrOAuthInvalidMinVerifierLength :: go_error where
  "ErrOAuthInvalidMinVerifierLength = NewCustomError 20014 ''oauth: invalid minimum verifier length'' []"

definition ErrOAuthInvalidMaxVerifierLength :: go_error where
  "ErrOAuthInvalidMaxVerifierLength = NewCustomError 20015 ''oauth: invalid maximum verifier length'' []"

definition ErrOAuthInvalidState :: go_error where
  "ErrOAuthInvalidState = NewCustomError 20016 ''oauth: invalid state parameter'' []"

definition ErrOAuthExchangeFailed :: go_error where
  "ErrOAuthExchangeFailed = NewCustomError 20017 ''oauth: token exchange failed'' []"

definition ErrOAuthUserInfoFailed :: go_error where
  "ErrOAuthUserInfoFailed = NewCustomError 20018 ''oauth: failed to get user info'' []"

definition ErrOAuthAccessDenied :: go_error where
  "ErrOAuthAccessDenied = NewCustomError 20019 ''oauth: access denied'' []"

definition ErrOAuthInvalidCode :: go_error where
  "ErrOAuthInvalidCode = NewCustomError 20020 ''oauth: invalid code'' []"

definition ErrOAuthServerError :: go_error where
  "ErrOAuthServerError = NewCustomError 20021 ''oauth: server error'' []"

definition ErrOAuthTemporarilyUnavailable :: go_error where
  "ErrOAuthTemporarilyUnavailable = NewCustomError 20022 ''oauth: temporarily unavailable'' []"

definition ErrOAuthCodeVerifierMissing :: go_error where
  "ErrOAuthCodeVerifierMissing = NewCustomError 20023 ''oauth: code verifier not found'' []"

subsection \<open>errors/account.go\<close>

definition ErrAccountLockedOut :: go_error where
  "ErrAccountLockedOut = NewCustomError 30001 ''account is locked out'' []"

subsection \<open>errors/user.go\<close>

definition ErrInvalidUID :: go_error where
  "ErrInvalidUID = NewCustomError 40001 ''UID is required'' []"

definition ErrInvalidUsername :: go_error where
  "ErrInvalidUsername = NewCustomError 40002 ''username is required'' []"

definition ErrInvalidEmail :: go_error where
  "ErrInvalidEmail = NewCustomError 40003 ''email is required'' []"

definition ErrInvalidPassword :: go_error where
  "ErrInvalidPassword = NewCustomError 40004 ''password must be at least 8 characters'' []"

definition ErrUserNotFound :: go_error where
  "ErrUserNotFound = NewCustomError 40005 ''user not found'' []"

definition ErrUserAlreadyExists :: go_error where
  "ErrUserAlreadyExists = NewCustomError 40006 ''user already exists'' []"

definition ErrDuplicateEmail :: go_error where
  "ErrDuplicateEmail = NewCustomError 40007 ''email already exists'' []"

definition ErrDuplicateUsername :: go_error where
  "ErrDuplicateUsername = NewCustomError 40008 ''username already exists'' []"

definition ErrInvalidStatus :: go_error where
  "ErrInvalidStatus = NewCustomError 40009 ''invalid status'' []"

definition ErrUserDeleted :: go_error where
  "ErrUserDeleted = NewCustomError 40010 ''user has been deleted'' []"

definition ErrUserInactive :: go_error where
  "ErrUserInactive = NewCustomError 40011 ''user account is inactive'' []"

definition ErrInvalidCurrentPassword :: go_error where
  "ErrInvalidCurrentPassword = NewCustomError 40012 ''current password is incorrect'' []"

definition ErrPasswordMismatch :: go_error where
  "ErrPasswordMismatch = NewCustomError 40013 ''new password and confirm password do not match'' []"

definition ErrUserGetFailed :: go_error where
  "ErrUserGetFailed = NewCustomError 40014 ''failed to get user'' []"

definition ErrUserUpdateFailed :: go_error where
  "ErrUserUpdateFailed = NewCustomError 40015 ''failed to update user'' []"

definition ErrUserDeleteFailed :: go_error where
  "ErrUserDeleteFailed = NewCustomError 40016 ''failed to delete user'' []"

subsection \<open>errors/profile.go\<close>

definition ErrProfileNotFound :: go_error where
  "ErrProfileNotFound = NewCustomError 50001 ''profile not found'' []"

subsection \<open>errors/pin.go\<close>

definition ErrPinNotSet :: go_error where
  "ErrPinNotSet = NewCustomError 60001 ''PIN not set for user'' []"

definition ErrPinInvalid :: go_error where
  "ErrPinInvalid = NewCustomError 60002 ''invalid PIN'' []"

definition ErrPINTooManyAttempts :: go_error where
  "ErrPINTooManyAttempts = NewCustomError 60003 ''too many failed attempts'' []"

subsection \<open>errors/file.go\<close>

definition ErrFileNotFound :: go_error where
  "ErrFileNotFound = NewCustomError 70001 ''file not found'' []"

subsection \<open>errors/device.go\<close>

definition ErrDeviceNotFound :: go_error where
  "ErrDeviceNotFound = NewCustomError 80001 ''device not found'' []"

definition ErrDeviceRevoked :: go_error where
  "ErrDeviceRevoked = NewCustomError 80002 ''device access has been revoked'' []"

definition ErrUserDeviceNotFound :: go_error where
  "ErrUserDeviceNotFound = NewCustomError 80003 ''user-device relationship not found'' []"

subsection \<open>errors/event.go\<close>

definition ErrEventTypeRequired :: go_error where
  "ErrEventTypeRequired = NewCustomError 90001 ''event type is required'' []"

definition ErrEntityTypeRequired :: go_error where
  "ErrEntityTypeRequired = NewCustomError 90002 ''event entity type is required'' []"

definition ErrEntityIDRequired :: go_error where
  "ErrEntityIDRequired = NewCustomError 90003 ''event entity id is required'' []"

definition ErrEntityInvalidType :: go_error where
  "ErrEntityInvalidType = NewCustomError 90004 ''event entity type is invalid'' []"

subsection \<open>errors/executor.go\<close>

definition ErrExecutorClosed :: go_error where
  "ErrExecutorClosed = NewCustomError 13001 ''executor closed'' []"

definition ErrExecutorFnInvalid :: go_error where
  "ErrExecutorFnInvalid = NewCustomError 13002 ''executor function must not be nil'' []"

section \<open>The sentinels as a table\<close>

definition sentinels :: "go_error list" where
  "sentinels = [ErrInternalServerError, ErrTraceInformationMissing, ErrRequestCanceled, ErrRequestTimeout,
     ErrRequestAborted, ErrUnimplemented, ErrNotFound, ErrInvalidArgument,
     ErrValidation, ErrPermissionDenied, ErrResourceConflict, ErrInvalidEntity,
     ErrInvalidCredentials, ErrInvalidIdentifierType, ErrAuthTooManyAttempts, ErrRateLimitExceeded,
     ErrTokenRevoked, ErrTokenBlacklisted, ErrTokenInvalid, ErrTokenInvalidClaim,
     ErrTokenExpired, ErrInvalidTokenType, ErrOAuthClientIDRequired, ErrOAuthClientSecretRequired,
     ErrOAuthFailedGenerateCodeVerifier, ErrOAuthInvalidMinVerifierLength, ErrOAuthInvalidMaxVerifierLength, ErrOAuthInvalidState,
     ErrOAuthExchangeFailed, ErrOAuthUserInfoFailed, ErrOAuthAccessDenied, ErrOAuthInvalidCode,
     ErrOAuthServerError, ErrOAuthTemporarilyUnavailable, ErrOAuthCodeVerifierMissing, ErrAccountLockedOut,
     ErrInvalidUID, ErrInvalidUsername, ErrInvalidEmail, ErrInvalidPassword,
     ErrUserNotFound, ErrUserAlreadyExists, ErrDuplicateEmail, ErrDuplicateUsername,
     ErrInvalidStatus, ErrUserDeleted, ErrUserInactive, ErrInvalidCurrentPassword,
     ErrPasswordMismatch, ErrUserGetFailed, ErrUserUpdateFailed, ErrUserDeleteFailed,
     ErrProfileNotFound, ErrPinNotSet, ErrPinInvalid, ErrPINTooManyAttempts,
     ErrFileNotFound, ErrDeviceNotFound, ErrDeviceRevoked, ErrUserDeviceNotFound,
     ErrEventTypeRequired, ErrEntityTypeRequired, ErrEntityIDRequired, ErrEntityInvalidType,
     ErrExecutorClosed, ErrExecutorFnInvalid]"

lemmas sentinel_defs = NewCustomError_def
  ErrInternalServerError_def ErrTraceInformationMissing_def ErrRequestCanceled_def ErrRequestTimeout_def ErrRequestAborted_def
  ErrUnimplemented_def ErrNotFound_def ErrInvalidArgument_def ErrValidation_def ErrPermissionDenied_def
  ErrResourceConflict_def ErrInvalidEntity_def ErrInvalidCredentials_def ErrInvalidIdentifierType_def ErrAuthTooManyAttempts_def
  ErrRateLimitExceeded_def ErrTokenRevoked_def ErrTokenBlacklisted_def ErrTokenInvalid_def ErrTokenInvalidClaim_def
  ErrTokenExpired_def ErrInvalidTokenType_def ErrOAuthClientIDRequired_def ErrOAuthClientSecretRequired_def ErrOAuthFailedGenerateCodeVerifier_def
  ErrOAuthInvalidMinVerifierLength_def ErrOAuthInvalidMaxVerifierLength_def ErrOAuthInvalidState_def ErrOAuthExchangeFailed_def ErrOAuthUserInfoFailed_def
  ErrOAuthAccessDenied_def ErrOAuthInvalidCode_def ErrOAuthServerError_def ErrOAuthTemporarilyUnavailable_def ErrOAuthCodeVerifierMissing_def
  ErrAccountLockedOut_def ErrInvalidUID_def ErrInvalidUsername_def ErrInvalidEmail_def ErrInvalidPassword_def
  ErrUserNotFound_def ErrUserAlreadyExists_def ErrDuplicateEmail_def ErrDuplicateUsername_def ErrInvalidStatus_def
  ErrUserDeleted_def ErrUserInactive_def ErrInvalidCurrentPassword_def ErrPasswordMismatch_def ErrUserGetFailed_def
  ErrUserUpdateFailed_def ErrUserDeleteFailed_def ErrProfileNotFound_def ErrPinNotSet_def ErrPinInvalid_def
  ErrPINTooManyAttempts_def ErrFileNotFound_def ErrDeviceNotFound_def ErrDeviceRevoked_def ErrUserDeviceNotFound_def
  ErrEventTypeRequired_def ErrEntityTypeRequired_def ErrEntityIDRequired_def ErrEntityInvalidType_def ErrExecutorClosed_def
  ErrExecutorFnInvalid_def

lemma sentinel_codes_distinct: "distinct (map Code sentinels)"
  by (simp add: sentinels_def sentinel_defs)

lemma sentinel_no_cause: "e \<in> set sentinels \<Longrightarrow> \<exists>c m. e = CustomError c m [] None"
  by (auto simp: sentinels_def sentinel_defs)

lemma errors_Is_sentinel:
  "errors_Is (CustomError c m es cause) (CustomError c' m' [] None) \<longleftrightarrow>
     c = c' \<or> (case cause of None \<Rightarrow> False | Some e \<Rightarrow> errors_Is e (CustomError c' m' [] None))"
  by auto

lemma errors_Is_refl [simp]: "errors_Is e e"
  by (cases e) auto

text \<open>
  Errors that come from a driver or from the Go library: no \<open>CustomError\<close> in the chain, so no
  sentinel is recognised in them.
\<close>

fun foreign :: "go_error \<Rightarrow> bool" where
  "foreign (CustomError _ _ _ _) \<longleftrightarrow> False"
| "foreign (Fmt s w) \<longleftrightarrow> (case w of None \<Rightarrow> True | Some e \<Rightarrow> foreign e)"
| "foreign e \<longleftrightarrow> True"

lemma foreign_not_Is: "foreign e \<Longrightarrow> \<not> errors_Is e (CustomError c m es cause)"
  by (induction e rule: foreign.induct) (auto split: option.splits)

lemma foreign_not_sentinel: "foreign e \<Longrightarrow> t \<in> set sentinels \<Longrightarrow> \<not> errors_Is e t"
  using sentinel_no_cause foreign_not_Is by blast

end
