(* ===== verification/Model.thy ===== *)
theory Model
  imports Errors
begin

text \<open>
  Packages \<open>internal/core/domain/model\<close> and \<open>internal/core/domain/param\<close>: the entities of the
  service with their methods, and the parameters of its operations. A Go pointer that may be nil
  is an option; \<open>int64\<close> identifiers are integers. The Go field \<open>User.UID\<close> is \<open>u_UID\<close> here, and
  so on with one prefix per type.
\<close>

section \<open>Users\<close>

text \<open>\<open>UserStatus\<close> is an \<open>int32\<close>: values other than the three constants occur.\<close>

type_synonym UserStatus = int

definition UserStatusInactive :: UserStatus where "UserStatusInactive = 0"
definition UserStatusActive :: UserStatus where "UserStatusActive = 1"
definition UserStatusBanned :: UserStatus where "UserStatusBanned = -1"

definition UserStatus_String :: "UserStatus \<Rightarrow> string" where
  "UserStatus_String s =
     (if s = UserStatusInactive then ''inactive''
      else if s = UserStatusActive then ''active''
      else if s = UserStatusBanned then ''banned''
      else ''unknown'')"

record User =
  u_ID :: int
  u_UID :: string
  u_Username :: string
  u_Email :: string
  u_Password :: string
  u_Status :: UserStatus
  u_CreatedAt :: time
  u_UpdatedAt :: time
  u_DeletedAt :: "time option"

definition IsActive :: "User \<Rightarrow> bool" where
  "IsActive u \<longleftrightarrow> u_Status u = UserStatusActive"

definition IsDeleted :: "User \<Rightarrow> bool" where
  "IsDeleted u \<longleftrightarrow> u_DeletedAt u \<noteq> None"

definition CanLogin :: "User \<Rightarrow> bool" where
  "CanLogin u \<longleftrightarrow> IsActive u \<and> \<not> IsDeleted u"

definition Activate :: "User \<Rightarrow> User result" where
  "Activate u = (if u_Status u = UserStatusBanned then Inl ErrUserInactive
                 else Inr (u\<lparr>u_Status := UserStatusActive\<rparr>))"

definition Deactivate :: "User \<Rightarrow> User" where
  "Deactivate u = u\<lparr>u_Status := UserStatusInactive\<rparr>"

definition Ban :: "User \<Rightarrow> User" where
  "Ban u = u\<lparr>u_Status := UserStatusBanned\<rparr>"

section \<open>Devices and their use by users\<close>

record Device =
  d_ID :: int
  d_UID :: string
  d_DeviceFingerprint :: string
  d_DeviceName :: string
  d_CreatedAt :: time

record UserDevice =
  ud_UserID :: int
  ud_UserUID :: string
  ud_DeviceID :: int
  ud_DeviceUID :: string
  ud_IPAddress :: string
  ud_LastActiveAt :: time
  ud_SessionID :: string
  ud_RevokedAt :: "time option"
  ud_CreatedAt :: time
  ud_Device :: "Device option"

definition IsRevoked :: "UserDevice \<Rightarrow> bool" where
  "IsRevoked ud \<longleftrightarrow> ud_RevokedAt ud \<noteq> None"

definition UserDevice_IsActive :: "UserDevice \<Rightarrow> bool" where
  "UserDevice_IsActive ud \<longleftrightarrow> \<not> IsRevoked ud"

definition UserDevice_Revoke :: "time \<Rightarrow> UserDevice \<Rightarrow> UserDevice" where
  "UserDevice_Revoke now ud = ud\<lparr>ud_RevokedAt := Some now\<rparr>"

definition Touch :: "time \<Rightarrow> UserDevice \<Rightarrow> UserDevice" where
  "Touch now ud = ud\<lparr>ud_LastActiveAt := now\<rparr>"

definition SetSessionID :: "string \<Rightarrow> UserDevice \<Rightarrow> UserDevice" where
  "SetSessionID sid ud = ud\<lparr>ud_SessionID := sid\<rparr>"

section \<open>PINs, profiles, files\<close>

record UserPin =
  pin_UserID :: int
  pin_UserUID :: string
  pin_Code :: string
  pin_CreatedAt :: time
  pin_UpdatedAt :: time

definition IsSet :: "UserPin \<Rightarrow> bool" where
  "IsSet p \<longleftrightarrow> pin_Code p \<noteq> []"

text \<open>The values of a \<open>map[string]any\<close> decoded from JSON or protobuf.\<close>

datatype any =
    ANil
  | ABool bool
  | ANum int
  | AStr string
  | AList "any list"
  | AMap "(string \<times> any) list"

type_synonym anymap = "(string \<times> any) list"

record UserProfile =
  pr_UserID :: int
  pr_UserUID :: string
  pr_FirstName :: string
  pr_LastName :: string
  pr_Bio :: string
  pr_AvatarFileID :: "int option"
  pr_Attributes :: "anymap option"
  pr_CreatedAt :: time
  pr_UpdatedAt :: time

definition HasAvatar :: "UserProfile \<Rightarrow> bool" where
  "HasAvatar p \<longleftrightarrow> (case pr_AvatarFileID p of None \<Rightarrow> False | Some i \<Rightarrow> i \<noteq> 0)"

definition FullName :: "UserProfile \<Rightarrow> string" where
  "FullName p =
     (if pr_FirstName p = [] \<and> pr_LastName p = [] then []
      else if pr_FirstName p = [] then pr_LastName p
      else if pr_LastName p = [] then pr_FirstName p
      else pr_FirstName p @ '' '' @ pr_LastName p)"

definition FileVisibilityPublic :: string where "FileVisibilityPublic = ''public''"
definition FileVisibilityPrivate :: string where "FileVisibilityPrivate = ''private''"

record UserFile =
  f_ID :: int
  f_UID :: string
  f_UserID :: int
  f_UserUID :: string
  f_FileType :: string
  f_FileName :: string
  f_FilePath :: string
  f_MimeType :: string
  f_SizeBytes :: int
  f_Visibility :: string
  f_CreatedAt :: time

definition IsPublic :: "UserFile \<Rightarrow> bool" where
  "IsPublic f \<longleftrightarrow> f_Visibility f = FileVisibilityPublic"

definition IsPrivate :: "UserFile \<Rightarrow> bool" where
  "IsPrivate f \<longleftrightarrow> f_Visibility f = FileVisibilityPrivate"

section \<open>Tokens\<close>

definition TokenTypeAccess :: string where "TokenTypeAccess = ''access''"
definition TokenTypeRefresh :: string where "TokenTypeRefresh = ''refresh''"

record Token =
  Access :: string
  Refresh :: string

record TokenClaims =
  c_Uid :: string
  c_Sid :: string
  c_Type :: string
  c_Identifier :: string
  c_IdentifierType :: string
  c_Extra :: "anymap option"

definition IsAccess :: "TokenClaims \<Rightarrow> bool" where
  "IsAccess t \<longleftrightarrow> c_Type t = TokenTypeAccess"

definition IsRefresh :: "TokenClaims \<Rightarrow> bool" where
  "IsRefresh t \<longleftrightarrow> c_Type t = TokenTypeRefresh"

lemma access_not_refresh: "IsAccess c \<Longrightarrow> \<not> IsRefresh c"
  by (simp add: IsAccess_def IsRefresh_def TokenTypeAccess_def TokenTypeRefresh_def)

section \<open>OAuth\<close>

record OAuthUserInfo =
  oi_ProviderID :: string
  oi_Email :: string
  oi_EmailVerified :: bool
  oi_FirstName :: string
  oi_LastName :: string
  oi_FullName :: string
  oi_Picture :: string
  oi_Locale :: string
  oi_ExpiresAt :: "time option"

definition HasValidEmail :: "OAuthUserInfo \<Rightarrow> bool" where
  "HasValidEmail u \<longleftrightarrow> oi_Email u \<noteq> [] \<and> oi_EmailVerified u"

definition DisplayName :: "OAuthUserInfo \<Rightarrow> string" where
  "DisplayName u =
     (if oi_FullName u \<noteq> [] then oi_FullName u
      else if oi_FirstName u \<noteq> [] \<and> oi_LastName u \<noteq> [] then oi_FirstName u @ '' '' @ oi_LastName u
      else if oi_FirstName u \<noteq> [] then oi_FirstName u
      else oi_Email u)"

definition AvatarURL :: "OAuthUserInfo \<Rightarrow> string" where
  "AvatarURL u = oi_Picture u"

record OAuthTokens =
  ot_AccessToken :: string
  ot_RefreshToken :: string
  ot_ExpiresIn :: int
  ot_IDToken :: string
  ot_TokenType :: string

definition IsExpired :: "OAuthTokens \<Rightarrow> bool" where
  "IsExpired t = (if ot_ExpiresIn t = 0 then False else False)"

section \<open>Pages of results\<close>

record Meta =
  m_Page :: int
  m_Limit :: int
  m_Total :: int
  m_Pages :: int

text \<open>\<open>Users\<close>, \<open>Devices\<close> and the other page types: the repositories always set \<open>Meta\<close>.\<close>

record 'a page =
  Items :: "'a list"
  Meta :: Meta

section \<open>Parameters of the operations\<close>

record PaginationParam =
  p_Page :: "int option"
  p_Limit :: "int option"
  p_OrderBy :: "string option"
  p_Sort :: "string option"

record AuthParams =
  ap_Identifier :: string
  ap_IdentifierType :: string
  ap_Password :: string
  ap_DeviceFingerprint :: "string option"
  ap_DeviceName :: "string option"
  ap_DeviceIP :: "string option"
  ap_Extra :: "anymap option"

record UserListFilterParam =
  ul_Uids :: "string list"
  ul_Username :: "string option"
  ul_Email :: "string option"
  ul_Exists :: "bool option"
  ul_Status :: "UserStatus option"
  ul_Query :: "string option"

record UserCreateParam =
  uc_Username :: string
  uc_Email :: string
  uc_Password :: string

record UserUpdateParam =
  uu_Username :: "string option"
  uu_Email :: "string option"
  uu_Password :: "string option"
  uu_Status :: "UserStatus option"

record UserChangePasswordParam =
  cp_CurrentPassword :: string
  cp_NewPassword :: string

record UserProfileUpdateParam =
  pu_FirstName :: "string option"
  pu_LastName :: "string option"
  pu_Bio :: "string option"
  pu_Avatar :: "string"
  pu_Attributes :: "anymap option"

record DeviceListFilterParam =
  dl_Ids :: "int list"
  dl_Uids :: "string list"
  dl_DeviceName :: "string option"
  dl_DeviceFingerprint :: "string option"

record UserDeviceListFilterParam =
  udl_UserUids :: "string list"
  udl_DeviceUids :: "string list"
  udl_DeviceName :: "string option"
  udl_IpAddress :: "string option"
  udl_Revoked :: "bool option"

record UserFileListFilterParam =
  fl_Uids :: "string list"
  fl_UserUid :: "string list"
  fl_FileType :: "string option"
  fl_Visibility :: "string option"

record UserFileCreateParam =
  fc_UserUID :: string
  fc_FileType :: string
  fc_FileName :: string
  fc_FilePath :: string
  fc_MimeType :: string
  fc_SizeBytes :: int
  fc_Visibility :: string

record UserFileUpdateParam =
  fu_FileName :: "string option"
  fu_FilePath :: "string option"
  fu_MimeType :: "string option"
  fu_SizeBytes :: "int option"
  fu_Visibility :: "string option"

text \<open>
  The functional options of \<open>Invalidate\<close>: applying \<open>WithUIDs\<close> or \<open>WithIDs\<close> sets a field of the
  options.
\<close>

record InvalidateOptions =
  io_UIDs :: "string list"
  io_IDs :: "int list"

type_synonym InvalidateOpt = "InvalidateOptions \<Rightarrow> InvalidateOptions"

definition WithUIDs :: "string list \<Rightarrow> InvalidateOpt" where
  "WithUIDs uids o' = o'\<lparr>io_UIDs := uids\<rparr>"

definition WithIDs :: "int list \<Rightarrow> InvalidateOpt" where
  "WithIDs ids o' = o'\<lparr>io_IDs := ids\<rparr>"

end
