(* ===== verification/Events.thy ===== *)
theory Events
  imports Model
begin

text \<open>
  Package \<open>internal/core/domain/event\<close>: the messages handed to the event publishers, their
  entities and the validation every publisher runs first.
\<close>

section \<open>Event types\<close>

datatype EventType =
    EventLogin | EventLoginFailed | EventLoginLocked | EventTokenRefresh | EventRevokeToken
  | EventPINVerify | EventPINFail | EventOAuthLogin
  | EventUserCreated | EventUserUpdated | EventUserDeleted | EventUserUpdatePassword
  | EventUserCreatePin | EventUserUpdatePin | EventUserUpdateProfile | EventUserRevokeDevice
  | EventUserFileCreated | EventUserFileUpdated | EventUserFileDeleted
  | EventDeviceCreated | EventDeviceUpdated | EventDeviceDeleted
  | EventOther string

fun EventType_string :: "EventType \<Rightarrow> string" where
  "EventType_string EventLogin = ''auth.login''"
| "EventType_string EventLoginFailed = ''auth.login_failed''"
| "EventType_string EventLoginLocked = ''auth.login_locked''"
| "EventType_string EventTokenRefresh = ''auth.token_refresh''"
| "EventType_string EventRevokeToken = ''auth.revoke_token''"
| "EventType_string EventPINVerify = ''auth.pin_verify''"
| "EventType_string EventPINFail = ''auth.pin_fail''"
| "EventType_string EventOAuthLogin = ''auth.oauth_login''"
| "EventType_string EventUserCreated = ''user.created''"
| "EventType_string EventUserUpdated = ''user.updated''"
| "EventType_string EventUserDeleted = ''user.deleted''"
| "EventType_string EventUserUpdatePassword = ''user.update_password''"
| "EventType_string EventUserCreatePin = ''user.create_pin''"
| "EventType_string EventUserUpdatePin = ''user.update_pin''"
| "EventType_string EventUserUpdateProfile = ''user.update_profile''"
| "EventType_string EventUserRevokeDevice = ''user.revoke_device''"
| "EventType_string EventUserFileCreated = ''user_file.created''"
| "EventType_string EventUserFileUpdated = ''user_file.updated''"
| "EventType_string EventUserFileDeleted = ''user_file.deleted''"
| "EventType_string EventDeviceCreated = ''device.created''"
| "EventType_string EventDeviceUpdated = ''device.updated''"
| "EventType_string EventDeviceDeleted = ''device.deleted''"
| "EventType_string (EventOther s) = s"

section \<open>Metadata\<close>

record EventLoginData =
  el_Identifier :: string
  el_IdentifierType :: string
  el_DeviceUID :: "string option"
  el_DeviceName :: "string option"
  el_IPAddress :: "string option"

text \<open>
  The metadata structures of the event packages; those with the same fields share a shape but
  keep their own constructor.
\<close>

datatype Metadata =
    LoginData EventLoginData
  | LoginFailedData string string string
  | LoginLockedData string string string
  | TokenRefreshData string string
  | RevokeTokenData string string
  | PinVerifyData bool string
  | PinFailData string
  | OAuthLoginData string
  | UserCreatedData string string string
  | UserUpdatedData int
  | UserDeletedData
  | UserUpdatePasswordData
  | UserCreatePinData
  | UserUpdatePinData
  | UserUpdateProfileData
  | UserRevokeDeviceData string
  | UserFileCreatedData string string
  | UserFileUpdatedData string
  | UserFileDeletedData string
  | DeviceCreatedData string
  | DeviceUpdatedData string
  | DeviceDeletedData string
  | DeviceRevokeData string

section \<open>Entities and messages\<close>

type_synonym EntityType = string

definition EntityTypeUser :: EntityType where "EntityTypeUser = ''user''"
definition EntityTypeDevice :: EntityType where "EntityTypeDevice = ''device''"
definition EntityTypeUserFile :: EntityType where "EntityTypeUserFile = ''user_file''"
definition EntityTypeUserProfile :: EntityType where "EntityTypeUserProfile = ''user_profile''"
definition EntityTypeUserPIN :: EntityType where "EntityTypeUserPIN = ''user_pin''"
definition EntityTypeSession :: EntityType where "EntityTypeSession = ''session''"

record Entity =
  en_ID :: string
  en_Type :: EntityType
  en_Name :: "string option"

definition checkType :: "Entity \<Rightarrow> unit result" where
  "checkType e =
     (if en_Type e = EntityTypeUser \<or> en_Type e = EntityTypeDevice \<or> en_Type e = EntityTypeUserFile
       \<or> en_Type e = EntityTypeUserProfile \<or> en_Type e = EntityTypeUserPIN
       \<or> en_Type e = EntityTypeSession
      then Inr () else Inl ErrEntityInvalidType)"

definition Entity_Validate :: "Entity \<Rightarrow> unit result" where
  "Entity_Validate e =
     (if TrimSpace (en_ID e) = [] then Inl ErrEntityIDRequired
      else if TrimSpace (en_Type e) = [] then Inl ErrEntityTypeRequired
      else checkType e)"

definition NewUserEntity :: "User \<Rightarrow> Entity" where
  "NewUserEntity user = \<lparr>en_ID = u_UID user, en_Type = EntityTypeUser, en_Name = Some (u_Username user)\<rparr>"

definition NewDeviceEntity :: "Device \<Rightarrow> Entity" where
  "NewDeviceEntity device =
     \<lparr>en_ID = d_UID device, en_Type = EntityTypeDevice, en_Name = Some (d_DeviceName device)\<rparr>"

definition NewUserFileEntity :: "UserFile \<Rightarrow> Entity" where
  "NewUserFileEntity file =
     \<lparr>en_ID = f_UID file, en_Type = EntityTypeUserFile, en_Name = Some (f_FileName file)\<rparr>"

definition NewUserProfileEntity :: "UserProfile \<Rightarrow> Entity" where
  "NewUserProfileEntity profile =
     \<lparr>en_ID = pr_UserUID profile, en_Type = EntityTypeUserProfile, en_Name = Some (FullName profile)\<rparr>"

definition NewUserPinEntity :: "UserPin \<Rightarrow> Entity" where
  "NewUserPinEntity pin = \<lparr>en_ID = pin_UserUID pin, en_Type = EntityTypeUserPIN, en_Name = None\<rparr>"

definition NewTokenEntity :: "TokenClaims \<Rightarrow> Entity" where
  "NewTokenEntity claims = \<lparr>en_ID = c_Sid claims, en_Type = EntityTypeSession, en_Name = None\<rparr>"

record EventMessage =
  em_Type :: EventType
  em_Entity :: Entity
  em_Metadata :: Metadata

definition Message_Validate :: "EventMessage \<Rightarrow> unit result" where
  "Message_Validate m =
     (if TrimSpace (EventType_string (em_Type m)) = [] then Inl ErrEventTypeRequired
      else Entity_Validate (em_Entity m))"

definition NewMessage :: "EventType \<Rightarrow> Entity \<Rightarrow> Metadata \<Rightarrow> EventMessage result" where
  "NewMessage eventType entity metadata =
     (let message = \<lparr>em_Type = eventType, em_Entity = entity, em_Metadata = metadata\<rparr>
      in case Message_Validate message of Inl err \<Rightarrow> Inl err | Inr _ \<Rightarrow> Inr message)"

section \<open>What validation amounts to\<close>

lemmas entity_type_defs = EntityTypeUser_def EntityTypeDevice_def EntityTypeUserFile_def
  EntityTypeUserProfile_def EntityTypeUserPIN_def EntityTypeSession_def

lemmas entity_defs = NewUserEntity_def NewDeviceEntity_def NewUserFileEntity_def
  NewUserProfileEntity_def NewUserPinEntity_def NewTokenEntity_def

text \<open>The text of every declared event type is not blank.\<close>

lemma declared_type_not_blank:
  assumes "\<And>s. t \<noteq> EventOther s"
  shows "TrimSpace (EventType_string t) \<noteq> []"
  using assms by (cases t) (simp_all add: is_space_def, blast)

text \<open>
  An entity made by one of the constructors is valid exactly when its identifier is not blank.
\<close>

lemma constructed_entity_valid:
  assumes "en_Type e \<in> {EntityTypeUser, EntityTypeDevice, EntityTypeUserFile, EntityTypeUserProfile,
             EntityTypeUserPIN, EntityTypeSession}"
  shows "Entity_Validate e = (if TrimSpace (en_ID e) = [] then Inl ErrEntityIDRequired else Inr ())"
proof -
  have "checkType e = Inr ()"
    using assms by (simp add: checkType_def)
  moreover have "TrimSpace (en_Type e) \<noteq> []"
    using assms by (elim insertE emptyE) (simp_all add: entity_type_defs is_space_def)
  ultimately show ?thesis
    by (simp add: Entity_Validate_def)
qed

lemma Message_Validate_constructed:
  assumes "\<And>s. t \<noteq> EventOther s"
    and "en_Type e \<in> {EntityTypeUser, EntityTypeDevice, EntityTypeUserFile, EntityTypeUserProfile,
             EntityTypeUserPIN, EntityTypeSession}"
  shows "Message_Validate \<lparr>em_Type = t, em_Entity = e, em_Metadata = d\<rparr> =
          (if TrimSpace (en_ID e) = [] then Inl ErrEntityIDRequired else Inr ())"
  using assms by (simp add: Message_Validate_def declared_type_not_blank constructed_entity_valid)

end
