(* ===== verification/Ports.thy ===== *)
theory Ports
  imports Events
begin

text \<open>
  Package \<open>internal/core/port\<close>: the interfaces between the services and the adapters, each a
  record of operations over an arbitrary state \<open>'s\<close>. The context argument of the Go methods
  carries only cancellation (a call then returns an error), tracing and the actor of an event; it
  has no counterpart here. The locales below are the promises the services rely on; the adapter
  theories interpret them on the adapters' own definitions.
\<close>

section \<open>Repositories\<close>

record 's UserRepository =
  UR_Create :: "User \<Rightarrow> ('s, User result) prog"
  UR_Update :: "User \<Rightarrow> ('s, unit result) prog"
  UR_Delete :: "User \<Rightarrow> ('s, unit result) prog"
  UR_GetByID :: "int \<Rightarrow> ('s, User result) prog"
  UR_GetByUID :: "string \<Rightarrow> ('s, User result) prog"
  UR_GetByUsername :: "string \<Rightarrow> ('s, User result) prog"
  UR_GetByEmail :: "string \<Rightarrow> ('s, User result) prog"
  UR_List :: "PaginationParam option \<Rightarrow> UserListFilterParam option \<Rightarrow> ('s, User page result) prog"

text \<open>
  \<open>Create\<close> of devices and user-devices returns the entity next to the error, and a caller uses
  it even when the error is set: its value is a pair.
\<close>

record 's DeviceRepository =
  DR_Create :: "Device \<Rightarrow> ('s, Device option \<times> go_error option) prog"
  DR_Update :: "Device \<Rightarrow> ('s, unit result) prog"
  DR_Delete :: "Device \<Rightarrow> ('s, unit result) prog"
  DR_GetByID :: "int \<Rightarrow> ('s, Device result) prog"
  DR_GetByUID :: "string \<Rightarrow> ('s, Device result) prog"
  DR_GetByFingerprint :: "string \<Rightarrow> ('s, Device result) prog"
  DR_List :: "PaginationParam option \<Rightarrow> DeviceListFilterParam option \<Rightarrow> ('s, Device page result) prog"
  DR_ListByUserID :: "int \<Rightarrow> PaginationParam option \<Rightarrow> DeviceListFilterParam option
                        \<Rightarrow> ('s, Device page result) prog"

record 's UserDeviceRepository =
  UDR_Create :: "UserDevice \<Rightarrow> ('s, UserDevice option \<times> go_error option) prog"
  UDR_Update :: "UserDevice \<Rightarrow> ('s, unit result) prog"
  UDR_UpdateSessionID :: "int \<Rightarrow> int \<Rightarrow> string \<Rightarrow> ('s, unit result) prog"
  UDR_Delete :: "UserDevice \<Rightarrow> ('s, unit result) prog"
  UDR_GetByUserIDAndDeviceID :: "int \<Rightarrow> int \<Rightarrow> ('s, UserDevice result) prog"
  UDR_List :: "PaginationParam option \<Rightarrow> UserDeviceListFilterParam option
                 \<Rightarrow> ('s, UserDevice page result) prog"
  UDR_Revoke :: "int \<Rightarrow> int \<Rightarrow> ('s, unit result) prog"

record 's UserPinRepository =
  PR_Create :: "UserPin \<Rightarrow> ('s, UserPin result) prog"
  PR_Update :: "UserPin \<Rightarrow> ('s, unit result) prog"
  PR_Delete :: "UserPin \<Rightarrow> ('s, unit result) prog"
  PR_GetByUserID :: "int \<Rightarrow> ('s, UserPin result) prog"

record 's UserProfileRepository =
  PFR_Create :: "UserProfile \<Rightarrow> ('s, UserProfile result) prog"
  PFR_Update :: "UserProfile \<Rightarrow> ('s, unit result) prog"
  PFR_Delete :: "UserProfile \<Rightarrow> ('s, unit result) prog"
  PFR_GetByUserID :: "int \<Rightarrow> ('s, UserProfile result) prog"

record 's UserFileRepository =
  FR_Create :: "UserFile \<Rightarrow> ('s, UserFile result) prog"
  FR_Update :: "UserFile \<Rightarrow> ('s, unit result) prog"
  FR_Delete :: "UserFile \<Rightarrow> ('s, unit result) prog"
  FR_GetByID :: "int \<Rightarrow> ('s, UserFile result) prog"
  FR_GetByUID :: "string \<Rightarrow> ('s, UserFile result) prog"
  FR_List :: "PaginationParam option \<Rightarrow> UserFileListFilterParam option \<Rightarrow> ('s, UserFile page result) prog"

section \<open>Security\<close>

text \<open>Hashing draws a random salt, so \<open>Hash\<close> is a program; comparing is a function.\<close>

record 's Hasher =
  H_Hash :: "string \<Rightarrow> ('s, string result) prog"
  H_Compare :: "string \<Rightarrow> string \<Rightarrow> bool"

record 's TokenGenerator =
  TG_GenerateToken :: "TokenClaims \<Rightarrow> ('s, string result) prog"
  TG_ValidateToken :: "string \<Rightarrow> ('s, TokenClaims result) prog"

record 's TokenStore =
  TS_Add :: "string \<Rightarrow> string \<Rightarrow> ('s, unit result) prog"
  TS_Remove :: "string \<Rightarrow> string \<Rightarrow> ('s, unit result) prog"
  TS_RemoveAll :: "string \<Rightarrow> ('s, unit result) prog"
  TS_IsAllowed :: "string \<Rightarrow> string \<Rightarrow> ('s, bool result) prog"

record 's UIDGenerator =
  UG_New :: "('s, string) prog"

record 's AttemptTracker =
  AT_Track :: "string \<Rightarrow> ('s, unit result) prog"
  AT_IsLocked :: "string \<Rightarrow> ('s, bool result) prog"
  AT_Reset :: "string \<Rightarrow> ('s, unit result) prog"

record 's RateLimiter =
  RL_Acquire :: "string \<Rightarrow> ('s, bool result) prog"
  RL_Reset :: "string \<Rightarrow> ('s, unit result) prog"

section \<open>Events, executor, resolvers, OAuth\<close>

record 's EventPublisher =
  EP_Publish :: "EventMessage \<Rightarrow> ('s, unit result) prog"

record 's Executor =
  EX_DoAsync :: "string \<Rightarrow> ('s, unit result) prog \<Rightarrow> ('s, unit result) prog"

record 's UserResolver =
  RS_IDsByUIDs :: "string list \<Rightarrow> ('s, (string \<rightharpoonup> int) result) prog"
  RS_UIDsByIDs :: "int list \<Rightarrow> ('s, (int \<rightharpoonup> string) result) prog"
  RS_Invalidate :: "InvalidateOpt list \<Rightarrow> ('s, unit result) prog"

record 's OAuthProvider =
  OP_GetAuthorizationURL :: "string \<Rightarrow> string \<Rightarrow> ('s, string result) prog"
  OP_ExchangeCode :: "string \<Rightarrow> string \<Rightarrow> string \<Rightarrow> ('s, OAuthTokens result) prog"
  OP_GetUserInfo :: "OAuthTokens \<Rightarrow> ('s, OAuthUserInfo result) prog"

section \<open>Contracts\<close>

text \<open>
  What the services rely on, over an abstraction of the adapter's state. A call that returns an
  error may or may not have had its effect.
\<close>

locale token_store =
  fixes ts :: "'s TokenStore"
    and sessions :: "'s \<Rightarrow> string \<Rightarrow> string set"
    and allows :: "bool \<Rightarrow> bool"
    and wf_uid :: "string \<Rightarrow> bool"
  assumes add_ok: "run_state (TS_Add ts u t) s = (Inr (), s') \<Longrightarrow> sessions s' u = insert t (sessions s u)"
    and add_err: "run_state (TS_Add ts u t) s = (Inl e, s') \<Longrightarrow>
                    sessions s' u = sessions s u \<or> sessions s' u = insert t (sessions s u)"
    and add_others: "run_state (TS_Add ts u t) s = (ares, s') \<Longrightarrow> wf_uid u \<Longrightarrow> wf_uid v \<Longrightarrow> u \<noteq> v \<Longrightarrow>
                       sessions s' v = sessions s v"
    and remove_ok: "run_state (TS_Remove ts u t) s = (Inr (), s') \<Longrightarrow> sessions s' u = sessions s u - {t}"
    and remove_err: "run_state (TS_Remove ts u t) s = (Inl e, s') \<Longrightarrow>
                       sessions s' u = sessions s u \<or> sessions s' u = sessions s u - {t}"
    and remove_others: "run_state (TS_Remove ts u t) s = (ares, s') \<Longrightarrow> wf_uid u \<Longrightarrow> wf_uid v \<Longrightarrow> u \<noteq> v \<Longrightarrow>
                          sessions s' v = sessions s v"
    and is_allowed_frame: "run_state (TS_IsAllowed ts u t) s = (bres, s') \<Longrightarrow> sessions s' = sessions s"
    and is_allowed_ok: "run_state (TS_IsAllowed ts u t) s = (Inr b, s') \<Longrightarrow> b = allows (t \<in> sessions s u)"
begin

text \<open>After a successful \<open>Add\<close> (respectively \<open>Remove\<close>) the store answers accordingly.\<close>

lemma add_then_allowed:
  assumes "run_state (TS_Add ts u t) s = (Inr (), s')" and "run_state (TS_IsAllowed ts u t) s' = (Inr b, s'')"
  shows "b = allows True"
  using is_allowed_ok [OF assms(2)] add_ok [OF assms(1)] by simp

lemma remove_then_not_allowed:
  assumes "run_state (TS_Remove ts u t) s = (Inr (), s')" and "run_state (TS_IsAllowed ts u t) s' = (Inr b, s'')"
  shows "b = allows False"
  using is_allowed_ok [OF assms(2)] remove_ok [OF assms(1)] by simp

text \<open>A session of another user survives both operations.\<close>

lemma other_users_sessions:
  assumes "run_state (TS_Add ts u t) s = (ares, s1)" "run_state (TS_Remove ts u t') s1 = (rres, s2)"
    and "wf_uid u" "wf_uid v" "u \<noteq> v"
  shows "sessions s2 v = sessions s v"
  using add_others [OF assms(1,3,4,5)] remove_others [OF assms(2,3,4,5)] by simp

text \<open>Weakest-precondition forms, for the proofs about the services.\<close>

lemma wp_add:
  assumes "\<And>s'. sessions s' u = insert t (sessions s u) \<Longrightarrow> Q (Inr ()) s'"
    and "\<And>e s'. sessions s' u = sessions s u \<or> sessions s' u = insert t (sessions s u) \<Longrightarrow> Q (Inl e) s'"
  shows "wp (TS_Add ts u t) Q s"
proof (rule wpI)
  fix r s' assume "run_state (TS_Add ts u t) s = (r, s')"
  then show "Q r s'" using assms add_ok add_err by (cases r) auto
qed

lemma wp_remove:
  assumes "\<And>s'. sessions s' u = sessions s u - {t} \<Longrightarrow> Q (Inr ()) s'"
    and "\<And>e s'. sessions s' u = sessions s u \<or> sessions s' u = sessions s u - {t} \<Longrightarrow> Q (Inl e) s'"
  shows "wp (TS_Remove ts u t) Q s"
proof (rule wpI)
  fix r s' assume "run_state (TS_Remove ts u t) s = (r, s')"
  then show "Q r s'" using assms remove_ok remove_err by (cases r) auto
qed

lemma wp_is_allowed:
  assumes "\<And>s'. sessions s' = sessions s \<Longrightarrow> Q (Inr (allows (t \<in> sessions s u))) s'"
    and "\<And>e s'. sessions s' = sessions s \<Longrightarrow> Q (Inl e) s'"
  shows "wp (TS_IsAllowed ts u t) Q s"
proof (rule wpI)
  fix r s' assume "run_state (TS_IsAllowed ts u t) s = (r, s')"
  then show "Q r s'" using assms is_allowed_ok is_allowed_frame by (cases r) auto
qed

end

text \<open>
  A hasher accepts the plain text it hashed.
\<close>

locale hasher =
  fixes h :: "'s Hasher"
  assumes compare_hash: "run_state (H_Hash h p) s = (Inr c, s') \<Longrightarrow> H_Compare h c p"

text \<open>
  A token generator: what \<open>GenerateToken\<close> signed, \<open>ValidateToken\<close> reads back while the token is live,
  as the wire carries it; the two operations leave the state alone.
\<close>

locale token_generator =
  fixes tg :: "'s TokenGenerator"
    and live_token :: "'s \<Rightarrow> string \<Rightarrow> bool"
    and wire :: "TokenClaims \<Rightarrow> TokenClaims"
  assumes generate_frame: "run_state (TG_GenerateToken tg c) s = (r, s') \<Longrightarrow> s' = s"
    and validate_frame: "run_state (TG_ValidateToken tg t) s = (r', s') \<Longrightarrow> s' = s"
    and generate_validate: "run_state (TG_GenerateToken tg c) s = (Inr t, s') \<Longrightarrow> live_token s2 t \<Longrightarrow>
                              run_state (TG_ValidateToken tg t) s2 = (Inr (wire c), s2)"
    and wire_identity: "c_Uid (wire c) = c_Uid c \<and> c_Sid (wire c) = c_Sid c \<and> c_Type (wire c) = c_Type c"
begin

text \<open>A live token is validated to the user, the session and the type it was made for.\<close>

lemma validated_identity:
  assumes "run_state (TG_GenerateToken tg c) s = (Inr t, s')" "live_token s2 t"
    and "run_state (TG_ValidateToken tg t) s2 = (r, s3)"
  shows "\<exists>c'. r = Inr c' \<and> c_Uid c' = c_Uid c \<and> c_Sid c' = c_Sid c \<and> c_Type c' = c_Type c \<and> s3 = s2"
  using generate_validate [OF assms(1,2)] wire_identity [of c] assms(3) by simp

end

text \<open>
  A rate limiter as the callers see it: \<open>Acquire\<close> answers whether fewer than \<open>limit\<close> slots are
  taken in the current window.
\<close>

locale rate_limiter =
  fixes rl :: "'s RateLimiter"
    and used :: "'s \<Rightarrow> string \<Rightarrow> nat"
    and limit :: nat
    and invar :: "'s \<Rightarrow> bool"
  assumes acquire_granted: "invar s \<Longrightarrow> run_state (RL_Acquire rl ip) s = (Inr b, s') \<Longrightarrow> b \<longleftrightarrow> used s ip < limit"
    and acquire_used: "invar s \<Longrightarrow> run_state (RL_Acquire rl ip) s = (Inr b, s') \<Longrightarrow>
                         used s' ip = (if b then Suc (used s ip) else used s ip)"
    and acquire_invar: "invar s \<Longrightarrow> run_state (RL_Acquire rl ip) s = (ares, s') \<Longrightarrow> invar s'"
    and reset_used: "invar s \<Longrightarrow> run_state (RL_Reset rl ip) s = (Inr (), s') \<Longrightarrow> used s' ip = 0 \<and> invar s'"
begin

text \<open>The number of taken slots never passes the limit.\<close>

lemma acquire_bounded:
  assumes "invar s" "used s ip \<le> limit" "run_state (RL_Acquire rl ip) s = (Inr b, s')"
  shows "used s' ip \<le> limit"
  using acquire_granted [OF assms(1,3)] acquire_used [OF assms(1,3)] assms(2) by simp

end

text \<open>
  An attempt tracker over the number of failures it holds against a user: a failure that reaches
  the threshold locks the user and is answered by \<open>lock_error\<close>, a reset clears.
\<close>

definition lock_error :: "int \<Rightarrow> go_error" where
  "lock_error n = Fmt (''account locked after '' @ FormatInt n @ '' failed attempts'') None"

locale attempt_tracker =
  fixes at :: "'s AttemptTracker"
    and locked :: "'s \<Rightarrow> string \<Rightarrow> bool"
    and failures :: "'s \<Rightarrow> string \<Rightarrow> nat"
    and threshold :: int
    and invar :: "'s \<Rightarrow> bool"
  assumes track_counts: "invar s \<Longrightarrow> run_state (AT_Track at u) s = (Inr (), s') \<Longrightarrow>
                           failures s' u = Suc (failures s u) \<and> int (failures s' u) < threshold"
    and track_locks: "invar s \<Longrightarrow> run_state (AT_Track at u) s = (Inl (lock_error n), s') \<Longrightarrow>
                        n = int (Suc (failures s u)) \<and> threshold \<le> n \<and> locked s' u"
    and track_invar: "invar s \<Longrightarrow> run_state (AT_Track at u) s = (ares, s') \<Longrightarrow> invar s'"
    and is_locked_ok: "invar s \<Longrightarrow> run_state (AT_IsLocked at u) s = (Inr b, s') \<Longrightarrow>
                         (b \<longleftrightarrow> locked s u) \<and> (locked s' u \<longleftrightarrow> locked s u) \<and> invar s'"
    and reset_clears: "invar s \<Longrightarrow> run_state (AT_Reset at u) s = (Inr (), s') \<Longrightarrow>
                         \<not> locked s' u \<and> failures s' u = 0 \<and> invar s'"
begin

text \<open>
  Once a failure has been answered by the lock error, the next query reports the lock, whatever
  the number of failures was.
\<close>

lemma lock_then_locked:
  assumes "invar s" "run_state (AT_Track at u) s = (Inl (lock_error n), s')"
    and "run_state (AT_IsLocked at u) s' = (Inr b, s'')"
  shows "b \<and> locked s'' u"
proof -
  have "locked s' u" using track_locks [OF assms(1,2)] by simp
  then show ?thesis using is_locked_ok [OF track_invar [OF assms(1,2)] assms(3)] by simp
qed

lemma reset_then_unlocked:
  assumes "invar s" "run_state (AT_Reset at u) s = (Inr (), s')"
    and "run_state (AT_IsLocked at u) s' = (Inr b, s'')"
  shows "\<not> b"
proof -
  have "\<not> locked s' u" "invar s'" using reset_clears [OF assms(1,2)] by simp_all
  then show ?thesis using is_locked_ok [OF _ assms(3)] by simp
qed

end

end
