(* ===== verification/Password.thy ===== *)
theory Password
  imports Errors "HOL-Library.Multiset"
begin

text \<open>
  \<open>pkg/util/password.go\<close>: the random password of an account made by an OAuth login. The source of
  randomness \<open>rand.Int(rand.Reader, n)\<close> is a parameter, a program that returns a number below \<open>n\<close>
  or an error.
\<close>

section \<open>The program\<close>

definition upperCase :: string where "upperCase = ''ABCDEFGHIJKLMNOPQRSTUVWXYZ''"
definition lowerCase :: string where "lowerCase = ''abcdefghijklmnopqrstuvwxyz''"
definition digits :: string where "digits = ''0123456789''"
definition specialChars :: string where "specialChars = ''!@#$%^&*()-_=+[]{}|;:,.<>?/''"

definition allChars :: string where
  "allChars = upperCase @ lowerCase @ digits @ specialChars"

type_synonym 's rand_Int = "nat \<Rightarrow> ('s, nat result) prog"

definition randomChar :: "'s rand_Int \<Rightarrow> string \<Rightarrow> ('s, char result) prog" where
  "randomChar rnd charset = call (rnd (length charset)) (\<lambda>index. ok (charset ! index))"

text \<open>The loops that choose one character of each required set, then fill the rest.\<close>

fun randomChars :: "'s rand_Int \<Rightarrow> string list \<Rightarrow> ('s, string result) prog" where
  "randomChars rnd [] = ok []"
| "randomChars rnd (charset # sets) =
     call (randomChar rnd charset) (\<lambda>c. call (randomChars rnd sets) (\<lambda>cs. ok (c # cs)))"

definition swap_at :: "nat \<Rightarrow> nat \<Rightarrow> 'a list \<Rightarrow> 'a list" where
  "swap_at i j xs = xs[i := xs ! j, j := xs ! i]"

text \<open>The loop of \<open>shuffle\<close> from \<open>i\<close> down to 1; a failing draw is skipped.\<close>

fun shuffle_from :: "'s rand_Int \<Rightarrow> nat \<Rightarrow> string \<Rightarrow> ('s, string) prog" where
  "shuffle_from rnd 0 password = ret password"
| "shuffle_from rnd (Suc i) password = do {
     r \<leftarrow> rnd (Suc i + 1);
     (case r of
        Inl err \<Rightarrow> shuffle_from rnd i password
      | Inr j \<Rightarrow> shuffle_from rnd i (swap_at (Suc i) j password)) }"

definition shuffle_password :: "'s rand_Int \<Rightarrow> string \<Rightarrow> ('s, string) prog" where
  "shuffle_password rnd password = shuffle_from rnd (length password - 1) password"

definition GenerateRandomPassword :: "'s rand_Int \<Rightarrow> int \<Rightarrow> ('s, string result) prog" where
  "GenerateRandomPassword rnd len =
     (if len < 4 then fail (Fmt ''password length must be at least 4'' None)
      else call (randomChars rnd ([upperCase, lowerCase, digits, specialChars] @ replicate (nat len - 4) allChars))
             (\<lambda>password. do { p \<leftarrow> shuffle_password rnd password; ok p }))"

section \<open>What it returns\<close>

definition rand_bounded :: "'s rand_Int \<Rightarrow> bool" where
  "rand_bounded rnd \<longleftrightarrow> (\<forall>n s j s'. run_state (rnd n) s = (Inr j, s') \<longrightarrow> j < n)"

lemma wp_rnd: "rand_bounded rnd \<Longrightarrow> (\<And>j s'. j < n \<Longrightarrow> Q (Inr j) s') \<Longrightarrow> (\<And>e s'. Q (Inl e) s') \<Longrightarrow> wp (rnd n) Q s"
  by (rule wpI) (metis rand_bounded_def sum.exhaust)

lemma wp_randomChar:
  assumes "rand_bounded rnd"
  shows "wp (randomChar rnd cs) (\<lambda>r _. \<forall>c. r = Inr c \<longrightarrow> c \<in> set cs) s"
  unfolding randomChar_def by (simp, rule wp_rnd [OF assms]) auto

lemma wp_randomChars:
  assumes "rand_bounded rnd"
  shows "wp (randomChars rnd sets) (\<lambda>r _. \<forall>cs. r = Inr cs \<longrightarrow> list_all2 (\<lambda>c cs. c \<in> set cs) cs sets) s"
proof (induction sets arbitrary: s)
  case (Cons cs sets)
  show ?case
    unfolding randomChars.simps wp_call
    by (rule wp_mono [OF wp_randomChar [OF assms]])
       (auto split: sum.splits intro!: wp_mono [OF Cons.IH])
qed simp

lemma mset_swap_at [simp]: "i < length xs \<Longrightarrow> j < length xs \<Longrightarrow> mset (swap_at i j xs) = mset xs"
  by (simp add: swap_at_def mset_swap)

lemma length_swap_at [simp]: "length (swap_at i j xs) = length xs"
  by (simp add: swap_at_def)

lemma wp_shuffle_from:
  assumes "rand_bounded rnd" and "i < length p \<or> i = 0"
  shows "wp (shuffle_from rnd i p) (\<lambda>q _. mset q = mset p) s"
  using assms(2)
proof (induction i arbitrary: p s)
  case (Suc i)
  show ?case
    unfolding shuffle_from.simps wp_bind
  proof (rule wp_rnd [OF assms(1)])
    fix j s' assume "j < Suc i + 1"
    then have m: "mset (swap_at (Suc i) j p) = mset p" and "i < length (swap_at (Suc i) j p) \<or> i = 0"
      using Suc.prems by auto
    then show "wp (case Inr j of Inl err \<Rightarrow> shuffle_from rnd i p
          | Inr j \<Rightarrow> shuffle_from rnd i (swap_at (Suc i) j p)) (\<lambda>q _. mset q = mset p) s'"
      using Suc.IH [of "swap_at (Suc i) j p" s'] by simp
  next
    fix e s'
    show "wp (case Inl e of Inl err \<Rightarrow> shuffle_from rnd i p
          | Inr j \<Rightarrow> shuffle_from rnd i (swap_at (Suc i) j p)) (\<lambda>q _. mset q = mset p) s'"
      using Suc.IH [of p s'] Suc.prems by simp
  qed
qed simp

lemma wp_shuffle_password:
  "rand_bounded rnd \<Longrightarrow> wp (shuffle_password rnd p) (\<lambda>q _. mset q = mset p) s"
  unfolding shuffle_password_def by (rule wp_shuffle_from) auto

text \<open>
  C28: A password GenerateRandomPassword returns has the wanted length, only characters of the
  alphabet, and at least one upper case letter, lower case letter, digit and special character,
  whatever the random source draws.
\<close>

theorem random_password_classes:
  assumes "rand_bounded rnd" and "run_state (GenerateRandomPassword rnd len) s = (Inr p, s')"
  shows "int (length p) = len \<and> set p \<subseteq> set allChars \<and>
    (\<exists>c \<in> set p. c \<in> set upperCase) \<and> (\<exists>c \<in> set p. c \<in> set lowerCase) \<and>
    (\<exists>c \<in> set p. c \<in> set digits) \<and> (\<exists>c \<in> set p. c \<in> set specialChars)"
proof -
  let ?sets = "[upperCase, lowerCase, digits, specialChars] @ replicate (nat len - 4) allChars"
  have len: "4 \<le> len" using assms(2) by (simp add: GenerateRandomPassword_def split: if_splits)
  have eq: "GenerateRandomPassword rnd len =
      call (randomChars rnd ?sets) (\<lambda>password. do { p \<leftarrow> shuffle_password rnd password; ok p })"
    using len by (simp add: GenerateRandomPassword_def)
  have "wp (GenerateRandomPassword rnd len)
     (\<lambda>r _. \<forall>p. r = Inr p \<longrightarrow> (\<exists>cs. mset p = mset cs \<and> list_all2 (\<lambda>c cs. c \<in> set cs) cs ?sets)) s"
    unfolding eq wp_call
    by (rule wp_mono [OF wp_randomChars [OF assms(1)]])
       (auto split: sum.splits intro!: wp_mono [OF wp_shuffle_password [OF assms(1)]])
  from wp_run [OF assms(2) this] obtain cs where m: "mset p = mset cs"
      and cs: "list_all2 (\<lambda>c cs. c \<in> set cs) cs ?sets" by blast
  have sp: "set p = set cs" and lp: "length p = length cs"
    using m by (metis mset_eq_setD, metis mset_eq_length)
  have "length cs = length ?sets" using cs by (rule list_all2_lengthD)
  then have "int (length p) = len" using len lp by simp
  moreover obtain a b c d r where abcd: "cs = a # b # c # d # r" "a \<in> set upperCase" "b \<in> set lowerCase"
      "c \<in> set digits" "d \<in> set specialChars" "list_all2 (\<lambda>c cs. c \<in> set cs) r (replicate (nat len - 4) allChars)"
    using cs by (auto simp: list_all2_Cons2)
  moreover have "set r \<subseteq> set allChars"
    using abcd(6) by (auto simp: list_all2_conv_all_nth in_set_conv_nth)
  ultimately show ?thesis using sp by (auto simp: allChars_def)
qed

definition first_choice :: "unit rand_Int" where
  "first_choice n = ret (if n = 0 then Inl (Fmt ''rand'' None) else Inr 0)"

lemma random_password_classes_witness:
  "run_state (GenerateRandomPassword first_choice 8) () = (Inr ''a0!AAAAA'', ()) \<and>
   int (length ''a0!AAAAA'') = 8 \<and> (\<exists>c \<in> set ''a0!AAAAA''. c \<in> set digits)"
proof -
  have run: "run_state (GenerateRandomPassword first_choice 8) () = (Inr ''a0!AAAAA'', ())" by code_simp
  have "rand_bounded first_choice" by (auto simp: rand_bounded_def first_choice_def split: if_splits)
  from random_password_classes [OF this run] run show ?thesis by simp
qed

end
