(* ===== verification/AuthService.thy ===== *)
theory AuthService
  imports Ports Password
begin

text \<open>
  \<open>internal/core/service/auth.go\<close>: login, OAuth login, token refresh, validation and revocation, and
  the verification of a PIN. The service is a record of the ports it is built from; its methods
  are programs over the state those ports share. \<open>as_now\<close> stands for \<open>time.Now().UTC()\<close> and
  \<open>as_randInt\<close> for \<open>rand.Int(rand.Reader, \<dots>)\<close>. The error of an asynchronous task, of \<open>Track\<close>, of
  \<open>Reset\<close> and of the other calls whose error the code drops is dropped here as well.
\<close>

record 's authService =
  as_userRepo :: "'s UserRepository"
  as_deviceRepo :: "'s DeviceRepository"
  as_userDeviceRepo :: "'s UserDeviceRepository"
  as_pinRepo :: "'s UserPinRepository"
  as_passwordHasher :: "'s Hasher"
  as_pinHasher :: "'s Hasher"
  as_tokenGen :: "'s TokenGenerator"
  as_uidGen :: "'s UIDGenerator"
  as_oauthProvider :: "'s OAuthProvider"
  as_tokenWhitelist :: "'s TokenStore"
  as_tokenBlacklist :: "'s TokenStore"
  as_executor :: "'s Executor"
  as_eventPublisher :: "'s EventPublisher"
  as_attemptTracker :: "'s AttemptTracker"
  as_rateLimiter :: "'s RateLimiter"
  as_now :: "('s, time) prog"
  as_randInt :: "'s rand_Int"

section \<open>Events\<close>

text \<open>The tasks handed to the executor: build a message and publish it, or publish a bare message.\<close>

definition publish_new :: "'s EventPublisher \<Rightarrow> EventType \<Rightarrow> Entity \<Rightarrow> Metadata \<Rightarrow> ('s, unit result) prog" where
  "publish_new ep t entity metadata =
     (case NewMessage t entity metadata of
        Inl errExc \<Rightarrow> fail errExc
      | Inr eventMessage \<Rightarrow> EP_Publish ep eventMessage)"

definition publish_msg :: "'s EventPublisher \<Rightarrow> EventType \<Rightarrow> Entity \<Rightarrow> Metadata \<Rightarrow> ('s, unit result) prog" where
  "publish_msg ep t entity metadata =
     EP_Publish ep \<lparr>em_Type = t, em_Entity = entity, em_Metadata = metadata\<rparr>"

section \<open>Lookups\<close>

definition findUser :: "'s authService \<Rightarrow> string \<Rightarrow> string \<Rightarrow> ('s, User result) prog" where
  "findUser s identifierType identifier =
     (if identifierType = ''email'' then UR_GetByEmail (as_userRepo s) identifier
      else if identifierType = ''username'' then UR_GetByUsername (as_userRepo s) identifier
      else fail ErrInvalidIdentifierType)"

definition findOrCreateDevice ::
  "'s authService \<Rightarrow> string \<Rightarrow> string \<Rightarrow> ('s, Device option \<times> go_error option) prog" where
  "findOrCreateDevice s name fingerprint = do {
     r \<leftarrow> DR_GetByFingerprint (as_deviceRepo s) fingerprint;
     (case r of
        Inl err \<Rightarrow>
          if errors_Is err ErrDeviceNotFound then do {
            uid \<leftarrow> UG_New (as_uidGen s);
            now \<leftarrow> as_now s;
            DR_Create (as_deviceRepo s)
              \<lparr>d_ID = 0, d_UID = uid, d_DeviceFingerprint = fingerprint, d_DeviceName = name, d_CreatedAt = now\<rparr> }
          else ret (None, Some err)
      | Inr device \<Rightarrow> ret (Some device, None)) }"

definition findOrCreateUserDevice ::
  "'s authService \<Rightarrow> User \<Rightarrow> Device \<Rightarrow> string \<Rightarrow> string \<Rightarrow> ('s, UserDevice option \<times> go_error option) prog" where
  "findOrCreateUserDevice s user device ipAddress sessionID = do {
     r \<leftarrow> UDR_GetByUserIDAndDeviceID (as_userDeviceRepo s) (u_ID user) (d_ID device);
     (case r of
        Inl err \<Rightarrow>
          if errors_Is err ErrUserDeviceNotFound then do {
            now \<leftarrow> as_now s;
            UDR_Create (as_userDeviceRepo s)
              \<lparr>ud_UserID = u_ID user, ud_UserUID = [], ud_DeviceID = d_ID device, ud_DeviceUID = [],
               ud_IPAddress = ipAddress, ud_LastActiveAt = now, ud_SessionID = sessionID,
               ud_RevokedAt = None, ud_CreatedAt = now, ud_Device = None\<rparr> }
          else ret (None, Some err)
      | Inr _ \<Rightarrow> do {
          _ \<leftarrow> UDR_UpdateSessionID (as_userDeviceRepo s) (u_ID user) (d_ID device) sessionID;
          r' \<leftarrow> UDR_GetByUserIDAndDeviceID (as_userDeviceRepo s) (u_ID user) (d_ID device);
          (case r' of
             Inl err \<Rightarrow> ret (None, Some err)
           | Inr userDevice \<Rightarrow> ret (Some userDevice, None)) }) }"

section \<open>Login\<close>

text \<open>The rate limit of the device address, checked first when an address is given.\<close>

definition check_device_ip :: "'s authService \<Rightarrow> AuthParams \<Rightarrow> ('s, unit result) prog" where
  "check_device_ip s payload =
     (case ap_DeviceIP payload of
        None \<Rightarrow> ok ()
      | Some ip \<Rightarrow>
          if ip = [] then ok ()
          else call (RL_Acquire (as_rateLimiter s) ip) (\<lambda>allowed.
               if \<not> allowed then fail ErrRateLimitExceeded else ok ()))"

text \<open>The device of the login: found or created when both a fingerprint and a name are given.\<close>

definition login_device ::
  "'s authService \<Rightarrow> AuthParams \<Rightarrow> User \<Rightarrow> string \<Rightarrow> ('s, Device option \<times> UserDevice option) prog" where
  "login_device s payload user sid =
     (case (ap_DeviceFingerprint payload, ap_DeviceName payload) of
        (Some fingerprint, Some name) \<Rightarrow> do {
          (device, _) \<leftarrow> findOrCreateDevice s name fingerprint;
          (case device of
             None \<Rightarrow> ret (None, None)
           | Some dev \<Rightarrow> do {
               (userDevice, _) \<leftarrow> findOrCreateUserDevice s user dev
                  (case ap_DeviceIP payload of None \<Rightarrow> [] | Some ip \<Rightarrow> ip) sid;
               ret (Some dev, userDevice) }) }
      | _ \<Rightarrow> ret (None, None))"

definition device_claim :: "Device \<Rightarrow> UserDevice option \<Rightarrow> anymap" where
  "device_claim device userDevice =
     (let claim = [(''uid'', AStr (d_UID device)), (''name'', AStr (d_DeviceName device))]
      in case userDevice of
           None \<Rightarrow> claim
         | Some ud \<Rightarrow> map_put ''ip_address'' (AStr (ud_IPAddress ud)) claim)"

text \<open>The extra claims: the device, then every entry of the client's own \<open>Extra\<close>.\<close>

definition login_extra :: "AuthParams \<Rightarrow> Device option \<Rightarrow> UserDevice option \<Rightarrow> anymap" where
  "login_extra payload device userDevice =
     (let base = (case device of None \<Rightarrow> [] | Some d \<Rightarrow> [(''device'', AMap (device_claim d userDevice))])
      in case ap_Extra payload of
           None \<Rightarrow> base
         | Some extra \<Rightarrow> fold (\<lambda>(k, v). map_put k v) extra base)"

definition login_event :: "AuthParams \<Rightarrow> Device option \<Rightarrow> UserDevice option \<Rightarrow> EventLoginData" where
  "login_event payload device userDevice =
     \<lparr>el_Identifier = ap_Identifier payload, el_IdentifierType = ap_IdentifierType payload,
      el_DeviceUID = map_option d_UID device, el_DeviceName = map_option d_DeviceName device,
      el_IPAddress = map_option ud_IPAddress userDevice\<rparr>"

definition token_claims :: "string \<Rightarrow> string \<Rightarrow> string \<Rightarrow> string \<Rightarrow> string \<Rightarrow> anymap option \<Rightarrow> TokenClaims" where
  "token_claims uid sid ty identifier identifierType extra =
     \<lparr>c_Uid = uid, c_Sid = sid, c_Type = ty, c_Identifier = identifier,
      c_IdentifierType = identifierType, c_Extra = extra\<rparr>"

text \<open>
  The two tokens of a session and its entry in the whitelist, as login, OAuth login and refresh
  make them.
\<close>

definition issue_tokens :: "'s authService \<Rightarrow> string \<Rightarrow> string \<Rightarrow> string \<Rightarrow> string \<Rightarrow> anymap option \<Rightarrow> ('s, Token result) prog" where
  "issue_tokens s uid sid identifier identifierType extra =
     call (TG_GenerateToken (as_tokenGen s) (token_claims uid sid TokenTypeAccess identifier identifierType extra)) (\<lambda>accessToken.
     call (TG_GenerateToken (as_tokenGen s) (token_claims uid sid TokenTypeRefresh identifier identifierType extra)) (\<lambda>refreshToken.
     call (TS_Add (as_tokenWhitelist s) uid sid) (\<lambda>_.
     ok \<lparr>Access = accessToken, Refresh = refreshToken\<rparr>)))"

text \<open>After the password has been accepted.\<close>

definition open_session :: "'s authService \<Rightarrow> AuthParams \<Rightarrow> User \<Rightarrow> ('s, Token result) prog" where
  "open_session s payload user = do {
     _ \<leftarrow> AT_Reset (as_attemptTracker s) (u_UID user);
     sid \<leftarrow> UG_New (as_uidGen s);
     (device, userDevice) \<leftarrow> login_device s payload user sid;
     call (issue_tokens s (u_UID user) sid (ap_Identifier payload) (ap_IdentifierType payload)
             (Some (login_extra payload device userDevice))) (\<lambda>token. do {
       _ \<leftarrow> EX_DoAsync (as_executor s) ''auth.publish''
             (publish_new (as_eventPublisher s) EventLogin (NewUserEntity user)
                (LoginData (login_event payload device userDevice)));
       ok token }) }"

text \<open>Once the user is known: its status, its lock, its password.\<close>

definition login_user :: "'s authService \<Rightarrow> AuthParams \<Rightarrow> User \<Rightarrow> ('s, Token result) prog" where
  "login_user s payload user =
     (if IsDeleted user then fail ErrUserDeleted
      else if u_Status user \<noteq> UserStatusActive then fail ErrUserInactive
      else call (AT_IsLocked (as_attemptTracker s) (u_UID user)) (\<lambda>locked.
        if locked then do {
          _ \<leftarrow> EX_DoAsync (as_executor s) ''auth.publish.locked''
                (publish_new (as_eventPublisher s) EventLoginLocked (NewUserEntity user)
                   (LoginLockedData (ap_Identifier payload) (ap_IdentifierType payload) ''Account is locked''));
          fail ErrAccountLockedOut }
        else if \<not> H_Compare (as_passwordHasher s) (u_Password user) (ap_Password payload) then do {
          _ \<leftarrow> AT_Track (as_attemptTracker s) (u_UID user);
          _ \<leftarrow> EX_DoAsync (as_executor s) ''auth.publish.failed''
                (publish_new (as_eventPublisher s) EventLoginFailed (NewUserEntity user)
                   (LoginFailedData (ap_Identifier payload) (ap_IdentifierType payload) ''invalid_credentials''));
          fail ErrInvalidCredentials }
        else open_session s payload user))"

definition Authenticate :: "'s authService \<Rightarrow> AuthParams \<Rightarrow> ('s, Token result) prog" where
  "Authenticate s payload =
     call (check_device_ip s payload) (\<lambda>_. do {
       r \<leftarrow> findUser s (ap_IdentifierType payload) (ap_Identifier payload);
       (case r of
          Inl err \<Rightarrow>
            if errors_Is err ErrUserNotFound then fail ErrInvalidCredentials else fail err
        | Inr user \<Rightarrow> login_user s payload user) })"

section \<open>OAuth login\<close>

definition GoogleOAuth :: "'s authService \<Rightarrow> string \<Rightarrow> ('s, (string \<times> string) result) prog" where
  "GoogleOAuth s redirectURI = do {
     state \<leftarrow> UG_New (as_uidGen s);
     call (OP_GetAuthorizationURL (as_oauthProvider s) state redirectURI) (\<lambda>authURL. ok (authURL, state)) }"

text \<open>
  The regular expression \<open>[^a-zA-Z0-9_.]+\<close> replaced by an underscore: every maximal run of other
  characters becomes one underscore.
\<close>

definition username_char :: "char \<Rightarrow> bool" where
  "username_char c \<longleftrightarrow>
     (let n = of_char c :: nat in (97 \<le> n \<and> n \<le> 122) \<or> (65 \<le> n \<and> n \<le> 90) \<or> (48 \<le> n \<and> n \<le> 57))
     \<or> c = CHR ''_'' \<or> c = CHR ''.''"

fun replace_runs :: "bool \<Rightarrow> string \<Rightarrow> string" where
  "replace_runs inrun [] = []"
| "replace_runs inrun (c # cs) =
     (if username_char c then c # replace_runs False cs
      else if inrun then replace_runs True cs else CHR ''_'' # replace_runs True cs)"

definition base_username :: "string \<Rightarrow> string" where
  "base_username email =
     (let username = replace_runs False (takeWhile (\<lambda>c. c \<noteq> CHR ''@'') email)
      in if length username < 3 then ''user_'' @ username else username)"

text \<open>
  The search for a free username, a loop that asks the repository: \<open>fuel\<close> bounds the lookups, and
  \<open>None\<close> is a search that needs more. A lookup that fails ends the search, as in the code.
\<close>

fun search_username :: "nat \<Rightarrow> 's authService \<Rightarrow> string \<Rightarrow> ('s, string option) prog" where
  "search_username 0 s username = ret None"
| "search_username (Suc fuel) s username = do {
     r \<leftarrow> UR_GetByUsername (as_userRepo s) username;
     (case r of
        Inr existing \<Rightarrow> do {
          randSuffix \<leftarrow> UG_New (as_uidGen s);
          search_username fuel s (username @ ''_'' @ drop (length randSuffix - 4) randSuffix) }
      | Inl err \<Rightarrow> ret (Some username)) }"

definition generateUsername :: "nat \<Rightarrow> 's authService \<Rightarrow> OAuthUserInfo \<Rightarrow> ('s, string option) prog" where
  "generateUsername fuel s userInfo = search_username fuel s (base_username (oi_Email userInfo))"

definition google_extra :: anymap where
  "google_extra = [(''oauth_provider'', AStr ''google'')]"

text \<open>The account of the OAuth login: found by its email address, or created.\<close>

definition oauth_create :: "nat \<Rightarrow> 's authService \<Rightarrow> OAuthUserInfo \<Rightarrow> ('s, User result option) prog" where
  "oauth_create fuel s userInfo = do {
     rp \<leftarrow> GenerateRandomPassword (as_randInt s) 8;
     (case rp of
        Inl err \<Rightarrow> ret (Some (Inl err))
      | Inr randPass \<Rightarrow> do {
          rh \<leftarrow> H_Hash (as_passwordHasher s) randPass;
          (case rh of
             Inl err \<Rightarrow> ret (Some (Inl err))
           | Inr hashedPassword \<Rightarrow> do {
               uid \<leftarrow> UG_New (as_uidGen s);
               name \<leftarrow> generateUsername fuel s userInfo;
               (case name of
                  None \<Rightarrow> ret None
                | Some username \<Rightarrow> do {
                    r \<leftarrow> UR_Create (as_userRepo s)
                      \<lparr>u_ID = 0, u_UID = uid, u_Username = username, u_Email = oi_Email userInfo,
                       u_Password = hashedPassword, u_Status = UserStatusActive,
                       u_CreatedAt = 0, u_UpdatedAt = 0, u_DeletedAt = None\<rparr>;
                    ret (Some r) }) }) }) }"

definition oauth_user :: "nat \<Rightarrow> 's authService \<Rightarrow> OAuthUserInfo \<Rightarrow> ('s, User result option) prog" where
  "oauth_user fuel s userInfo = do {
     r \<leftarrow> UR_GetByEmail (as_userRepo s) (oi_Email userInfo);
     (case r of
        Inr user \<Rightarrow> ret (Some (Inr user))
      | Inl err \<Rightarrow>
          if errors_Is err ErrUserNotFound then oauth_create fuel s userInfo
          else ret (Some (Inl err))) }"

definition oauth_session :: "'s authService \<Rightarrow> User \<Rightarrow> ('s, Token result) prog" where
  "oauth_session s user = do {
     sid \<leftarrow> UG_New (as_uidGen s);
     call (issue_tokens s (u_UID user) sid (u_Email user) ''email'' (Some google_extra)) (\<lambda>token. do {
       _ \<leftarrow> EX_DoAsync (as_executor s) ''auth.publish.oauth''
             (publish_new (as_eventPublisher s) EventOAuthLogin (NewUserEntity user) (OAuthLoginData ''google''));
       ok token }) }"

definition HandleGoogleOAuth ::
  "nat \<Rightarrow> 's authService \<Rightarrow> string \<Rightarrow> string \<Rightarrow> string \<Rightarrow> ('s, Token result option) prog" where
  "HandleGoogleOAuth fuel s code state redirectURI = do {
     rt \<leftarrow> OP_ExchangeCode (as_oauthProvider s) code state redirectURI;
     (case rt of
        Inl err \<Rightarrow> ret (Some (Inl err))
      | Inr tokens \<Rightarrow> do {
          ri \<leftarrow> OP_GetUserInfo (as_oauthProvider s) tokens;
          (case ri of
             Inl err \<Rightarrow> ret (Some (Inl err))
           | Inr userInfo \<Rightarrow> do {
               ru \<leftarrow> oauth_user fuel s userInfo;
               (case ru of
                  None \<Rightarrow> ret None
                | Some (Inl err) \<Rightarrow> ret (Some (Inl err))
                | Some (Inr user) \<Rightarrow> do { r \<leftarrow> oauth_session s user; ret (Some r) }) }) }) }"

section \<open>Refresh, validation, revocation\<close>

text \<open>The device UID inside the claims, when the claims have the shape the login gave them.\<close>

definition claimed_device :: "TokenClaims \<Rightarrow> string option" where
  "claimed_device claims =
     (case c_Extra claims of
        None \<Rightarrow> None
      | Some extra \<Rightarrow>
          (case map_of extra ''device'' of
             Some (AMap deviceClaim) \<Rightarrow>
               (case map_of deviceClaim ''uid'' of Some (AStr uid) \<Rightarrow> Some uid | _ \<Rightarrow> None)
           | _ \<Rightarrow> None))"

definition refresh_device :: "'s authService \<Rightarrow> TokenClaims \<Rightarrow> User \<Rightarrow> string \<Rightarrow> ('s, unit) prog" where
  "refresh_device s claims user newSid =
     (case claimed_device claims of
        None \<Rightarrow> ret ()
      | Some deviceUID \<Rightarrow> do {
          r \<leftarrow> DR_GetByUID (as_deviceRepo s) deviceUID;
          (case r of
             Inl err \<Rightarrow> ret ()
           | Inr device \<Rightarrow> do {
               _ \<leftarrow> UDR_UpdateSessionID (as_userDeviceRepo s) (u_ID user) (d_ID device) newSid;
               ret () }) })"

definition RefreshToken :: "'s authService \<Rightarrow> string \<Rightarrow> ('s, Token result) prog" where
  "RefreshToken s refreshToken =
     call (TG_ValidateToken (as_tokenGen s) refreshToken) (\<lambda>claims.
     if \<not> IsRefresh claims then fail ErrTokenInvalid
     else call (TS_IsAllowed (as_tokenWhitelist s) (c_Uid claims) (c_Sid claims)) (\<lambda>allowed.
     if \<not> allowed then fail ErrTokenRevoked
     else do {
       r \<leftarrow> UR_GetByUID (as_userRepo s) (c_Uid claims);
       (case r of
          Inl err \<Rightarrow> if errors_Is err ErrUserNotFound then fail ErrTokenInvalid else fail err
        | Inr user \<Rightarrow>
            if IsDeleted user then fail ErrUserDeleted
            else if u_Status user \<noteq> UserStatusActive then fail ErrUserInactive
            else do {
              newSid \<leftarrow> UG_New (as_uidGen s);
              _ \<leftarrow> refresh_device s claims user newSid;
              call (issue_tokens s (c_Uid claims) newSid (c_Identifier claims) (c_IdentifierType claims)
                      (c_Extra claims)) (\<lambda>token. do {
                _ \<leftarrow> TS_Remove (as_tokenWhitelist s) (c_Uid claims) (c_Sid claims);
                _ \<leftarrow> EX_DoAsync (as_executor s) ''auth.publish.refresh_token''
                      (publish_new (as_eventPublisher s) EventTokenRefresh (NewTokenEntity claims)
                         (TokenRefreshData (c_Identifier claims) (c_IdentifierType claims)));
                ok token }) }) }))"

definition ValidateToken :: "'s authService \<Rightarrow> string \<Rightarrow> ('s, TokenClaims result) prog" where
  "ValidateToken s accessToken =
     call (TG_ValidateToken (as_tokenGen s) accessToken) (\<lambda>claims.
     if \<not> IsAccess claims then fail ErrTokenInvalid
     else call (TS_IsAllowed (as_tokenWhitelist s) (c_Uid claims) (c_Sid claims)) (\<lambda>allowed.
     if \<not> allowed then fail ErrTokenRevoked
     else call (TS_IsAllowed (as_tokenBlacklist s) (c_Uid claims) (c_Sid claims)) (\<lambda>blacklisted.
     if \<not> blacklisted then fail ErrTokenRevoked else ok claims)))"

definition RevokeToken :: "'s authService \<Rightarrow> string \<Rightarrow> string \<Rightarrow> ('s, unit result) prog" where
  "RevokeToken s token tokenType =
     call (TG_ValidateToken (as_tokenGen s) token) (\<lambda>claims.
     call (TS_Remove (as_tokenWhitelist s) (c_Uid claims) (c_Sid claims)) (\<lambda>_.
     call (TS_Add (as_tokenBlacklist s) (c_Uid claims) (c_Sid claims)) (\<lambda>_. do {
       _ \<leftarrow> EX_DoAsync (as_executor s) ''auth.publish.revoke_token''
             (publish_msg (as_eventPublisher s) EventRevokeToken (NewTokenEntity claims)
                (RevokeTokenData (c_Identifier claims) (c_IdentifierType claims)));
       ok () })))"

definition VerifyPin :: "'s authService \<Rightarrow> string \<Rightarrow> string \<Rightarrow> ('s, bool result) prog" where
  "VerifyPin s userUid pin =
     call (UR_GetByUID (as_userRepo s) userUid) (\<lambda>user. do {
       r \<leftarrow> PR_GetByUserID (as_pinRepo s) (u_ID user);
       (case r of
          Inl err \<Rightarrow> if errors_Is err ErrUserNotFound then fail ErrPinNotSet else fail err
        | Inr userPin \<Rightarrow>
            if \<not> IsSet userPin then fail ErrPinNotSet
            else if \<not> H_Compare (as_pinHasher s) (pin_Code userPin) pin then do {
              _ \<leftarrow> EX_DoAsync (as_executor s) ''auth.publish.pin_fail''
                    (publish_msg (as_eventPublisher s) EventPINFail (NewUserPinEntity userPin)
                       (PinFailData ''invalid_pin''));
              ok False }
            else do {
              _ \<leftarrow> EX_DoAsync (as_executor s) ''auth.publish.pin_verified''
                    (publish_msg (as_eventPublisher s) EventPINVerify (NewUserPinEntity userPin)
                       (PinVerifyData True ''pin_verified''));
              ok True }) })"

end
