(* ===== verification/UserService.thy ===== *)
theory UserService
  imports AuthService
begin

text \<open>
  \<open>internal/core/service/user.go\<close>: the management of users, their profiles, PINs and devices. The
  code asks the resolver provider for its user resolver only; the record holds that resolver. A
  pointer to a user or a profile that a method updates before it stores it is the updated record.
\<close>

record 's userService =
  us_userRepo :: "'s UserRepository"
  us_profileRepo :: "'s UserProfileRepository"
  us_pinRepo :: "'s UserPinRepository"
  us_deviceRepo :: "'s DeviceRepository"
  us_userDeviceRepo :: "'s UserDeviceRepository"
  us_passwordHasher :: "'s Hasher"
  us_pinHasher :: "'s Hasher"
  us_uidGen :: "'s UIDGenerator"
  us_tokenWhitelist :: "'s TokenStore"
  us_eventPublisher :: "'s EventPublisher"
  us_userResolver :: "'s UserResolver"

definition default_pagination :: "string \<Rightarrow> PaginationParam" where
  "default_pagination dir =
     \<lparr>p_Page = Some 1, p_Limit = Some 10, p_OrderBy = Some ''created_at'', p_Sort = Some dir\<rparr>"

text \<open>
  The Go conversion \<open>string(status)\<close> of an \<open>int32\<close>: the UTF-8 encoding of that code point, the
  replacement character when it is none.
\<close>

definition string_of_rune :: "int \<Rightarrow> string" where
  "string_of_rune r =
     (let r' = (if r < 0 \<or> r > 0x10FFFF \<or> (0xD800 \<le> r \<and> r \<le> 0xDFFF) then 0xFFFD else r);
          b = (\<lambda>n. char_of (nat n))
      in if r' < 0x80 then [b r']
         else if r' < 0x800 then [b (0xC0 + r' div 64), b (0x80 + r' mod 64)]
         else if r' < 0x10000 then [b (0xE0 + r' div 4096), b (0x80 + r' div 64 mod 64), b (0x80 + r' mod 64)]
         else [b (0xF0 + r' div 262144), b (0x80 + r' div 4096 mod 64), b (0x80 + r' div 64 mod 64), b (0x80 + r' mod 64)])"

section \<open>Users\<close>

text \<open>
  Every method starts by resolving the UID; \<open>onErr\<close> is how the method answers an error of the
  resolver.
\<close>

definition resolve_uid :: "'s userService \<Rightarrow> string \<Rightarrow> (go_error \<Rightarrow> go_error) \<Rightarrow> ('s, int result) prog" where
  "resolve_uid s uid onErr = do {
     r \<leftarrow> RS_IDsByUIDs (us_userResolver s) [uid];
     (case r of
        Inl err \<Rightarrow> fail (onErr err)
      | Inr ids \<Rightarrow> (case ids uid of None \<Rightarrow> fail ErrUserNotFound | Some i \<Rightarrow> ok i)) }"

definition not_found_or :: "go_error \<Rightarrow> go_error \<Rightarrow> go_error" where
  "not_found_or other err = (if errors_Is err ErrUserNotFound then err else other)"

definition UserService_Get :: "'s userService \<Rightarrow> string \<Rightarrow> ('s, User result) prog" where
  "UserService_Get s uid =
     (if uid = [] then fail ErrInvalidUID
      else call (resolve_uid s uid (not_found_or ErrUserGetFailed)) (\<lambda>i.
           call (UR_GetByID (us_userRepo s) i) (\<lambda>user.
           if IsDeleted user then fail ErrUserDeleted
           else if \<not> IsActive user then fail ErrUserInactive
           else ok user)))"

definition UserService_List ::
  "'s userService \<Rightarrow> PaginationParam option \<Rightarrow> UserListFilterParam option \<Rightarrow> ('s, User page result) prog" where
  "UserService_List s pagination flt =
     UR_List (us_userRepo s)
       (case pagination of None \<Rightarrow> Some (default_pagination ''desc'') | Some p \<Rightarrow> Some p) flt"

text \<open>A lookup that must fail with \<open>ErrUserNotFound\<close>; anything else ends the creation.\<close>

definition must_be_free :: "('s, User result) prog \<Rightarrow> go_error \<Rightarrow> ('s, unit result) prog" where
  "must_be_free lookup duplicate = do {
     r \<leftarrow> lookup;
     (case r of
        Inr _ \<Rightarrow> fail duplicate
      | Inl err \<Rightarrow> if errors_Is err ErrUserNotFound then ok () else fail err) }"

definition UserService_Create :: "'s userService \<Rightarrow> UserCreateParam \<Rightarrow> ('s, User result) prog" where
  "UserService_Create s createParam =
     (if uc_Username createParam = [] then fail ErrInvalidUsername
      else if uc_Email createParam = [] then fail ErrInvalidEmail
      else if uc_Password createParam = [] then fail ErrInvalidPassword
      else
        call (must_be_free (UR_GetByEmail (us_userRepo s) (uc_Email createParam)) ErrDuplicateEmail) (\<lambda>_.
        call (must_be_free (UR_GetByUsername (us_userRepo s) (uc_Username createParam)) ErrDuplicateUsername) (\<lambda>_.
        call (H_Hash (us_passwordHasher s) (uc_Password createParam)) (\<lambda>hashedPassword. do {
          uid \<leftarrow> UG_New (us_uidGen s);
          call (UR_Create (us_userRepo s)
             \<lparr>u_ID = 0, u_UID = uid, u_Username = uc_Username createParam, u_Email = uc_Email createParam,
              u_Password = hashedPassword, u_Status = UserStatusActive,
              u_CreatedAt = 0, u_UpdatedAt = 0, u_DeletedAt = None\<rparr>) (\<lambda>user. do {
            _ \<leftarrow> RS_Invalidate (us_userResolver s) [WithUIDs [u_UID user]];
            _ \<leftarrow> PFR_Create (us_profileRepo s)
                  \<lparr>pr_UserID = u_ID user, pr_UserUID = u_UID user, pr_FirstName = [], pr_LastName = [],
                   pr_Bio = [], pr_AvatarFileID = None, pr_Attributes = None, pr_CreatedAt = 0, pr_UpdatedAt = 0\<rparr>;
            _ \<leftarrow> publish_msg (us_eventPublisher s) EventUserCreated (NewUserEntity user)
                  (UserCreatedData (u_Username user) (u_Email user) (string_of_rune (u_Status user)));
            ok user }) }))))"

text \<open>
  The changes \<open>Update\<close> makes to the user it has read: each step carries the user and the count of
  changes.
\<close>

definition free_or_own :: "('s, User result) prog \<Rightarrow> string \<Rightarrow> go_error \<Rightarrow> ('s, unit result) prog" where
  "free_or_own lookup uid duplicate = do {
     r \<leftarrow> lookup;
     (case r of
        Inr existing \<Rightarrow> if u_UID existing \<noteq> uid then fail duplicate else ok ()
      | Inl err \<Rightarrow> if \<not> errors_Is err ErrUserNotFound then fail err else ok ()) }"

definition update_username :: "'s userService \<Rightarrow> string \<Rightarrow> UserUpdateParam \<Rightarrow> User \<times> int \<Rightarrow> ('s, (User \<times> int) result) prog" where
  "update_username s uid updateParam uc =
     (case uu_Username updateParam of
        None \<Rightarrow> ok uc
      | Some username \<Rightarrow>
          if username = [] then fail ErrInvalidUsername
          else call (free_or_own (UR_GetByUsername (us_userRepo s) username) uid ErrDuplicateUsername) (\<lambda>_.
               ok ((fst uc)\<lparr>u_Username := username\<rparr>, snd uc + 1)))"

definition update_email :: "'s userService \<Rightarrow> string \<Rightarrow> UserUpdateParam \<Rightarrow> User \<times> int \<Rightarrow> ('s, (User \<times> int) result) prog" where
  "update_email s uid updateParam uc =
     (case uu_Email updateParam of
        None \<Rightarrow> ok uc
      | Some email \<Rightarrow>
          if email = [] then fail ErrInvalidEmail
          else call (free_or_own (UR_GetByEmail (us_userRepo s) email) uid ErrDuplicateEmail) (\<lambda>_.
               ok ((fst uc)\<lparr>u_Email := email\<rparr>, snd uc + 1)))"

definition update_password :: "'s userService \<Rightarrow> UserUpdateParam \<Rightarrow> User \<times> int \<Rightarrow> ('s, (User \<times> int) result) prog" where
  "update_password s updateParam uc =
     (case uu_Password updateParam of
        None \<Rightarrow> ok uc
      | Some password \<Rightarrow>
          if password = [] then fail ErrInvalidPassword
          else call (H_Hash (us_passwordHasher s) password) (\<lambda>hashedPassword.
               ok ((fst uc)\<lparr>u_Password := hashedPassword\<rparr>, snd uc + 1)))"

definition update_status :: "UserUpdateParam \<Rightarrow> User \<times> int \<Rightarrow> User \<times> int" where
  "update_status updateParam uc =
     (case uu_Status updateParam of None \<Rightarrow> uc | Some st \<Rightarrow> ((fst uc)\<lparr>u_Status := st\<rparr>, snd uc + 1))"

definition UserService_Update :: "'s userService \<Rightarrow> string \<Rightarrow> UserUpdateParam \<Rightarrow> ('s, unit result) prog" where
  "UserService_Update s uid updateParam =
     call (resolve_uid s uid (not_found_or ErrUserUpdateFailed)) (\<lambda>i. do {
       r \<leftarrow> UR_GetByID (us_userRepo s) i;
       (case r of
          Inl err \<Rightarrow> fail (not_found_or ErrUserUpdateFailed err)
        | Inr user0 \<Rightarrow>
            if IsDeleted user0 then fail ErrUserDeleted
            else
              call (update_username s uid updateParam (user0, 0)) (\<lambda>uc1.
              call (update_email s uid updateParam uc1) (\<lambda>uc2.
              call (update_password s updateParam uc2) (\<lambda>uc3.
              let (user, changesCount) = update_status updateParam uc3 in
              call (UR_Update (us_userRepo s) user) (\<lambda>_. do {
                _ \<leftarrow> RS_Invalidate (us_userResolver s) [WithUIDs [u_UID user], WithIDs [u_ID user]];
                _ \<leftarrow> publish_msg (us_eventPublisher s) EventUserUpdated (NewUserEntity user)
                      (UserUpdatedData changesCount);
                ok () }))))) })"

definition UserService_Delete :: "'s userService \<Rightarrow> string \<Rightarrow> ('s, unit result) prog" where
  "UserService_Delete s uid =
     call (resolve_uid s uid (\<lambda>_. ErrUserDeleteFailed)) (\<lambda>i.
     call (UR_GetByID (us_userRepo s) i) (\<lambda>user.
     call (UR_Delete (us_userRepo s) user) (\<lambda>_. do {
       _ \<leftarrow> RS_Invalidate (us_userResolver s) [WithUIDs [u_UID user], WithIDs [u_ID user]];
       _ \<leftarrow> publish_msg (us_eventPublisher s) EventUserDeleted (NewUserEntity user) UserDeletedData;
       ok () })))"

section \<open>Profiles\<close>

definition GetProfile :: "'s userService \<Rightarrow> string \<Rightarrow> ('s, UserProfile result) prog" where
  "GetProfile s userUID =
     call (resolve_uid s userUID (\<lambda>_. ErrUserGetFailed)) (\<lambda>i.
     call (UR_GetByID (us_userRepo s) i) (\<lambda>user. do {
       r \<leftarrow> PFR_GetByUserID (us_profileRepo s) (u_ID user);
       (case r of Inl err \<Rightarrow> fail ErrProfileNotFound | Inr profile \<Rightarrow> ok profile) }))"

definition current_profile :: "'s userService \<Rightarrow> User \<Rightarrow> ('s, UserProfile result) prog" where
  "current_profile s user = do {
     r \<leftarrow> PFR_GetByUserID (us_profileRepo s) (u_ID user);
     (case r of
        Inr profile \<Rightarrow> ok profile
      | Inl err \<Rightarrow>
          if errors_Is err ErrProfileNotFound
          then PFR_Create (us_profileRepo s)
                 \<lparr>pr_UserID = u_ID user, pr_UserUID = u_UID user, pr_FirstName = [], pr_LastName = [],
                  pr_Bio = [], pr_AvatarFileID = None, pr_Attributes = None, pr_CreatedAt = 0, pr_UpdatedAt = 0\<rparr>
          else fail ErrProfileNotFound) }"

definition apply_profile :: "UserProfileUpdateParam \<Rightarrow> UserProfile \<Rightarrow> UserProfile" where
  "apply_profile opts profile =
     (let p1 = (case pu_FirstName opts of None \<Rightarrow> profile | Some v \<Rightarrow> profile\<lparr>pr_FirstName := v\<rparr>);
          p2 = (case pu_LastName opts of None \<Rightarrow> p1 | Some v \<Rightarrow> p1\<lparr>pr_LastName := v\<rparr>);
          p3 = (case pu_Bio opts of None \<Rightarrow> p2 | Some v \<Rightarrow> p2\<lparr>pr_Bio := v\<rparr>)
      in case pu_Attributes opts of None \<Rightarrow> p3 | Some v \<Rightarrow> p3\<lparr>pr_Attributes := Some v\<rparr>)"

definition UpdateProfile :: "'s userService \<Rightarrow> string \<Rightarrow> UserProfileUpdateParam \<Rightarrow> ('s, unit result) prog" where
  "UpdateProfile s userUID opts =
     call (resolve_uid s userUID (not_found_or ErrUserUpdateFailed)) (\<lambda>i. do {
       r \<leftarrow> UR_GetByID (us_userRepo s) i;
       (case r of
          Inl err \<Rightarrow> fail (not_found_or ErrUserUpdateFailed err)
        | Inr user \<Rightarrow>
            call (current_profile s user) (\<lambda>profile0.
            let profile = apply_profile opts profile0 in
            call (PFR_Update (us_profileRepo s) profile) (\<lambda>_. do {
              _ \<leftarrow> publish_msg (us_eventPublisher s) EventUserUpdateProfile (NewUserProfileEntity profile)
                    UserUpdateProfileData;
              ok () }))) })"

section \<open>PINs\<close>

definition SetPin :: "'s userService \<Rightarrow> string \<Rightarrow> string \<Rightarrow> ('s, unit result) prog" where
  "SetPin s userUID pin =
     (if pin = [] then fail ErrPinInvalid
      else
        call (resolve_uid s userUID (\<lambda>_. ErrUserUpdateFailed)) (\<lambda>i.
        call (UR_GetByID (us_userRepo s) i) (\<lambda>user.
        if IsDeleted user then fail ErrUserDeleted
        else call (H_Hash (us_pinHasher s) pin) (\<lambda>hashedPin. do {
          r \<leftarrow> PR_GetByUserID (us_pinRepo s) (u_ID user);
          (case r of
             Inl err \<Rightarrow>
               if errors_Is err ErrUserNotFound \<or> errors_Is err ErrPinNotSet
               then call (PR_Create (us_pinRepo s)
                       \<lparr>pin_UserID = u_ID user, pin_UserUID = u_UID user, pin_Code = hashedPin,
                        pin_CreatedAt = 0, pin_UpdatedAt = 0\<rparr>) (\<lambda>userPin. do {
                      _ \<leftarrow> publish_msg (us_eventPublisher s) EventUserCreatePin (NewUserPinEntity userPin)
                            UserCreatePinData;
                      ok () })
               else fail err
           | Inr existingPin \<Rightarrow>
               let userPin = existingPin\<lparr>pin_Code := hashedPin\<rparr> in
               call (PR_Update (us_pinRepo s) userPin) (\<lambda>_. do {
                 _ \<leftarrow> publish_msg (us_eventPublisher s) EventUserUpdatePin (NewUserPinEntity userPin)
                       UserUpdatePinData;
                 ok () })) }))))"

section \<open>Devices of a user\<close>

definition ListDevice ::
  "'s userService \<Rightarrow> string \<Rightarrow> PaginationParam option \<Rightarrow> UserDeviceListFilterParam option
     \<Rightarrow> ('s, Device page result) prog" where
  "ListDevice s userUID pagination flt =
     call (resolve_uid s userUID (\<lambda>_. ErrUserGetFailed)) (\<lambda>i.
     call (UR_GetByID (us_userRepo s) i) (\<lambda>user.
     let pagination' = (case pagination of None \<Rightarrow> default_pagination ''desc'' | Some p \<Rightarrow> p);
         deviceFilter = (case flt of
            None \<Rightarrow> \<lparr>dl_Ids = [], dl_Uids = [], dl_DeviceName = None, dl_DeviceFingerprint = None\<rparr>
          | Some f \<Rightarrow> \<lparr>dl_Ids = [], dl_Uids = udl_DeviceUids f, dl_DeviceName = udl_DeviceName f,
                       dl_DeviceFingerprint = None\<rparr>)
     in DR_ListByUserID (us_deviceRepo s) (u_ID user) (Some pagination') (Some deviceFilter)))"

definition RevokeDevice :: "'s userService \<Rightarrow> string \<Rightarrow> string \<Rightarrow> ('s, unit result) prog" where
  "RevokeDevice s userUID deviceUID =
     call (resolve_uid s userUID (\<lambda>_. ErrUserUpdateFailed)) (\<lambda>i.
     call (UR_GetByID (us_userRepo s) i) (\<lambda>user.
     call (DR_GetByUID (us_deviceRepo s) deviceUID) (\<lambda>device.
     call (UDR_GetByUserIDAndDeviceID (us_userDeviceRepo s) (u_ID user) (d_ID device)) (\<lambda>userDevice. do {
       _ \<leftarrow> (if ud_SessionID userDevice \<noteq> []
             then TS_Remove (us_tokenWhitelist s) userUID (ud_SessionID userDevice)
             else ok ());
       call (UDR_Revoke (us_userDeviceRepo s) (u_ID user) (d_ID device)) (\<lambda>_. do {
         _ \<leftarrow> publish_msg (us_eventPublisher s) EventDeviceDeleted (NewDeviceEntity device) (DeviceDeletedData userUID);
         _ \<leftarrow> publish_msg (us_eventPublisher s) EventUserRevokeDevice (NewDeviceEntity device) (UserRevokeDeviceData userUID);
         ok () }) }))))"

section \<open>Passwords\<close>

definition ChangePassword :: "'s userService \<Rightarrow> string \<Rightarrow> UserChangePasswordParam \<Rightarrow> ('s, unit result) prog" where
  "ChangePassword s userUID passwordParam =
     (if cp_CurrentPassword passwordParam = [] then fail ErrInvalidCurrentPassword
      else if cp_NewPassword passwordParam = [] then fail ErrInvalidPassword
      else
        call (resolve_uid s userUID (not_found_or ErrUserUpdateFailed)) (\<lambda>i. do {
          r \<leftarrow> UR_GetByID (us_userRepo s) i;
          (case r of
             Inl err \<Rightarrow> fail (not_found_or ErrUserUpdateFailed err)
           | Inr user0 \<Rightarrow>
               if IsDeleted user0 then fail ErrUserDeleted
               else if \<not> H_Compare (us_passwordHasher s) (u_Password user0) (cp_CurrentPassword passwordParam)
               then fail ErrInvalidCurrentPassword
               else call (H_Hash (us_passwordHasher s) (cp_NewPassword passwordParam)) (\<lambda>hashedPassword.
                 let user = user0\<lparr>u_Password := hashedPassword\<rparr> in
                 call (UR_Update (us_userRepo s) user) (\<lambda>_. do {
                   _ \<leftarrow> publish_msg (us_eventPublisher s) EventUserUpdatePassword (NewUserEntity user)
                         UserUpdatePasswordData;
                   ok () }))) }))"

end
