(* ===== verification/DeviceService.thy ===== *)
theory DeviceService
  imports UserService
begin

text \<open>
  \<open>internal/core/service/device.go\<close> and \<open>internal/core/service/user_file.go\<close>: the services of
  devices and of the files of users.
\<close>

section \<open>Devices\<close>

record 's deviceService =
  ds_deviceRepo :: "'s DeviceRepository"
  ds_userDeviceRepo :: "'s UserDeviceRepository"
  ds_eventPublisher :: "'s EventPublisher"

definition DeviceService_Get :: "'s deviceService \<Rightarrow> string \<Rightarrow> ('s, Device result) prog" where
  "DeviceService_Get s uid = DR_GetByUID (ds_deviceRepo s) uid"

definition DeviceService_List ::
  "'s deviceService \<Rightarrow> PaginationParam option \<Rightarrow> DeviceListFilterParam option \<Rightarrow> ('s, Device page result) prog" where
  "DeviceService_List s pagination flt =
     DR_List (ds_deviceRepo s)
       (case pagination of None \<Rightarrow> Some (default_pagination ''asc'') | Some p \<Rightarrow> Some p)
       (case flt of
          None \<Rightarrow> Some \<lparr>dl_Ids = [], dl_Uids = [], dl_DeviceName = None, dl_DeviceFingerprint = None\<rparr>
        | Some f \<Rightarrow> Some f)"

definition linked_error :: "int \<Rightarrow> go_error" where
  "linked_error n =
     Fmt (''cannot delete device with '' @ FormatInt n @ '' active user devices linked'') None"

definition DeviceService_Delete :: "'s deviceService \<Rightarrow> string \<Rightarrow> ('s, unit result) prog" where
  "DeviceService_Delete s uid =
     call (DR_GetByUID (ds_deviceRepo s) uid) (\<lambda>device.
     call (UDR_List (ds_userDeviceRepo s)
             (Some \<lparr>p_Page = Some 1, p_Limit = Some 1, p_OrderBy = None, p_Sort = None\<rparr>)
             (Some \<lparr>udl_UserUids = [], udl_DeviceUids = [uid], udl_DeviceName = None,
                    udl_IpAddress = None, udl_Revoked = Some False\<rparr>)) (\<lambda>userDevices.
     if length (Items userDevices) > 0 then fail (linked_error (m_Total (Meta userDevices)))
     else
       call (DR_Delete (ds_deviceRepo s) device) (\<lambda>_.
       publish_msg (ds_eventPublisher s) EventDeviceDeleted (NewDeviceEntity device) (DeviceDeletedData []))))"

section \<open>Files\<close>

record 's userFileService =
  fs_userFileRepo :: "'s UserFileRepository"
  fs_userRepo :: "'s UserRepository"
  fs_userResolver :: "'s UserResolver"
  fs_uidGen :: "'s UIDGenerator"
  fs_eventPublisher :: "'s EventPublisher"

text \<open>Reading a missing key of a Go \<open>map[int64]string\<close> gives the empty string.\<close>

definition uid_of :: "(int \<rightharpoonup> string) \<Rightarrow> int \<Rightarrow> string" where
  "uid_of m i = (case m i of None \<Rightarrow> [] | Some v \<Rightarrow> v)"

definition UserFileService_Get :: "'s userFileService \<Rightarrow> string \<Rightarrow> ('s, UserFile result) prog" where
  "UserFileService_Get s uid =
     (if uid = [] then fail ErrInvalidUID
      else call (FR_GetByUID (fs_userFileRepo s) uid) (\<lambda>file.
           call (RS_UIDsByIDs (fs_userResolver s) [f_UserID file]) (\<lambda>resUserUid.
           ok (file\<lparr>f_UserUID := uid_of resUserUid (f_UserID file)\<rparr>))))"

definition UserFileService_List ::
  "'s userFileService \<Rightarrow> PaginationParam option \<Rightarrow> UserFileListFilterParam option \<Rightarrow> ('s, UserFile page result) prog" where
  "UserFileService_List s pagination flt =
     call (FR_List (fs_userFileRepo s)
             (case pagination of None \<Rightarrow> Some (default_pagination ''asc'') | Some p \<Rightarrow> Some p)
             (case flt of
                None \<Rightarrow> Some \<lparr>fl_Uids = [], fl_UserUid = [], fl_FileType = None, fl_Visibility = None\<rparr>
              | Some f \<Rightarrow> Some f)) (\<lambda>files.
     if length (Items files) > 0
     then call (RS_UIDsByIDs (fs_userResolver s) (map f_UserID (Items files))) (\<lambda>resUserUIDs.
          ok (files\<lparr>Items := map (\<lambda>item. item\<lparr>f_UserUID := uid_of resUserUIDs (f_UserID item)\<rparr>) (Items files)\<rparr>))
     else ok files)"

definition UserFileService_Add :: "'s userFileService \<Rightarrow> UserFileCreateParam \<Rightarrow> ('s, UserFile result) prog" where
  "UserFileService_Add s p =
     (if fc_UserUID p = [] then fail ErrInvalidUID
      else call (UR_GetByUID (fs_userRepo s) (fc_UserUID p)) (\<lambda>user. do {
        uid \<leftarrow> UG_New (fs_uidGen s);
        call (FR_Create (fs_userFileRepo s)
           \<lparr>f_ID = 0, f_UID = uid, f_UserID = u_ID user, f_UserUID = fc_UserUID p, f_FileType = fc_FileType p,
            f_FileName = fc_FileName p, f_FilePath = fc_FilePath p, f_MimeType = fc_MimeType p,
            f_SizeBytes = fc_SizeBytes p, f_Visibility = fc_Visibility p, f_CreatedAt = 0\<rparr>) (\<lambda>file.
        call (publish_msg (fs_eventPublisher s) EventUserFileCreated (NewUserFileEntity file)
                (UserFileCreatedData (f_UserUID file) (f_FileName file))) (\<lambda>_.
        ok file)) }))"

definition apply_file :: "UserFileUpdateParam \<Rightarrow> UserFile \<Rightarrow> UserFile" where
  "apply_file p file =
     (let f1 = (case fu_FileName p of None \<Rightarrow> file | Some v \<Rightarrow> file\<lparr>f_FileName := v\<rparr>);
          f2 = (case fu_FilePath p of None \<Rightarrow> f1 | Some v \<Rightarrow> f1\<lparr>f_FilePath := v\<rparr>);
          f3 = (case fu_MimeType p of None \<Rightarrow> f2 | Some v \<Rightarrow> f2\<lparr>f_MimeType := v\<rparr>);
          f4 = (case fu_SizeBytes p of None \<Rightarrow> f3 | Some v \<Rightarrow> f3\<lparr>f_SizeBytes := v\<rparr>)
      in case fu_Visibility p of None \<Rightarrow> f4 | Some v \<Rightarrow> f4\<lparr>f_Visibility := v\<rparr>)"

definition UserFileService_Update :: "'s userFileService \<Rightarrow> string \<Rightarrow> UserFileUpdateParam \<Rightarrow> ('s, unit result) prog" where
  "UserFileService_Update s uid p =
     call (FR_GetByUID (fs_userFileRepo s) uid) (\<lambda>file0.
     let file = apply_file p file0 in
     call (FR_Update (fs_userFileRepo s) file) (\<lambda>_.
     publish_msg (fs_eventPublisher s) EventUserFileUpdated (NewUserFileEntity file) (UserFileUpdatedData (f_UserUID file))))"

definition UserFileService_Delete :: "'s userFileService \<Rightarrow> string \<Rightarrow> ('s, unit result) prog" where
  "UserFileService_Delete s uid =
     call (FR_GetByUID (fs_userFileRepo s) uid) (\<lambda>file.
     call (FR_Delete (fs_userFileRepo s) file) (\<lambda>_.
     publish_msg (fs_eventPublisher s) EventUserFileDeleted (NewUserFileEntity file) (UserFileDeletedData (f_UserUID file))))"

end
