(* ===== verification/Redis.thy ===== *)
theory Redis
  imports Ports
begin

text \<open>
  Redis is a service outside the repository. The adapters take its client as a parameter, a record
  of the commands they issue; the locale \<open>redis_kv\<close> states what they rely on, the documented
  behaviour of those commands on the live keys. A command that returns an error (a lost connection,
  a cancelled context) may or may not have been executed. No key expires in the middle of one
  service call. The last section is a store with expiry times that satisfies the contract; the
  witnesses run on it.
\<close>

section \<open>The client\<close>

record 'r redis_client =
  rc_Get :: "string \<Rightarrow> ('r, string option result) prog" \<comment> \<open>\<open>Inr None\<close> is \<open>redis.Nil\<close>\<close>
  rc_Set :: "string \<Rightarrow> string \<Rightarrow> duration \<Rightarrow> ('r, unit result) prog"
  rc_Del :: "string list \<Rightarrow> ('r, int result) prog"
  rc_Exists :: "string \<Rightarrow> ('r, int result) prog"
  rc_Incr :: "string \<Rightarrow> ('r, int result) prog"
  rc_Expire :: "string \<Rightarrow> duration \<Rightarrow> ('r, bool result) prog"
  rc_TTL :: "string \<Rightarrow> ('r, duration result) prog"
  rc_Scan :: "string \<Rightarrow> ('r, string list result) prog" \<comment> \<open>all keys of a SCAN iterator\<close>
  rc_Pipeline :: "string list \<Rightarrow> ('r, string option result list) prog" \<comment> \<open>a batch of GETs\<close>

text \<open>\<open>Pipeline.Exec\<close> returns the error of the first command that has one, \<open>redis.Nil\<close> included.\<close>

fun exec_error :: "string option result list \<Rightarrow> go_error option" where
  "exec_error [] = None"
| "exec_error (Inl e # rs) = Some e"
| "exec_error (Inr None # rs) = Some RedisNil"
| "exec_error (Inr (Some v) # rs) = exec_error rs"

locale redis_kv =
  fixes rc :: "'r redis_client"
    and live :: "'r \<Rightarrow> string \<Rightarrow> string option"
    and glob :: "string \<Rightarrow> string \<Rightarrow> bool"
  assumes get_frame: "run_state (rc_Get rc k) r = (res, r') \<Longrightarrow> live r' = live r"
    and get_ok: "run_state (rc_Get rc k) r = (Inr ov, r') \<Longrightarrow> ov = live r k"
    and get_err: "run_state (rc_Get rc k) r = (Inl e, r') \<Longrightarrow> foreign e"
    and set_ok: "0 \<le> ttl \<Longrightarrow> run_state (rc_Set rc k v ttl) r = (Inr (), r') \<Longrightarrow> live r' = (live r)(k \<mapsto> v)"
    and set_err: "0 \<le> ttl \<Longrightarrow> run_state (rc_Set rc k v ttl) r = (Inl e, r') \<Longrightarrow>
                    foreign e \<and> (live r' = live r \<or> live r' = (live r)(k \<mapsto> v))"
    and del_ok: "run_state (rc_Del rc ks) r = (Inr n, r') \<Longrightarrow> live r' = live r |` (- set ks)"
    and del_err: "run_state (rc_Del rc ks) r = (Inl e, r') \<Longrightarrow>
                    foreign e \<and> (live r' = live r \<or> live r' = live r |` (- set ks))"
    and exists_frame: "run_state (rc_Exists rc k) r = (nres, r') \<Longrightarrow> live r' = live r"
    and exists_ok: "run_state (rc_Exists rc k) r = (Inr n, r') \<Longrightarrow> n = (if live r k = None then 0 else 1)"
    and exists_err: "run_state (rc_Exists rc k) r = (Inl e, r') \<Longrightarrow> foreign e"
    and incr_ok: "run_state (rc_Incr rc k) r = (Inr n, r') \<Longrightarrow>
                    live r' = (live r)(k \<mapsto> FormatInt n) \<and>
                    n = (case live r k of None \<Rightarrow> 0 | Some v \<Rightarrow> ParseInt_value v) + 1"
    and incr_err: "run_state (rc_Incr rc k) r = (Inl e, r') \<Longrightarrow>
                    foreign e \<and> (live r' = live r \<or> live r' = (live r)(k \<mapsto>
                      FormatInt ((case live r k of None \<Rightarrow> 0 | Some v \<Rightarrow> ParseInt_value v) + 1)))"
    and expire_frame: "0 < ttl \<Longrightarrow> run_state (rc_Expire rc k ttl) r = (bres, r') \<Longrightarrow> live r' = live r"
    and expire_err: "run_state (rc_Expire rc k ttl) r = (Inl e, r') \<Longrightarrow> foreign e"
    and ttl_frame: "run_state (rc_TTL rc k) r = (nres, r') \<Longrightarrow> live r' = live r"
    and scan_frame: "run_state (rc_Scan rc pat) r = (sres, r') \<Longrightarrow> live r' = live r"
    and scan_ok: "run_state (rc_Scan rc pat) r = (Inr ks, r') \<Longrightarrow> set ks = {k. live r k \<noteq> None \<and> glob pat k}"
    and scan_err: "run_state (rc_Scan rc pat) r = (Inl e, r') \<Longrightarrow> foreign e"
    and glob_star: "\<forall>c \<in> set p. c \<notin> {CHR ''*'', CHR ''?'', CHR ''['', CHR 0x5C} \<Longrightarrow> glob (p @ ''*'') k \<longleftrightarrow> take (length p) k = p"
    and pipeline_frame: "run_state (rc_Pipeline rc ks) r = (rs, r') \<Longrightarrow> live r' = live r"
    and pipeline_length: "run_state (rc_Pipeline rc ks) r = (rs, r') \<Longrightarrow> length rs = length ks"
    and pipeline_ok: "run_state (rc_Pipeline rc ks) r = (rs, r') \<Longrightarrow> i < length ks \<Longrightarrow> rs ! i = Inr ov \<Longrightarrow>
                        ov = live r (ks ! i)"
    and pipeline_err: "run_state (rc_Pipeline rc ks) r = (rs, r') \<Longrightarrow> Inl e \<in> set rs \<Longrightarrow> foreign e"
begin

lemma wp_get:
  assumes "\<And>r'. live r' = live r \<Longrightarrow> Q (Inr (live r k)) r'"
    and "\<And>e r'. live r' = live r \<Longrightarrow> foreign e \<Longrightarrow> Q (Inl e) r'"
  shows "wp (rc_Get rc k) Q r"
proof (rule wpI)
  fix a r' assume "run_state (rc_Get rc k) r = (a, r')"
  then show "Q a r'" using assms get_frame get_ok get_err by (cases a) blast+
qed

lemma wp_set:
  assumes "0 \<le> ttl" and "\<And>r'. live r' = (live r)(k \<mapsto> v) \<Longrightarrow> Q (Inr ()) r'"
    and "\<And>e r'. live r' = live r \<or> live r' = (live r)(k \<mapsto> v) \<Longrightarrow> foreign e \<Longrightarrow> Q (Inl e) r'"
  shows "wp (rc_Set rc k v ttl) Q r"
proof (rule wpI)
  fix a r' assume "run_state (rc_Set rc k v ttl) r = (a, r')"
  then show "Q a r'" using assms set_ok set_err by (cases a) auto
qed

lemma wp_del:
  assumes "\<And>n r'. live r' = live r |` (- set ks) \<Longrightarrow> Q (Inr n) r'"
    and "\<And>e r'. live r' = live r \<or> live r' = live r |` (- set ks) \<Longrightarrow> foreign e \<Longrightarrow> Q (Inl e) r'"
  shows "wp (rc_Del rc ks) Q r"
proof (rule wpI)
  fix a r' assume "run_state (rc_Del rc ks) r = (a, r')"
  then show "Q a r'" using assms del_ok del_err by (cases a) auto
qed

lemma wp_exists:
  assumes "\<And>r'. live r' = live r \<Longrightarrow> Q (Inr (if live r k = None then 0 else 1)) r'"
    and "\<And>e r'. live r' = live r \<Longrightarrow> foreign e \<Longrightarrow> Q (Inl e) r'"
  shows "wp (rc_Exists rc k) Q r"
proof (rule wpI)
  fix a r' assume "run_state (rc_Exists rc k) r = (a, r')"
  then show "Q a r'" using assms exists_frame exists_ok exists_err by (cases a) blast+
qed

end

section \<open>A store that satisfies the contract\<close>

text \<open>
  Keys with optional expiry times and a clock. \<open>ms_faults\<close> scripts the outcome of the coming
  commands: \<open>Some applied\<close> makes the command return an error, after executing it if \<open>applied\<close>;
  an empty script or \<open>None\<close> lets it succeed.
\<close>

record mem_redis =
  ms_keys :: "(string \<times> (string \<times> time option)) list"
  ms_clock :: time
  ms_faults :: "bool option list"

definition mem_live :: "mem_redis \<Rightarrow> string \<Rightarrow> string option" where
  "mem_live r k = (case map_of (ms_keys r) k of
      None \<Rightarrow> None
    | Some (v, None) \<Rightarrow> Some v
    | Some (v, Some x) \<Rightarrow> if ms_clock r < x then Some v else None)"

definition conn_lost :: go_error where
  "conn_lost = Fmt ''redis: connection lost'' None"

definition mem_command :: "(mem_redis \<Rightarrow> 'a \<times> mem_redis) \<Rightarrow> (mem_redis, 'a result) prog" where
  "mem_command f = State (\<lambda>r.
     (case ms_faults r of
        [] \<Rightarrow> (case f r of (a, r') \<Rightarrow> (Inr a, r'))
      | None # fs \<Rightarrow> (case f (r\<lparr>ms_faults := fs\<rparr>) of (a, r') \<Rightarrow> (Inr a, r'))
      | Some True # fs \<Rightarrow> (case f (r\<lparr>ms_faults := fs\<rparr>) of (a, r') \<Rightarrow> (Inl conn_lost, r'))
      | Some False # fs \<Rightarrow> (Inl conn_lost, r\<lparr>ms_faults := fs\<rparr>)))"

definition mem_put :: "string \<Rightarrow> string \<Rightarrow> time option \<Rightarrow> mem_redis \<Rightarrow> mem_redis" where
  "mem_put k v x r = r\<lparr>ms_keys := map_put k (v, x) (ms_keys r)\<rparr>"

definition mem_del :: "string list \<Rightarrow> mem_redis \<Rightarrow> mem_redis" where
  "mem_del ks r = r\<lparr>ms_keys := filter (\<lambda>(k, _). k \<notin> set ks) (ms_keys r)\<rparr>"

definition mem_expiry :: "string \<Rightarrow> mem_redis \<Rightarrow> time option" where
  "mem_expiry k r = (case map_of (ms_keys r) k of None \<Rightarrow> None | Some (v, x) \<Rightarrow> x)"

definition mem_glob :: "string \<Rightarrow> string \<Rightarrow> bool" where
  "mem_glob pat k = (if pat \<noteq> [] \<and> last pat = CHR ''*'' then take (length pat - 1) k = butlast pat else pat = k)"

definition mem_scan :: "string \<Rightarrow> mem_redis \<Rightarrow> string list" where
  "mem_scan pat r = filter (\<lambda>k. mem_live r k \<noteq> None \<and> mem_glob pat k) (map fst (ms_keys r))"

definition mem_client :: "mem_redis redis_client" where
  "mem_client = \<lparr>
     rc_Get = (\<lambda>k. mem_command (\<lambda>r. (mem_live r k, r))),
     rc_Set = (\<lambda>k v ttl. mem_command (\<lambda>r.
        ((), mem_put k v (if ttl \<le> 0 then None else Some (ms_clock r + ttl)) r))),
     rc_Del = (\<lambda>ks. mem_command (\<lambda>r.
        (int (length (filter (\<lambda>k. mem_live r k \<noteq> None) (remdups ks))),
         mem_del ks r))),
     rc_Exists = (\<lambda>k. mem_command (\<lambda>r. (if mem_live r k = None then 0 else 1, r))),
     rc_Incr = (\<lambda>k. mem_command (\<lambda>r.
        (case mem_live r k of
           None \<Rightarrow> (1, mem_put k (FormatInt 1) None r)
         | Some v \<Rightarrow> (ParseInt_value v + 1,
             mem_put k (FormatInt (ParseInt_value v + 1)) (mem_expiry k r) r)))),
     rc_Expire = (\<lambda>k ttl. mem_command (\<lambda>r.
        (case mem_live r k of
           None \<Rightarrow> (False, r)
         | Some v \<Rightarrow> (True, mem_put k v (Some (ms_clock r + ttl)) r)))),
     rc_TTL = (\<lambda>k. mem_command (\<lambda>r.
        (case mem_live r k of
           None \<Rightarrow> -2
         | Some v \<Rightarrow> (case mem_expiry k r of None \<Rightarrow> -1 | Some x \<Rightarrow> x - ms_clock r), r))),
     rc_Scan = (\<lambda>pat. mem_command (\<lambda>r.
        (mem_scan pat r, r))),
     rc_Pipeline = (\<lambda>ks. State (\<lambda>r. (map (\<lambda>k. Inr (mem_live r k)) ks, r)))\<rparr>"

lemma run_mem_command:
  "run_state (mem_command f) r = (res, r') \<Longrightarrow>
     (\<exists>fs. case f (r\<lparr>ms_faults := fs\<rparr>) of (a, r'') \<Rightarrow>
        (res = Inr a \<and> r' = r'') \<or>
        (res = Inl conn_lost \<and> (r' = r'' \<or> r' = r\<lparr>ms_faults := fs\<rparr>)))"
proof -
  assume run: "run_state (mem_command f) r = (res, r')"
  show ?thesis
  proof (cases "ms_faults r")
    case Nil
    then have same: "r\<lparr>ms_faults := []\<rparr> = r" by simp
    show ?thesis
      using run unfolding mem_command_def
      by (intro exI [of _ "[]"], subst same) (auto simp: Nil split: prod.splits)
  next
    case (Cons x fs)
    with run show ?thesis
      by (intro exI [of _ fs])
        (auto simp: mem_command_def split: prod.splits option.splits bool.splits)
  qed
qed

lemma mem_live_faults [simp]: "mem_live (r\<lparr>ms_faults := fs\<rparr>) = mem_live r"
  by (simp add: mem_live_def fun_eq_iff split: option.split)

lemma mem_scan_faults [simp]: "mem_scan pat (r\<lparr>ms_faults := fs\<rparr>) = mem_scan pat r"
  by (simp add: mem_scan_def)

lemma mem_expiry_faults [simp]: "mem_expiry k (r\<lparr>ms_faults := fs\<rparr>) = mem_expiry k r"
  by (simp add: mem_expiry_def)

lemma foreign_conn_lost [simp]: "foreign conn_lost"
  by (simp add: conn_lost_def)

lemma mem_live_put:
  "mem_live (mem_put k v x r) =
     (mem_live r)(k := (case x of None \<Rightarrow> Some v | Some t \<Rightarrow> if ms_clock r < t then Some v else None))"
  by (auto simp: mem_live_def mem_put_def fun_eq_iff split: option.splits)

lemma mem_live_keeps_ttl:
  "mem_live r k = Some v \<Longrightarrow> mem_live (mem_put k w (mem_expiry k r) r) = (mem_live r)(k \<mapsto> w)"
  by (auto simp: mem_live_put mem_live_def mem_expiry_def split: option.splits prod.splits if_splits)

lemma mem_live_expiry: "mem_live r k = Some v \<Longrightarrow> mem_expiry k r = Some t \<Longrightarrow> ms_clock r < t"
  by (auto simp: mem_live_def mem_expiry_def split: option.splits prod.splits if_splits)

lemma map_of_filter_keys: "map_of (filter (\<lambda>(k, _). P k) xs) k = (if P k then map_of xs k else None)"
  by (induction xs) auto

lemma mem_live_del: "mem_live (mem_del ks r) = mem_live r |` (- set ks)"
  by (auto simp: mem_live_def mem_del_def fun_eq_iff restrict_map_def map_of_filter_keys split: option.split)

lemma mem_live_key: "mem_live r k \<noteq> None \<Longrightarrow> k \<in> fst ` set (ms_keys r)"
  by (auto simp: mem_live_def split: option.splits dest!: map_of_SomeD intro: rev_image_eqI)

lemma mem_glob_star: "mem_glob (p @ ''*'') k \<longleftrightarrow> take (length p) k = p"
  by (simp add: mem_glob_def)

lemma set_mem_scan: "set (mem_scan pat r) = {k. mem_live r k \<noteq> None \<and> mem_glob pat k}"
  using mem_live_key by (auto simp: mem_scan_def)

interpretation mem: redis_kv mem_client mem_live mem_glob
  by unfold_locales
    (auto simp: mem_client_def mem_live_put mem_live_del mem_live_keeps_ttl mem_glob_star set_mem_scan
      dest!: run_mem_command dest: mem_live_expiry split: option.splits prod.splits if_splits)

text \<open>
  A client whose server stays up: in a steady state no command fails, and the state stays steady.
\<close>

locale redis_up = redis_kv rc live glob for rc :: "'r redis_client" and live glob +
  fixes steady :: "'r \<Rightarrow> bool"
  assumes get_up: "steady r \<Longrightarrow> run_state (rc_Get rc k) r = (res, r') \<Longrightarrow> steady r' \<and> (\<exists>ov. res = Inr ov)"
    and set_up: "steady r \<Longrightarrow> run_state (rc_Set rc k v ttl) r = (ures, r') \<Longrightarrow> steady r' \<and> ures = Inr ()"
    and del_up: "steady r \<Longrightarrow> run_state (rc_Del rc ks) r = (nres, r') \<Longrightarrow> steady r' \<and> (\<exists>n. nres = Inr n)"
    and exists_up: "steady r \<Longrightarrow> run_state (rc_Exists rc k) r = (nres, r') \<Longrightarrow> steady r' \<and> (\<exists>n. nres = Inr n)"
    and pipeline_up: "steady r \<Longrightarrow> run_state (rc_Pipeline rc ks) r = (rs, r') \<Longrightarrow> steady r' \<and> (\<forall>x \<in> set rs. \<exists>ov. x = Inr ov)"
begin

text \<open>On a steady server the commands are functions of the live keys.\<close>

lemma wp_get_up: "steady r \<Longrightarrow> (\<And>r'. live r' = live r \<Longrightarrow> steady r' \<Longrightarrow> Q (Inr (live r k)) r') \<Longrightarrow> wp (rc_Get rc k) Q r"
  by (rule wpI) (metis get_up get_frame get_ok)

lemma wp_set_up:
  "steady r \<Longrightarrow> 0 \<le> ttl \<Longrightarrow> (\<And>r'. live r' = (live r)(k \<mapsto> v) \<Longrightarrow> steady r' \<Longrightarrow> Q (Inr ()) r') \<Longrightarrow> wp (rc_Set rc k v ttl) Q r"
  by (rule wpI) (metis set_up set_ok)

lemma wp_del_up:
  "steady r \<Longrightarrow> (\<And>n r'. live r' = live r |` (- set ks) \<Longrightarrow> steady r' \<Longrightarrow> Q (Inr n) r') \<Longrightarrow> wp (rc_Del rc ks) Q r"
  by (rule wpI) (metis del_up del_ok)

lemma wp_exists_up:
  "steady r \<Longrightarrow> (\<And>r'. live r' = live r \<Longrightarrow> steady r' \<Longrightarrow> Q (Inr (if live r k = None then 0 else 1)) r') \<Longrightarrow>
   wp (rc_Exists rc k) Q r"
  by (rule wpI) (frule (1) exists_up, frule exists_frame, auto dest!: exists_ok)

lemma wp_pipeline_up:
  assumes "steady r" and "\<And>r'. live r' = live r \<Longrightarrow> steady r' \<Longrightarrow> Q (map (\<lambda>k. Inr (live r k)) ks) r'"
  shows "wp (rc_Pipeline rc ks) Q r"
proof (rule wpI)
  fix rs r' assume run: "run_state (rc_Pipeline rc ks) r = (rs, r')"
  have len: "length rs = length ks" using pipeline_length [OF run] .
  have "rs ! i = Inr (live r (ks ! i))" if i: "i < length ks" for i
  proof -
    obtain ov where "rs ! i = Inr ov" using pipeline_up [OF assms(1) run] i len by (metis nth_mem)
    with pipeline_ok [OF run i] show ?thesis by simp
  qed
  then have "rs = map (\<lambda>k. Inr (live r k)) ks" using len by (simp add: list_eq_iff_nth_eq)
  with assms(2) pipeline_up [OF assms(1) run] pipeline_frame [OF run] show "Q rs r'" by simp
qed

end

definition mem_steady :: "mem_redis \<Rightarrow> bool" where
  "mem_steady r \<longleftrightarrow> ms_faults r = []"

lemma mem_steady_simps [simp]:
  "mem_steady (mem_put k v x r) = mem_steady r" "mem_steady (mem_del ks r) = mem_steady r"
  by (simp_all add: mem_steady_def mem_put_def mem_del_def)

interpretation mem: redis_up mem_client mem_live mem_glob mem_steady
  by unfold_locales
    (auto simp: mem_client_def mem_command_def mem_steady_def mem_put_def mem_del_def split: list.splits prod.splits)

end
