(* ===== verification/TokenStore.thy ===== *)
theory TokenStore
  imports Redis
begin

text \<open>
  \<open>internal/adapter/security/token_whitelist.go\<close> and \<open>token_blacklist.go\<close>: the two token stores
  on Redis and their no-op variants. Spans and log lines are not modelled. The contract
  \<open>token_store\<close> of the services holds on every client that behaves as \<open>redis_kv\<close>.
\<close>

record TokenAdapter =
  ta_prefix :: string
  ta_defaultTTL :: duration

definition buildKey :: "TokenAdapter \<Rightarrow> string \<Rightarrow> string \<Rightarrow> string" where
  "buildKey a userUID tid = ta_prefix a @ userUID @ '':'' @ tid"

section \<open>The whitelist\<close>

definition Whitelist_Add :: "'r redis_client \<Rightarrow> TokenAdapter \<Rightarrow> string \<Rightarrow> string \<Rightarrow> ('r, unit result) prog" where
  "Whitelist_Add rc a userUID tid =
     call (rc_Set rc (buildKey a userUID tid) ''1'' (ta_defaultTTL a)) (\<lambda>_. ok ())"

definition Whitelist_Remove :: "'r redis_client \<Rightarrow> TokenAdapter \<Rightarrow> string \<Rightarrow> string \<Rightarrow> ('r, unit result) prog" where
  "Whitelist_Remove rc a userUID tid = call (rc_Del rc [buildKey a userUID tid]) (\<lambda>_. ok ())"

definition Whitelist_RemoveAll :: "'r redis_client \<Rightarrow> TokenAdapter \<Rightarrow> string \<Rightarrow> ('r, unit result) prog" where
  "Whitelist_RemoveAll rc a userUID =
     call (rc_Scan rc (buildKey a userUID ''*'')) (\<lambda>keys.
     if length keys > 0 then call (rc_Del rc keys) (\<lambda>_. ok ()) else ok ())"

definition Whitelist_IsAllowed :: "'r redis_client \<Rightarrow> TokenAdapter \<Rightarrow> string \<Rightarrow> string \<Rightarrow> ('r, bool result) prog" where
  "Whitelist_IsAllowed rc a userUID tid = do {
     r \<leftarrow> rc_Exists rc (buildKey a userUID tid);
     (case r of
        Inl err \<Rightarrow> fail (Fmt (''failed to check token whitelist: '' @ Error_text err) (Some err))
      | Inr n \<Rightarrow> ok (n > 0)) }"

definition NewTokenWhitelistAdapter :: "'r redis_client \<Rightarrow> string \<Rightarrow> duration \<Rightarrow> 'r TokenStore" where
  "NewTokenWhitelistAdapter rc prefix ttl =
     (let a = \<lparr>ta_prefix = prefix, ta_defaultTTL = ttl\<rparr>
      in \<lparr>TS_Add = Whitelist_Add rc a, TS_Remove = Whitelist_Remove rc a,
          TS_RemoveAll = Whitelist_RemoveAll rc a, TS_IsAllowed = Whitelist_IsAllowed rc a\<rparr>)"

section \<open>The blacklist\<close>

text \<open>
  The blacklist differs in the answer of \<open>IsAllowed\<close> only: a token is allowed when it is absent.
\<close>

definition Blacklist_Add :: "'r redis_client \<Rightarrow> TokenAdapter \<Rightarrow> string \<Rightarrow> string \<Rightarrow> ('r, unit result) prog" where
  "Blacklist_Add rc a userUID tid =
     call (rc_Set rc (buildKey a userUID tid) ''1'' (ta_defaultTTL a)) (\<lambda>_. ok ())"

definition Blacklist_Remove :: "'r redis_client \<Rightarrow> TokenAdapter \<Rightarrow> string \<Rightarrow> string \<Rightarrow> ('r, unit result) prog" where
  "Blacklist_Remove rc a userUID tid = call (rc_Del rc [buildKey a userUID tid]) (\<lambda>_. ok ())"

definition Blacklist_RemoveAll :: "'r redis_client \<Rightarrow> TokenAdapter \<Rightarrow> string \<Rightarrow> ('r, unit result) prog" where
  "Blacklist_RemoveAll rc a userUID =
     call (rc_Scan rc (buildKey a userUID ''*'')) (\<lambda>keys.
     if length keys > 0 then call (rc_Del rc keys) (\<lambda>_. ok ()) else ok ())"

definition Blacklist_IsAllowed :: "'r redis_client \<Rightarrow> TokenAdapter \<Rightarrow> string \<Rightarrow> string \<Rightarrow> ('r, bool result) prog" where
  "Blacklist_IsAllowed rc a userUID tid = do {
     r \<leftarrow> rc_Exists rc (buildKey a userUID tid);
     (case r of
        Inl err \<Rightarrow> fail (Fmt (''failed to check token blacklist: '' @ Error_text err) (Some err))
      | Inr n \<Rightarrow> ok (n = 0)) }"

definition NewTokenBlacklistAdapter :: "'r redis_client \<Rightarrow> string \<Rightarrow> duration \<Rightarrow> 'r TokenStore" where
  "NewTokenBlacklistAdapter rc prefix ttl =
     (let a = \<lparr>ta_prefix = prefix, ta_defaultTTL = ttl\<rparr>
      in \<lparr>TS_Add = Blacklist_Add rc a, TS_Remove = Blacklist_Remove rc a,
          TS_RemoveAll = Blacklist_RemoveAll rc a, TS_IsAllowed = Blacklist_IsAllowed rc a\<rparr>)"

section \<open>The no-op store\<close>

definition NewTokenNoOpAdapter :: "'r TokenStore" where
  "NewTokenNoOpAdapter =
     \<lparr>TS_Add = (\<lambda>userUID tid. ok ()), TS_Remove = (\<lambda>userUID tid. ok ()),
      TS_RemoveAll = (\<lambda>userUID. ok ()), TS_IsAllowed = (\<lambda>userUID tid. ok True)\<rparr>"

section \<open>The stores keep the contract\<close>

lemmas whitelist_defs = NewTokenWhitelistAdapter_def Whitelist_Add_def Whitelist_Remove_def
  Whitelist_RemoveAll_def Whitelist_IsAllowed_def
lemmas blacklist_defs = NewTokenBlacklistAdapter_def Blacklist_Add_def Blacklist_Remove_def
  Blacklist_RemoveAll_def Blacklist_IsAllowed_def

definition no_colon :: "string \<Rightarrow> bool" where
  "no_colon u \<longleftrightarrow> CHR '':'' \<notin> set u"

definition key_sessions :: "TokenAdapter \<Rightarrow> (string \<Rightarrow> string option) \<Rightarrow> string \<Rightarrow> string set" where
  "key_sessions a lv u = {t. lv (buildKey a u t) \<noteq> None}"

lemma buildKey_same_user [simp]: "buildKey a u t = buildKey a u t' \<longleftrightarrow> t = t'"
  by (simp add: buildKey_def)

lemma append_colon_inj:
  "no_colon u \<Longrightarrow> no_colon v \<Longrightarrow> u @ CHR '':'' # t = v @ CHR '':'' # t' \<longleftrightarrow> u = v \<and> t = t'"
proof (induction u arbitrary: v)
  case Nil
  then show ?case by (cases v) (auto simp: no_colon_def)
next
  case (Cons c u)
  then show ?case by (cases v) (auto simp: no_colon_def)
qed

lemma buildKey_inj:
  "no_colon u \<Longrightarrow> no_colon v \<Longrightarrow> buildKey a u t = buildKey a v t' \<longleftrightarrow> u = v \<and> t = t'"
  by (simp add: buildKey_def append_colon_inj)

lemma key_sessions_put:
  "key_sessions a (m(buildKey a u t \<mapsto> x)) u = insert t (key_sessions a m u)"
  "no_colon u \<Longrightarrow> no_colon v \<Longrightarrow> u \<noteq> v \<Longrightarrow> key_sessions a (m(buildKey a u t \<mapsto> x)) v = key_sessions a m v"
  by (auto simp: key_sessions_def buildKey_inj)

lemma key_sessions_del:
  "key_sessions a (m |` (- {buildKey a u t})) u = key_sessions a m u - {t}"
  "no_colon u \<Longrightarrow> no_colon v \<Longrightarrow> u \<noteq> v \<Longrightarrow> key_sessions a (m |` (- {buildKey a u t})) v = key_sessions a m v"
  by (auto simp: key_sessions_def buildKey_inj restrict_map_def)

text \<open>
  A store on a Redis client: the prefix of its keys and its time to live. Both adapters keep the
  contract; \<open>allows\<close> is the identity for the whitelist and negation for the blacklist.
\<close>

locale redis_store = redis_kv rc live glob for rc :: "'r redis_client" and live glob +
  fixes prefix :: string and ttl :: duration
  assumes ttl_nonneg: "0 \<le> ttl"
begin

abbreviation adapter :: TokenAdapter where
  "adapter \<equiv> \<lparr>ta_prefix = prefix, ta_defaultTTL = ttl\<rparr>"

abbreviation sess :: "'r \<Rightarrow> string \<Rightarrow> string set" where
  "sess r \<equiv> key_sessions adapter (live r)"

lemma add_run:
  assumes "run_state (Whitelist_Add rc adapter u t) r = (res, r')"
  shows "live r' = (live r)(buildKey adapter u t \<mapsto> ''1'') \<or> live r' = live r \<and> res \<noteq> Inr ()"
proof -
  obtain x r1 where x: "run_state (rc_Set rc (buildKey adapter u t) ''1'' ttl) r = (x, r1)"
    by (cases "run_state (rc_Set rc (buildKey adapter u t) ''1'' ttl) r")
  with assms show ?thesis
    by (cases x) (auto simp: Whitelist_Add_def call_def dest: set_ok [OF ttl_nonneg] set_err [OF ttl_nonneg])
qed

lemma del_run:
  assumes "run_state (call (rc_Del rc ks) (\<lambda>_. ok ())) r = (res, r')"
  shows "live r' = live r |` (- set ks) \<or> live r' = live r \<and> res \<noteq> Inr ()"
proof -
  obtain x r1 where x: "run_state (rc_Del rc ks) r = (x, r1)" by (cases "run_state (rc_Del rc ks) r")
  with assms show ?thesis
    by (cases x) (auto simp: call_def dest: del_ok del_err)
qed

lemma remove_run:
  assumes "run_state (Whitelist_Remove rc adapter u t) r = (res, r')"
  shows "live r' = live r |` (- {buildKey adapter u t}) \<or> live r' = live r \<and> res \<noteq> Inr ()"
  using del_run [OF assms [unfolded Whitelist_Remove_def]] by simp

lemma exists_run:
  assumes "run_state (rc_Exists rc (buildKey adapter u t)) r = (x, r')"
  shows "live r' = live r" and "x = Inr n \<Longrightarrow> n = (if t \<in> sess r u then 1 else 0)"
  using assms by (auto simp: key_sessions_def dest: exists_frame exists_ok)

lemma whitelist_is_allowed_run:
  assumes "run_state (Whitelist_IsAllowed rc adapter u t) r = (res, r')"
  shows "live r' = live r \<and> (\<forall>b. res = Inr b \<longrightarrow> b = (t \<in> sess r u))"
proof -
  obtain x r1 where x: "run_state (rc_Exists rc (buildKey adapter u t)) r = (x, r1)"
    by (cases "run_state (rc_Exists rc (buildKey adapter u t)) r")
  with assms exists_run [OF x] show ?thesis
    by (cases x) (auto simp: Whitelist_IsAllowed_def split: if_splits)
qed

lemma blacklist_is_allowed_run:
  assumes "run_state (Blacklist_IsAllowed rc adapter u t) r = (res, r')"
  shows "live r' = live r \<and> (\<forall>b. res = Inr b \<longrightarrow> b = (t \<notin> sess r u))"
proof -
  obtain x r1 where x: "run_state (rc_Exists rc (buildKey adapter u t)) r = (x, r1)"
    by (cases "run_state (rc_Exists rc (buildKey adapter u t)) r")
  with assms exists_run [OF x] show ?thesis
    by (cases x) (auto simp: Blacklist_IsAllowed_def split: if_splits)
qed

lemma blacklist_as_whitelist:
  "Blacklist_Add rc = Whitelist_Add rc" "Blacklist_Remove rc = Whitelist_Remove rc"
  by (simp_all add: fun_eq_iff Blacklist_Add_def Whitelist_Add_def Blacklist_Remove_def Whitelist_Remove_def)

sublocale whitelist: token_store "NewTokenWhitelistAdapter rc prefix ttl" sess "\<lambda>b. b" no_colon
  by unfold_locales
    (auto simp: NewTokenWhitelistAdapter_def Let_def key_sessions_put key_sessions_del
       dest!: add_run remove_run whitelist_is_allowed_run)

sublocale blacklist: token_store "NewTokenBlacklistAdapter rc prefix ttl" sess "\<lambda>b. \<not> b" no_colon
  by unfold_locales
    (auto simp: NewTokenBlacklistAdapter_def Let_def blacklist_as_whitelist key_sessions_put key_sessions_del
       dest!: add_run remove_run blacklist_is_allowed_run)

text \<open>The operations by their effect on the live keys, for the proofs about the services.\<close>

lemma wp_store_add:
  assumes "\<And>r'. live r' = (live r)(buildKey adapter u t \<mapsto> ''1'') \<Longrightarrow> Q (Inr ()) r'"
    and "\<And>e r'. live r' = live r \<or> live r' = (live r)(buildKey adapter u t \<mapsto> ''1'') \<Longrightarrow> Q (Inl e) r'"
  shows "wp (Whitelist_Add rc adapter u t) Q r"
  unfolding Whitelist_Add_def wp_call
  by (rule wp_set) (simp_all add: ttl_nonneg assms)

lemma wp_store_remove:
  assumes "\<And>r'. live r' = live r |` (- {buildKey adapter u t}) \<Longrightarrow> Q (Inr ()) r'"
    and "\<And>e r'. live r' = live r \<or> live r' = live r |` (- {buildKey adapter u t}) \<Longrightarrow> Q (Inl e) r'"
  shows "wp (Whitelist_Remove rc adapter u t) Q r"
  unfolding Whitelist_Remove_def wp_call
  by (rule wp_del) (simp_all add: assms)

lemma wp_store_is_allowed:
  assumes "\<And>r'. live r' = live r \<Longrightarrow> Q (Inr (t \<in> sess r u)) r'" "\<And>e r'. live r' = live r \<Longrightarrow> Q (Inl e) r'"
  shows "wp (Whitelist_IsAllowed rc adapter u t) Q r"
  unfolding Whitelist_IsAllowed_def wp_bind
  by (rule wp_exists) (use assms in \<open>auto simp: key_sessions_def\<close>)

lemma wp_store_is_allowed_bl:
  assumes "\<And>r'. live r' = live r \<Longrightarrow> Q (Inr (t \<notin> sess r u)) r'" "\<And>e r'. live r' = live r \<Longrightarrow> Q (Inl e) r'"
  shows "wp (Blacklist_IsAllowed rc adapter u t) Q r"
  unfolding Blacklist_IsAllowed_def wp_bind
  by (rule wp_exists) (use assms in \<open>auto simp: key_sessions_def\<close>)

text \<open>
  \<open>RemoveAll\<close> ends every session of the user and leaves the keys of the other stores and users
  alone, when neither the prefix nor the user's UID contains a glob character.
\<close>

lemma remove_all_sessions:
  assumes plain: "\<forall>c \<in> set (prefix @ u). c \<notin> {CHR ''*'', CHR ''?'', CHR ''['', CHR 0x5C}"
    and run: "run_state (Whitelist_RemoveAll rc adapter u) r = (Inr (), r')"
  shows "key_sessions adapter (live r') u = {}"
    and "take (length (prefix @ u @ '':'')) k \<noteq> prefix @ u @ '':'' \<Longrightarrow> live r' k = live r k"
proof -
  let ?p = "prefix @ u @ '':''"
  have pat: "buildKey adapter u ''*'' = ?p @ ''*''" by (simp add: buildKey_def)
  have glob: "glob (?p @ ''*'') k \<longleftrightarrow> take (length ?p) k = ?p" for k
    using plain by (intro glob_star) auto
  obtain x r1 where scan: "run_state (rc_Scan rc (?p @ ''*'')) r = (x, r1)" by (cases "run_state (rc_Scan rc (?p @ ''*'')) r")
  from run scan obtain ks where ks: "x = Inr ks"
    by (cases x) (auto simp: Whitelist_RemoveAll_def call_def pat)
  have mem: "set ks = {k. live r k \<noteq> None \<and> take (length ?p) k = ?p}"
    using scan_ok [OF scan [unfolded ks]] glob by simp
  have fr: "live r1 = live r" using scan_frame [OF scan] .
  have end_state: "live r' = live r |` (- set ks)"
  proof (cases "ks = []")
    case True
    with run scan ks fr show ?thesis by (auto simp: Whitelist_RemoveAll_def call_def pat)
  next
    case False
    with run scan ks have "run_state (call (rc_Del rc ks) (\<lambda>_. ok ())) r1 = (Inr (), r')"
      by (simp add: Whitelist_RemoveAll_def pat) (simp add: call_def split: prod.splits sum.splits)
    from del_run [OF this] fr show ?thesis by simp
  qed
  show "key_sessions adapter (live r') u = {}"
    using end_state mem by (auto simp: key_sessions_def buildKey_def restrict_map_def)
  show "take (length ?p) k \<noteq> ?p \<Longrightarrow> live r' k = live r k"
    using end_state mem by (auto simp: restrict_map_def)
qed

end

text \<open>The prefixes and times to live of \<open>cmd/main.go\<close>.\<close>

definition second :: duration where "second = 1000000000"

definition whitelist_prefix :: string where "whitelist_prefix = ''token-whitelist:''"
definition blacklist_prefix :: string where "blacklist_prefix = ''token-blacklist:''"
definition whitelist_ttl :: duration where "whitelist_ttl = 15 * 60 * second"
definition blacklist_ttl :: duration where "blacklist_ttl = 24 * 60 * 60 * second"

interpretation mem_wl: redis_store mem_client mem_live mem_glob whitelist_prefix whitelist_ttl
  by unfold_locales (simp add: whitelist_ttl_def second_def)

interpretation mem_bl: redis_store mem_client mem_live mem_glob blacklist_prefix blacklist_ttl
  by unfold_locales (simp add: blacklist_ttl_def second_def)

text \<open>The two stores share one Redis; their keys never meet.\<close>

lemma whitelist_key_not_blacklist_key:
  "buildKey \<lparr>ta_prefix = whitelist_prefix, ta_defaultTTL = x\<rparr> u t \<noteq>
   buildKey \<lparr>ta_prefix = blacklist_prefix, ta_defaultTTL = y\<rparr> v t'"
  by (simp add: buildKey_def whitelist_prefix_def blacklist_prefix_def)

end
