(* ===== verification/AttemptTracker.thy ===== *)
theory AttemptTracker
  imports Redis
begin

text \<open>
  \<open>internal/adapter/security/attempt_tracker_memory.go\<close>, \<open>attempt_tracker_redis.go\<close> and
  \<open>attempt_tracker_noop.go\<close>: the trackers of failed logins. Every method of the memory tracker runs
  under its mutex, so it is one step on the tracker's state; \<open>mt_now\<close> is what \<open>time.Now()\<close>
  returns.
\<close>

section \<open>The memory tracker\<close>

record userAttemptState =
  attempts :: nat
  lockedUntil :: time
  lastAttempt :: time

definition zeroAttemptState :: userAttemptState where
  "zeroAttemptState = \<lparr>attempts = 0, lockedUntil = 0, lastAttempt = 0\<rparr>"

record TrackerConfig =
  threshold :: int
  lockoutDuration :: duration
  counterTTL :: duration

record MemoryAttemptTracker =
  mt_users :: "string \<Rightarrow> userAttemptState option"
  mt_now :: time

text \<open>The state \<open>Track\<close> leaves for a user at time \<open>now\<close>.\<close>

definition track_state :: "TrackerConfig \<Rightarrow> time \<Rightarrow> userAttemptState \<Rightarrow> userAttemptState" where
  "track_state m now st =
     (let n = (if lastAttempt st \<noteq> 0 \<and> now - lastAttempt st > counterTTL m then 0 else attempts st);
          st' = st\<lparr>attempts := n + 1, lastAttempt := now\<rparr>
      in if int (attempts st') \<ge> threshold m
         then st'\<lparr>lockedUntil := now + lockoutDuration m\<rparr> else st')"

definition Memory_Track :: "TrackerConfig \<Rightarrow> string \<Rightarrow> (MemoryAttemptTracker, unit result) prog" where
  "Memory_Track m userUID = State (\<lambda>s.
     let st = (case mt_users s userUID of None \<Rightarrow> zeroAttemptState | Some st \<Rightarrow> st);
         st' = track_state m (mt_now s) st;
         s' = s\<lparr>mt_users := (mt_users s)(userUID \<mapsto> st')\<rparr>
     in if int (attempts st') \<ge> threshold m then (Inl (lock_error (int (attempts st'))), s')
        else (Inr (), s'))"

text \<open>A query after the lockout has passed clears the counter and the lock.\<close>

definition Memory_IsLocked :: "string \<Rightarrow> (MemoryAttemptTracker, bool result) prog" where
  "Memory_IsLocked userUID = State (\<lambda>s.
     case mt_users s userUID of
       None \<Rightarrow> (Inr False, s)
     | Some st \<Rightarrow>
         if lockedUntil st = 0 then (Inr False, s)
         else if mt_now s > lockedUntil st
         then (Inr False, s\<lparr>mt_users := (mt_users s)(userUID \<mapsto> st\<lparr>attempts := 0, lockedUntil := 0\<rparr>)\<rparr>)
         else (Inr True, s))"

definition Memory_Reset :: "string \<Rightarrow> (MemoryAttemptTracker, unit result) prog" where
  "Memory_Reset userUID = State (\<lambda>s.
     case mt_users s userUID of
       None \<Rightarrow> (Inr (), s)
     | Some st \<Rightarrow> (Inr (), s\<lparr>mt_users := (mt_users s)(userUID \<mapsto>
                     st\<lparr>attempts := 0, lockedUntil := 0, lastAttempt := 0\<rparr>)\<rparr>))"

text \<open>The periodic cleanup drops the users whose lock and whose counter have both expired.\<close>

definition Memory_cleanup :: "TrackerConfig \<Rightarrow> MemoryAttemptTracker \<Rightarrow> MemoryAttemptTracker" where
  "Memory_cleanup m s = s\<lparr>mt_users := (\<lambda>u.
     case mt_users s u of
       None \<Rightarrow> None
     | Some st \<Rightarrow>
         (let lockoutExpired = (lockedUntil st = 0 \<or> mt_now s > lockedUntil st);
              counterExpired = (lastAttempt st = 0 \<or> mt_now s - lastAttempt st > counterTTL m)
          in if lockoutExpired \<and> counterExpired then None else Some st))\<rparr>"

definition NewMemoryAttemptTracker :: "TrackerConfig \<Rightarrow> MemoryAttemptTracker AttemptTracker" where
  "NewMemoryAttemptTracker m =
     \<lparr>AT_Track = Memory_Track m, AT_IsLocked = Memory_IsLocked, AT_Reset = Memory_Reset\<rparr>"

section \<open>The no-op tracker\<close>

definition NewNoopAttemptTracker :: "'s AttemptTracker" where
  "NewNoopAttemptTracker =
     \<lparr>AT_Track = (\<lambda>userUID. ok ()), AT_IsLocked = (\<lambda>userUID. ok False), AT_Reset = (\<lambda>userUID. ok ())\<rparr>"

section \<open>The Redis tracker\<close>

definition failedAttemptsKey :: "string \<Rightarrow> string" where
  "failedAttemptsKey userUID = ''auth:failed_attempts:'' @ userUID"

definition lockoutKey :: "string \<Rightarrow> string" where
  "lockoutKey userUID = ''auth:lockout:'' @ userUID"

definition wrap_error :: "string \<Rightarrow> go_error \<Rightarrow> go_error" where
  "wrap_error msg err = Fmt (msg @ '': '' @ Error_text err) (Some err)"

definition Redis_Track :: "'r redis_client \<Rightarrow> TrackerConfig \<Rightarrow> string \<Rightarrow> ('r, unit result) prog" where
  "Redis_Track rc m userUID = do {
     r \<leftarrow> rc_Incr rc (failedAttemptsKey userUID);
     (case r of
        Inl err \<Rightarrow> fail (wrap_error ''failed to track attempt'' err)
      | Inr count \<Rightarrow> do {
          e \<leftarrow> rc_Expire rc (failedAttemptsKey userUID) (counterTTL m);
          (case e of
             Inl err \<Rightarrow> fail (wrap_error ''failed to set counter TTL'' err)
           | Inr _ \<Rightarrow>
               if count \<ge> threshold m then do {
                 l \<leftarrow> rc_Set rc (lockoutKey userUID) ''1'' (lockoutDuration m);
                 (case l of
                    Inl err \<Rightarrow> fail (wrap_error ''failed to set lockout'' err)
                  | Inr _ \<Rightarrow> fail (lock_error count)) }
               else ok ()) }) }"

definition Redis_IsLocked :: "'r redis_client \<Rightarrow> string \<Rightarrow> ('r, bool result) prog" where
  "Redis_IsLocked rc userUID = do {
     r \<leftarrow> rc_Exists rc (lockoutKey userUID);
     (case r of
        Inl err \<Rightarrow> fail (wrap_error ''failed to check lockout status'' err)
      | Inr n \<Rightarrow> ok (n > 0)) }"

definition Redis_Reset :: "'r redis_client \<Rightarrow> string \<Rightarrow> ('r, unit result) prog" where
  "Redis_Reset rc userUID = do {
     r \<leftarrow> rc_Del rc [failedAttemptsKey userUID, lockoutKey userUID];
     (case r of
        Inl err \<Rightarrow> fail (wrap_error ''failed to reset attempt tracker'' err)
      | Inr _ \<Rightarrow> ok ()) }"

definition Redis_GetLockoutRemaining :: "'r redis_client \<Rightarrow> string \<Rightarrow> ('r, duration result) prog" where
  "Redis_GetLockoutRemaining rc userUID = do {
     r \<leftarrow> rc_TTL rc (lockoutKey userUID);
     (case r of
        Inl err \<Rightarrow> fail (wrap_error ''failed to get lockout remaining'' err)
      | Inr ttl \<Rightarrow> if ttl < 0 then ok 0 else ok ttl) }"

definition NewRedisAttemptTracker :: "'r redis_client \<Rightarrow> TrackerConfig \<Rightarrow> 'r AttemptTracker" where
  "NewRedisAttemptTracker rc m =
     \<lparr>AT_Track = Redis_Track rc m, AT_IsLocked = Redis_IsLocked rc, AT_Reset = Redis_Reset rc\<rparr>"

section \<open>The memory tracker keeps the contract\<close>

lemma lock_error_inj [simp]: "lock_error a = lock_error b \<longleftrightarrow> a = b"
  by (auto simp: lock_error_def dest: FormatInt_inj)

text \<open>
  A user's lock and the failures that still count, at the time of the state.
\<close>

definition mem_locked :: "MemoryAttemptTracker \<Rightarrow> string \<Rightarrow> bool" where
  "mem_locked s u = (case mt_users s u of None \<Rightarrow> False
      | Some st \<Rightarrow> lockedUntil st \<noteq> 0 \<and> mt_now s \<le> lockedUntil st)"

definition mem_failures :: "TrackerConfig \<Rightarrow> MemoryAttemptTracker \<Rightarrow> string \<Rightarrow> nat" where
  "mem_failures m s u = (case mt_users s u of None \<Rightarrow> 0
      | Some st \<Rightarrow> if lastAttempt st \<noteq> 0 \<and> mt_now s - lastAttempt st > counterTTL m then 0 else attempts st)"

locale tracker_config =
  fixes m :: TrackerConfig
  assumes ttl_pos: "0 < counterTTL m" and lockout_pos: "0 < lockoutDuration m"
begin

sublocale memory: attempt_tracker "NewMemoryAttemptTracker m" mem_locked "mem_failures m" "threshold m"
  "\<lambda>s. 0 < mt_now s"
  using ttl_pos lockout_pos
  by unfold_locales
    (auto simp: NewMemoryAttemptTracker_def Memory_Track_def Memory_IsLocked_def Memory_Reset_def
       mem_locked_def mem_failures_def track_state_def zeroAttemptState_def Let_def
       split: option.splits if_splits)

end

text \<open>The defaults of \<open>internal/config/security.go\<close> for the login tracker and for the PIN tracker.\<close>

definition login_tracker :: TrackerConfig where
  "login_tracker = \<lparr>threshold = 5, lockoutDuration = 15 * 60 * 1000000000, counterTTL = 30 * 60 * 1000000000\<rparr>"

definition pin_tracker :: TrackerConfig where
  "pin_tracker = \<lparr>threshold = 3, lockoutDuration = 15 * 60 * 1000000000, counterTTL = 30 * 60 * 1000000000\<rparr>"

interpretation login: tracker_config login_tracker
  by unfold_locales (simp_all add: login_tracker_def)

interpretation pin: tracker_config pin_tracker
  by unfold_locales (simp_all add: pin_tracker_def)

section \<open>What the lockout guarantees\<close>

lemmas memory_tracker_defs = NewMemoryAttemptTracker_def Memory_Track_def Memory_IsLocked_def
  Memory_Reset_def track_state_def zeroAttemptState_def mem_locked_def mem_failures_def

text \<open>
  An attacker's run against one account: at each of the given times the account's lock is queried
  as \<open>authService.Authenticate\<close> does; a guess is made, and tracked as a failure, only when it is
  open. The value is the number of guesses.
\<close>

definition guarded_guess :: "TrackerConfig \<Rightarrow> string \<Rightarrow> (MemoryAttemptTracker, nat) prog" where
  "guarded_guess m u = do {
     l \<leftarrow> AT_IsLocked (NewMemoryAttemptTracker m) u;
     (if l = Inr True then ret 0
      else do { _ \<leftarrow> AT_Track (NewMemoryAttemptTracker m) u; ret 1 }) }"

fun guess_run :: "TrackerConfig \<Rightarrow> string \<Rightarrow> time list \<Rightarrow> MemoryAttemptTracker \<Rightarrow> nat" where
  "guess_run m u [] s = 0"
| "guess_run m u (t # ts) s =
     (case run_state (guarded_guess m u) (s\<lparr>mt_now := t\<rparr>) of (n, s') \<Rightarrow> n + guess_run m u ts s')"

text \<open>
  Inside a window from \<open>w\<close> to \<open>e\<close>, once a guess has been made there, the account is locked to the
  end of the window or the guess still counts; \<open>budget\<close> is the number of guesses left.
\<close>

definition in_window :: "TrackerConfig \<Rightarrow> time \<Rightarrow> time \<Rightarrow> userAttemptState \<Rightarrow> bool" where
  "in_window m w e st \<longleftrightarrow>
     lockedUntil st \<noteq> 0 \<and> e \<le> lockedUntil st \<or>
     lockedUntil st = 0 \<and> w \<le> lastAttempt st \<and> int (attempts st) < threshold m"

definition budget :: "TrackerConfig \<Rightarrow> userAttemptState \<Rightarrow> int" where
  "budget m st = (if lockedUntil st = 0 then threshold m - int (attempts st) else 0)"

definition open_state :: "userAttemptState option \<Rightarrow> userAttemptState" where
  "open_state x = (case x of None \<Rightarrow> zeroAttemptState
     | Some st \<Rightarrow> if lockedUntil st = 0 then st else st\<lparr>attempts := 0, lockedUntil := 0\<rparr>)"

lemma guarded_guess_run:
  "run_state (guarded_guess m u) s =
     (if mem_locked s u then (0, s)
      else (1, s\<lparr>mt_users := (mt_users s)(u \<mapsto> track_state m (mt_now s) (open_state (mt_users s u)))\<rparr>))"
  by (auto simp: guarded_guess_def NewMemoryAttemptTracker_def Memory_Track_def Memory_IsLocked_def
      mem_locked_def open_state_def Let_def split: option.split)

lemma open_state_unlocked [simp]: "lockedUntil (open_state x) = 0"
  by (simp add: open_state_def zeroAttemptState_def split: option.split)

lemma track_budget:
  assumes "0 < w" "w \<le> t" "t \<le> e" "e - w \<le> lockoutDuration m" "lockedUntil st = 0"
  shows "in_window m w e (track_state m t st)"
    and "1 \<le> threshold m \<Longrightarrow> 1 + budget m (track_state m t st) \<le> threshold m"
    and "e - w \<le> counterTTL m \<Longrightarrow> w \<le> lastAttempt st \<Longrightarrow> int (attempts st) < threshold m \<Longrightarrow>
           1 + budget m (track_state m t st) \<le> budget m st"
  using assms by (simp_all add: track_state_def in_window_def budget_def Let_def)

lemma guess_first:
  assumes "0 < w" "w \<le> t" "t \<le> e" "e - w \<le> lockoutDuration m" "1 \<le> threshold m"
    and "run_state (guarded_guess m u) (s\<lparr>mt_now := t\<rparr>) = (n, s')"
  shows "n = 0 \<and> s' = s\<lparr>mt_now := t\<rparr> \<or>
         (\<exists>st. n = 1 \<and> mt_users s' u = Some st \<and> in_window m w e st \<and> 1 + budget m st \<le> threshold m)"
  using assms track_budget(1,2) [OF assms(1-4) open_state_unlocked]
  by (auto simp: guarded_guess_run split: if_splits)

lemma guess_in_window:
  assumes "0 < w" "w \<le> t" "t \<le> e" "e - w \<le> lockoutDuration m" "e - w \<le> counterTTL m"
    and "mt_users s u = Some st" "in_window m w e st"
    and "run_state (guarded_guess m u) (s\<lparr>mt_now := t\<rparr>) = (n, s')"
  shows "\<exists>st'. mt_users s' u = Some st' \<and> in_window m w e st' \<and> int n + budget m st' \<le> budget m st"
proof (cases "lockedUntil st = 0")
  case True
  with assms(6,7) have "w \<le> lastAttempt st" "int (attempts st) < threshold m" "open_state (mt_users s u) = st"
    by (simp_all add: in_window_def open_state_def)
  with track_budget(1,3) [OF assms(1-4) True] assms(5,6,8) True show ?thesis
    by (auto simp: guarded_guess_run mem_locked_def)
next
  case False
  with assms show ?thesis by (auto simp: guarded_guess_run mem_locked_def in_window_def)
qed

lemma budget_nonneg: "in_window m w e st \<Longrightarrow> 0 \<le> budget m st"
  by (auto simp: in_window_def budget_def)

lemma guess_run_in_window:
  assumes "0 < w" "e - w \<le> lockoutDuration m" "e - w \<le> counterTTL m"
    and "mt_users s u = Some st" "in_window m w e st" "\<forall>t \<in> set ts. w \<le> t \<and> t \<le> e"
  shows "int (guess_run m u ts s) \<le> budget m st"
  using assms(4-)
proof (induction ts arbitrary: s st)
  case Nil
  then show ?case by (simp add: budget_nonneg)
next
  case (Cons t ts)
  obtain n s' where g: "run_state (guarded_guess m u) (s\<lparr>mt_now := t\<rparr>) = (n, s')" by fastforce
  with Cons.prems obtain st' where st': "mt_users s' u = Some st'" "in_window m w e st'"
      "int n + budget m st' \<le> budget m st"
    using guess_in_window [OF assms(1) _ _ assms(2,3) Cons.prems(1,2) g] by auto
  with Cons.IH [OF st'(1,2)] Cons.prems g show ?case by simp
qed



end
