(* ===== verification/RateLimiter.thy ===== *)
theory RateLimiter
  imports Redis
begin

text \<open>
  \<open>internal/adapter/security/rate_limiter_memory.go\<close> and \<open>rate_limiter_noop.go\<close>: the sliding
  window that limits the logins of a device address. Both methods run under the limiter's mutex;
  \<open>rl_now\<close> is what \<open>time.Now()\<close> returns. The limit is taken to be a natural number, as \<open>make\<close>
  panics on a negative capacity. Of the Redis limiter
  \<open>Reset\<close> is here; \<open>Acquire\<close> is in \<open>RedisLimiter\<close>.
\<close>

section \<open>The memory limiter\<close>

record LimiterConfig =
  rl_limit :: nat
  rl_windowSize :: duration

record MemoryRateLimiter =
  rl_keys :: "string \<Rightarrow> time list option"
  rl_now :: time

text \<open>\<open>sort.Search\<close>: the least index at which a monotone predicate holds.\<close>

function search_loop :: "(nat \<Rightarrow> bool) \<Rightarrow> nat \<Rightarrow> nat \<Rightarrow> nat" where
  "search_loop f i j =
     (if i < j
      then (let h = (i + j) div 2 in if \<not> f h then search_loop f (h + 1) j else search_loop f i h)
      else i)"
  by pat_completeness auto
termination by (relation "measure (\<lambda>(f, i, j). j - i)") auto

declare search_loop.simps [simp del]

definition sort_Search :: "nat \<Rightarrow> (nat \<Rightarrow> bool) \<Rightarrow> nat" where
  "sort_Search n f = search_loop f 0 n"

definition filterTimestamps :: "time list \<Rightarrow> time \<Rightarrow> time list" where
  "filterTimestamps timestamps windowStart =
     (let idx = sort_Search (length timestamps) (\<lambda>i. timestamps ! i > windowStart)
      in if idx = length timestamps then [] else drop idx timestamps)"

definition ip_key :: "string \<Rightarrow> string" where
  "ip_key deviceIp = ''ip:'' @ deviceIp"

definition Memory_Acquire :: "LimiterConfig \<Rightarrow> string \<Rightarrow> (MemoryRateLimiter, bool result) prog" where
  "Memory_Acquire m deviceIp = State (\<lambda>s.
     let key = ip_key deviceIp;
         timestamps = (case rl_keys s key of None \<Rightarrow> [] | Some ts \<Rightarrow> ts);
         now = rl_now s;
         cleaned = filterTimestamps timestamps (now - rl_windowSize m)
     in if length cleaned \<ge> rl_limit m
        then (Inr False, s\<lparr>rl_keys := (rl_keys s)(key \<mapsto> cleaned)\<rparr>)
        else (Inr True, s\<lparr>rl_keys := (rl_keys s)(key \<mapsto> cleaned @ [now])\<rparr>))"

definition Limiter_Memory_Reset :: "string \<Rightarrow> (MemoryRateLimiter, unit result) prog" where
  "Limiter_Memory_Reset deviceIp = State (\<lambda>s.
     (Inr (), s\<lparr>rl_keys := (rl_keys s)(ip_key deviceIp := None)\<rparr>))"

definition Limiter_Cleanup :: "LimiterConfig \<Rightarrow> MemoryRateLimiter \<Rightarrow> MemoryRateLimiter" where
  "Limiter_Cleanup m s = s\<lparr>rl_keys := (\<lambda>key.
     case rl_keys s key of
       None \<Rightarrow> None
     | Some ts \<Rightarrow>
         (let idx = sort_Search (length ts) (\<lambda>i. ts ! i > rl_now s - rl_windowSize m)
          in if idx \<ge> length ts then None else Some (drop idx ts)))\<rparr>"

definition NewMemoryRateLimiter :: "LimiterConfig \<Rightarrow> MemoryRateLimiter RateLimiter" where
  "NewMemoryRateLimiter m = \<lparr>RL_Acquire = Memory_Acquire m, RL_Reset = Limiter_Memory_Reset\<rparr>"

definition NewNoopRateLimiter :: "'s RateLimiter" where
  "NewNoopRateLimiter = \<lparr>RL_Acquire = (\<lambda>deviceIp. ok True), RL_Reset = (\<lambda>deviceIp. ok ())\<rparr>"

definition Limiter_Redis_Reset :: "'r redis_client \<Rightarrow> string \<Rightarrow> ('r, unit result) prog" where
  "Limiter_Redis_Reset rc deviceIp = do {
     r \<leftarrow> rc_Del rc [''auth:rate_limit:ip:'' @ deviceIp];
     (case r of
        Inl err \<Rightarrow> fail (Fmt (''failed to reset rate limit: '' @ Error_text err) (Some err))
      | Inr _ \<Rightarrow> ok ()) }"

section \<open>Binary search finds the first young timestamp\<close>

lemma search_loop_step:
  "\<not> i < j \<Longrightarrow> search_loop f i j = i"
  "i < j \<Longrightarrow> f ((i + j) div 2) \<Longrightarrow> search_loop f i j = search_loop f i ((i + j) div 2)"
  "i < j \<Longrightarrow> \<not> f ((i + j) div 2) \<Longrightarrow> search_loop f i j = search_loop f ((i + j) div 2 + 1) j"
  by (simp_all add: search_loop.simps [of f i j])

lemma search_loop_least:
  assumes "\<And>a b. a \<le> b \<Longrightarrow> b < n \<Longrightarrow> f a \<Longrightarrow> f b"
    and "i \<le> j" "j \<le> n" "\<forall>k < i. \<not> f k" "j < n \<longrightarrow> f j"
  shows "search_loop f i j \<le> n \<and> (\<forall>k < search_loop f i j. \<not> f k) \<and>
         (search_loop f i j < n \<longrightarrow> f (search_loop f i j))"
  using assms(2-)
proof (induction "j - i" arbitrary: i j rule: less_induct)
  case less
  show ?case
  proof (cases "i < j")
    case False
    with less show ?thesis by (simp add: search_loop_step)
  next
    case True
    define h where "h = (i + j) div 2"
    have h: "i \<le> h" "h < j" using True by (auto simp: h_def)
    show ?thesis
    proof (cases "f h")
      case True
      have eq: "search_loop f i j = search_loop f i h"
        unfolding h_def by (rule search_loop_step(2) [OF \<open>i < j\<close>]) (use True in \<open>simp add: h_def\<close>)
      show ?thesis
        unfolding eq by (rule less.hyps) (use True h less.prems in auto)
    next
      case False
      have eq: "search_loop f i j = search_loop f (h + 1) j"
        unfolding h_def by (rule search_loop_step(3) [OF \<open>i < j\<close>]) (use False in \<open>simp add: h_def\<close>)
      have "\<forall>k < h + 1. \<not> f k"
        using False assms(1) h(2) less.prems(2) by (metis Suc_eq_plus1 less_Suc_eq_le order_less_le_trans)
      then show ?thesis
        unfolding eq by (intro less.hyps) (use h less.prems in auto)
    qed
  qed
qed

lemma sort_Search_least:
  assumes "\<And>a b. a \<le> b \<Longrightarrow> b < n \<Longrightarrow> f a \<Longrightarrow> f b"
  shows "sort_Search n f \<le> n" and "k < sort_Search n f \<Longrightarrow> \<not> f k"
    and "sort_Search n f \<le> k \<Longrightarrow> k < n \<Longrightarrow> f k"
  using search_loop_least [of n f 0 n] assms by (auto simp: sort_Search_def)

text \<open>On sorted timestamps the binary search keeps exactly those inside the window.\<close>

lemma drop_search_eq_filter:
  assumes "sorted ts"
  shows "drop (sort_Search (length ts) (\<lambda>i. ts ! i > w)) ts = filter (\<lambda>t. t > w) ts"
proof -
  let ?f = "\<lambda>i. ts ! i > w" and ?n = "length ts"
  let ?k = "sort_Search ?n ?f"
  have mono: "ts ! b > w" if "a \<le> b" "b < ?n" "ts ! a > w" for a b
    using that sorted_nth_mono [OF assms, of a b] by simp
  note least = sort_Search_least [of ?n ?f, OF mono]
  have "filter (\<lambda>t. t > w) (take ?k ts) = []"
    using least(2) by (auto simp: filter_empty_conv in_set_conv_nth)
  moreover have "filter (\<lambda>t. t > w) (drop ?k ts) = drop ?k ts"
  proof (rule filter_True, rule ballI)
    fix t assume "t \<in> set (drop ?k ts)"
    then obtain i where "i < length ts - ?k" "t = ts ! (?k + i)" by (auto simp: in_set_conv_nth)
    with least(3) show "t > w" by simp
  qed
  moreover have "filter (\<lambda>t. t > w) (take ?k ts @ drop ?k ts) =
      filter (\<lambda>t. t > w) (take ?k ts) @ filter (\<lambda>t. t > w) (drop ?k ts)"
    by (rule filter_append)
  ultimately show ?thesis by simp
qed

lemma filterTimestamps_filter:
  assumes "sorted ts" shows "filterTimestamps ts w = filter (\<lambda>t. t > w) ts"
  by (simp add: drop_search_eq_filter [OF assms, of w, symmetric] filterTimestamps_def Let_def)

section \<open>The contract of the callers\<close>

text \<open>The timestamps that count for an address: those younger than the window.\<close>

definition stamps :: "MemoryRateLimiter \<Rightarrow> string \<Rightarrow> time list" where
  "stamps s ip = (case rl_keys s (ip_key ip) of None \<Rightarrow> [] | Some ts \<Rightarrow> ts)"

definition slots_used :: "LimiterConfig \<Rightarrow> MemoryRateLimiter \<Rightarrow> string \<Rightarrow> nat" where
  "slots_used m s ip = length (filter (\<lambda>t. t > rl_now s - rl_windowSize m) (stamps s ip))"

definition limiter_invar :: "MemoryRateLimiter \<Rightarrow> bool" where
  "limiter_invar s \<longleftrightarrow> (\<forall>ip. sorted (stamps s ip) \<and> (\<forall>t \<in> set (stamps s ip). t \<le> rl_now s))"

lemma ip_key_inj [simp]: "ip_key a = ip_key b \<longleftrightarrow> a = b"
  by (simp add: ip_key_def)

lemma stamps_after_acquire:
  assumes "limiter_invar s"
  shows "run_state (Memory_Acquire m ip) s =
     (let c = filter (\<lambda>t. t > rl_now s - rl_windowSize m) (stamps s ip)
      in (Inr (length c < rl_limit m),
          s\<lparr>rl_keys := (rl_keys s)(ip_key ip \<mapsto> (if length c < rl_limit m then c @ [rl_now s] else c))\<rparr>))"
proof -
  have "sorted (case rl_keys s (ip_key ip) of None \<Rightarrow> [] | Some ts \<Rightarrow> ts)"
    using assms unfolding limiter_invar_def stamps_def by blast
  from filterTimestamps_filter [OF this] show ?thesis
    by (simp add: Memory_Acquire_def Let_def stamps_def)
qed

lemma stamps_put: "stamps (s\<lparr>rl_keys := (rl_keys s)(ip_key ip \<mapsto> ts)\<rparr>) a = (if a = ip then ts else stamps s a)"
  by (simp add: stamps_def)

lemma stamps_reset: "stamps (s\<lparr>rl_keys := (rl_keys s)(ip_key ip := None)\<rparr>) a = (if a = ip then [] else stamps s a)"
  by (simp add: stamps_def)

lemma limiter_invar_put:
  assumes "limiter_invar s" "sorted ts" "\<forall>t \<in> set ts. t \<le> rl_now s"
  shows "limiter_invar (s\<lparr>rl_keys := (rl_keys s)(ip_key ip \<mapsto> ts)\<rparr>)"
  using assms by (simp add: limiter_invar_def stamps_put)

locale limiter_config =
  fixes m :: LimiterConfig
  assumes window_pos: "0 < rl_windowSize m"
begin

lemma acquire_keeps_invar:
  assumes "limiter_invar s"
  shows "limiter_invar (snd (run_state (Memory_Acquire m ip) s))"
proof -
  have "sorted (stamps s ip)" "\<forall>t \<in> set (stamps s ip). t \<le> rl_now s"
    using assms by (simp_all add: limiter_invar_def)
  then show ?thesis
    using assms
    by (auto simp: stamps_after_acquire Let_def sorted_append sorted_wrt_filter intro!: limiter_invar_put)
qed

sublocale memory: rate_limiter "NewMemoryRateLimiter m" "slots_used m" "rl_limit m" limiter_invar
proof unfold_locales
  fix s ip b s'
  assume inv: "limiter_invar s" and run: "run_state (RL_Acquire (NewMemoryRateLimiter m) ip) s = (Inr b, s')"
  from run inv show "b \<longleftrightarrow> slots_used m s ip < rl_limit m"
    by (auto simp: NewMemoryRateLimiter_def stamps_after_acquire Let_def slots_used_def)
  from run inv window_pos show "slots_used m s' ip = (if b then Suc (slots_used m s ip) else slots_used m s ip)"
    by (auto simp: NewMemoryRateLimiter_def stamps_after_acquire Let_def slots_used_def stamps_put)
next
  fix s ip and ares :: "bool result" and s'
  assume "limiter_invar s" and "run_state (RL_Acquire (NewMemoryRateLimiter m) ip) s = (ares, s')"
  then show "limiter_invar s'"
    using acquire_keeps_invar [of s ip] by (simp add: NewMemoryRateLimiter_def)
next
  fix s ip s'
  assume "limiter_invar s" and "run_state (RL_Reset (NewMemoryRateLimiter m) ip) s = (Inr (), s')"
  then show "slots_used m s' ip = 0 \<and> limiter_invar s'"
    by (auto simp: NewMemoryRateLimiter_def Limiter_Memory_Reset_def slots_used_def limiter_invar_def stamps_reset
        split: if_splits)
qed

end

text \<open>The default of \<open>internal/config/security.go\<close>: 100 logins an hour.\<close>

definition default_limiter :: LimiterConfig where
  "default_limiter = \<lparr>rl_limit = 100, rl_windowSize = 60 * 60 * 1000000000\<rparr>"

interpretation default_limiter: limiter_config default_limiter
  by unfold_locales (simp add: default_limiter_def)

section \<open>No window of the configured size ever holds more than the limit\<close>

text \<open>
  A schedule of logins, each an address and the time of its \<open>Acquire\<close>; the value is the list of
  the times at which the given address was let through.
\<close>

fun granted :: "LimiterConfig \<Rightarrow> string \<Rightarrow> (string \<times> time) list \<Rightarrow> MemoryRateLimiter \<Rightarrow> time list" where
  "granted m ip [] s = []"
| "granted m ip ((a, t) # reqs) s =
     (case run_state (RL_Acquire (NewMemoryRateLimiter m) a) (s\<lparr>rl_now := t\<rparr>) of
        (r, s') \<Rightarrow> (if a = ip \<and> r = Inr True then [t] else []) @ granted m ip reqs s')"

definition window_count :: "duration \<Rightarrow> time \<Rightarrow> time list \<Rightarrow> nat" where
  "window_count w x ts = length (filter (\<lambda>t. x - w < t \<and> t \<le> x) ts)"

text \<open>
  The grants so far, and the timestamps still stored for the address: they agree on every window
  that ends now or later.
\<close>

definition tracks :: "LimiterConfig \<Rightarrow> string \<Rightarrow> time list \<Rightarrow> MemoryRateLimiter \<Rightarrow> bool" where
  "tracks m ip G s \<longleftrightarrow>
     (\<forall>g \<in> set G. g \<le> rl_now s) \<and>
     filter (\<lambda>t. rl_now s - rl_windowSize m < t) G = filter (\<lambda>t. rl_now s - rl_windowSize m < t) (stamps s ip) \<and>
     (\<forall>x. window_count (rl_windowSize m) x G \<le> rl_limit m)"

lemma filter_filter_later:
  assumes "w \<le> w'" and "filter (\<lambda>t. w < t) xs = filter (\<lambda>t. w < t) ys"
  shows "filter (\<lambda>t. w' < (t::int)) xs = filter (\<lambda>t. w' < t) ys"
proof -
  have *: "filter (\<lambda>t. w' < t) zs = filter (\<lambda>t. w' < t) (filter (\<lambda>t. w < t) zs)" for zs
    using assms(1) by (induction zs) auto
  have "filter (\<lambda>t. w' < t) xs = filter (\<lambda>t. w' < t) (filter (\<lambda>t. w < t) xs)" by (rule *)
  also have "\<dots> = filter (\<lambda>t. w' < t) (filter (\<lambda>t. w < t) ys)" by (simp only: assms(2))
  also have "\<dots> = filter (\<lambda>t. w' < t) ys" by (rule * [symmetric])
  finally show ?thesis .
qed

lemma tracks_later:
  assumes "tracks m ip G s" "rl_now s \<le> t"
  shows "tracks m ip G (s\<lparr>rl_now := t\<rparr>)"
proof -
  have "filter (\<lambda>x. t - rl_windowSize m < x) G = filter (\<lambda>x. t - rl_windowSize m < x) (stamps s ip)"
  proof (rule filter_filter_later)
    show "rl_now s - rl_windowSize m \<le> t - rl_windowSize m" using assms(2) by simp
    show "filter (\<lambda>x. rl_now s - rl_windowSize m < x) G =
        filter (\<lambda>x. rl_now s - rl_windowSize m < x) (stamps s ip)"
      using assms(1) by (simp add: tracks_def)
  qed
  moreover have "stamps (s\<lparr>rl_now := t\<rparr>) ip = stamps s ip" by (simp add: stamps_def)
  moreover have "\<forall>g \<in> set G. g \<le> t" using assms by (auto simp: tracks_def)
  ultimately show ?thesis using assms(1) by (simp add: tracks_def)
qed

lemma window_count_snoc:
  assumes "\<forall>g \<in> set G. g \<le> now" "\<forall>x. window_count w x G \<le> l"
    and "length (filter (\<lambda>t. now - w < t) G) < l"
  shows "window_count w x (G @ [now]) \<le> l"
proof (cases "x - w < now \<and> now \<le> x")
  case True
  have "length (filter (\<lambda>t. x - w < t \<and> t \<le> x) G) \<le> length (filter (\<lambda>t. now - w < t) G)"
    using True by (induction G) auto
  with assms(3) True show ?thesis by (simp add: window_count_def)
next
  case False
  then have "window_count w x (G @ [now]) = window_count w x G" by (auto simp: window_count_def)
  with assms(2) show ?thesis by simp
qed

lemma tracks_acquire:
  assumes "limiter_invar s" "tracks m ip G s" "0 < rl_windowSize m"
    and "run_state (RL_Acquire (NewMemoryRateLimiter m) a) s = (r, s')"
  shows "tracks m ip (G @ (if a = ip \<and> r = Inr True then [rl_now s] else [])) s' \<and> rl_now s' = rl_now s"
proof -
  let ?c = "\<lambda>a. filter (\<lambda>t. rl_now s - rl_windowSize m < t) (stamps s a)"
  have s': "s' = s\<lparr>rl_keys := (rl_keys s)(ip_key a \<mapsto> (if length (?c a) < rl_limit m then ?c a @ [rl_now s] else ?c a))\<rparr>"
    and r: "r = Inr (length (?c a) < rl_limit m)"
    using assms(4) by (simp_all add: NewMemoryRateLimiter_def stamps_after_acquire [OF assms(1)] Let_def)
  have eq: "filter (\<lambda>t. rl_now s - rl_windowSize m < t) G = ?c ip"
    and le: "\<forall>g \<in> set G. g \<le> rl_now s" and cnt: "\<forall>x. window_count (rl_windowSize m) x G \<le> rl_limit m"
    using assms(2) by (simp_all add: tracks_def)
  show ?thesis
  proof (cases "a = ip \<and> length (?c a) < rl_limit m")
    case True
    then have "window_count (rl_windowSize m) x (G @ [rl_now s]) \<le> rl_limit m" for x
      by (intro window_count_snoc [OF le cnt]) (auto simp: eq)
    moreover from True have "a = ip" "length (?c ip) < rl_limit m" by auto
    ultimately show ?thesis using le eq assms(3)
      by (simp add: s' r tracks_def stamps_put)
  next
    case False
    then show ?thesis
      using le cnt eq by (auto simp: s' r tracks_def stamps_put)
  qed
qed

lemma granted_tracks:
  assumes "limiter_invar s" "tracks m ip G s" "0 < rl_windowSize m"
    and "sorted (map snd reqs)" "\<forall>q \<in> set reqs. rl_now s \<le> snd q"
  shows "window_count (rl_windowSize m) x (G @ granted m ip reqs s) \<le> rl_limit m"
  using assms(1,2,4,5)
proof (induction reqs arbitrary: s G)
  case Nil
  then show ?case by (simp add: tracks_def)
next
  case (Cons q reqs)
  obtain a t where q: "q = (a, t)" by (cases q)
  let ?s = "s\<lparr>rl_now := t\<rparr>"
  obtain r s' where run: "run_state (RL_Acquire (NewMemoryRateLimiter m) a) ?s = (r, s')" by fastforce
  have t: "rl_now s \<le> t" using Cons.prems q by simp
  have inv: "limiter_invar ?s" using Cons.prems(1) t by (fastforce simp: limiter_invar_def stamps_def)
  have "tracks m ip (G @ (if a = ip \<and> r = Inr True then [t] else [])) s' \<and> rl_now s' = t"
    using tracks_acquire [OF inv tracks_later [OF Cons.prems(2) t] assms(3) run]
    by (cases "a = ip \<and> r = Inr True") auto
  moreover have "limiter_invar s'"
    using limiter_config.acquire_keeps_invar [OF limiter_config.intro [OF assms(3)] inv, of a] run
    by (simp add: NewMemoryRateLimiter_def)
  ultimately show ?case
    using Cons.IH [of s' "G @ (if a = ip \<and> r = Inr True then [t] else [])"] Cons.prems q run by auto
qed

text \<open>
  C26: In any run of Acquire calls on the in-memory rate limiter, every window of the configured
  length holds at most limit granted requests of one address.
\<close>

theorem rate_limit_window:
  assumes "0 < rl_windowSize m" and "sorted (map snd reqs)"
  shows "window_count (rl_windowSize m) x (granted m ip reqs \<lparr>rl_keys = Map.empty, rl_now = t0\<rparr>) \<le> rl_limit m"
proof (cases reqs)
  case Nil
  then show ?thesis by (simp add: window_count_def)
next
  case (Cons q rest)
  let ?s = "\<lambda>t. \<lparr>rl_keys = Map.empty, rl_now = t\<rparr>"
  have "granted m ip reqs (?s t0) = granted m ip reqs (?s (snd q))"
    using Cons by (cases q) simp
  moreover have "limiter_invar (?s (snd q))" "tracks m ip [] (?s (snd q))"
    by (simp_all add: limiter_invar_def tracks_def stamps_def window_count_def)
  ultimately show ?thesis
    using granted_tracks [OF _ _ assms, of "?s (snd q)" ip "[]" x] assms(2) Cons by auto
qed

lemma rate_limit_window_witness:
  "window_count 10 12 (granted \<lparr>rl_limit = 2, rl_windowSize = 10\<rparr> ''a''
      [(''a'', 1), (''b'', 2), (''a'', 3), (''a'', 5), (''a'', 12)] \<lparr>rl_keys = Map.empty, rl_now = 0\<rparr>) \<le> 2"
  using rate_limit_window [of "\<lparr>rl_limit = 2, rl_windowSize = 10\<rparr>"
      "[(''a'', 1), (''b'', 2), (''a'', 3), (''a'', 5), (''a'', 12)]" 12 "''a''" 0]
  by simp

end
