(* ===== verification/Postgres.thy ===== *)
theory Postgres
  imports Ports
begin

text \<open>
  The tables behind \<open>internal/adapter/repository\<close>. PostgreSQL is outside the repository; what is
  stated here is the documented meaning of the SQL the repositories send: \<open>SELECT\<close> of the rows that
  satisfy a condition, \<open>INSERT\<close> with a generated identifier, \<open>UPDATE\<close> and \<open>DELETE\<close> of the rows that
  satisfy a condition, and the two partial unique indexes that \<open>HandlePgError\<close> names,
  \<open>idx_user_email_active\<close> and \<open>idx_user_username_active\<close>, over the users that are not deleted. The
  schema itself is not in the repository: every other reason for a statement to fail (another
  constraint, a type, a lost connection, a cancelled context) is an entry of the script
  \<open>pg_script\<close>, which may fail any statement, before or after its effect.
\<close>

section \<open>Tables and statements\<close>

datatype outcome =
    Done
  | Rejected go_error  \<comment> \<open>the statement failed and had no effect\<close>
  | Lost go_error  \<comment> \<open>the statement took effect and its answer was lost\<close>
  | Cut nat go_error  \<comment> \<open>the connection was lost after so many rows of the answer\<close>

record pgstate =
  pg_user :: "User list"
  pg_device :: "Device list"
  pg_user_device :: "UserDevice list"
  pg_user_pin :: "UserPin list"
  pg_user_profile :: "UserProfile list"
  pg_user_file :: "UserFile list"
  pg_seq :: int
  pg_now :: time
  pg_script :: "outcome list"

definition statement :: "(pgstate \<Rightarrow> 'a result \<times> pgstate) \<Rightarrow> (pgstate, 'a result) prog" where
  "statement f = State (\<lambda>s.
     (case pg_script s of
        [] \<Rightarrow> f s
      | Done # os \<Rightarrow> f (s\<lparr>pg_script := os\<rparr>)
      | Cut n e # os \<Rightarrow> f (s\<lparr>pg_script := os\<rparr>)
      | Rejected e # os \<Rightarrow> (Inl e, s\<lparr>pg_script := os\<rparr>)
      | Lost e # os \<Rightarrow> (Inl e, snd (f (s\<lparr>pg_script := os\<rparr>)))))"

text \<open>The first row of a query, as \<open>QueryRow(...).Scan\<close> returns it.\<close>

definition query_row :: "(pgstate \<Rightarrow> 'a list) \<Rightarrow> ('a \<Rightarrow> bool) \<Rightarrow> (pgstate, 'a result) prog" where
  "query_row table cond = statement (\<lambda>s.
     (case find cond (table s) of None \<Rightarrow> Inl PgxErrNoRows | Some r \<Rightarrow> Inr r, s))"

definition query_count :: "(pgstate \<Rightarrow> 'a list) \<Rightarrow> ('a \<Rightarrow> bool) \<Rightarrow> (pgstate, int result) prog" where
  "query_count table cond = statement (\<lambda>s. (Inr (int (length (filter cond (table s)))), s))"

text \<open>
  The rows of a query as \<open>rows.Next()\<close> and \<open>rows.Scan\<close> deliver them, and what \<open>rows.Err()\<close> says at the
  end of the loop: when the connection is lost in the middle, \<open>Next\<close> ends the loop as it does after
  the last row, and only \<open>Err\<close> tells the difference.
\<close>

definition query_rows :: "(pgstate \<Rightarrow> 'a list result) \<Rightarrow> (pgstate, ('a result list \<times> go_error option) result) prog" where
  "query_rows select = State (\<lambda>s.
     let rest = s\<lparr>pg_script := tl (pg_script s)\<rparr>
     in case pg_script s of
          Rejected e # os \<Rightarrow> (Inl e, rest)
        | Lost e # os \<Rightarrow> (Inl e, rest)
        | Cut n e # os \<Rightarrow> (map_sum id (\<lambda>rows. (map Inr (take n rows), Some e)) (select rest), rest)
        | _ \<Rightarrow> (map_sum id (\<lambda>rows. (map Inr rows, None)) (select rest), rest))"

text \<open>
  A page of rows. The arrangement by the text of an ORDER BY clause is the database's: it rejects
  the clause or permutes the rows. PostgreSQL rejects a negative LIMIT or OFFSET.
\<close>

definition query_page ::
  "(string \<Rightarrow> 'a list \<Rightarrow> 'a list result) \<Rightarrow> (pgstate \<Rightarrow> 'a list) \<Rightarrow> ('a \<Rightarrow> bool) \<Rightarrow> string \<Rightarrow> int \<Rightarrow> int
     \<Rightarrow> (pgstate, ('a result list \<times> go_error option) result) prog" where
  "query_page arrange table cond clause limit offset = query_rows (\<lambda>s.
     case arrange clause (filter cond (table s)) of
        Inl e \<Rightarrow> Inl e
      | Inr rows \<Rightarrow>
          if limit < 0 then Inl (PgErr ''2201W'' [])
          else if offset < 0 then Inl (PgErr ''2201X'' [])
          else Inr (take (nat limit) (drop (nat offset) rows)))"

text \<open>UPDATE and DELETE.\<close>

definition exec_map :: "(('a list \<Rightarrow> 'a list) \<Rightarrow> pgstate \<Rightarrow> pgstate) \<Rightarrow> ('a \<Rightarrow> bool) \<Rightarrow> ('a \<Rightarrow> 'a) \<Rightarrow> (pgstate, unit result) prog" where
  "exec_map upd cond f = statement (\<lambda>s. (Inr (), upd (map (\<lambda>r. if cond r then f r else r)) s))"

definition exec_delete :: "(('a list \<Rightarrow> 'a list) \<Rightarrow> pgstate \<Rightarrow> pgstate) \<Rightarrow> ('a \<Rightarrow> bool) \<Rightarrow> (pgstate, unit result) prog" where
  "exec_delete upd cond = statement (\<lambda>s. (Inr (), upd (filter (\<lambda>r. \<not> cond r)) s))"

text \<open>
  The indexes over the users that are not deleted. A statement that would store two of them with
  the same email or the same username fails with a unique violation and has no effect.
\<close>

definition live_rows :: "User list \<Rightarrow> User list" where
  "live_rows us = filter (\<lambda>u. u_DeletedAt u = None) us"

definition emails_unique :: "User list \<Rightarrow> bool" where
  "emails_unique us \<longleftrightarrow> distinct (map u_Email (live_rows us))"

definition usernames_unique :: "User list \<Rightarrow> bool" where
  "usernames_unique us \<longleftrightarrow> distinct (map u_Username (live_rows us))"

definition store_users :: "User list \<Rightarrow> 'a \<Rightarrow> pgstate \<Rightarrow> 'a result \<times> pgstate" where
  "store_users us a s =
     (if \<not> emails_unique us then (Inl (PgErr ''23505'' ''idx_user_email_active''), s)
      else if \<not> usernames_unique us then (Inl (PgErr ''23505'' ''idx_user_username_active''), s)
      else (Inr a, s\<lparr>pg_user := us\<rparr>))"

section \<open>LIKE\<close>

definition to_lower :: "char \<Rightarrow> char" where
  "to_lower c = (let n = of_char c :: nat in if 65 \<le> n \<and> n \<le> 90 then char_of (n + 32) else c)"

text \<open>
  The patterns of LIKE: \<open>%\<close> for any text, \<open>_\<close> for any character, a backslash before a literal
  character. \<open>ILIKE\<close> is modelled on the ASCII letters.
\<close>

fun like :: "string \<Rightarrow> string \<Rightarrow> bool" where
  "like [] t = (t = [])"
| "like (p # ps) t =
     (if p = CHR ''%'' then like ps t \<or> (case t of [] \<Rightarrow> False | c # cs \<Rightarrow> like (p # ps) cs)
      else if p = CHR ''_'' then (case t of [] \<Rightarrow> False | c # cs \<Rightarrow> like ps cs)
      else if p = CHR 0x5C
      then (case (ps, t) of (q # qs, c # cs) \<Rightarrow> q = c \<and> like qs cs | _ \<Rightarrow> False)
      else (case t of [] \<Rightarrow> False | c # cs \<Rightarrow> p = c \<and> like ps cs))"

definition ilike :: "string \<Rightarrow> string \<Rightarrow> bool" where
  "ilike t pat = like (map to_lower pat) (map to_lower t)"

section \<open>Reasoning about statements\<close>

text \<open>
  What a statement may do: run on the state without its script entry, or fail with a scripted
  error before or after its effect.
\<close>

lemma wp_statement:
  assumes "\<And>os. set os \<subseteq> set (pg_script s) \<Longrightarrow>
             Q (fst (f (s\<lparr>pg_script := os\<rparr>))) (snd (f (s\<lparr>pg_script := os\<rparr>)))"
    and "\<And>os e. set os \<subseteq> set (pg_script s) \<Longrightarrow> Rejected e \<in> set (pg_script s) \<Longrightarrow>
             Q (Inl e) (s\<lparr>pg_script := os\<rparr>)"
    and "\<And>os e. set os \<subseteq> set (pg_script s) \<Longrightarrow> Lost e \<in> set (pg_script s) \<Longrightarrow>
             Q (Inl e) (snd (f (s\<lparr>pg_script := os\<rparr>)))"
  shows "wp (statement f) Q s"
proof (cases "pg_script s")
  case Nil
  then have eq: "s\<lparr>pg_script := []\<rparr> = s" by simp
  show ?thesis using assms(1) [of "[]", unfolded eq] Nil by (cases "f s") (simp add: statement_def)
next
  case (Cons x os)
  then have "set os \<subseteq> set (pg_script s)" by auto
  with assms(1) [of os] assms(2) [of os] assms(3) [of os] Cons show ?thesis
    by (cases "f (s\<lparr>pg_script := os\<rparr>)"; cases x) (simp_all add: statement_def)
qed

text \<open>A query delivers the first rows of its answer, all of them unless it was cut, or fails.\<close>

lemma wp_query_rows:
  assumes "\<And>os rows n err. set os \<subseteq> set (pg_script s) \<Longrightarrow> select (s\<lparr>pg_script := os\<rparr>) = Inr rows \<Longrightarrow>
             Q (Inr (map Inr (take n rows), err)) (s\<lparr>pg_script := os\<rparr>)"
    and "\<And>os e. set os \<subseteq> set (pg_script s) \<Longrightarrow> Q (Inl e) (s\<lparr>pg_script := os\<rparr>)"
  shows "wp (query_rows select) Q s"
proof -
  let ?rest = "s\<lparr>pg_script := tl (pg_script s)\<rparr>"
  have sub: "set (tl (pg_script s)) \<subseteq> set (pg_script s)" by (cases "pg_script s") auto
  have all: "Q (Inr (map Inr rows, err)) ?rest" if "select ?rest = Inr rows" for rows err
    using assms(1) [OF sub that, of "length rows" err] by simp
  show ?thesis
    using assms(1) [OF sub] assms(2) [OF sub] all
    by (cases "select ?rest") (auto simp: query_rows_def wp_def Let_def split: list.split outcome.split)
qed

text \<open>Statements on a state whose script is empty.\<close>

lemma run_statement_Nil [simp]: "pg_script s = [] \<Longrightarrow> run_state (statement f) s = f s"
  by (simp add: statement_def)

lemma run_query_rows_Nil [simp]:
  "pg_script s = [] \<Longrightarrow> run_state (query_rows select) s = (map_sum id (\<lambda>rows. (map Inr rows, None)) (select s), s)"
  by (cases s) (simp add: query_rows_def Let_def)

end
