(* ===== verification/Repositories.thy ===== *)
theory Repositories
  imports Postgres
begin

text \<open>
  \<open>internal/adapter/repository\<close>: the repositories of users, devices, user-devices, PINs, profiles
  and files on PostgreSQL. Spans and log lines are not modelled. \<open>pg_engine\<close> holds what the
  database decides: the arrangement of rows by an ORDER BY clause and the canonical text of an
  \<open>inet\<close> value.
\<close>

record pg_engine =
  order_users :: "string \<Rightarrow> User list \<Rightarrow> User list result"
  order_devices :: "string \<Rightarrow> Device list \<Rightarrow> Device list result"
  order_user_devices :: "string \<Rightarrow> UserDevice list \<Rightarrow> UserDevice list result"
  order_user_pins :: "string \<Rightarrow> UserPin list \<Rightarrow> UserPin list result"
  order_user_profiles :: "string \<Rightarrow> UserProfile list \<Rightarrow> UserProfile list result"
  order_user_files :: "string \<Rightarrow> UserFile list \<Rightarrow> UserFile list result"
  inet_text :: "string \<Rightarrow> string option" \<comment> \<open>None: the text is no address\<close>

section \<open>helper.go\<close>

definition ErrCodeValidation :: int where "ErrCodeValidation = 10009"

definition validateOrderBy :: "PaginationParam option \<Rightarrow> string \<Rightarrow> string list \<Rightarrow> string result" where
  "validateOrderBy pagination defaultOrderBy allowedOrderBy =
     (case pagination of
        None \<Rightarrow> Inr defaultOrderBy
      | Some p \<Rightarrow>
          (case p_OrderBy p of
             None \<Rightarrow> Inr defaultOrderBy
           | Some o' \<Rightarrow>
               if o' = [] then Inr defaultOrderBy
               else if o' \<in> set allowedOrderBy then Inr o'
               else Inl (NewCustomError ErrCodeValidation ''validation error''
                      [(''order_by'', [''invalid order by: '' @ o'])])))"

text \<open>
  The total number of pages, on 64-bit integers: the sum wraps around, the division truncates
  towards zero.
\<close>

definition wrap64 :: "int \<Rightarrow> int" where
  "wrap64 i = (i + 2 ^ 63) mod 2 ^ 64 - 2 ^ 63"

definition quot :: "int \<Rightarrow> int \<Rightarrow> int" where
  "quot a b = sgn a * sgn b * (\<bar>a\<bar> div \<bar>b\<bar>)"

definition calcTotalPages :: "int \<Rightarrow> int \<Rightarrow> int" where
  "calcTotalPages n limit =
     (if n \<le> 0 \<or> limit \<le> 0 then 1 else quot (wrap64 (n + limit - 1)) limit)"

definition buildMeta :: "int \<Rightarrow> int \<Rightarrow> int \<Rightarrow> Meta" where
  "buildMeta n page limit =
     \<lparr>m_Page = page, m_Limit = limit, m_Total = n, m_Pages = calcTotalPages n limit\<rparr>"

text \<open>\<open>errors.As\<close> to a \<open>*pgconn.PgError\<close>: the first one of the unwrap chain.\<close>

fun as_pg_error :: "go_error \<Rightarrow> (string \<times> string) option" where
  "as_pg_error (PgErr code cn) = Some (code, cn)"
| "as_pg_error (CustomError c m es (Some e)) = as_pg_error e"
| "as_pg_error (Fmt s (Some e)) = as_pg_error e"
| "as_pg_error _ = None"

definition HandlePgError :: "go_error \<Rightarrow> go_error" where
  "HandlePgError err =
     (case as_pg_error err of
        Some (code, cn) \<Rightarrow>
          if code = ''23505'' then
            (if cn = ''idx_user_email_active'' then ErrDuplicateEmail
             else if cn = ''idx_user_username_active'' then ErrDuplicateUsername
             else ErrResourceConflict)
          else err
      | None \<Rightarrow> err)"

text \<open>The limit, offset and page of a listing, and the text of its ORDER BY clause.\<close>

definition page_bounds :: "PaginationParam option \<Rightarrow> int \<times> int \<times> int" where
  "page_bounds pagination =
     (case pagination of
        None \<Rightarrow> (10, 0, 1)
      | Some p \<Rightarrow>
          (let limit = (case p_Limit p of None \<Rightarrow> 10 | Some l \<Rightarrow> l)
           in case p_Page p of
                None \<Rightarrow> (limit, 0, 1)
              | Some page \<Rightarrow> (limit, wrap64 ((page - 1) * limit), page)))"

definition order_clause :: "PaginationParam option \<Rightarrow> string \<Rightarrow> string" where
  "order_clause pagination orderByValue =
     (case pagination of
        Some p \<Rightarrow> (case p_Sort p of
            Some dir \<Rightarrow> if dir \<noteq> [] then orderByValue @ '' '' @ dir else orderByValue @ '' DESC''
          | None \<Rightarrow> orderByValue @ '' DESC'')
      | None \<Rightarrow> orderByValue @ '' DESC'')"

text \<open>
  The loop over the rows of a query, as the repositories write it: a row that cannot be scanned ends
  it. \<open>scanRows\<close> does not ask \<open>rows.Err()\<close>.
\<close>

fun scanRows :: "'a result list \<Rightarrow> 'a list result" where
  "scanRows [] = Inr []"
| "scanRows (Inl err # rows) = Inl err"
| "scanRows (Inr m # rows) = (case scanRows rows of Inl err \<Rightarrow> Inl err | Inr ms \<Rightarrow> Inr (m # ms))"

lemma scanRows_Inr [simp]: "scanRows (map Inr ms) = Inr ms"
  by (induction ms) simp_all

text \<open>
  The body every \<open>List\<close> shares: count the matching rows, validate the column to order by, fetch the
  page.
\<close>

definition list_rows ::
  "(string \<Rightarrow> 'a list \<Rightarrow> 'a list result) \<Rightarrow> (pgstate \<Rightarrow> 'a list) \<Rightarrow> ('a \<Rightarrow> bool) \<Rightarrow> string list \<Rightarrow> string
     \<Rightarrow> PaginationParam option \<Rightarrow> (pgstate, 'a page result) prog" where
  "list_rows arrange table cond allowed alias pagination =
     (case page_bounds pagination of (limit, offset, page) \<Rightarrow>
        call (query_count table cond) (\<lambda>n.
        case validateOrderBy pagination ''created_at'' allowed of
          Inl err \<Rightarrow> fail err
        | Inr orderByValue \<Rightarrow>
            call (query_page arrange table cond (order_clause pagination (alias @ orderByValue)) limit offset) (\<lambda>(rows, rowsErr).
            case scanRows rows of
              Inl err \<Rightarrow> fail err
            | Inr items \<Rightarrow> ok \<lparr>Items = items, Meta = buildMeta n page limit\<rparr>)))"

text \<open>\<open>scanUser\<close> and its siblings: no row is the sentinel of the repository.\<close>

definition scan_or :: "go_error \<Rightarrow> (pgstate, 'a result) prog \<Rightarrow> (pgstate, 'a result) prog" where
  "scan_or notFound q = do {
     r \<leftarrow> q;
     (case r of
        Inl err \<Rightarrow> if err = PgxErrNoRows then fail notFound else fail err
      | Inr m \<Rightarrow> ok m) }"

definition scanUser :: "(pgstate, User result) prog \<Rightarrow> (pgstate, User result) prog" where
  "scanUser = scan_or ErrUserNotFound"

definition scanDevice :: "(pgstate, Device result) prog \<Rightarrow> (pgstate, Device result) prog" where
  "scanDevice = scan_or ErrDeviceNotFound"

definition scanUserDevice :: "(pgstate, UserDevice result) prog \<Rightarrow> (pgstate, UserDevice result) prog" where
  "scanUserDevice = scan_or ErrUserDeviceNotFound"

definition scanFile :: "(pgstate, UserFile result) prog \<Rightarrow> (pgstate, UserFile result) prog" where
  "scanFile = scan_or ErrFileNotFound"

definition scanProfile :: "(pgstate, UserProfile result) prog \<Rightarrow> (pgstate, UserProfile result) prog" where
  "scanProfile q = do {
     r \<leftarrow> q;
     (case r of
        Inl err \<Rightarrow> if err = PgxErrNoRows then fail ErrProfileNotFound
                    else fail (Fmt (''failed to scan profile: '' @ Error_text err) (Some err))
      | Inr m \<Rightarrow> ok m) }"

lemmas scan_defs = scanUser_def scanDevice_def scanUserDevice_def scanFile_def

section \<open>user.go\<close>

definition allowedOrderByUser :: "string list" where
  "allowedOrderByUser = [''id'', ''uid'', ''username'', ''email'', ''status'', ''created_at'', ''updated_at'']"

definition UserRepository_Create :: "User \<Rightarrow> (pgstate, User result) prog" where
  "UserRepository_Create user = do {
     r \<leftarrow> statement (\<lambda>s.
       let row = user\<lparr>u_ID := pg_seq s, u_CreatedAt := pg_now s, u_UpdatedAt := pg_now s, u_DeletedAt := None\<rparr>
       in store_users (pg_user s @ [row]) (u_ID row, u_CreatedAt row, u_UpdatedAt row) (s\<lparr>pg_seq := pg_seq s + 1\<rparr>));
     (case r of
        Inl err \<Rightarrow> fail (HandlePgError err)
      | Inr (i, createdAt, updatedAt) \<Rightarrow>
          ok (user\<lparr>u_ID := i, u_CreatedAt := createdAt, u_UpdatedAt := updatedAt\<rparr>)) }"

definition UserRepository_GetByID :: "int \<Rightarrow> (pgstate, User result) prog" where
  "UserRepository_GetByID i =
     scanUser (query_row pg_user (\<lambda>u. u_ID u = i \<and> u_DeletedAt u = None))"

definition UserRepository_GetByUID :: "string \<Rightarrow> (pgstate, User result) prog" where
  "UserRepository_GetByUID uid =
     scanUser (query_row pg_user (\<lambda>u. u_UID u = uid \<and> u_DeletedAt u = None))"

definition UserRepository_GetByEmail :: "string \<Rightarrow> (pgstate, User result) prog" where
  "UserRepository_GetByEmail email =
     scanUser (query_row pg_user (\<lambda>u. u_Email u = email \<and> u_DeletedAt u = None))"

definition UserRepository_GetByUsername :: "string \<Rightarrow> (pgstate, User result) prog" where
  "UserRepository_GetByUsername username =
     scanUser (query_row pg_user (\<lambda>u. u_Username u = username \<and> u_DeletedAt u = None))"

definition UserRepository_Update :: "User \<Rightarrow> (pgstate, unit result) prog" where
  "UserRepository_Update user = statement (\<lambda>s.
     store_users (map (\<lambda>u. if u_ID u = u_ID user
        then u\<lparr>u_Username := u_Username user, u_Email := u_Email user, u_Password := u_Password user,
               u_Status := u_Status user, u_UpdatedAt := u_UpdatedAt user\<rparr>
        else u) (pg_user s)) () s)"

definition UserRepository_Delete :: "User \<Rightarrow> (pgstate, unit result) prog" where
  "UserRepository_Delete user = statement (\<lambda>s.
     store_users (map (\<lambda>u. if u_ID u = u_ID user then u\<lparr>u_DeletedAt := Some (pg_now s)\<rparr> else u) (pg_user s)) () s)"

definition user_filter :: "UserListFilterParam option \<Rightarrow> User \<Rightarrow> bool" where
  "user_filter flt u \<longleftrightarrow>
     (case flt of
        None \<Rightarrow> True
      | Some f \<Rightarrow>
          (ul_Uids f \<noteq> [] \<longrightarrow> u_UID u \<in> set (ul_Uids f)) \<and>
          (case ul_Username f of None \<Rightarrow> True | Some v \<Rightarrow> u_Username u = v) \<and>
          (case ul_Email f of None \<Rightarrow> True | Some v \<Rightarrow> u_Email u = v) \<and>
          (case ul_Query f of None \<Rightarrow> True
           | Some q \<Rightarrow> ilike (u_Username u) (''%'' @ q @ ''%'') \<or> ilike (u_Email u) (''%'' @ q @ ''%'')))
     \<and> u_DeletedAt u = None"

definition UserRepository_List ::
  "pg_engine \<Rightarrow> PaginationParam option \<Rightarrow> UserListFilterParam option \<Rightarrow> (pgstate, User page result) prog" where
  "UserRepository_List db pagination flt =
     list_rows (order_users db) pg_user (user_filter flt) allowedOrderByUser [] pagination"

definition NewUserRepository :: "pg_engine \<Rightarrow> pgstate UserRepository" where
  "NewUserRepository db =
     \<lparr>UR_Create = UserRepository_Create, UR_Update = UserRepository_Update, UR_Delete = UserRepository_Delete,
      UR_GetByID = UserRepository_GetByID, UR_GetByUID = UserRepository_GetByUID,
      UR_GetByUsername = UserRepository_GetByUsername, UR_GetByEmail = UserRepository_GetByEmail,
      UR_List = UserRepository_List db\<rparr>"

section \<open>device.go\<close>

definition allowedOrderByDevice :: "string list" where
  "allowedOrderByDevice = [''id'', ''uid'', ''device_fingerprint'', ''device_name'', ''created_at'']"

definition DeviceRepository_GetByID :: "int \<Rightarrow> (pgstate, Device result) prog" where
  "DeviceRepository_GetByID i = scanDevice (query_row pg_device (\<lambda>d. d_ID d = i))"

definition DeviceRepository_GetByUID :: "string \<Rightarrow> (pgstate, Device result) prog" where
  "DeviceRepository_GetByUID uid = scanDevice (query_row pg_device (\<lambda>d. d_UID d = uid))"

definition DeviceRepository_GetByFingerprint :: "string \<Rightarrow> (pgstate, Device result) prog" where
  "DeviceRepository_GetByFingerprint fingerprint =
     scanDevice (query_row pg_device (\<lambda>d. d_DeviceFingerprint d = fingerprint))"

text \<open>\<open>Create\<close> returns the device it was given, with the new identifier when there is one, and the error.\<close>

definition DeviceRepository_Create :: "Device \<Rightarrow> (pgstate, Device option \<times> go_error option) prog" where
  "DeviceRepository_Create device = do {
     r \<leftarrow> statement (\<lambda>s. (Inr (pg_seq s),
            s\<lparr>pg_device := pg_device s @ [device\<lparr>d_ID := pg_seq s\<rparr>], pg_seq := pg_seq s + 1\<rparr>));
     (case r of
        Inl err \<Rightarrow> ret (Some device, Some err)
      | Inr i \<Rightarrow> ret (Some (device\<lparr>d_ID := i\<rparr>), None)) }"

definition DeviceRepository_Update :: "Device \<Rightarrow> (pgstate, unit result) prog" where
  "DeviceRepository_Update device =
     exec_map pg_device_update (\<lambda>d. d_ID d = d_ID device) (\<lambda>d. d\<lparr>d_DeviceName := d_DeviceName device\<rparr>)"

definition DeviceRepository_Delete :: "Device \<Rightarrow> (pgstate, unit result) prog" where
  "DeviceRepository_Delete device = exec_delete pg_device_update (\<lambda>d. d_ID d = d_ID device)"

definition device_filter :: "DeviceListFilterParam option \<Rightarrow> Device \<Rightarrow> bool" where
  "device_filter flt d \<longleftrightarrow>
     (case flt of
        None \<Rightarrow> True
      | Some f \<Rightarrow>
          (dl_Uids f \<noteq> [] \<longrightarrow> d_UID d \<in> set (dl_Uids f)) \<and>
          (case dl_DeviceName f of None \<Rightarrow> True | Some v \<Rightarrow> d_DeviceName d = v))"

definition DeviceRepository_List ::
  "pg_engine \<Rightarrow> PaginationParam option \<Rightarrow> DeviceListFilterParam option \<Rightarrow> (pgstate, Device page result) prog" where
  "DeviceRepository_List db pagination flt =
     list_rows (order_devices db) pg_device (device_filter flt) allowedOrderByDevice [] pagination"

text \<open>The join of the devices with the user's user-devices that are not revoked.\<close>

definition user_device_rows :: "int \<Rightarrow> pgstate \<Rightarrow> Device list" where
  "user_device_rows userID s =
     concat (map (\<lambda>d. map (\<lambda>_. d) (filter (\<lambda>ud. ud_DeviceID ud = d_ID d \<and> ud_UserID ud = userID \<and> ud_RevokedAt ud = None)
       (pg_user_device s))) (pg_device s))"

definition DeviceRepository_ListByUserID ::
  "pg_engine \<Rightarrow> int \<Rightarrow> PaginationParam option \<Rightarrow> DeviceListFilterParam option \<Rightarrow> (pgstate, Device page result) prog" where
  "DeviceRepository_ListByUserID db userID pagination flt =
     list_rows (order_devices db) (user_device_rows userID) (device_filter flt) allowedOrderByDevice ''d.'' pagination"

definition NewDeviceRepository :: "pg_engine \<Rightarrow> pgstate DeviceRepository" where
  "NewDeviceRepository db =
     \<lparr>DR_Create = DeviceRepository_Create, DR_Update = DeviceRepository_Update, DR_Delete = DeviceRepository_Delete,
      DR_GetByID = DeviceRepository_GetByID, DR_GetByUID = DeviceRepository_GetByUID,
      DR_GetByFingerprint = DeviceRepository_GetByFingerprint, DR_List = DeviceRepository_List db,
      DR_ListByUserID = DeviceRepository_ListByUserID db\<rparr>"

section \<open>user_device.go\<close>

definition allowedOrderByUserDevice :: "string list" where
  "allowedOrderByUserDevice = [''id'', ''user_id'', ''device_id'', ''last_active_at'', ''created_at'']"

text \<open>
  The column \<open>ip_address\<close> has type \<open>inet\<close>: what a row holds is the canonical text of the address,
  and a text that is no address is rejected. Rows have no UIDs of their user and device.
\<close>

definition UserDeviceRepository_GetByUserIDAndDeviceID :: "int \<Rightarrow> int \<Rightarrow> (pgstate, UserDevice result) prog" where
  "UserDeviceRepository_GetByUserIDAndDeviceID userID deviceID =
     scanUserDevice
       (query_row pg_user_device (\<lambda>ud. ud_UserID ud = userID \<and> ud_DeviceID ud = deviceID))"

definition inet_error :: go_error where "inet_error = PgErr ''22P02'' []"

definition UserDeviceRepository_Create ::
  "pg_engine \<Rightarrow> UserDevice \<Rightarrow> (pgstate, UserDevice option \<times> go_error option) prog" where
  "UserDeviceRepository_Create db ud = do {
     r \<leftarrow> statement (\<lambda>s.
       (case inet_text db (if ud_IPAddress ud = [] then ''0.0.0.0'' else ud_IPAddress ud) of
          None \<Rightarrow> (Inl inet_error, s)
        | Some ip \<Rightarrow> (Inr (), s\<lparr>pg_user_device := pg_user_device s @
            [ud\<lparr>ud_UserUID := [], ud_DeviceUID := [], ud_IPAddress := ip, ud_RevokedAt := None, ud_Device := None\<rparr>]\<rparr>)));
     (case r of
        Inl err \<Rightarrow> ret (Some ud, Some err)
      | Inr _ \<Rightarrow> ret (Some ud, None)) }"

definition UserDeviceRepository_Update :: "pg_engine \<Rightarrow> UserDevice \<Rightarrow> (pgstate, unit result) prog" where
  "UserDeviceRepository_Update db ud =
     (if ud_IPAddress ud = []
      then exec_map pg_user_device_update (\<lambda>r. ud_UserID r = ud_UserID ud \<and> ud_DeviceID r = ud_DeviceID ud)
             (\<lambda>r. r\<lparr>ud_LastActiveAt := ud_LastActiveAt ud\<rparr>)
      else (case inet_text db (ud_IPAddress ud) of
          None \<Rightarrow> statement (\<lambda>s. (Inl inet_error, s))
        | Some ip \<Rightarrow>
            exec_map pg_user_device_update (\<lambda>r. ud_UserID r = ud_UserID ud \<and> ud_DeviceID r = ud_DeviceID ud)
              (\<lambda>r. r\<lparr>ud_IPAddress := ip, ud_LastActiveAt := ud_LastActiveAt ud\<rparr>)))"

definition UserDeviceRepository_UpdateSessionID :: "int \<Rightarrow> int \<Rightarrow> string \<Rightarrow> (pgstate, unit result) prog" where
  "UserDeviceRepository_UpdateSessionID userID deviceID sessionID =
     exec_map pg_user_device_update (\<lambda>r. ud_UserID r = userID \<and> ud_DeviceID r = deviceID)
       (\<lambda>r. r\<lparr>ud_SessionID := sessionID\<rparr>)"

definition UserDeviceRepository_Delete :: "UserDevice \<Rightarrow> (pgstate, unit result) prog" where
  "UserDeviceRepository_Delete ud =
     exec_delete pg_user_device_update (\<lambda>r. ud_UserID r = ud_UserID ud \<and> ud_DeviceID r = ud_DeviceID ud)"

definition UserDeviceRepository_Revoke :: "int \<Rightarrow> int \<Rightarrow> (pgstate, unit result) prog" where
  "UserDeviceRepository_Revoke userID deviceID = statement (\<lambda>s. (Inr (),
     s\<lparr>pg_user_device := map (\<lambda>r. if ud_UserID r = userID \<and> ud_DeviceID r = deviceID
                                   then r\<lparr>ud_RevokedAt := Some (pg_now s)\<rparr> else r) (pg_user_device s)\<rparr>))"

text \<open>\<open>List\<close> ignores its filter.\<close>

definition UserDeviceRepository_List ::
  "pg_engine \<Rightarrow> PaginationParam option \<Rightarrow> UserDeviceListFilterParam option \<Rightarrow> (pgstate, UserDevice page result) prog" where
  "UserDeviceRepository_List db pagination flt =
     list_rows (order_user_devices db) pg_user_device (\<lambda>_. True) allowedOrderByUserDevice [] pagination"

definition NewUserDeviceRepository :: "pg_engine \<Rightarrow> pgstate UserDeviceRepository" where
  "NewUserDeviceRepository db =
     \<lparr>UDR_Create = UserDeviceRepository_Create db, UDR_Update = UserDeviceRepository_Update db,
      UDR_UpdateSessionID = UserDeviceRepository_UpdateSessionID, UDR_Delete = UserDeviceRepository_Delete,
      UDR_GetByUserIDAndDeviceID = UserDeviceRepository_GetByUserIDAndDeviceID,
      UDR_List = UserDeviceRepository_List db, UDR_Revoke = UserDeviceRepository_Revoke\<rparr>"

section \<open>user_pin.go\<close>

definition allowedOrderByUserPin :: "string list" where
  "allowedOrderByUserPin = [''user_id'', ''created_at'', ''updated_at'']"

text \<open>The join of \<open>user_pin\<close> with \<open>user\<close> that gives a PIN its user's UID.\<close>

definition pin_rows :: "pgstate \<Rightarrow> UserPin list" where
  "pin_rows s = concat (map (\<lambda>p. map (\<lambda>u. p\<lparr>pin_UserUID := u_UID u\<rparr>)
      (filter (\<lambda>u. u_ID u = pin_UserID p) (pg_user s))) (pg_user_pin s))"

definition PinRepository_GetByUserID :: "int \<Rightarrow> (pgstate, UserPin result) prog" where
  "PinRepository_GetByUserID userID = scan_or ErrPinNotSet (query_row pin_rows (\<lambda>p. pin_UserID p = userID))"

definition PinRepository_Create :: "UserPin \<Rightarrow> (pgstate, UserPin result) prog" where
  "PinRepository_Create pin =
     call (statement (\<lambda>s. (Inr (), s\<lparr>pg_user_pin := pg_user_pin s @ [pin\<lparr>pin_UserUID := []\<rparr>]\<rparr>))) (\<lambda>_. ok pin)"

definition PinRepository_Update :: "UserPin \<Rightarrow> (pgstate, unit result) prog" where
  "PinRepository_Update pin =
     exec_map pg_user_pin_update (\<lambda>p. pin_UserID p = pin_UserID pin)
       (\<lambda>p. p\<lparr>pin_Code := pin_Code pin, pin_UpdatedAt := pin_UpdatedAt pin\<rparr>)"

definition PinRepository_Delete :: "UserPin \<Rightarrow> (pgstate, unit result) prog" where
  "PinRepository_Delete pin = exec_delete pg_user_pin_update (\<lambda>p. pin_UserID p = pin_UserID pin)"

definition PinRepository_List :: "pg_engine \<Rightarrow> PaginationParam option \<Rightarrow> (pgstate, UserPin page result) prog" where
  "PinRepository_List db pagination =
     list_rows (order_user_pins db) pg_user_pin (\<lambda>_. True) allowedOrderByUserPin [] pagination"

definition NewPinRepository :: "pgstate UserPinRepository" where
  "NewPinRepository =
     \<lparr>PR_Create = PinRepository_Create, PR_Update = PinRepository_Update, PR_Delete = PinRepository_Delete,
      PR_GetByUserID = PinRepository_GetByUserID\<rparr>"

section \<open>user_profile.go\<close>

definition allowedOrderByUserProfile :: "string list" where
  "allowedOrderByUserProfile = [''user_id'', ''created_at'', ''updated_at'']"

text \<open>A row of \<open>user_profile\<close> has no UID, and \<open>scanProfile\<close> leaves \<open>UserUID\<close> empty.\<close>

definition ProfileRepository_GetByUserID :: "int \<Rightarrow> (pgstate, UserProfile result) prog" where
  "ProfileRepository_GetByUserID userID = scanProfile (query_row pg_user_profile (\<lambda>p. pr_UserID p = userID))"

definition ProfileRepository_Create :: "UserProfile \<Rightarrow> (pgstate, UserProfile result) prog" where
  "ProfileRepository_Create profile =
     call (statement (\<lambda>s. (Inr (), s\<lparr>pg_user_profile := pg_user_profile s @ [profile\<lparr>pr_UserUID := []\<rparr>]\<rparr>)))
       (\<lambda>_. ok profile)"

definition ProfileRepository_Update :: "UserProfile \<Rightarrow> (pgstate, unit result) prog" where
  "ProfileRepository_Update profile =
     exec_map pg_user_profile_update (\<lambda>p. pr_UserID p = pr_UserID profile)
       (\<lambda>p. p\<lparr>pr_FirstName := pr_FirstName profile, pr_LastName := pr_LastName profile, pr_Bio := pr_Bio profile,
              pr_AvatarFileID := pr_AvatarFileID profile, pr_Attributes := pr_Attributes profile,
              pr_UpdatedAt := pr_UpdatedAt profile\<rparr>)"

definition ProfileRepository_Delete :: "UserProfile \<Rightarrow> (pgstate, unit result) prog" where
  "ProfileRepository_Delete profile = exec_delete pg_user_profile_update (\<lambda>p. pr_UserID p = pr_UserID profile)"

definition ProfileRepository_List :: "pg_engine \<Rightarrow> PaginationParam option \<Rightarrow> (pgstate, UserProfile page result) prog" where
  "ProfileRepository_List db pagination =
     list_rows (order_user_profiles db) pg_user_profile (\<lambda>_. True) allowedOrderByUserProfile [] pagination"

definition NewProfileRepository :: "pgstate UserProfileRepository" where
  "NewProfileRepository =
     \<lparr>PFR_Create = ProfileRepository_Create, PFR_Update = ProfileRepository_Update,
      PFR_Delete = ProfileRepository_Delete, PFR_GetByUserID = ProfileRepository_GetByUserID\<rparr>"

section \<open>user_file.go\<close>

definition allowedOrderByUserFile :: "string list" where
  "allowedOrderByUserFile = [''id'', ''uid'', ''user_id'', ''file_type'', ''file_name'', ''created_at'']"

definition UserFileRepository_GetByID :: "int \<Rightarrow> (pgstate, UserFile result) prog" where
  "UserFileRepository_GetByID i = scanFile (query_row pg_user_file (\<lambda>f. f_ID f = i))"

definition UserFileRepository_GetByUID :: "string \<Rightarrow> (pgstate, UserFile result) prog" where
  "UserFileRepository_GetByUID uid = scanFile (query_row pg_user_file (\<lambda>f. f_UID f = uid))"

definition UserFileRepository_Create :: "UserFile \<Rightarrow> (pgstate, UserFile result) prog" where
  "UserFileRepository_Create file =
     call (statement (\<lambda>s. (Inr (pg_seq s),
        s\<lparr>pg_user_file := pg_user_file s @ [file\<lparr>f_ID := pg_seq s, f_UserUID := []\<rparr>], pg_seq := pg_seq s + 1\<rparr>)))
       (\<lambda>i. ok (file\<lparr>f_ID := i\<rparr>))"

definition UserFileRepository_Update :: "UserFile \<Rightarrow> (pgstate, unit result) prog" where
  "UserFileRepository_Update file =
     exec_map pg_user_file_update (\<lambda>f. f_ID f = f_ID file)
       (\<lambda>f. f\<lparr>f_FileType := f_FileType file, f_FileName := f_FileName file, f_FilePath := f_FilePath file,
              f_MimeType := f_MimeType file, f_SizeBytes := f_SizeBytes file, f_Visibility := f_Visibility file\<rparr>)"

definition UserFileRepository_Delete :: "UserFile \<Rightarrow> (pgstate, unit result) prog" where
  "UserFileRepository_Delete file = exec_delete pg_user_file_update (\<lambda>f. f_ID f = f_ID file)"

text \<open>
  The filter by user UIDs is resolved to user identifiers by a query of its own first, the one loop that
  asks \<open>rows.Err()\<close>.
\<close>

definition user_ids :: "string list \<Rightarrow> (pgstate, int list result) prog" where
  "user_ids uids =
     call (query_rows (\<lambda>s. Inr (map u_ID (filter (\<lambda>u. u_UID u \<in> set uids) (pg_user s))))) (\<lambda>(rows, rowsErr).
     case scanRows rows of
       Inl err \<Rightarrow> fail err
     | Inr userIDs \<Rightarrow> (case rowsErr of Some err \<Rightarrow> fail err | None \<Rightarrow> ok userIDs))"

definition file_filter :: "UserFileListFilterParam option \<Rightarrow> int list option \<Rightarrow> UserFile \<Rightarrow> bool" where
  "file_filter flt owners f \<longleftrightarrow>
     (case flt of
        None \<Rightarrow> True
      | Some p \<Rightarrow>
          (fl_Uids p \<noteq> [] \<longrightarrow> f_UID f \<in> set (fl_Uids p)) \<and>
          (case owners of None \<Rightarrow> True | Some ids \<Rightarrow> f_UserID f \<in> set ids) \<and>
          (case fl_FileType p of None \<Rightarrow> True | Some v \<Rightarrow> f_FileType f = v) \<and>
          (case fl_Visibility p of None \<Rightarrow> True | Some v \<Rightarrow> f_Visibility f = v))"

definition UserFileRepository_List ::
  "pg_engine \<Rightarrow> PaginationParam option \<Rightarrow> UserFileListFilterParam option \<Rightarrow> (pgstate, UserFile page result) prog" where
  "UserFileRepository_List db pagination flt =
     (let page = (\<lambda>owners. list_rows (order_user_files db) pg_user_file (file_filter flt owners)
                    allowedOrderByUserFile [] pagination)
      in case flt of
           None \<Rightarrow> page None
         | Some p \<Rightarrow>
             if fl_UserUid p = [] then page None
             else call (user_ids (fl_UserUid p)) (\<lambda>userIDs.
                  if userIDs = [] then fail ErrUserNotFound else page (Some userIDs)))"

definition NewUserFileRepository :: "pg_engine \<Rightarrow> pgstate UserFileRepository" where
  "NewUserFileRepository db =
     \<lparr>FR_Create = UserFileRepository_Create, FR_Update = UserFileRepository_Update,
      FR_Delete = UserFileRepository_Delete, FR_GetByID = UserFileRepository_GetByID,
      FR_GetByUID = UserFileRepository_GetByUID, FR_List = UserFileRepository_List db\<rparr>"

end
