(* ===== verification/Resolver.thy ===== *)
theory Resolver
  imports Repositories Redis
begin

text \<open>
  \<open>internal/adapter/resolver\<close>: the translation between internal identifiers and public UIDs, cached
  in Redis. \<open>helper.go\<close> is generic in the key and in the value; its Redis client and its database
  query are programs over one state \<open>'s\<close>. The goroutines that fetch the missing keys run one after
  the other here, in the order of the keys; the error returned is the first of them.
\<close>

section \<open>helper.go\<close>

text \<open>The cached values, and the keys that are not in the cache. A key whose GET failed is in neither.\<close>

fun cache_hits :: "(string \<Rightarrow> 'v) \<Rightarrow> 'k list \<Rightarrow> string option result list \<Rightarrow> ('k \<rightharpoonup> 'v) \<Rightarrow> ('k \<rightharpoonup> 'v) \<times> 'k list" where
  "cache_hits convert (k # ks) (Inr (Some v) # rs) results = cache_hits convert ks rs (results(k \<mapsto> convert v))"
| "cache_hits convert (k # ks) (Inr None # rs) results =
     (case cache_hits convert ks rs results of (m, uncached) \<Rightarrow> (m, k # uncached))"
| "cache_hits convert (k # ks) (Inl e # rs) results = cache_hits convert ks rs results"
| "cache_hits convert _ _ results = (results, [])"

text \<open>The goroutines: fetch a key, cache it whether or not the cache accepts it, record it.\<close>

fun fetch_keys ::
  "'s redis_client \<Rightarrow> ('k \<Rightarrow> string) \<Rightarrow> ('k \<Rightarrow> ('s, 't result) prog) \<Rightarrow> ('t \<Rightarrow> 'v) \<Rightarrow> ('v \<Rightarrow> string) \<Rightarrow> duration
     \<Rightarrow> 'k list \<Rightarrow> ('k \<rightharpoonup> 'v) \<Rightarrow> ('s, go_error option \<times> ('k \<rightharpoonup> 'v)) prog" where
  "fetch_keys rc cacheKey dbFetch getValue render ttl [] results = ret (None, results)"
| "fetch_keys rc cacheKey dbFetch getValue render ttl (k # ks) results = do {
     r \<leftarrow> dbFetch k;
     (case r of
        Inl err \<Rightarrow> do {
          (_, results') \<leftarrow> fetch_keys rc cacheKey dbFetch getValue render ttl ks results;
          ret (Some err, results') }
      | Inr value \<Rightarrow> do {
          _ \<leftarrow> rc_Set rc (cacheKey k) (render (getValue value)) ttl;
          fetch_keys rc cacheKey dbFetch getValue render ttl ks (results(k \<mapsto> getValue value)) }) }"

definition mapperIDs ::
  "'s redis_client \<Rightarrow> 'k list \<Rightarrow> (string \<Rightarrow> 'v) \<Rightarrow> ('k \<Rightarrow> string) \<Rightarrow> ('k \<Rightarrow> ('s, 't result) prog) \<Rightarrow> ('t \<Rightarrow> 'v)
     \<Rightarrow> ('v \<Rightarrow> string) \<Rightarrow> duration \<Rightarrow> ('s, ('k \<rightharpoonup> 'v) result) prog" where
  "mapperIDs rc keys convert cacheKey dbFetch getValue render ttl = do {
     rs \<leftarrow> rc_Pipeline rc (map cacheKey keys);
     (case exec_error rs of
        Some err \<Rightarrow> if err \<noteq> RedisNil then fail err
          else (case cache_hits convert keys rs Map.empty of (results, uncached) \<Rightarrow> do {
                  (err', results') \<leftarrow> fetch_keys rc cacheKey dbFetch getValue render ttl uncached results;
                  (case err' of Some e \<Rightarrow> fail e | None \<Rightarrow> ok results') })
      | None \<Rightarrow> ok (fst (cache_hits convert keys rs Map.empty))) }"

definition invalidate_options :: "InvalidateOpt list \<Rightarrow> InvalidateOptions" where
  "invalidate_options opts = fold (\<lambda>opt o'. opt o') opts \<lparr>io_UIDs = [], io_IDs = []\<rparr>"

definition uid_key :: "string \<Rightarrow> string \<Rightarrow> string" where
  "uid_key redisPrefix uid = redisPrefix @ '':'' @ uid @ '':id''"

definition id_key_str :: "string \<Rightarrow> string \<Rightarrow> string" where
  "id_key_str redisPrefix idStr = redisPrefix @ '':id:'' @ idStr @ '':uid''"

definition id_key :: "string \<Rightarrow> int \<Rightarrow> string" where
  "id_key redisPrefix i = id_key_str redisPrefix (FormatInt i)"

text \<open>The key a looked-up value adds: none when the lookup failed or is empty.\<close>

definition found_key :: "(string \<Rightarrow> string) \<Rightarrow> string option result \<Rightarrow> string list" where
  "found_key mk r = (case r of Inr (Some v) \<Rightarrow> if v \<noteq> [] then [mk v] else [] | _ \<Rightarrow> [])"

definition invalidate :: "'s redis_client \<Rightarrow> string \<Rightarrow> InvalidateOpt list \<Rightarrow> ('s, unit result) prog" where
  "invalidate rc redisPrefix opts =
     (let options = invalidate_options opts; uids = io_UIDs options; ids = io_IDs options
      in if uids = [] \<and> ids = [] then ok ()
         else do {
           rs \<leftarrow> rc_Pipeline rc (map (uid_key redisPrefix) uids @ map (id_key redisPrefix) ids);
           let keys = remdups
             (concat (map2 (\<lambda>uid r. uid_key redisPrefix uid # found_key (id_key_str redisPrefix) r) uids (take (length uids) rs))
              @ concat (map2 (\<lambda>i r. id_key redisPrefix i # found_key (uid_key redisPrefix) r) ids (drop (length uids) rs)))
           in do {
             r \<leftarrow> rc_Del rc keys;
             (case r of Inl err \<Rightarrow> fail err | Inr _ \<Rightarrow> ok ()) } })"

section \<open>user.go, device.go, user_file.go\<close>

text \<open>
  The identity of a row: the last row the loop reads, an identifier 0 counting as no row. The loop
  does not ask \<open>rows.Err()\<close>.
\<close>

definition fetch_identity ::
  "(pgstate \<Rightarrow> 'a list) \<Rightarrow> ('a \<Rightarrow> int) \<Rightarrow> ('a \<Rightarrow> string) \<Rightarrow> ('a \<Rightarrow> bool) \<Rightarrow> go_error \<Rightarrow> (pgstate, (int \<times> string) result) prog" where
  "fetch_identity table getID getUID cond notFound =
     call (query_rows (\<lambda>s. Inr (filter cond (table s)))) (\<lambda>(rows, rowsErr).
     case scanRows rows of
       Inl err \<Rightarrow> fail err
     | Inr found \<Rightarrow>
         (let iden = (if found = [] then (0, []) else (getID (last found), getUID (last found)))
          in if fst iden = 0 then fail notFound else ok iden))"

definition user_fetchIDFromDB :: "string \<Rightarrow> (pgstate, (int \<times> string) result) prog" where
  "user_fetchIDFromDB uid = fetch_identity pg_user u_ID u_UID (\<lambda>u. u_UID u = uid) ErrUserNotFound"

definition user_fetchUIDFromDB :: "int \<Rightarrow> (pgstate, (int \<times> string) result) prog" where
  "user_fetchUIDFromDB i = fetch_identity pg_user u_ID u_UID (\<lambda>u. u_ID u = i) ErrUserNotFound"

definition device_fetchIDFromDB :: "string \<Rightarrow> (pgstate, (int \<times> string) result) prog" where
  "device_fetchIDFromDB uid = fetch_identity pg_device d_ID d_UID (\<lambda>d. d_UID d = uid) ErrDeviceNotFound"

definition device_fetchUIDFromDB :: "int \<Rightarrow> (pgstate, (int \<times> string) result) prog" where
  "device_fetchUIDFromDB i = fetch_identity pg_device d_ID d_UID (\<lambda>d. d_ID d = i) ErrDeviceNotFound"

definition user_file_fetchIDFromDB :: "string \<Rightarrow> (pgstate, (int \<times> string) result) prog" where
  "user_file_fetchIDFromDB uid = fetch_identity pg_user_file f_ID f_UID (\<lambda>f. f_UID f = uid) ErrFileNotFound"

definition user_file_fetchUIDFromDB :: "int \<Rightarrow> (pgstate, (int \<times> string) result) prog" where
  "user_file_fetchUIDFromDB i = fetch_identity pg_user_file f_ID f_UID (\<lambda>f. f_ID f = i) ErrFileNotFound"

text \<open>
  A resolver from its client, its prefix and its two queries, brought to the state \<open>'s\<close> by \<open>ondb\<close>.
\<close>

definition new_resolver ::
  "((pgstate, (int \<times> string) result) prog \<Rightarrow> ('s, (int \<times> string) result) prog) \<Rightarrow> 's redis_client \<Rightarrow> string \<Rightarrow> duration
     \<Rightarrow> (string \<Rightarrow> (pgstate, (int \<times> string) result) prog) \<Rightarrow> (int \<Rightarrow> (pgstate, (int \<times> string) result) prog)
     \<Rightarrow> 's UserResolver" where
  "new_resolver ondb rc redisPrefix ttl fetchID fetchUID =
     \<lparr>RS_IDsByUIDs = (\<lambda>uids. mapperIDs rc uids ParseInt_value (uid_key redisPrefix) (\<lambda>uid. ondb (fetchID uid)) fst FormatInt ttl),
      RS_UIDsByIDs = (\<lambda>ids. mapperIDs rc ids (\<lambda>v. v) (id_key redisPrefix) (\<lambda>i. ondb (fetchUID i)) snd (\<lambda>v. v) ttl),
      RS_Invalidate = invalidate rc redisPrefix\<rparr>"

definition NewUserResolver ::
  "((pgstate, (int \<times> string) result) prog \<Rightarrow> ('s, (int \<times> string) result) prog) \<Rightarrow> 's redis_client \<Rightarrow> string \<Rightarrow> duration
     \<Rightarrow> 's UserResolver" where
  "NewUserResolver ondb rc redisPrefix ttl =
     new_resolver ondb rc redisPrefix ttl user_fetchIDFromDB user_fetchUIDFromDB"

definition NewDeviceResolver ::
  "((pgstate, (int \<times> string) result) prog \<Rightarrow> ('s, (int \<times> string) result) prog) \<Rightarrow> 's redis_client \<Rightarrow> string \<Rightarrow> duration
     \<Rightarrow> 's UserResolver" where
  "NewDeviceResolver ondb rc redisPrefix ttl =
     new_resolver ondb rc redisPrefix ttl device_fetchIDFromDB device_fetchUIDFromDB"

definition NewUserFileResolver ::
  "((pgstate, (int \<times> string) result) prog \<Rightarrow> ('s, (int \<times> string) result) prog) \<Rightarrow> 's redis_client \<Rightarrow> string \<Rightarrow> duration
     \<Rightarrow> 's UserResolver" where
  "NewUserFileResolver ondb rc redisPrefix ttl =
     new_resolver ondb rc redisPrefix ttl user_file_fetchIDFromDB user_file_fetchUIDFromDB"

text \<open>\<open>provider.go\<close>: the prefixes of the two resolvers it hands out.\<close>

definition provider_user_prefix :: "string \<Rightarrow> string" where
  "provider_user_prefix redisPrefix = redisPrefix @ '':user''"

definition provider_device_prefix :: "string \<Rightarrow> string" where
  "provider_device_prefix redisPrefix = redisPrefix @ '':device''"

section \<open>The keys do not collide\<close>

text \<open>
  The keys are injective in the UID and in the identifier, and no key of a UID is a key of an
  identifier.
\<close>

theorem resolver_keys_distinct:
  "(uid_key p u = uid_key p v \<longleftrightarrow> u = v) \<and> (id_key p i = id_key p j \<longleftrightarrow> i = j) \<and> uid_key p u \<noteq> id_key p i"
proof -
  have "uid_key p u \<noteq> id_key p i"
  proof
    assume "uid_key p u = id_key p i"
    then have "rev (uid_key p u) ! 2 = rev (id_key p i) ! 2" by simp
    then show False by (simp add: uid_key_def id_key_def id_key_str_def)
  qed
  moreover have "FormatInt i = FormatInt j \<longleftrightarrow> i = j" by (metis FormatInt_inj)
  ultimately show ?thesis by (simp add: uid_key_def id_key_def id_key_str_def)
qed

end
