(* ===== verification/World.thy ===== *)
theory World
  imports DeviceService TokenStore AttemptTracker RateLimiter Resolver
begin

text \<open>
  The composition of \<open>cmd/main.go\<close>: the state of the running service is the database, Redis, the
  memory of the attempt tracker and of the rate limiter (the \<open>memory\<close> backends), what the event
  publisher writes to, the identifiers still to be drawn, whether the executor is closed, and the
  outside world (clock, randomness, signatures, the OAuth provider). Every adapter works on its own
  part; \<open>zoom\<close> brings it to the whole.
\<close>

record ('r, 'e, 'x) world =
  w_db :: pgstate
  w_redis :: 'r
  w_tracker :: MemoryAttemptTracker
  w_limiter :: MemoryRateLimiter
  w_events :: 'e
  w_uids :: nat
  w_closed :: bool
  w_outside :: 'x

text \<open>
  The parameters of a deployment. \<open>su_uid\<close> is the supply of UUIDs.
\<close>

record ('r, 'e, 'x) deployment =
  su_redis :: "'r redis_client"
  su_engine :: pg_engine
  su_tracker :: TrackerConfig
  su_limiter :: LimiterConfig
  su_uid :: "nat \<Rightarrow> string"
  su_publisher :: "'e EventPublisher"
  su_passwordHasher :: "'x Hasher"
  su_pinHasher :: "'x Hasher"
  su_tokenGen :: "'x TokenGenerator"
  su_oauth :: "'x OAuthProvider"
  su_randInt :: "'x rand_Int"
  su_now :: "('x, time) prog"
  su_code :: string

section \<open>Adapters on the whole state\<close>

abbreviation on_db :: "(pgstate, 'a) prog \<Rightarrow> (('r, 'e, 'x) world, 'a) prog" where
  "on_db \<equiv> zoom w_db (\<lambda>d. w_db_update (\<lambda>_. d))"
abbreviation on_redis :: "('r, 'a) prog \<Rightarrow> (('r, 'e, 'x) world, 'a) prog" where
  "on_redis \<equiv> zoom w_redis (\<lambda>d. w_redis_update (\<lambda>_. d))"
abbreviation on_tracker :: "(MemoryAttemptTracker, 'a) prog \<Rightarrow> (('r, 'e, 'x) world, 'a) prog" where
  "on_tracker \<equiv> zoom w_tracker (\<lambda>d. w_tracker_update (\<lambda>_. d))"
abbreviation on_limiter :: "(MemoryRateLimiter, 'a) prog \<Rightarrow> (('r, 'e, 'x) world, 'a) prog" where
  "on_limiter \<equiv> zoom w_limiter (\<lambda>d. w_limiter_update (\<lambda>_. d))"
abbreviation on_events :: "('e, 'a) prog \<Rightarrow> (('r, 'e, 'x) world, 'a) prog" where
  "on_events \<equiv> zoom w_events (\<lambda>d. w_events_update (\<lambda>_. d))"
abbreviation on_outside :: "('x, 'a) prog \<Rightarrow> (('r, 'e, 'x) world, 'a) prog" where
  "on_outside \<equiv> zoom w_outside (\<lambda>d. w_outside_update (\<lambda>_. d))"

definition the_userRepo :: "('r, 'e, 'x) deployment \<Rightarrow> ('r, 'e, 'x) world UserRepository" where
  "the_userRepo su = (let R = NewUserRepository (su_engine su) in
     \<lparr>UR_Create = (\<lambda>u. on_db (UR_Create R u)), UR_Update = (\<lambda>u. on_db (UR_Update R u)),
      UR_Delete = (\<lambda>u. on_db (UR_Delete R u)), UR_GetByID = (\<lambda>i. on_db (UR_GetByID R i)),
      UR_GetByUID = (\<lambda>v. on_db (UR_GetByUID R v)), UR_GetByUsername = (\<lambda>v. on_db (UR_GetByUsername R v)),
      UR_GetByEmail = (\<lambda>v. on_db (UR_GetByEmail R v)), UR_List = (\<lambda>p f. on_db (UR_List R p f))\<rparr>)"

definition the_deviceRepo :: "('r, 'e, 'x) deployment \<Rightarrow> ('r, 'e, 'x) world DeviceRepository" where
  "the_deviceRepo su = (let R = NewDeviceRepository (su_engine su) in
     \<lparr>DR_Create = (\<lambda>d. on_db (DR_Create R d)), DR_Update = (\<lambda>d. on_db (DR_Update R d)),
      DR_Delete = (\<lambda>d. on_db (DR_Delete R d)), DR_GetByID = (\<lambda>i. on_db (DR_GetByID R i)),
      DR_GetByUID = (\<lambda>v. on_db (DR_GetByUID R v)), DR_GetByFingerprint = (\<lambda>v. on_db (DR_GetByFingerprint R v)),
      DR_List = (\<lambda>p f. on_db (DR_List R p f)), DR_ListByUserID = (\<lambda>i p f. on_db (DR_ListByUserID R i p f))\<rparr>)"

definition the_userDeviceRepo :: "('r, 'e, 'x) deployment \<Rightarrow> ('r, 'e, 'x) world UserDeviceRepository" where
  "the_userDeviceRepo su = (let R = NewUserDeviceRepository (su_engine su) in
     \<lparr>UDR_Create = (\<lambda>d. on_db (UDR_Create R d)), UDR_Update = (\<lambda>d. on_db (UDR_Update R d)),
      UDR_UpdateSessionID = (\<lambda>u d v. on_db (UDR_UpdateSessionID R u d v)), UDR_Delete = (\<lambda>d. on_db (UDR_Delete R d)),
      UDR_GetByUserIDAndDeviceID = (\<lambda>u d. on_db (UDR_GetByUserIDAndDeviceID R u d)),
      UDR_List = (\<lambda>p f. on_db (UDR_List R p f)), UDR_Revoke = (\<lambda>u d. on_db (UDR_Revoke R u d))\<rparr>)"

definition the_pinRepo :: "('r, 'e, 'x) deployment \<Rightarrow> ('r, 'e, 'x) world UserPinRepository" where
  "the_pinRepo su = (let R = NewPinRepository in
     \<lparr>PR_Create = (\<lambda>d. on_db (PR_Create R d)), PR_Update = (\<lambda>d. on_db (PR_Update R d)),
      PR_Delete = (\<lambda>d. on_db (PR_Delete R d)), PR_GetByUserID = (\<lambda>i. on_db (PR_GetByUserID R i))\<rparr>)"

definition the_profileRepo :: "('r, 'e, 'x) deployment \<Rightarrow> ('r, 'e, 'x) world UserProfileRepository" where
  "the_profileRepo su = (let R = NewProfileRepository in
     \<lparr>PFR_Create = (\<lambda>d. on_db (PFR_Create R d)), PFR_Update = (\<lambda>d. on_db (PFR_Update R d)),
      PFR_Delete = (\<lambda>d. on_db (PFR_Delete R d)), PFR_GetByUserID = (\<lambda>i. on_db (PFR_GetByUserID R i))\<rparr>)"

definition the_userFileRepo :: "('r, 'e, 'x) deployment \<Rightarrow> ('r, 'e, 'x) world UserFileRepository" where
  "the_userFileRepo su = (let R = NewUserFileRepository (su_engine su) in
     \<lparr>FR_Create = (\<lambda>d. on_db (FR_Create R d)), FR_Update = (\<lambda>d. on_db (FR_Update R d)),
      FR_Delete = (\<lambda>d. on_db (FR_Delete R d)), FR_GetByID = (\<lambda>i. on_db (FR_GetByID R i)),
      FR_GetByUID = (\<lambda>v. on_db (FR_GetByUID R v)), FR_List = (\<lambda>p f. on_db (FR_List R p f))\<rparr>)"

definition zoom_hasher :: "'x Hasher \<Rightarrow> ('r, 'e, 'x) world Hasher" where
  "zoom_hasher h = \<lparr>H_Hash = (\<lambda>p. on_outside (H_Hash h p)), H_Compare = H_Compare h\<rparr>"

definition the_tokenGen :: "('r, 'e, 'x) deployment \<Rightarrow> ('r, 'e, 'x) world TokenGenerator" where
  "the_tokenGen su =
     \<lparr>TG_GenerateToken = (\<lambda>c. on_outside (TG_GenerateToken (su_tokenGen su) c)),
      TG_ValidateToken = (\<lambda>t. on_outside (TG_ValidateToken (su_tokenGen su) t))\<rparr>"

definition zoom_store :: "'r TokenStore \<Rightarrow> ('r, 'e, 'x) world TokenStore" where
  "zoom_store ts =
     \<lparr>TS_Add = (\<lambda>u t. on_redis (TS_Add ts u t)), TS_Remove = (\<lambda>u t. on_redis (TS_Remove ts u t)),
      TS_RemoveAll = (\<lambda>u. on_redis (TS_RemoveAll ts u)), TS_IsAllowed = (\<lambda>u t. on_redis (TS_IsAllowed ts u t))\<rparr>"

definition the_uidGen :: "('r, 'e, 'x) deployment \<Rightarrow> ('r, 'e, 'x) world UIDGenerator" where
  "the_uidGen su = \<lparr>UG_New = State (\<lambda>w. (su_uid su (w_uids w), w\<lparr>w_uids := Suc (w_uids w)\<rparr>))\<rparr>"

definition the_attemptTracker :: "('r, 'e, 'x) deployment \<Rightarrow> ('r, 'e, 'x) world AttemptTracker" where
  "the_attemptTracker su = (let T = NewMemoryAttemptTracker (su_tracker su) in
     \<lparr>AT_Track = (\<lambda>u. on_tracker (AT_Track T u)), AT_IsLocked = (\<lambda>u. on_tracker (AT_IsLocked T u)),
      AT_Reset = (\<lambda>u. on_tracker (AT_Reset T u))\<rparr>)"

definition the_rateLimiter :: "('r, 'e, 'x) deployment \<Rightarrow> ('r, 'e, 'x) world RateLimiter" where
  "the_rateLimiter su = (let L = NewMemoryRateLimiter (su_limiter su) in
     \<lparr>RL_Acquire = (\<lambda>ip. on_limiter (RL_Acquire L ip)), RL_Reset = (\<lambda>ip. on_limiter (RL_Reset L ip))\<rparr>)"

definition the_eventPublisher :: "('r, 'e, 'x) deployment \<Rightarrow> ('r, 'e, 'x) world EventPublisher" where
  "the_eventPublisher su = \<lparr>EP_Publish = (\<lambda>m. on_events (EP_Publish (su_publisher su) m))\<rparr>"

text \<open>
  The executor of \<open>internal/adapter/executor/service.go\<close>: a closed one refuses the task; an open one
  runs it in its own goroutine, whose error it only logs. The goroutine runs at once here; the tasks
  of the services only publish events.
\<close>

definition the_executor :: "('r, 'e, 'x) world Executor" where
  "the_executor = \<lparr>EX_DoAsync = (\<lambda>name fn. do {
     closed \<leftarrow> State (\<lambda>w. (w_closed w, w));
     (if closed then fail ErrExecutorClosed
      else do { _ \<leftarrow> fn; ok () }) })\<rparr>"

definition zoom_redis :: "'r redis_client \<Rightarrow> ('r, 'e, 'x) world redis_client" where
  "zoom_redis rc =
     \<lparr>rc_Get = (\<lambda>k. on_redis (rc_Get rc k)), rc_Set = (\<lambda>k v ttl. on_redis (rc_Set rc k v ttl)),
      rc_Del = (\<lambda>ks. on_redis (rc_Del rc ks)), rc_Exists = (\<lambda>k. on_redis (rc_Exists rc k)),
      rc_Incr = (\<lambda>k. on_redis (rc_Incr rc k)), rc_Expire = (\<lambda>k ttl. on_redis (rc_Expire rc k ttl)),
      rc_TTL = (\<lambda>k. on_redis (rc_TTL rc k)), rc_Scan = (\<lambda>p. on_redis (rc_Scan rc p)),
      rc_Pipeline = (\<lambda>ks. on_redis (rc_Pipeline rc ks))\<rparr>"

definition resolver_prefix :: "('r, 'e, 'x) deployment \<Rightarrow> string" where
  "resolver_prefix su = provider_user_prefix (su_code su @ '':resolver'')"

definition resolver_ttl :: duration where "resolver_ttl = 3600 * second"

definition the_userResolver :: "('r, 'e, 'x) deployment \<Rightarrow> ('r, 'e, 'x) world UserResolver" where
  "the_userResolver su = NewUserResolver on_db (zoom_redis (su_redis su)) (resolver_prefix su) resolver_ttl"

definition the_oauth :: "('r, 'e, 'x) deployment \<Rightarrow> ('r, 'e, 'x) world OAuthProvider" where
  "the_oauth su =
     \<lparr>OP_GetAuthorizationURL = (\<lambda>a b. on_outside (OP_GetAuthorizationURL (su_oauth su) a b)),
      OP_ExchangeCode = (\<lambda>c a b. on_outside (OP_ExchangeCode (su_oauth su) c a b)),
      OP_GetUserInfo = (\<lambda>t. on_outside (OP_GetUserInfo (su_oauth su) t))\<rparr>"

definition the_whitelist :: "('r, 'e, 'x) deployment \<Rightarrow> ('r, 'e, 'x) world TokenStore" where
  "the_whitelist su = zoom_store (NewTokenWhitelistAdapter (su_redis su) whitelist_prefix whitelist_ttl)"

definition the_blacklist :: "('r, 'e, 'x) deployment \<Rightarrow> ('r, 'e, 'x) world TokenStore" where
  "the_blacklist su = zoom_store (NewTokenBlacklistAdapter (su_redis su) blacklist_prefix blacklist_ttl)"

section \<open>The services\<close>

definition the_auth :: "('r, 'e, 'x) deployment \<Rightarrow> ('r, 'e, 'x) world authService" where
  "the_auth su =
     \<lparr>as_userRepo = the_userRepo su, as_deviceRepo = the_deviceRepo su, as_userDeviceRepo = the_userDeviceRepo su,
      as_pinRepo = the_pinRepo su, as_passwordHasher = zoom_hasher (su_passwordHasher su),
      as_pinHasher = zoom_hasher (su_pinHasher su), as_tokenGen = the_tokenGen su, as_uidGen = the_uidGen su,
      as_oauthProvider = the_oauth su, as_tokenWhitelist = the_whitelist su, as_tokenBlacklist = the_blacklist su,
      as_executor = the_executor, as_eventPublisher = the_eventPublisher su,
      as_attemptTracker = the_attemptTracker su, as_rateLimiter = the_rateLimiter su,
      as_now = on_outside (su_now su), as_randInt = (\<lambda>n. on_outside (su_randInt su n))\<rparr>"

definition the_users :: "('r, 'e, 'x) deployment \<Rightarrow> ('r, 'e, 'x) world userService" where
  "the_users su =
     \<lparr>us_userRepo = the_userRepo su, us_profileRepo = the_profileRepo su, us_pinRepo = the_pinRepo su,
      us_deviceRepo = the_deviceRepo su, us_userDeviceRepo = the_userDeviceRepo su,
      us_passwordHasher = zoom_hasher (su_passwordHasher su), us_pinHasher = zoom_hasher (su_pinHasher su),
      us_uidGen = the_uidGen su, us_tokenWhitelist = the_whitelist su,
      us_eventPublisher = the_eventPublisher su, us_userResolver = the_userResolver su\<rparr>"

definition the_devices :: "('r, 'e, 'x) deployment \<Rightarrow> ('r, 'e, 'x) world deviceService" where
  "the_devices su =
     \<lparr>ds_deviceRepo = the_deviceRepo su, ds_userDeviceRepo = the_userDeviceRepo su,
      ds_eventPublisher = the_eventPublisher su\<rparr>"

definition the_files :: "('r, 'e, 'x) deployment \<Rightarrow> ('r, 'e, 'x) world userFileService" where
  "the_files su =
     \<lparr>fs_userFileRepo = the_userFileRepo su, fs_userRepo = the_userRepo su, fs_userResolver = the_userResolver su,
      fs_uidGen = the_uidGen su, fs_eventPublisher = the_eventPublisher su\<rparr>"

end
