(* ===== verification/Running.thy ===== *)
theory Running
  imports World
begin

text \<open>
  What every property of the running service rests on: a deployment whose Redis keeps its contract
  and whose hashers accept what they hashed, and the rules that carry a property through the calls
  of a service, one for each port of \<open>World\<close>.
\<close>

section \<open>Sessions\<close>

text \<open>The sessions of a user in the two stores, by the live keys of Redis.\<close>

abbreviation wl_adapter :: TokenAdapter where
  "wl_adapter \<equiv> \<lparr>ta_prefix = whitelist_prefix, ta_defaultTTL = whitelist_ttl\<rparr>"

abbreviation bl_adapter :: TokenAdapter where
  "bl_adapter \<equiv> \<lparr>ta_prefix = blacklist_prefix, ta_defaultTTL = blacklist_ttl\<rparr>"

definition wl_sessions :: "('r \<Rightarrow> string \<Rightarrow> string option) \<Rightarrow> ('r, 'e, 'x) world \<Rightarrow> string \<Rightarrow> string set" where
  "wl_sessions live w u = key_sessions wl_adapter (live (w_redis w)) u"

definition bl_sessions :: "('r \<Rightarrow> string \<Rightarrow> string option) \<Rightarrow> ('r, 'e, 'x) world \<Rightarrow> string \<Rightarrow> string set" where
  "bl_sessions live w u = key_sessions bl_adapter (live (w_redis w)) u"

lemma sessions_other_store [simp]:
  "key_sessions bl_adapter (m(buildKey wl_adapter u t \<mapsto> x)) v = key_sessions bl_adapter m v"
  "key_sessions bl_adapter (m |` (- {buildKey wl_adapter u t})) v = key_sessions bl_adapter m v"
  "key_sessions wl_adapter (m(buildKey bl_adapter u t \<mapsto> x)) v = key_sessions wl_adapter m v"
  "key_sessions wl_adapter (m |` (- {buildKey bl_adapter u t})) v = key_sessions wl_adapter m v"
  by (auto simp: key_sessions_def restrict_map_def buildKey_def whitelist_prefix_def blacklist_prefix_def)

text \<open>Two states that differ in one component only.\<close>

definition only_db :: "('r, 'e, 'x) world \<Rightarrow> ('r, 'e, 'x) world \<Rightarrow> bool" where
  "only_db w w' \<longleftrightarrow> w_redis w' = w_redis w \<and> w_tracker w' = w_tracker w \<and> w_limiter w' = w_limiter w \<and> w_events w' = w_events w \<and> w_uids w' = w_uids w \<and> w_closed w' = w_closed w \<and> w_outside w' = w_outside w"

definition only_redis :: "('r, 'e, 'x) world \<Rightarrow> ('r, 'e, 'x) world \<Rightarrow> bool" where
  "only_redis w w' \<longleftrightarrow> w_db w' = w_db w \<and> w_tracker w' = w_tracker w \<and> w_limiter w' = w_limiter w \<and> w_events w' = w_events w \<and> w_uids w' = w_uids w \<and> w_closed w' = w_closed w \<and> w_outside w' = w_outside w"

definition only_tracker :: "('r, 'e, 'x) world \<Rightarrow> ('r, 'e, 'x) world \<Rightarrow> bool" where
  "only_tracker w w' \<longleftrightarrow> w_db w' = w_db w \<and> w_redis w' = w_redis w \<and> w_limiter w' = w_limiter w \<and> w_events w' = w_events w \<and> w_uids w' = w_uids w \<and> w_closed w' = w_closed w \<and> w_outside w' = w_outside w"

definition only_limiter :: "('r, 'e, 'x) world \<Rightarrow> ('r, 'e, 'x) world \<Rightarrow> bool" where
  "only_limiter w w' \<longleftrightarrow> w_db w' = w_db w \<and> w_redis w' = w_redis w \<and> w_tracker w' = w_tracker w \<and> w_events w' = w_events w \<and> w_uids w' = w_uids w \<and> w_closed w' = w_closed w \<and> w_outside w' = w_outside w"

definition only_events :: "('r, 'e, 'x) world \<Rightarrow> ('r, 'e, 'x) world \<Rightarrow> bool" where
  "only_events w w' \<longleftrightarrow> w_db w' = w_db w \<and> w_redis w' = w_redis w \<and> w_tracker w' = w_tracker w \<and> w_limiter w' = w_limiter w \<and> w_uids w' = w_uids w \<and> w_closed w' = w_closed w \<and> w_outside w' = w_outside w"

definition only_uids :: "('r, 'e, 'x) world \<Rightarrow> ('r, 'e, 'x) world \<Rightarrow> bool" where
  "only_uids w w' \<longleftrightarrow> w_db w' = w_db w \<and> w_redis w' = w_redis w \<and> w_tracker w' = w_tracker w \<and> w_limiter w' = w_limiter w \<and> w_events w' = w_events w \<and> w_closed w' = w_closed w \<and> w_outside w' = w_outside w"

definition only_outside :: "('r, 'e, 'x) world \<Rightarrow> ('r, 'e, 'x) world \<Rightarrow> bool" where
  "only_outside w w' \<longleftrightarrow> w_db w' = w_db w \<and> w_redis w' = w_redis w \<and> w_tracker w' = w_tracker w \<and> w_limiter w' = w_limiter w \<and> w_events w' = w_events w \<and> w_uids w' = w_uids w \<and> w_closed w' = w_closed w"

lemmas only_defs = only_db_def only_redis_def only_tracker_def only_limiter_def only_events_def
  only_uids_def only_outside_def

lemmas store_defs = the_whitelist_def the_blacklist_def zoom_store_def
  NewTokenWhitelistAdapter_def NewTokenBlacklistAdapter_def Let_def

section \<open>One rule per port\<close>

lemma wp_on_outside:
  assumes "\<And>r w'. only_outside w w' \<Longrightarrow> run_state m (w_outside w) = (r, w_outside w') \<Longrightarrow> Q r w'"
  shows "wp (on_outside m) Q w"
  by (simp only: wp_zoom, rule wpI, rule assms) (simp_all add: only_outside_def)

lemma wp_on_db:
  assumes "wp m (\<lambda>r d. \<forall>w'. only_db w w' \<longrightarrow> w_db w' = d \<longrightarrow> Q r w') (w_db w)"
  shows "wp (on_db m) Q w"
  unfolding wp_zoom by (rule wp_mono [OF assms]) (simp add: only_db_def)

lemma wp_on_redis:
  assumes "wp m (\<lambda>r d. \<forall>w'. only_redis w w' \<longrightarrow> w_redis w' = d \<longrightarrow> Q r w') (w_redis w)"
  shows "wp (on_redis m) Q w"
  unfolding wp_zoom by (rule wp_mono [OF assms]) (simp add: only_redis_def)

lemma wp_on_tracker:
  assumes "\<And>r w'. only_tracker w w' \<Longrightarrow> run_state m (w_tracker w) = (r, w_tracker w') \<Longrightarrow> Q r w'"
  shows "wp (on_tracker m) Q w"
  by (simp only: wp_zoom, rule wpI, rule assms) (simp_all add: only_tracker_def)

lemma wp_on_limiter:
  assumes "\<And>r w'. only_limiter w w' \<Longrightarrow> run_state m (w_limiter w) = (r, w_limiter w') \<Longrightarrow> Q r w'"
  shows "wp (on_limiter m) Q w"
  by (simp only: wp_zoom, rule wpI, rule assms) (simp_all add: only_limiter_def)

lemma wp_publish:
  assumes "\<And>r w'. only_events w w' \<Longrightarrow> Q r w'"
  shows "wp (EP_Publish (the_eventPublisher su) m) Q w"
  unfolding the_eventPublisher_def EventPublisher.simps
  by (simp only: wp_zoom, rule wpI, rule assms) (simp add: only_events_def)

lemma only_events_refl [simp]: "only_events w w"
  by (simp add: only_events_def)

lemma wp_publish_new:
  assumes "\<And>r w'. only_events w w' \<Longrightarrow> Q r w'"
  shows "wp (publish_new (the_eventPublisher su) t en d) Q w"
  unfolding publish_new_def by (cases "NewMessage t en d") (auto intro!: wp_publish assms)

lemma wp_publish_msg:
  assumes "\<And>r w'. only_events w w' \<Longrightarrow> Q r w'"
  shows "wp (publish_msg (the_eventPublisher su) t en d) Q w"
  unfolding publish_msg_def by (rule wp_publish) (rule assms)

lemma wp_async_new:
  assumes "\<And>r w'. only_events w w' \<Longrightarrow> Q r w'"
  shows "wp (EX_DoAsync the_executor name (publish_new (the_eventPublisher su) t en d)) Q w"
  by (simp add: the_executor_def assms) (intro impI wp_publish_new assms)

lemma wp_async_msg:
  assumes "\<And>r w'. only_events w w' \<Longrightarrow> Q r w'"
  shows "wp (EX_DoAsync the_executor name (publish_msg (the_eventPublisher su) t en d)) Q w"
  by (simp add: the_executor_def assms) (intro impI wp_publish_msg assms)

lemma wp_new_uid:
  assumes "\<And>w'. only_uids w w' \<Longrightarrow> w_uids w' = Suc (w_uids w) \<Longrightarrow> Q (su_uid su (w_uids w)) w'"
  shows "wp (UG_New (the_uidGen su)) Q w"
  by (simp add: the_uidGen_def) (rule assms, simp_all add: only_uids_def)

lemma wp_generate:
  assumes "\<And>r w'. only_outside w w' \<Longrightarrow>
      run_state (TG_GenerateToken (su_tokenGen su) c) (w_outside w) = (r, w_outside w') \<Longrightarrow> Q r w'"
  shows "wp (TG_GenerateToken (the_tokenGen su) c) Q w"
  unfolding the_tokenGen_def TokenGenerator.simps by (rule wp_on_outside) (rule assms)

lemma wp_validate:
  assumes "\<And>r w'. only_outside w w' \<Longrightarrow>
      run_state (TG_ValidateToken (su_tokenGen su) t) (w_outside w) = (r, w_outside w') \<Longrightarrow> Q r w'"
  shows "wp (TG_ValidateToken (the_tokenGen su) t) Q w"
  unfolding the_tokenGen_def TokenGenerator.simps by (rule wp_on_outside) (rule assms)

lemma wp_hash:
  assumes "\<And>r w'. only_outside w w' \<Longrightarrow> run_state (H_Hash h p) (w_outside w) = (r, w_outside w') \<Longrightarrow> Q r w'"
  shows "wp (H_Hash (zoom_hasher h) p) Q w"
  unfolding zoom_hasher_def Hasher.simps by (rule wp_on_outside) (rule assms)

lemma zoom_hasher_compare [simp]: "H_Compare (zoom_hasher h) = H_Compare h"
  by (simp add: zoom_hasher_def)

lemma wp_is_locked:
  assumes "\<And>r w'. only_tracker w w' \<Longrightarrow>
      run_state (AT_IsLocked (NewMemoryAttemptTracker (su_tracker su)) u) (w_tracker w) = (r, w_tracker w') \<Longrightarrow> Q r w'"
  shows "wp (AT_IsLocked (the_attemptTracker su) u) Q w"
  unfolding the_attemptTracker_def Let_def Ports.AttemptTracker.select_convs by (rule wp_on_tracker) (rule assms)

lemma wp_track:
  assumes "\<And>r w'. only_tracker w w' \<Longrightarrow>
      run_state (AT_Track (NewMemoryAttemptTracker (su_tracker su)) u) (w_tracker w) = (r, w_tracker w') \<Longrightarrow> Q r w'"
  shows "wp (AT_Track (the_attemptTracker su) u) Q w"
  unfolding the_attemptTracker_def Let_def Ports.AttemptTracker.select_convs by (rule wp_on_tracker) (rule assms)

lemma wp_reset:
  assumes "\<And>r w'. only_tracker w w' \<Longrightarrow>
      run_state (AT_Reset (NewMemoryAttemptTracker (su_tracker su)) u) (w_tracker w) = (r, w_tracker w') \<Longrightarrow> Q r w'"
  shows "wp (AT_Reset (the_attemptTracker su) u) Q w"
  unfolding the_attemptTracker_def Let_def Ports.AttemptTracker.select_convs by (rule wp_on_tracker) (rule assms)

lemma wp_acquire:
  assumes "\<And>r w'. only_limiter w w' \<Longrightarrow>
      run_state (RL_Acquire (NewMemoryRateLimiter (su_limiter su)) ip) (w_limiter w) = (r, w_limiter w') \<Longrightarrow> Q r w'"
  shows "wp (RL_Acquire (the_rateLimiter su) ip) Q w"
  unfolding the_rateLimiter_def Let_def Ports.RateLimiter.select_convs by (rule wp_on_limiter) (rule assms)

text \<open>Reading a row leaves the tables alone; an error of the script is passed on.\<close>

definition same_tables :: "pgstate \<Rightarrow> pgstate \<Rightarrow> bool" where
  "same_tables d d' \<longleftrightarrow> (\<exists>os. set os \<subseteq> set (pg_script d) \<and> d' = d\<lparr>pg_script := os\<rparr>)"

lemma wp_query_row:
  assumes "\<And>d'. same_tables d d' \<Longrightarrow> Q (case find cond (table d) of None \<Rightarrow> Inl PgxErrNoRows | Some r \<Rightarrow> Inr r) d'"
    and "\<And>d' e. same_tables d d' \<Longrightarrow> pg_script d \<noteq> [] \<Longrightarrow> Q (Inl e) d'"
    and "\<And>os. table (d\<lparr>pg_script := os\<rparr>) = table d"
  shows "wp (query_row table cond) Q d"
proof -
  have st: "same_tables d (d\<lparr>pg_script := os\<rparr>)" if "set os \<subseteq> set (pg_script d)" for os
    using that by (auto simp: same_tables_def)
  show ?thesis
    unfolding query_row_def
  proof (rule wp_statement)
    fix os e assume os: "set os \<subseteq> set (pg_script d)"
    show "Q (fst ((case find cond (table (d\<lparr>pg_script := os\<rparr>)) of None \<Rightarrow> Inl PgxErrNoRows | Some r \<Rightarrow> Inr r), d\<lparr>pg_script := os\<rparr>))
        (snd ((case find cond (table (d\<lparr>pg_script := os\<rparr>)) of None \<Rightarrow> Inl PgxErrNoRows | Some r \<Rightarrow> Inr r), d\<lparr>pg_script := os\<rparr>))"
      using assms(1) [OF st [OF os]] by (simp add: assms(3))
  next
    fix os e assume os: "set os \<subseteq> set (pg_script d)" and "Rejected e \<in> set (pg_script d)"
    then have "pg_script d \<noteq> []" by auto
    then show "Q (Inl e) (d\<lparr>pg_script := os\<rparr>)" by (rule assms(2) [OF st [OF os]])
  next
    fix os e assume os: "set os \<subseteq> set (pg_script d)" and "Lost e \<in> set (pg_script d)"
    then have "pg_script d \<noteq> []" by auto
    then show "Q (Inl e) (snd ((case find cond (table (d\<lparr>pg_script := os\<rparr>)) of None \<Rightarrow> Inl PgxErrNoRows | Some r \<Rightarrow> Inr r), d\<lparr>pg_script := os\<rparr>))"
      using assms(2) [OF st [OF os]] by simp
  qed
qed

lemma wp_scan_or_row:
  assumes "\<And>d' r. same_tables d d' \<Longrightarrow> find cond (table d) = Some r \<Longrightarrow> Q (Inr r) d'"
    and "\<And>d'. same_tables d d' \<Longrightarrow> find cond (table d) = None \<Longrightarrow> Q (Inl nf) d'"
    and "\<And>d' e. same_tables d d' \<Longrightarrow> pg_script d \<noteq> [] \<Longrightarrow> Q (Inl e) d'"
    and "\<And>os. table (d\<lparr>pg_script := os\<rparr>) = table d"
  shows "wp (scan_or nf (query_row table cond)) Q d"
  unfolding scan_or_def wp_bind
proof (rule wp_query_row)
  fix d' assume "same_tables d d'"
  then show "wp (case (case find cond (table d) of None \<Rightarrow> Inl PgxErrNoRows | Some r \<Rightarrow> Inr r) of
      Inl err \<Rightarrow> if err = PgxErrNoRows then fail nf else fail err | Inr m \<Rightarrow> ok m) Q d'"
    using assms by (cases "find cond (table d)") simp_all
next
  fix d' e assume "same_tables d d'" "pg_script d \<noteq> []"
  then show "wp (case Inl e of Inl err \<Rightarrow> if err = PgxErrNoRows then fail nf else fail err | Inr m \<Rightarrow> ok m) Q d'"
    using assms(3) by simp
qed (rule assms(4))

text \<open>A user lookup: a live row with the wanted value, or an error.\<close>

definition lookup_user :: "(User \<Rightarrow> bool) \<Rightarrow> ('r, 'e, 'x) world \<Rightarrow> User option" where
  "lookup_user P w = find (\<lambda>u. P u \<and> u_DeletedAt u = None) (pg_user (w_db w))"

lemma lookup_user_Some: "lookup_user P w = Some u \<Longrightarrow> u \<in> set (pg_user (w_db w)) \<and> P u \<and> u_DeletedAt u = None"
  by (auto simp: lookup_user_def find_Some_iff)

lemma lookup_user_None: "lookup_user P w = None \<longleftrightarrow> (\<forall>u \<in> set (pg_user (w_db w)). \<not> (P u \<and> u_DeletedAt u = None))"
  by (auto simp: lookup_user_def find_None_iff)

lemma wp_get_row:
  assumes m: "m = on_db (scan_or nf (query_row table cond))"
    and tab: "\<And>d os. table (d\<lparr>pg_script := os\<rparr>) = table d"
    and some: "\<And>w' r. only_db w w' \<Longrightarrow> same_tables (w_db w) (w_db w') \<Longrightarrow> find cond (table (w_db w)) = Some r \<Longrightarrow> Q (Inr r) w'"
    and none: "\<And>w'. only_db w w' \<Longrightarrow> same_tables (w_db w) (w_db w') \<Longrightarrow> find cond (table (w_db w)) = None \<Longrightarrow> Q (Inl nf) w'"
    and err: "\<And>w' e. only_db w w' \<Longrightarrow> same_tables (w_db w) (w_db w') \<Longrightarrow> pg_script (w_db w) \<noteq> [] \<Longrightarrow> Q (Inl e) w'"
  shows "wp m Q w"
  unfolding m
proof (rule wp_on_db, rule wp_scan_or_row)
  fix d' r assume "same_tables (w_db w) d'" "find cond (table (w_db w)) = Some r"
  then show "\<forall>w'. only_db w w' \<longrightarrow> w_db w' = d' \<longrightarrow> Q (Inr r) w'" using some by blast
next
  fix d' assume "same_tables (w_db w) d'" "find cond (table (w_db w)) = None"
  then show "\<forall>w'. only_db w w' \<longrightarrow> w_db w' = d' \<longrightarrow> Q (Inl nf) w'" using none by blast
next
  fix d' e assume "same_tables (w_db w) d'" "pg_script (w_db w) \<noteq> []"
  then show "\<forall>w'. only_db w w' \<longrightarrow> w_db w' = d' \<longrightarrow> Q (Inl e) w'" using err by blast
qed (rule tab)

lemmas user_repo_defs = the_userRepo_def NewUserRepository_def UserRepository_GetByID_def
  UserRepository_GetByUID_def UserRepository_GetByEmail_def UserRepository_GetByUsername_def Let_def

lemma user_lookups:
  "UR_GetByID (the_userRepo su) i = on_db (scan_or ErrUserNotFound (query_row pg_user (\<lambda>u. u_ID u = i \<and> u_DeletedAt u = None)))"
  "UR_GetByUID (the_userRepo su) v = on_db (scan_or ErrUserNotFound (query_row pg_user (\<lambda>u. u_UID u = v \<and> u_DeletedAt u = None)))"
  "UR_GetByEmail (the_userRepo su) v = on_db (scan_or ErrUserNotFound (query_row pg_user (\<lambda>u. u_Email u = v \<and> u_DeletedAt u = None)))"
  "UR_GetByUsername (the_userRepo su) v = on_db (scan_or ErrUserNotFound (query_row pg_user (\<lambda>u. u_Username u = v \<and> u_DeletedAt u = None)))"
  by (simp_all add: user_repo_defs scanUser_def)

lemma wp_lookup:
  assumes m: "m = on_db (scan_or ErrUserNotFound (query_row pg_user (\<lambda>u. P u \<and> u_DeletedAt u = None)))"
    and "\<And>w' u. only_db w w' \<Longrightarrow> same_tables (w_db w) (w_db w') \<Longrightarrow> lookup_user P w = Some u \<Longrightarrow> Q (Inr u) w'"
    and "\<And>w'. only_db w w' \<Longrightarrow> same_tables (w_db w) (w_db w') \<Longrightarrow> lookup_user P w = None \<Longrightarrow> Q (Inl ErrUserNotFound) w'"
    and "\<And>w' e. only_db w w' \<Longrightarrow> same_tables (w_db w) (w_db w') \<Longrightarrow> pg_script (w_db w) \<noteq> [] \<Longrightarrow> Q (Inl e) w'"
  shows "wp m Q w"
  using assms(2-) by (intro wp_get_row [OF m]) (simp_all add: lookup_user_def)

lemmas wp_GetByID = wp_lookup [OF user_lookups(1)]
lemmas wp_GetByUID = wp_lookup [OF user_lookups(2)]
lemmas wp_GetByEmail = wp_lookup [OF user_lookups(3)]
lemmas wp_GetByUsername = wp_lookup [OF user_lookups(4)]

lemma same_tables_pg:
  "same_tables d d' \<Longrightarrow> pg_user d' = pg_user d" "same_tables d d' \<Longrightarrow> pg_device d' = pg_device d"
  "same_tables d d' \<Longrightarrow> pg_user_device d' = pg_user_device d" "same_tables d d' \<Longrightarrow> pg_user_pin d' = pg_user_pin d"
  "same_tables d d' \<Longrightarrow> pg_user_profile d' = pg_user_profile d" "same_tables d d' \<Longrightarrow> pg_user_file d' = pg_user_file d"
  "same_tables d d' \<Longrightarrow> pg_seq d' = pg_seq d" "same_tables d d' \<Longrightarrow> pg_now d' = pg_now d"
  by (auto simp: same_tables_def)

lemma same_tables_script: "same_tables d d' \<Longrightarrow> pg_script d = [] \<Longrightarrow> d' = d"
  by (cases d) (auto simp: same_tables_def)

section \<open>A deployment that keeps its contracts\<close>

locale running =
  fixes su :: "('r, 'e, 'x) deployment"
    and live :: "'r \<Rightarrow> string \<Rightarrow> string option"
    and glob :: "string \<Rightarrow> string \<Rightarrow> bool"
  assumes redis: "redis_kv (su_redis su) live glob"
    and passwords: "hasher (su_passwordHasher su)"
    and pins: "hasher (su_pinHasher su)"
begin

sublocale wl: redis_store "su_redis su" live glob whitelist_prefix whitelist_ttl
  by (rule redis_store.intro [OF redis redis_store_axioms.intro]) (simp add: whitelist_ttl_def second_def)

sublocale bl: redis_store "su_redis su" live glob blacklist_prefix blacklist_ttl
  by (rule redis_store.intro [OF redis redis_store_axioms.intro]) (simp add: blacklist_ttl_def second_def)

text \<open>The stores as the services call them.\<close>

lemma wp_wl_is_allowed:
  assumes "\<And>w'. only_redis w w' \<Longrightarrow> live (w_redis w') = live (w_redis w) \<Longrightarrow> Q (Inr (t \<in> wl_sessions live w u)) w'"
    and "\<And>e w'. only_redis w w' \<Longrightarrow> live (w_redis w') = live (w_redis w) \<Longrightarrow> Q (Inl e) w'"
  shows "wp (TS_IsAllowed (the_whitelist su) u t) Q w"
  by (simp only: store_defs Ports.TokenStore.select_convs, rule wp_on_redis, rule wl.wp_store_is_allowed)
     (use assms in \<open>auto simp: wl_sessions_def\<close>)

lemma wp_bl_is_allowed:
  assumes "\<And>w'. only_redis w w' \<Longrightarrow> live (w_redis w') = live (w_redis w) \<Longrightarrow> Q (Inr (t \<notin> bl_sessions live w u)) w'"
    and "\<And>e w'. only_redis w w' \<Longrightarrow> live (w_redis w') = live (w_redis w) \<Longrightarrow> Q (Inl e) w'"
  shows "wp (TS_IsAllowed (the_blacklist su) u t) Q w"
  by (simp only: store_defs Ports.TokenStore.select_convs, rule wp_on_redis, rule bl.wp_store_is_allowed_bl)
     (use assms in \<open>auto simp: bl_sessions_def\<close>)

lemma wp_wl_add:
  assumes "\<And>w'. only_redis w w' \<Longrightarrow> live (w_redis w') = (live (w_redis w))(buildKey wl_adapter u t \<mapsto> ''1'') \<Longrightarrow> Q (Inr ()) w'"
    and "\<And>e w'. only_redis w w' \<Longrightarrow> live (w_redis w') = live (w_redis w) \<or>
            live (w_redis w') = (live (w_redis w))(buildKey wl_adapter u t \<mapsto> ''1'') \<Longrightarrow> Q (Inl e) w'"
  shows "wp (TS_Add (the_whitelist su) u t) Q w"
  by (simp only: store_defs Ports.TokenStore.select_convs, rule wp_on_redis, rule wl.wp_store_add) (use assms in auto)

lemma wp_wl_remove:
  assumes "\<And>w'. only_redis w w' \<Longrightarrow> live (w_redis w') = live (w_redis w) |` (- {buildKey wl_adapter u t}) \<Longrightarrow> Q (Inr ()) w'"
    and "\<And>e w'. only_redis w w' \<Longrightarrow> live (w_redis w') = live (w_redis w) \<or>
            live (w_redis w') = live (w_redis w) |` (- {buildKey wl_adapter u t}) \<Longrightarrow> Q (Inl e) w'"
  shows "wp (TS_Remove (the_whitelist su) u t) Q w"
  by (simp only: store_defs Ports.TokenStore.select_convs, rule wp_on_redis, rule wl.wp_store_remove) (use assms in auto)

lemma wp_bl_add:
  assumes "\<And>w'. only_redis w w' \<Longrightarrow> live (w_redis w') = (live (w_redis w))(buildKey bl_adapter u t \<mapsto> ''1'') \<Longrightarrow> Q (Inr ()) w'"
    and "\<And>e w'. only_redis w w' \<Longrightarrow> live (w_redis w') = live (w_redis w) \<or>
            live (w_redis w') = (live (w_redis w))(buildKey bl_adapter u t \<mapsto> ''1'') \<Longrightarrow> Q (Inl e) w'"
  shows "wp (TS_Add (the_blacklist su) u t) Q w"
  by (simp only: store_defs Ports.TokenStore.select_convs bl.blacklist_as_whitelist, rule wp_on_redis, rule bl.wp_store_add)
     (use assms in auto)

end

end
