(* ===== verification/AuthProperties.thy ===== *)
theory AuthProperties
  imports Running
begin

text \<open>
  What the authentication service of \<open>internal/core/service/auth.go\<close> guarantees in a running
  deployment: who may log in, what a refusal leaves behind, how sessions are rotated and revoked.
\<close>

section \<open>The parts of a login\<close>

text \<open>The device part of a login touches the device tables only.\<close>

definition users_and_sessions :: "('r, 'e, 'x) world \<Rightarrow> ('r, 'e, 'x) world \<Rightarrow> bool" where
  "users_and_sessions w0 w \<longleftrightarrow> w_redis w = w_redis w0 \<and> w_tracker w = w_tracker w0 \<and> w_limiter w = w_limiter w0 \<and>
     pg_user (w_db w) = pg_user (w_db w0) \<and> pg_user_pin (w_db w) = pg_user_pin (w_db w0)"

abbreviation users_are :: "User list \<Rightarrow> UserPin list \<Rightarrow> pgstate \<Rightarrow> bool" where
  "users_are us ps d \<equiv> pg_user d = us \<and> pg_user_pin d = ps"

lemma keeps_on_db:
  assumes "\<And>us ps. keeps (users_are us ps) m"
  shows "keeps (users_and_sessions w0) (on_db m)"
proof (rule keepsI, rule wp_on_db)
  fix w assume "users_and_sessions w0 w"
  then show "wp m (\<lambda>r d. \<forall>w'. only_db w w' \<longrightarrow> w_db w' = d \<longrightarrow> users_and_sessions w0 w') (w_db w)"
    by (intro wp_mono [OF keepsD [OF assms]]) (auto simp: users_and_sessions_def only_db_def)
qed

lemma keeps_on_outside: "keeps (users_and_sessions w0) (on_outside m)"
  by (rule keepsI, rule wp_on_outside) (auto simp: users_and_sessions_def only_outside_def)

lemma keeps_new_uid: "keeps (users_and_sessions w0) (UG_New (the_uidGen su))"
  by (rule keepsI, rule wp_new_uid) (auto simp: users_and_sessions_def only_uids_def)

text \<open>Statements that leave the users and the PINs alone.\<close>

lemma keeps_statement:
  assumes "\<And>d. pg_user (snd (f d)) = pg_user d \<and> pg_user_pin (snd (f d)) = pg_user_pin d"
  shows "keeps (users_are us ps) (statement f)"
  by (rule keepsI, rule wp_statement) (use assms in auto)

lemmas device_repo_defs = the_deviceRepo_def NewDeviceRepository_def DeviceRepository_Create_def
  DeviceRepository_GetByFingerprint_def DeviceRepository_GetByUID_def DeviceRepository_Delete_def
  the_userDeviceRepo_def NewUserDeviceRepository_def UserDeviceRepository_Create_def
  UserDeviceRepository_UpdateSessionID_def UserDeviceRepository_GetByUserIDAndDeviceID_def
  UserDeviceRepository_Revoke_def UserDeviceRepository_List_def Let_def

lemmas statement_defs = scan_defs scan_or_def query_row_def exec_map_def exec_delete_def

lemma keeps_device_ops:
  "keeps (users_and_sessions w0) (DR_GetByFingerprint (the_deviceRepo su) fp)"
  "keeps (users_and_sessions w0) (DR_GetByUID (the_deviceRepo su) uid)"
  "keeps (users_and_sessions w0) (DR_Create (the_deviceRepo su) d)"
  "keeps (users_and_sessions w0) (UDR_GetByUserIDAndDeviceID (the_userDeviceRepo su) i j)"
  "keeps (users_and_sessions w0) (UDR_Create (the_userDeviceRepo su) ud)"
  "keeps (users_and_sessions w0) (UDR_UpdateSessionID (the_userDeviceRepo su) i j sid)"
  unfolding device_repo_defs statement_defs DeviceRepository.select_convs UserDeviceRepository.select_convs
  by (rule keeps_on_db, intro keeps_intros keeps_statement, simp split: option.split)+

lemmas keeps_login = keeps_intros keeps_on_db keeps_on_outside keeps_new_uid keeps_device_ops

lemma keeps_login_device: "keeps (users_and_sessions w0) (login_device (the_auth su) p u sid)"
  unfolding login_device_def findOrCreateDevice_def findOrCreateUserDevice_def the_auth_def authService.simps
  by (intro keeps_login)

lemma keeps_refresh_device: "keeps (users_and_sessions w0) (refresh_device (the_auth su) c u sid)"
  unfolding refresh_device_def the_auth_def authService.simps
  by (intro keeps_login)

lemma users_and_sessions_refl [simp]: "users_and_sessions w w"
  by (simp add: users_and_sessions_def)

text \<open>The memory tracker's answers, in any state.\<close>

lemma tracker_is_locked_run:
  "run_state (AT_IsLocked (NewMemoryAttemptTracker m) u) s = (r, s') \<Longrightarrow> r = Inr (mem_locked s u)"
  by (auto simp: NewMemoryAttemptTracker_def Memory_IsLocked_def mem_locked_def split: option.splits if_splits)

lemma tracker_reset_run:
  "run_state (AT_Reset (NewMemoryAttemptTracker m) u) s = (r, s') \<Longrightarrow> \<not> mem_locked s' u \<and> mem_failures m s' u = 0"
  by (auto simp: NewMemoryAttemptTracker_def Memory_Reset_def mem_locked_def mem_failures_def split: option.splits if_splits)

text \<open>The user an identifier names.\<close>

definition identifies :: "string \<Rightarrow> string \<Rightarrow> User \<Rightarrow> bool" where
  "identifies ty identifier u \<longleftrightarrow>
     (ty = ''email'' \<and> u_Email u = identifier \<or> ty = ''username'' \<and> u_Username u = identifier)"

lemma wp_findUser:
  assumes "\<And>w' u. only_db w w' \<Longrightarrow> same_tables (w_db w) (w_db w') \<Longrightarrow> u \<in> set (pg_user (w_db w)) \<Longrightarrow>
      u_DeletedAt u = None \<Longrightarrow> identifies ty ident u \<Longrightarrow> Q (Inr u) w'"
    and "\<And>w'. only_db w w' \<Longrightarrow> same_tables (w_db w) (w_db w') \<Longrightarrow> ty = ''email'' \<or> ty = ''username'' \<Longrightarrow>
      (\<forall>u \<in> set (pg_user (w_db w)). \<not> (identifies ty ident u \<and> u_DeletedAt u = None)) \<Longrightarrow> Q (Inl ErrUserNotFound) w'"
    and "\<And>w' e. only_db w w' \<Longrightarrow> same_tables (w_db w) (w_db w') \<Longrightarrow>
      pg_script (w_db w) \<noteq> [] \<or> e = ErrInvalidIdentifierType \<and> ty \<noteq> ''email'' \<and> ty \<noteq> ''username'' \<Longrightarrow> Q (Inl e) w'"
  shows "wp (findUser (the_auth su) ty ident) Q w"
proof -
  have refl: "only_db w w" "same_tables (w_db w) (w_db w)"
    by (simp_all add: only_db_def same_tables_def) (rule exI [of _ "pg_script (w_db w)"], simp)
  consider "ty = ''email''" | "ty = ''username''" | "ty \<noteq> ''email''" "ty \<noteq> ''username''" by blast
  then show ?thesis
  proof cases
    case 1
    then show ?thesis
      unfolding findUser_def the_auth_def authService.select_convs
      by (simp, intro wp_GetByEmail)
         ((rule assms(1); auto simp: identifies_def dest: lookup_user_Some),
          (rule assms(2); simp add: identifies_def lookup_user_None),
          (rule assms(3); simp))
  next
    case 2
    then show ?thesis
      unfolding findUser_def the_auth_def authService.select_convs
      by (simp, intro wp_GetByUsername)
         ((rule assms(1); auto simp: identifies_def dest: lookup_user_Some),
          (rule assms(2); simp add: identifies_def lookup_user_None),
          (rule assms(3); simp))
  next
    case 3
    then show ?thesis using assms(3) [OF refl] by (simp add: findUser_def)
  qed
qed

lemma wp_check_device_ip:
  assumes "\<And>w'. only_limiter w w' \<Longrightarrow> Q (Inr ()) w'" "\<And>e w'. only_limiter w w' \<Longrightarrow> Q (Inl e) w'"
  shows "wp (check_device_ip (the_auth su) p) Q w"
proof -
  have refl: "only_limiter w w" by (simp add: only_limiter_def)
  show ?thesis
    unfolding check_device_ip_def the_auth_def authService.select_convs
    by (auto split: option.split sum.split intro!: wp_acquire assms refl)
qed

text \<open>
  Issued tokens are two signatures over the same claims; a login makes a user that may log in hold
  such tokens, a new session of the whitelist and a clean attempt counter.
\<close>

definition generated :: "('r, 'e, 'x) deployment \<Rightarrow> TokenClaims \<Rightarrow> string \<Rightarrow> bool" where
  "generated su c t \<longleftrightarrow> (\<exists>x x'. run_state (TG_GenerateToken (su_tokenGen su) c) x = (Inr t, x'))"

definition issued :: "('r, 'e, 'x) deployment \<Rightarrow> string \<Rightarrow> string \<Rightarrow> string \<Rightarrow> string \<Rightarrow> anymap option \<Rightarrow> Token \<Rightarrow> bool" where
  "issued su uid sid identifier ty extra tok \<longleftrightarrow>
     generated su (token_claims uid sid TokenTypeAccess identifier ty extra) (Access tok) \<and>
     generated su (token_claims uid sid TokenTypeRefresh identifier ty extra) (Refresh tok)"

definition outside_and_redis :: "('r, 'e, 'x) world \<Rightarrow> ('r, 'e, 'x) world \<Rightarrow> bool" where
  "outside_and_redis w w' \<longleftrightarrow> w_db w' = w_db w \<and> w_tracker w' = w_tracker w \<and> w_limiter w' = w_limiter w \<and>
     w_events w' = w_events w \<and> w_uids w' = w_uids w \<and> w_closed w' = w_closed w"

definition may_login :: "('r, 'e, 'x) deployment \<Rightarrow> ('r, 'e, 'x) world \<Rightarrow> AuthParams \<Rightarrow> User \<Rightarrow> bool" where
  "may_login su w p u \<longleftrightarrow> u_DeletedAt u = None \<and> u_Status u = UserStatusActive \<and>
     identifies (ap_IdentifierType p) (ap_Identifier p) u \<and> \<not> mem_locked (w_tracker w) (u_UID u) \<and>
     H_Compare (su_passwordHasher su) (u_Password u) (ap_Password p)"

definition logged_in ::
  "('r, 'e, 'x) deployment \<Rightarrow> ('r \<Rightarrow> string \<Rightarrow> string option) \<Rightarrow> ('r, 'e, 'x) world \<Rightarrow> AuthParams \<Rightarrow> User \<Rightarrow> Token \<Rightarrow> ('r, 'e, 'x) world \<Rightarrow> bool" where
  "logged_in su live w p u tok w' \<longleftrightarrow>
     (\<exists>extra. issued su (u_UID u) (su_uid su (w_uids w)) (ap_Identifier p) (ap_IdentifierType p) (Some extra) tok) \<and>
     live (w_redis w') = (live (w_redis w))(buildKey wl_adapter (u_UID u) (su_uid su (w_uids w)) \<mapsto> ''1'') \<and>
     \<not> mem_locked (w_tracker w') (u_UID u) \<and> mem_failures (su_tracker su) (w_tracker w') (u_UID u) = 0"

lemma wp_generated:
  assumes "\<And>t w'. only_outside w w' \<Longrightarrow> generated su c t \<Longrightarrow> Q (Inr t) w'" "\<And>e w'. only_outside w w' \<Longrightarrow> Q (Inl e) w'"
  shows "wp (TG_GenerateToken (the_tokenGen su) c) Q w"
proof (rule wp_generate)
  fix r w' assume "only_outside w w'" "run_state (TG_GenerateToken (su_tokenGen su) c) (w_outside w) = (r, w_outside w')"
  with assms show "Q r w'" by (cases r) (auto simp: generated_def)
qed

context running
begin

text \<open>Issuing tokens: two signatures over the same claims, and the session in the whitelist.\<close>

lemma wp_issue_tokens:
  assumes "\<And>tok w'. outside_and_redis w w' \<Longrightarrow> issued su uid sid identifier ty extra tok \<Longrightarrow>
      live (w_redis w') = (live (w_redis w))(buildKey wl_adapter uid sid \<mapsto> ''1'') \<Longrightarrow> Q (Inr tok) w'"
    and "\<And>e w'. outside_and_redis w w' \<Longrightarrow> live (w_redis w') = live (w_redis w) \<or>
      live (w_redis w') = (live (w_redis w))(buildKey wl_adapter uid sid \<mapsto> ''1'') \<Longrightarrow> Q (Inl e) w'"
  shows "wp (issue_tokens (the_auth su) uid sid identifier ty extra) Q w"
  unfolding issue_tokens_def the_auth_def authService.select_convs wp_call
  by (auto simp: only_defs intro!: wp_generated wp_wl_add)
     (auto simp: issued_def outside_and_redis_def intro!: assms)

text \<open>After the password has been accepted.\<close>

lemma wp_open_session:
  assumes "\<And>tok extra w'. issued su (u_UID u) (su_uid su (w_uids w)) (ap_Identifier p) (ap_IdentifierType p) (Some extra) tok \<Longrightarrow>
      live (w_redis w') = (live (w_redis w))(buildKey wl_adapter (u_UID u) (su_uid su (w_uids w)) \<mapsto> ''1'') \<Longrightarrow>
      pg_user (w_db w') = pg_user (w_db w) \<Longrightarrow> w_limiter w' = w_limiter w \<Longrightarrow>
      (\<exists>r. run_state (AT_Reset (NewMemoryAttemptTracker (su_tracker su)) (u_UID u)) (w_tracker w) = (r, w_tracker w')) \<Longrightarrow>
      Q (Inr tok) w'"
    and "\<And>e w'. Q (Inl e) w'"
  shows "wp (open_session (the_auth su) p u) Q w"
proof -
  have au: "as_attemptTracker (the_auth su) = the_attemptTracker su" "as_uidGen (the_auth su) = the_uidGen su"
      "as_executor (the_auth su) = the_executor" "as_eventPublisher (the_auth su) = the_eventPublisher su"
    by (simp_all add: the_auth_def)
  show ?thesis
    unfolding open_session_def wp_bind au
  proof (rule wp_reset, rule wp_new_uid)
    fix r0 w1 w2
    assume w1: "only_tracker w w1" and reset: "run_state (AT_Reset (NewMemoryAttemptTracker (su_tracker su)) (u_UID u))
        (w_tracker w) = (r0, w_tracker w1)" and w2: "only_uids w1 w2"
    have sid: "w_uids w1 = w_uids w" using w1 by (simp add: only_tracker_def)
    show "wp (login_device (the_auth su) p u (su_uid su (w_uids w1)))
        (\<lambda>a. wp (case a of (device, userDevice) \<Rightarrow>
            call (issue_tokens (the_auth su) (u_UID u) (su_uid su (w_uids w1)) (ap_Identifier p) (ap_IdentifierType p)
                (Some (login_extra p device userDevice)))
              (\<lambda>token. EX_DoAsync the_executor ''auth.publish''
                 (publish_new (the_eventPublisher su) EventLogin (NewUserEntity u)
                   (LoginData (login_event p device userDevice))) \<bind> (\<lambda>_. ok token))) Q) w2"
    proof (rule wp_mono [OF keepsD [OF keeps_login_device users_and_sessions_refl]])
      fix a :: "Device option \<times> UserDevice option" and w3 assume w3: "users_and_sessions w2 w3"
      obtain device ud where a: "a = (device, ud)" by (cases a)
      show "wp (case a of (device, userDevice) \<Rightarrow>
            call (issue_tokens (the_auth su) (u_UID u) (su_uid su (w_uids w1)) (ap_Identifier p) (ap_IdentifierType p)
                (Some (login_extra p device userDevice)))
              (\<lambda>token. EX_DoAsync the_executor ''auth.publish''
                 (publish_new (the_eventPublisher su) EventLogin (NewUserEntity u)
                   (LoginData (login_event p device userDevice))) \<bind> (\<lambda>_. ok token))) Q w3"
        unfolding a prod.case wp_call
      proof (rule wp_issue_tokens)
        fix tok w4
        assume w4: "outside_and_redis w3 w4" and iss: "issued su (u_UID u) (su_uid su (w_uids w1)) (ap_Identifier p)
             (ap_IdentifierType p) (Some (login_extra p device ud)) tok"
          and lv: "live (w_redis w4) = (live (w_redis w3))(buildKey wl_adapter (u_UID u) (su_uid su (w_uids w1)) \<mapsto> ''1'')"
        have "Q (Inr tok) w5" if "only_events w4 w5" for w5
          by (rule assms(1) [OF iss [unfolded sid]])
             (use that w1 w2 w3 w4 lv reset sid in
               \<open>auto simp: only_defs outside_and_redis_def users_and_sessions_def\<close>)
        then show "(case Inr tok of Inl e \<Rightarrow> Q (Inl e) | Inr token \<Rightarrow> wp (EX_DoAsync the_executor ''auth.publish''
             (publish_new (the_eventPublisher su) EventLogin (NewUserEntity u) (LoginData (login_event p device ud)))
             \<bind> (\<lambda>_. ok token)) Q) w4"
          by (simp, intro wp_async_new)
      qed (simp add: assms(2))
    qed
  qed
qed

lemma au: "as_attemptTracker (the_auth su) = the_attemptTracker su" "as_uidGen (the_auth su) = the_uidGen su"
  "as_executor (the_auth su) = the_executor" "as_eventPublisher (the_auth su) = the_eventPublisher su"
  "as_passwordHasher (the_auth su) = zoom_hasher (su_passwordHasher su)"
  "as_pinHasher (the_auth su) = zoom_hasher (su_pinHasher su)" "as_tokenGen (the_auth su) = the_tokenGen su"
  "as_tokenWhitelist (the_auth su) = the_whitelist su" "as_tokenBlacklist (the_auth su) = the_blacklist su"
  "as_userRepo (the_auth su) = the_userRepo su" "as_pinRepo (the_auth su) = the_pinRepo su"
  by (simp_all add: the_auth_def)

lemma wp_login_user:
  assumes "identifies (ap_IdentifierType p) (ap_Identifier p) u" "u_DeletedAt u = None"
    and "\<And>tok w'. may_login su w p u \<Longrightarrow> logged_in su live w p u tok w' \<Longrightarrow> Q (Inr tok) w'"
    and "\<And>e w'. Q (Inl e) w'"
  shows "wp (login_user (the_auth su) p u) Q w"
proof (cases "u_Status u = UserStatusActive")
  case True
  have nd: "\<not> IsDeleted u" using assms(2) by (simp add: IsDeleted_def)
  let ?locked = "mem_locked (w_tracker w) (u_UID u)"
  let ?accepted = "H_Compare (su_passwordHasher su) (u_Password u) (ap_Password p)"
  consider "?locked" | "\<not> ?locked" "\<not> ?accepted" | "\<not> ?locked" "?accepted" by blast
  then show ?thesis
  proof cases
    case 1
    then show ?thesis
      unfolding login_user_def au
      by (simp add: nd True, intro conjI impI wp_is_locked)
         (drule tracker_is_locked_run, simp, rule wp_async_new, simp add: assms)+
  next
    case 2
    then show ?thesis
      unfolding login_user_def au
      by (simp add: nd True, intro wp_is_locked)
         (drule tracker_is_locked_run, simp, rule wp_track, rule wp_async_new, simp add: assms)
  next
    case 3
    then have may: "may_login su w p u" using True assms(1,2) by (simp add: may_login_def)
    have opened: "wp (open_session (the_auth su) p u) Q w1" if "only_tracker w w1" for w1
      using that
      by (intro wp_open_session assms(3) [OF may] assms(4))
         (auto simp: logged_in_def only_tracker_def dest: tracker_reset_run)
    from 3 show ?thesis
      unfolding login_user_def au
      by (simp add: nd True, intro wp_is_locked)
         (drule tracker_is_locked_run, simp add: opened)
  qed
next
  case False
  then show ?thesis using assms(2,4) by (simp add: login_user_def IsDeleted_def)
qed

text \<open>A login: refused, or made by a user that may log in.\<close>

lemma wp_Authenticate:
  assumes "\<And>u tok w'. u \<in> set (pg_user (w_db w)) \<Longrightarrow> may_login su w p u \<Longrightarrow> logged_in su live w p u tok w' \<Longrightarrow> Q (Inr tok) w'"
    and "\<And>e w'. Q (Inl e) w'"
  shows "wp (Authenticate (the_auth su) p) Q w"
  unfolding Authenticate_def wp_call wp_bind
proof (rule wp_check_device_ip)
  fix w1 assume w1: "only_limiter w w1"
  have login: "wp (login_user (the_auth su) p u) Q w2"
    if "only_db w1 w2" "same_tables (w_db w1) (w_db w2)" "u \<in> set (pg_user (w_db w1))" "u_DeletedAt u = None"
      "identifies (ap_IdentifierType p) (ap_Identifier p) u" for u w2
    using that w1
    by (intro wp_login_user assms)
       (auto simp: may_login_def logged_in_def only_db_def only_limiter_def same_tables_pg)
  show "(case Inr () of Inl e \<Rightarrow> Q (Inl e) | Inr x \<Rightarrow>
      wp (findUser (the_auth su) (ap_IdentifierType p) (ap_Identifier p))
        (\<lambda>a. wp (case a of Inl err \<Rightarrow> if errors_Is err ErrUserNotFound then fail ErrInvalidCredentials else fail err
                 | Inr user \<Rightarrow> login_user (the_auth su) p user) Q)) w1"
    by (simp, intro wp_findUser) (simp_all add: login assms)
qed (simp add: assms)

end

end

