(* ===== verification/Healthy.thy ===== *)
theory Healthy
  imports Running
begin

text \<open>
  A service whose Redis answers every command and whose database runs every statement: in such a
  state the calls of the services are functions of the live keys and of the tables. The properties
  that promise a success are proved here; those that hold through failures use the rules of \<open>Running\<close>.
\<close>

section \<open>The database\<close>

abbreviation db_up :: "('r, 'e, 'x) world \<Rightarrow> bool" where
  "db_up w \<equiv> pg_script (w_db w) = []"

lemma put_get_db [simp]: "w_db_update (\<lambda>_. w_db w) w = w"
  by simp

lemma run_on_db: "run_state (on_db m) w = (case run_state m (w_db w) of (a, d) \<Rightarrow> (a, w_db_update (\<lambda>_. d) w))"
  by (simp add: zoom_def)

lemma wp_statement_up:
  assumes "db_up w" "Q (fst (f (w_db w))) (w_db_update (\<lambda>_. snd (f (w_db w))) w)"
  shows "wp (on_db (statement f)) Q w"
  using assms by (cases "f (w_db w)") (simp add: wp_def)

lemma wp_row_up:
  assumes "m = on_db (scan_or nf (query_row table cond))" "db_up w"
    and "\<And>r. find cond (table (w_db w)) = Some r \<Longrightarrow> Q (Inr r) w"
    and "find cond (table (w_db w)) = None \<Longrightarrow> Q (Inl nf) w"
  shows "wp m Q w"
  using assms by (auto simp: scan_or_def query_row_def wp_def split: option.split)

lemma wp_user_up:
  assumes "m = on_db (scan_or ErrUserNotFound (query_row pg_user (\<lambda>u. P u \<and> u_DeletedAt u = None)))" "db_up w"
    and "\<And>u. lookup_user P w = Some u \<Longrightarrow> Q (Inr u) w" "lookup_user P w = None \<Longrightarrow> Q (Inl ErrUserNotFound) w"
  shows "wp m Q w"
  using assms(2-) by (intro wp_row_up [OF assms(1)]) (simp_all add: lookup_user_def)

lemmas wp_GetByID_up = wp_user_up [OF user_lookups(1)]
lemmas wp_GetByUID_up = wp_user_up [OF user_lookups(2)]
lemmas wp_GetByEmail_up = wp_user_up [OF user_lookups(3)]
lemmas wp_GetByUsername_up = wp_user_up [OF user_lookups(4)]

text \<open>
  Storing users: the unique indexes decide.
\<close>

definition updated_users :: "User \<Rightarrow> User list \<Rightarrow> User list" where
  "updated_users user us = map (\<lambda>u. if u_ID u = u_ID user
     then u\<lparr>u_Username := u_Username user, u_Email := u_Email user, u_Password := u_Password user,
            u_Status := u_Status user, u_UpdatedAt := u_UpdatedAt user\<rparr>
     else u) us"

definition with_users :: "User list \<Rightarrow> ('r, 'e, 'x) world \<Rightarrow> ('r, 'e, 'x) world" where
  "with_users us w = w\<lparr>w_db := (w_db w)\<lparr>pg_user := us\<rparr>\<rparr>"

lemma with_users_simps [simp]:
  "pg_user (w_db (with_users us w)) = us" "w_redis (with_users us w) = w_redis w" "w_uids (with_users us w) = w_uids w"
  "w_tracker (with_users us w) = w_tracker w" "w_limiter (with_users us w) = w_limiter w"
  "w_events (with_users us w) = w_events w" "w_closed (with_users us w) = w_closed w" "w_outside (with_users us w) = w_outside w"
  "pg_script (w_db (with_users us w)) = pg_script (w_db w)" "pg_user_pin (w_db (with_users us w)) = pg_user_pin (w_db w)"
  by (simp_all add: with_users_def)

lemma wp_user_update_up:
  assumes "db_up w"
    and "emails_unique (updated_users user (pg_user (w_db w))) \<Longrightarrow> usernames_unique (updated_users user (pg_user (w_db w))) \<Longrightarrow>
         Q (Inr ()) (with_users (updated_users user (pg_user (w_db w))) w)"
    and "\<And>e. \<not> (emails_unique (updated_users user (pg_user (w_db w))) \<and>
               usernames_unique (updated_users user (pg_user (w_db w)))) \<Longrightarrow> Q (Inl e) w"
  shows "wp (UR_Update (the_userRepo su) user) Q w"
  unfolding the_userRepo_def NewUserRepository_def UserRepository_Update_def Let_def UserRepository.select_convs
  using assms
  by (intro wp_statement_up) (auto simp: store_users_def with_users_def simp flip: updated_users_def)

section \<open>Redis\<close>

locale healthy = running su live glob
  for su :: "('r, 'e, 'x) deployment" and live :: "'r \<Rightarrow> string \<Rightarrow> string option" and glob +
  fixes steady :: "'r \<Rightarrow> bool"
  assumes up: "redis_up (su_redis su) live glob steady"
begin

sublocale rc: redis_up "su_redis su" live glob steady by (rule up)

abbreviation redis_steady :: "('r, 'e, 'x) world \<Rightarrow> bool" where
  "redis_steady w \<equiv> steady (w_redis w)"

lemma wp_wl_is_allowed_up:
  assumes "redis_steady w"
    and "\<And>w'. only_redis w w' \<Longrightarrow> live (w_redis w') = live (w_redis w) \<Longrightarrow> redis_steady w' \<Longrightarrow>
           Q (Inr (t \<in> wl_sessions live w u)) w'"
  shows "wp (TS_IsAllowed (the_whitelist su) u t) Q w"
  unfolding store_defs Ports.TokenStore.select_convs whitelist_defs Let_def
  by (rule wp_on_redis, unfold wp_bind, rule rc.wp_exists_up [OF assms(1)])
     (use assms(2) in \<open>auto simp: wl_sessions_def key_sessions_def\<close>)

lemma wp_bl_is_allowed_up:
  assumes "redis_steady w"
    and "\<And>w'. only_redis w w' \<Longrightarrow> live (w_redis w') = live (w_redis w) \<Longrightarrow> redis_steady w' \<Longrightarrow>
           Q (Inr (t \<notin> bl_sessions live w u)) w'"
  shows "wp (TS_IsAllowed (the_blacklist su) u t) Q w"
  unfolding store_defs Ports.TokenStore.select_convs blacklist_defs Let_def
  by (rule wp_on_redis, unfold wp_bind, rule rc.wp_exists_up [OF assms(1)])
     (use assms(2) in \<open>auto simp: bl_sessions_def key_sessions_def\<close>)

lemma wp_wl_add_up:
  assumes "redis_steady w"
    and "\<And>w'. only_redis w w' \<Longrightarrow> live (w_redis w') = (live (w_redis w))(buildKey wl_adapter u t \<mapsto> ''1'') \<Longrightarrow>
           redis_steady w' \<Longrightarrow> Q (Inr ()) w'"
  shows "wp (TS_Add (the_whitelist su) u t) Q w"
  unfolding store_defs Ports.TokenStore.select_convs whitelist_defs Let_def
  by (rule wp_on_redis, unfold wp_call, rule rc.wp_set_up [OF assms(1)])
     (use assms(2) in \<open>auto simp: whitelist_ttl_def second_def\<close>)

lemma wp_wl_remove_up:
  assumes "redis_steady w"
    and "\<And>w'. only_redis w w' \<Longrightarrow> live (w_redis w') = live (w_redis w) |` (- {buildKey wl_adapter u t}) \<Longrightarrow>
           redis_steady w' \<Longrightarrow> Q (Inr ()) w'"
  shows "wp (TS_Remove (the_whitelist su) u t) Q w"
  unfolding store_defs Ports.TokenStore.select_convs whitelist_defs Let_def
  by (rule wp_on_redis, unfold wp_call, rule rc.wp_del_up [OF assms(1)]) (use assms(2) in auto)

lemma wp_bl_add_up:
  assumes "redis_steady w"
    and "\<And>w'. only_redis w w' \<Longrightarrow> live (w_redis w') = (live (w_redis w))(buildKey bl_adapter u t \<mapsto> ''1'') \<Longrightarrow>
           redis_steady w' \<Longrightarrow> Q (Inr ()) w'"
  shows "wp (TS_Add (the_blacklist su) u t) Q w"
  unfolding store_defs Ports.TokenStore.select_convs blacklist_defs Let_def
  by (rule wp_on_redis, unfold wp_call, rule rc.wp_set_up [OF assms(1)])
     (use assms(2) in \<open>auto simp: blacklist_ttl_def second_def\<close>)

end

end
