(* ===== verification/Hashers.thy ===== *)
theory Hashers
  imports Ports
begin

text \<open>
  \<open>internal/adapter/security/argon2id.go\<close>, \<open>bcrypt.go\<close>, \<open>sha256.go\<close> and \<open>factory.go\<close>. The hash
  functions are libraries, taken as parameters: creating an Argon2id or a bcrypt hash draws a salt,
  so it is a program over the outside state; SHA-256 is a function to 32 bytes.
\<close>

section \<open>The adapters\<close>

record Params =
  Memory :: int
  Iterations :: int
  Parallelism :: int
  SaltLength :: int
  KeyLength :: int

record 'x hash_library =
  argon2_CreateHash :: "string \<Rightarrow> Params \<Rightarrow> ('x, string result) prog"
  argon2_ComparePasswordAndHash :: "string \<Rightarrow> string \<Rightarrow> bool result"
  bcrypt_GenerateFromPassword :: "string \<Rightarrow> int \<Rightarrow> ('x, string result) prog"
  bcrypt_CompareHashAndPassword :: "string \<Rightarrow> string \<Rightarrow> unit result"
  sha256_Sum256 :: "string \<Rightarrow> string"

text \<open>The dynamic types a value of the options map may have.\<close>

datatype option_value =
    VInt int | VInt32 int | VInt64 int | VUint int | VUint8 int | VUint32 int | VUint64 int
  | VString string | VOther

definition DefaultArgon2Params :: Params where
  "DefaultArgon2Params = \<lparr>Memory = 128 * 1024, Iterations = 3, Parallelism = 4, SaltLength = 16, KeyLength = 32\<rparr>"

fun toUint32 :: "option_value \<Rightarrow> int option" where
  "toUint32 (VInt n) = Some (n mod 2 ^ 32)"
| "toUint32 (VInt32 n) = Some (n mod 2 ^ 32)"
| "toUint32 (VInt64 n) = Some (n mod 2 ^ 32)"
| "toUint32 (VUint n) = Some (n mod 2 ^ 32)"
| "toUint32 (VUint32 n) = Some n"
| "toUint32 (VUint64 n) = Some (n mod 2 ^ 32)"
| "toUint32 _ = None"

fun toUint8 :: "option_value \<Rightarrow> int option" where
  "toUint8 (VInt n) = Some (n mod 2 ^ 8)"
| "toUint8 (VInt32 n) = Some (n mod 2 ^ 8)"
| "toUint8 (VInt64 n) = Some (n mod 2 ^ 8)"
| "toUint8 (VUint n) = Some (n mod 2 ^ 8)"
| "toUint8 (VUint8 n) = Some n"
| "toUint8 (VUint64 n) = Some (n mod 2 ^ 8)"
| "toUint8 _ = None"

definition argon2_option :: "string \<times> option_value \<Rightarrow> Params \<Rightarrow> Params" where
  "argon2_option kv p = (case kv of (k, v) \<Rightarrow>
     if k = ''Memory'' then (case toUint32 v of Some n \<Rightarrow> p\<lparr>Memory := n\<rparr> | None \<Rightarrow> p)
     else if k = ''Iterations'' then (case toUint32 v of Some n \<Rightarrow> p\<lparr>Iterations := n\<rparr> | None \<Rightarrow> p)
     else if k = ''Parallelism'' then (case toUint8 v of Some n \<Rightarrow> p\<lparr>Parallelism := n\<rparr> | None \<Rightarrow> p)
     else if k = ''SaltLength'' then (case toUint32 v of Some n \<Rightarrow> p\<lparr>SaltLength := n\<rparr> | None \<Rightarrow> p)
     else if k = ''KeyLength'' then (case toUint32 v of Some n \<Rightarrow> p\<lparr>KeyLength := n\<rparr> | None \<Rightarrow> p)
     else p)"

definition argon2_params :: "(string \<times> option_value) list option \<Rightarrow> Params" where
  "argon2_params options =
     (case options of None \<Rightarrow> DefaultArgon2Params | Some kvs \<Rightarrow> fold argon2_option kvs DefaultArgon2Params)"

definition NewArgon2Hasher :: "'x hash_library \<Rightarrow> (string \<times> option_value) list option \<Rightarrow> 'x Hasher" where
  "NewArgon2Hasher lib options =
     \<lparr>H_Hash = (\<lambda>plain. do {
        r \<leftarrow> argon2_CreateHash lib plain (argon2_params options);
        (case r of
           Inl err \<Rightarrow> fail (Fmt (''failed to hash password: '' @ Error_text err) (Some err))
         | Inr hash \<Rightarrow> ok hash) }),
      H_Compare = (\<lambda>hashed plain.
        (case argon2_ComparePasswordAndHash lib plain hashed of Inl err \<Rightarrow> False | Inr match \<Rightarrow> match))\<rparr>"

definition bcrypt_cost :: "int option \<Rightarrow> int" where
  "bcrypt_cost cost = (let c = (case cost of None \<Rightarrow> 10 | Some c \<Rightarrow> c) in if c < 4 then 10 else c)"

definition NewBCryptHasher :: "'x hash_library \<Rightarrow> int option \<Rightarrow> 'x Hasher" where
  "NewBCryptHasher lib cost =
     \<lparr>H_Hash = (\<lambda>password. do {
        r \<leftarrow> bcrypt_GenerateFromPassword lib password (bcrypt_cost cost);
        (case r of
           Inl err \<Rightarrow> fail (Fmt (''failed to hash password: '' @ Error_text err) (Some err))
         | Inr bytes \<Rightarrow> ok bytes) }),
      H_Compare = (\<lambda>hashedPassword password.
        (case bcrypt_CompareHashAndPassword lib hashedPassword password of Inl err \<Rightarrow> False | Inr _ \<Rightarrow> True))\<rparr>"

definition hex_digit :: "nat \<Rightarrow> char" where
  "hex_digit n = (if n < 10 then char_of (48 + n) else char_of (87 + n))"

definition EncodeToString :: "string \<Rightarrow> string" where
  "EncodeToString bytes = concat (map (\<lambda>c. let n = of_char c :: nat in [hex_digit (n div 16), hex_digit (n mod 16)]) bytes)"

definition sha256_hash :: "'x hash_library \<Rightarrow> string \<Rightarrow> string \<Rightarrow> string" where
  "sha256_hash lib salt plain =
     EncodeToString (sha256_Sum256 lib (if salt \<noteq> [] then salt @ plain else plain))"

definition NewSHA256Hasher :: "'x hash_library \<Rightarrow> string option \<Rightarrow> 'x Hasher" where
  "NewSHA256Hasher lib salt =
     (let s = (case salt of None \<Rightarrow> [] | Some s \<Rightarrow> s)
      in \<lparr>H_Hash = (\<lambda>plain. ok (sha256_hash lib s plain)),
          H_Compare = (\<lambda>hashed plain. hashed = sha256_hash lib s plain)\<rparr>)"

text \<open>A failed type assertion gives the zero value.\<close>

definition NewHasher :: "'x hash_library \<Rightarrow> string \<Rightarrow> (string \<times> option_value) list \<Rightarrow> 'x Hasher result" where
  "NewHasher lib hasherType params =
     (if hasherType = ''argon2'' \<or> hasherType = [] then Inr (NewArgon2Hasher lib (Some params))
      else if hasherType = ''bcrypt'' then
        Inr (NewBCryptHasher lib (Some (case map_of params ''cost'' of Some (VInt n) \<Rightarrow> n | _ \<Rightarrow> 0)))
      else if hasherType = ''sha256'' then
        Inr (NewSHA256Hasher lib (Some (case map_of params ''salt'' of Some (VString s) \<Rightarrow> s | _ \<Rightarrow> [])))
      else Inl (Fmt (''unknown hasher type: '' @ hasherType) None))"

section \<open>Every hasher accepts what it hashed\<close>

text \<open>The libraries verify the hashes they create.\<close>

locale hash_contract =
  fixes lib :: "'x hash_library"
  assumes argon2_verifies: "run_state (argon2_CreateHash lib plain p) x = (Inr h, x') \<Longrightarrow>
      argon2_ComparePasswordAndHash lib plain h = Inr True"
    and bcrypt_verifies: "run_state (bcrypt_GenerateFromPassword lib plain c) x = (Inr h, x') \<Longrightarrow>
      bcrypt_CompareHashAndPassword lib h plain = Inr ()"
begin

sublocale argon2: hasher "NewArgon2Hasher lib options" for options
proof unfold_locales
  fix p s c s'
  assume run: "run_state (H_Hash (NewArgon2Hasher lib options) p) s = (Inr c, s')"
  obtain r x where r: "run_state (argon2_CreateHash lib p (argon2_params options)) s = (r, x)" by fastforce
  with run argon2_verifies [of p "argon2_params options" s] show "H_Compare (NewArgon2Hasher lib options) c p"
    by (cases r) (auto simp: NewArgon2Hasher_def)
qed

sublocale bcrypt: hasher "NewBCryptHasher lib cost" for cost
proof unfold_locales
  fix p s c s'
  assume run: "run_state (H_Hash (NewBCryptHasher lib cost) p) s = (Inr c, s')"
  obtain r x where r: "run_state (bcrypt_GenerateFromPassword lib p (bcrypt_cost cost)) s = (r, x)" by fastforce
  with run bcrypt_verifies [of p "bcrypt_cost cost" s] show "H_Compare (NewBCryptHasher lib cost) c p"
    by (cases r) (auto simp: NewBCryptHasher_def)
qed

sublocale sha256: hasher "NewSHA256Hasher lib salt" for salt
  by unfold_locales (auto simp: NewSHA256Hasher_def Let_def)

lemma NewHasher_accepts:
  assumes "NewHasher lib ty params = Inr h" shows "hasher h"
  using assms argon2.hasher_axioms bcrypt.hasher_axioms sha256.hasher_axioms
  by (auto simp: NewHasher_def split: if_splits)

end

text \<open>A reference library: hashes in clear, marked with the algorithm; passwords of bcrypt stop at 72 bytes.\<close>

definition ref_hash :: "'x hash_library" where
  "ref_hash = \<lparr>
     argon2_CreateHash = (\<lambda>plain p. ok (''$argon2id$'' @ plain)),
     argon2_ComparePasswordAndHash = (\<lambda>plain h. Inr (h = ''$argon2id$'' @ plain)),
     bcrypt_GenerateFromPassword = (\<lambda>plain c. if length plain > 72 then fail (Fmt ''bcrypt: password length exceeds 72 bytes'' None)
                                               else ok (''$2a$'' @ plain)),
     bcrypt_CompareHashAndPassword = (\<lambda>h plain. if h = ''$2a$'' @ plain then Inr () else Inl (Fmt ''mismatch'' None)),
     sha256_Sum256 = (\<lambda>s. s)\<rparr>"

interpretation ref_hash: hash_contract ref_hash
  by unfold_locales (auto simp: ref_hash_def split: if_splits)

section \<open>The options of the composition root\<close>

text \<open>
  The map \<open>cmd/main.go\<close> passes to \<open>NewHasher\<close>, from the fields of \<open>config.HasherConfig\<close>.
\<close>

definition main_hasher_options :: "int \<Rightarrow> string \<Rightarrow> int \<Rightarrow> int \<Rightarrow> int \<Rightarrow> int \<Rightarrow> int \<Rightarrow> (string \<times> option_value) list" where
  "main_hasher_options cost salt memory iterations parallelism saltLength keyLength =
     [(''cost'', VInt cost), (''salt'', VString salt), (''memory'', VInt memory), (''iterations'', VInt iterations),
      (''parallelism'', VInt parallelism), (''saltLength'', VInt saltLength), (''keyLength'', VInt keyLength)]"

definition argon2_names :: "string set" where
  "argon2_names = {''Memory'', ''Iterations'', ''Parallelism'', ''SaltLength'', ''KeyLength''}"

lemma argon2_option_unknown: "fst kv \<notin> argon2_names \<Longrightarrow> argon2_option kv p = p"
  by (cases kv) (simp add: argon2_option_def argon2_names_def)

lemma argon2_options_by_name:
  assumes "list_all (\<lambda>kv. fst kv \<notin> argon2_names) options"
  shows "argon2_params (Some options) = DefaultArgon2Params"
proof -
  have "fold argon2_option options p = p" for p
    using assms by (induction options arbitrary: p) (simp_all add: argon2_option_unknown)
  then show ?thesis by (simp add: argon2_params_def)
qed

text \<open>
  The hasher the composition root builds for argon2 ignores every configured parameter: its
  option names are lower case, the constructor reads capitalised ones, so it is the hasher with
  the defaults.
\<close>

theorem main_argon2_config_ignored:
  "NewHasher lib ''argon2'' (main_hasher_options cost salt memory iterations parallelism saltLength keyLength) =
     Inr (NewArgon2Hasher lib None)"
  by (simp add: NewHasher_def NewArgon2Hasher_def argon2_options_by_name argon2_names_def main_hasher_options_def argon2_params_def [of None])

end
