(* ===== verification/Jwt.thy ===== *)
theory Jwt
  imports Ports
begin

text \<open>
  \<open>internal/adapter/security/jwt.go\<close>: access and refresh tokens as signed JWTs. The JWT library is
  outside the repository: a signer and a parser, with their documented behaviour stated by the
  locale \<open>jwt_contract\<close>; a reference library satisfies it. The state is the clock, which a call
  reads once.
\<close>

section \<open>The adapter\<close>

text \<open>Dates are the seconds of a NumericDate.\<close>

record JWTClaims =
  jc_Uid :: string
  jc_Sid :: string
  jc_Type :: string
  jc_Identifier :: string
  jc_IdentifierType :: string
  jc_Extra :: "anymap option"
  jc_ExpiresAt :: int
  jc_IssuedAt :: int
  jc_NotBefore :: int
  jc_Issuer :: string
  jc_Subject :: string

record jwt_library =
  jwt_SignedString :: "string \<Rightarrow> JWTClaims \<Rightarrow> string result"
  jwt_ParseWithClaims :: "string \<Rightarrow> time \<Rightarrow> string \<Rightarrow> JWTClaims result"

record JWTGenerator =
  g_secretKey :: string
  g_accessExpiry :: duration
  g_refreshExpiry :: duration

definition NewNumericDate :: "time \<Rightarrow> int" where
  "NewNumericDate t = t div 1000000000"

definition jwt_claims :: "TokenClaims \<Rightarrow> time \<Rightarrow> duration \<Rightarrow> JWTClaims" where
  "jwt_claims claims now expiry =
     \<lparr>jc_Uid = c_Uid claims, jc_Sid = c_Sid claims, jc_Type = c_Type claims, jc_Identifier = c_Identifier claims,
      jc_IdentifierType = c_IdentifierType claims, jc_Extra = c_Extra claims,
      jc_ExpiresAt = NewNumericDate (now + expiry), jc_IssuedAt = NewNumericDate now,
      jc_NotBefore = NewNumericDate now, jc_Issuer = ''service-user'', jc_Subject = c_Uid claims\<rparr>"

definition JWT_GenerateToken :: "jwt_library \<Rightarrow> JWTGenerator \<Rightarrow> TokenClaims \<Rightarrow> (time, string result) prog" where
  "JWT_GenerateToken lib g claims = State (\<lambda>now.
     (if c_Type claims = TokenTypeAccess
      then jwt_SignedString lib (g_secretKey g) (jwt_claims claims now (g_accessExpiry g))
      else if c_Type claims = TokenTypeRefresh
      then jwt_SignedString lib (g_secretKey g) (jwt_claims claims now (g_refreshExpiry g))
      else Inl ErrInvalidTokenType, now))"

definition JWT_ValidateToken :: "jwt_library \<Rightarrow> JWTGenerator \<Rightarrow> string \<Rightarrow> (time, TokenClaims result) prog" where
  "JWT_ValidateToken lib g tokenString = State (\<lambda>now.
     (case jwt_ParseWithClaims lib (g_secretKey g) now tokenString of
        Inl err \<Rightarrow>
          if errors_Is err JwtErrTokenExpired then Inl ErrTokenExpired
          else Inl (Fmt (Error_text ErrTokenInvalid @ '': '' @ Error_text err) (Some ErrTokenInvalid))
      | Inr claims \<Rightarrow>
          Inr \<lparr>c_Uid = jc_Uid claims, c_Sid = jc_Sid claims, c_Type = jc_Type claims,
               c_Identifier = jc_Identifier claims, c_IdentifierType = jc_IdentifierType claims,
               c_Extra = jc_Extra claims\<rparr>, now))"

definition NewJWTGenerator :: "jwt_library \<Rightarrow> JWTGenerator \<Rightarrow> time TokenGenerator" where
  "NewJWTGenerator lib g =
     \<lparr>TG_GenerateToken = JWT_GenerateToken lib g, TG_ValidateToken = JWT_ValidateToken lib g\<rparr>"

section \<open>What the adapter relies on, and what it gives\<close>

text \<open>
  A token parses, with the key it was signed with, to the claims that were signed, as JSON carries
  them: an empty map of extra claims is omitted. It is refused as expired from its expiry date on,
  and refused before its not-before date. \<open>json_safe\<close> are the claims JSON carries without loss.
\<close>

definition over_json :: "anymap option \<Rightarrow> anymap option" where
  "over_json extra = (if extra = Some [] then None else extra)"

locale jwt_contract =
  fixes lib :: jwt_library and json_safe :: "JWTClaims \<Rightarrow> bool"
  assumes parse_live: "jwt_SignedString lib key c = Inr t \<Longrightarrow> json_safe c \<Longrightarrow>
      jc_NotBefore c * 1000000000 \<le> now \<Longrightarrow> now < jc_ExpiresAt c * 1000000000 \<Longrightarrow>
      jwt_ParseWithClaims lib key now t = Inr (c\<lparr>jc_Extra := over_json (jc_Extra c)\<rparr>)"
    and parse_expired: "jwt_SignedString lib key c = Inr t \<Longrightarrow> json_safe c \<Longrightarrow> jc_ExpiresAt c * 1000000000 \<le> now \<Longrightarrow>
      \<exists>e. jwt_ParseWithClaims lib key now t = Inl e \<and> errors_Is e JwtErrTokenExpired"
    and parse_early: "jwt_SignedString lib key c = Inr t \<Longrightarrow> json_safe c \<Longrightarrow> now < jc_NotBefore c * 1000000000 \<Longrightarrow>
      \<exists>e. jwt_ParseWithClaims lib key now t = Inl e"
begin

lemma validate_signed:
  assumes "jwt_SignedString lib (g_secretKey g) (jwt_claims c t0 expiry) = Inr t" "json_safe (jwt_claims c t0 expiry)" "t0 \<le> now"
  shows "run_state (JWT_ValidateToken lib g t) now =
     (if now < NewNumericDate (t0 + expiry) * 1000000000 then Inr (c\<lparr>c_Extra := over_json (c_Extra c)\<rparr>)
      else Inl ErrTokenExpired, now)"
proof -
  have "NewNumericDate t0 * 1000000000 \<le> t0" by (simp add: NewNumericDate_def)
  then have nbf: "jc_NotBefore (jwt_claims c t0 expiry) * 1000000000 \<le> now"
    using assms(3) by (simp add: jwt_claims_def)
  show ?thesis
  proof (cases "now < NewNumericDate (t0 + expiry) * 1000000000")
    case True
    with parse_live [OF assms(1,2) nbf] show ?thesis
      by (simp add: JWT_ValidateToken_def jwt_claims_def)
  next
    case False
    then obtain e where "jwt_ParseWithClaims lib (g_secretKey g) now t = Inl e" "errors_Is e JwtErrTokenExpired"
      using parse_expired [OF assms(1,2), of now] by (auto simp: jwt_claims_def)
    with False show ?thesis by (simp add: JWT_ValidateToken_def)
  qed
qed

end

definition expiry_of :: "JWTGenerator \<Rightarrow> string \<Rightarrow> duration" where
  "expiry_of g ty = (if ty = TokenTypeAccess then g_accessExpiry g else g_refreshExpiry g)"

text \<open>
  C27: A token that GenerateToken signed validates, at any later time before its expiry in whole
  seconds, to the claims it was made from (the extra entries as JSON returns them), and is
  ErrTokenExpired afterwards.
\<close>

theorem jwt_roundtrip:
  assumes "jwt_contract lib safe" and "run_state (JWT_GenerateToken lib g c) t0 = (Inr t, t0')"
    and "safe (jwt_claims c t0 (expiry_of g (c_Type c)))" and "t0 \<le> now"
  shows "run_state (JWT_ValidateToken lib g t) now =
     (if now < NewNumericDate (t0 + expiry_of g (c_Type c)) * 1000000000
      then Inr (c\<lparr>c_Extra := over_json (c_Extra c)\<rparr>) else Inl ErrTokenExpired, now)"
proof -
  have "jwt_SignedString lib (g_secretKey g) (jwt_claims c t0 (expiry_of g (c_Type c))) = Inr t"
    using assms(2) by (auto simp: JWT_GenerateToken_def expiry_of_def split: if_splits)
  from jwt_contract.validate_signed [OF assms(1) this assms(3,4)] show ?thesis .
qed

section \<open>A reference library\<close>

text \<open>
  Tokens that are the key and the claims in clear, each field escaped and ended by a dot. It signs
  claims without extra entries only.
\<close>

fun enc_field :: "string \<Rightarrow> string" where
  "enc_field [] = ''.''"
| "enc_field (c # cs) = CHR ''x'' # c # enc_field cs"

fun dec_field :: "string \<Rightarrow> (string \<times> string) option" where
  "dec_field [] = None"
| "dec_field [c] = (if c = CHR ''.'' then Some ([], []) else None)"
| "dec_field (c # d # cs) =
     (if c = CHR ''.'' then Some ([], d # cs)
      else (case dec_field cs of None \<Rightarrow> None | Some (s, rest) \<Rightarrow> Some (d # s, rest)))"

fun dec_fields :: "nat \<Rightarrow> string \<Rightarrow> string list option" where
  "dec_fields 0 t = (if t = [] then Some [] else None)"
| "dec_fields (Suc n) t =
     (case dec_field t of
        None \<Rightarrow> None
      | Some (s, rest) \<Rightarrow> (case dec_fields n rest of None \<Rightarrow> None | Some ss \<Rightarrow> Some (s # ss)))"

definition ref_fields :: "string \<Rightarrow> JWTClaims \<Rightarrow> string list" where
  "ref_fields key c =
     [key, jc_Uid c, jc_Sid c, jc_Type c, jc_Identifier c, jc_IdentifierType c,
      (if jc_Extra c = None then ''-'' else ''+''),
      FormatInt (jc_ExpiresAt c), FormatInt (jc_IssuedAt c), FormatInt (jc_NotBefore c), jc_Issuer c, jc_Subject c]"

definition no_extra :: "JWTClaims \<Rightarrow> bool" where
  "no_extra c \<longleftrightarrow> (jc_Extra c = None \<or> jc_Extra c = Some []) \<and>
     (\<forall>i \<in> {jc_ExpiresAt c, jc_IssuedAt c, jc_NotBefore c}. - (2 ^ 63) \<le> i \<and> i < 2 ^ 63)"

definition ref_parse :: "string \<Rightarrow> time \<Rightarrow> string \<Rightarrow> JWTClaims result" where
  "ref_parse key now t =
     (case dec_fields 12 t of
        Some [k, uid, sid, ty, ident, identTy, ext, ex, iat, nbf, iss, sub] \<Rightarrow>
          if k \<noteq> key then Inl (Fmt ''signature is invalid'' None)
          else if ParseInt_value ex * 1000000000 \<le> now then Inl JwtErrTokenExpired
          else if now < ParseInt_value nbf * 1000000000 then Inl (Fmt ''token is not valid yet'' None)
          else Inr \<lparr>jc_Uid = uid, jc_Sid = sid, jc_Type = ty, jc_Identifier = ident, jc_IdentifierType = identTy,
                    jc_Extra = None, jc_ExpiresAt = ParseInt_value ex, jc_IssuedAt = ParseInt_value iat,
                    jc_NotBefore = ParseInt_value nbf, jc_Issuer = iss, jc_Subject = sub\<rparr>
      | _ \<Rightarrow> Inl (Fmt ''token is malformed'' None))"

definition ref_jwt :: jwt_library where
  "ref_jwt = \<lparr>
     jwt_SignedString = (\<lambda>key c. if no_extra c then Inr (concat (map enc_field (ref_fields key c)))
                                 else Inl (Fmt ''unsupported'' None)),
     jwt_ParseWithClaims = ref_parse\<rparr>"

lemma dec_enc_field: "dec_field (enc_field s @ rest) = Some (s, rest)"
proof (induction s)
  case Nil
  then show ?case by (cases rest) auto
qed simp

lemma dec_enc_fields: "dec_fields (length ss) (concat (map enc_field ss)) = Some ss"
  by (induction ss) (simp_all add: dec_enc_field)

lemma dec_ref_fields: "dec_fields 12 (concat (map enc_field (ref_fields key c))) = Some (ref_fields key c)"
proof -
  have len: "length (ref_fields key c) = 12" by (simp add: ref_fields_def)
  show ?thesis using dec_enc_fields [of "ref_fields key c"] unfolding len .
qed

lemma ref_parse_signed:
  assumes "jwt_SignedString ref_jwt key c = Inr t"
  shows "no_extra c" and "jwt_ParseWithClaims ref_jwt key now t =
      (if jc_ExpiresAt c * 1000000000 \<le> now then Inl JwtErrTokenExpired
       else if now < jc_NotBefore c * 1000000000 then Inl (Fmt ''token is not valid yet'' None)
       else Inr (c\<lparr>jc_Extra := over_json (jc_Extra c)\<rparr>))"
proof -
  show safe: "no_extra c" using assms by (simp add: ref_jwt_def split: if_splits)
  have tt: "t = concat (map enc_field (ref_fields key c))" using assms safe by (simp add: ref_jwt_def)
  have d: "dec_fields 12 t = Some (ref_fields key c)" unfolding tt by (rule dec_ref_fields)
  show "jwt_ParseWithClaims ref_jwt key now t =
      (if jc_ExpiresAt c * 1000000000 \<le> now then Inl JwtErrTokenExpired
       else if now < jc_NotBefore c * 1000000000 then Inl (Fmt ''token is not valid yet'' None)
       else Inr (c\<lparr>jc_Extra := over_json (jc_Extra c)\<rparr>))"
    using safe
    by (cases c) (simp add: ref_jwt_def ref_parse_def d, simp add: ref_fields_def no_extra_def ParseInt_FormatInt over_json_def, auto)
qed

interpretation ref: jwt_contract ref_jwt no_extra
  by unfold_locales (simp_all add: ref_parse_signed(2))

text \<open>The adapter on the reference library is a token generator in the sense of the services.\<close>

definition jwt_wire :: "TokenClaims \<Rightarrow> TokenClaims" where
  "jwt_wire c = c\<lparr>c_Extra := over_json (c_Extra c)\<rparr>"

definition jwt_live :: "jwt_library \<Rightarrow> JWTGenerator \<Rightarrow> time \<Rightarrow> string \<Rightarrow> bool" where
  "jwt_live lib g now t \<longleftrightarrow> (\<exists>c. jwt_ParseWithClaims lib (g_secretKey g) now t = Inr c)"

definition ref_generator :: JWTGenerator where
  "ref_generator = \<lparr>g_secretKey = ''secret'', g_accessExpiry = 15 * 60 * 1000000000, g_refreshExpiry = 30 * 24 * 3600 * 1000000000\<rparr>"

interpretation ref_tokens: token_generator "NewJWTGenerator ref_jwt ref_generator" "jwt_live ref_jwt ref_generator" jwt_wire
proof unfold_locales
  fix c s t s' s2
  assume gen: "run_state (TG_GenerateToken (NewJWTGenerator ref_jwt ref_generator) c) s = (Inr t, s')"
    and lt: "jwt_live ref_jwt ref_generator s2 t"
  from gen obtain e where e: "jwt_SignedString ref_jwt (g_secretKey ref_generator) (jwt_claims c s e) = Inr t"
    by (auto simp: NewJWTGenerator_def JWT_GenerateToken_def split: if_splits)
  show "run_state (TG_ValidateToken (NewJWTGenerator ref_jwt ref_generator) t) s2 = (Inr (jwt_wire c), s2)"
    using lt ref_parse_signed(2) [OF e, of s2]
    by (simp add: NewJWTGenerator_def JWT_ValidateToken_def jwt_live_def split: if_splits)
       (simp add: jwt_claims_def jwt_wire_def)
qed (auto simp: NewJWTGenerator_def JWT_GenerateToken_def JWT_ValidateToken_def jwt_wire_def)

lemma jwt_roundtrip_witness:
  "\<exists>t. run_state (JWT_GenerateToken ref_jwt ref_generator
          \<lparr>c_Uid = ''u1'', c_Sid = ''s1'', c_Type = TokenTypeRefresh, c_Identifier = ''a'', c_IdentifierType = ''username'', c_Extra = Some []\<rparr>) 5
        = (Inr t, 5) \<and>
     run_state (JWT_ValidateToken ref_jwt ref_generator t) (2592000 * 1000000000 + 5) = (Inl ErrTokenExpired, 2592000 * 1000000000 + 5)"
proof -
  let ?c = "\<lparr>c_Uid = ''u1'', c_Sid = ''s1'', c_Type = TokenTypeRefresh, c_Identifier = ''a'', c_IdentifierType = ''username'', c_Extra = Some []\<rparr>"
  have safe: "no_extra (jwt_claims ?c 5 (expiry_of ref_generator (c_Type ?c)))"
    by (simp add: no_extra_def jwt_claims_def expiry_of_def ref_generator_def NewNumericDate_def
        TokenTypeRefresh_def TokenTypeAccess_def)
  then have "\<exists>t. run_state (JWT_GenerateToken ref_jwt ref_generator ?c) 5 = (Inr t, 5)"
    by (simp add: JWT_GenerateToken_def ref_jwt_def expiry_of_def TokenTypeRefresh_def TokenTypeAccess_def)
  then obtain t where t: "run_state (JWT_GenerateToken ref_jwt ref_generator ?c) 5 = (Inr t, 5)" by blast
  have "jwt_contract ref_jwt no_extra" by unfold_locales
  from jwt_roundtrip [OF this t safe, of "2592000 * 1000000000 + 5"] t show ?thesis
    by (intro exI [of _ t]) (simp add: expiry_of_def ref_generator_def NewNumericDate_def
        TokenTypeRefresh_def TokenTypeAccess_def)
qed

end
