(* ===== verification/Demo.thy ===== *)
theory Demo
  imports AuthProperties Hashers Jwt
begin

text \<open>
  A deployment on reference adapters, on which the properties of the running service are applied to
  concrete requests: the in-memory Redis of \<open>Redis\<close>, a database that returns rows in storage order,
  the login tracker and the rate limiter with the configured defaults, Argon2id on the reference hash
  library, a publisher that keeps its messages, an OAuth provider that vouches for the code it is
  given, and tokens that carry a user, a session and a type.
\<close>

section \<open>The adapters\<close>

definition demo_engine :: pg_engine where
  "demo_engine = \<lparr>order_users = (\<lambda>_. Inr), order_devices = (\<lambda>_. Inr), order_user_devices = (\<lambda>_. Inr),
     order_user_pins = (\<lambda>_. Inr), order_user_profiles = (\<lambda>_. Inr), order_user_files = (\<lambda>_. Inr),
     inet_text = Some\<rparr>"

definition demo_token :: "string \<Rightarrow> string \<Rightarrow> string \<Rightarrow> string" where
  "demo_token uid sid ty = concat (map enc_field [uid, sid, ty])"

definition demo_wire :: "TokenClaims \<Rightarrow> TokenClaims" where
  "demo_wire c = c\<lparr>c_Identifier := [], c_IdentifierType := [], c_Extra := None\<rparr>"

definition demo_tokens :: "time TokenGenerator" where
  "demo_tokens =
     \<lparr>TG_GenerateToken = (\<lambda>c. ok (demo_token (c_Uid c) (c_Sid c) (c_Type c))),
      TG_ValidateToken = (\<lambda>t.
        (case dec_fields 3 t of
           Some [uid, sid, ty] \<Rightarrow>
             ok \<lparr>c_Uid = uid, c_Sid = sid, c_Type = ty, c_Identifier = [], c_IdentifierType = [], c_Extra = None\<rparr>
         | _ \<Rightarrow> fail ErrTokenInvalid))\<rparr>"

lemma dec_demo_token: "dec_fields 3 (demo_token uid sid ty) = Some [uid, sid, ty]"
  using dec_enc_fields [of "[uid, sid, ty]"] by (simp add: demo_token_def numeral_3_eq_3)

interpretation demo_tokens: token_generator demo_tokens "\<lambda>_ _. True" demo_wire
  by unfold_locales
    (auto simp: demo_tokens_def dec_demo_token demo_wire_def split: option.splits list.splits)

definition demo_oauth :: "time OAuthProvider" where
  "demo_oauth =
     \<lparr>OP_GetAuthorizationURL = (\<lambda>state uri. ok (''https://accounts.example/?state='' @ state)),
      OP_ExchangeCode = (\<lambda>code state uri.
        ok \<lparr>ot_AccessToken = code, ot_RefreshToken = [], ot_ExpiresIn = 3600, ot_IDToken = [], ot_TokenType = ''Bearer''\<rparr>),
      OP_GetUserInfo = (\<lambda>t.
        ok \<lparr>oi_ProviderID = ''1'', oi_Email = ot_AccessToken t, oi_EmailVerified = True, oi_FirstName = [],
            oi_LastName = [], oi_FullName = [], oi_Picture = [], oi_Locale = [], oi_ExpiresAt = None\<rparr>)\<rparr>"

definition demo_publisher :: "EventMessage list EventPublisher" where
  "demo_publisher = \<lparr>EP_Publish = (\<lambda>m. State (\<lambda>ms. (Inr (), ms @ [m])))\<rparr>"

definition demo_uid :: "nat \<Rightarrow> string" where
  "demo_uid n = ''uid-'' @ FormatInt (int n)"

lemma demo_uid_inj [simp]: "demo_uid m = demo_uid n \<longleftrightarrow> m = n"
  by (auto simp: demo_uid_def dest: FormatInt_inj)

definition demo :: "(mem_redis, EventMessage list, time) deployment" where
  "demo = \<lparr>su_redis = mem_client, su_engine = demo_engine, su_tracker = login_tracker, su_limiter = default_limiter,
     su_uid = demo_uid, su_publisher = demo_publisher, su_passwordHasher = NewArgon2Hasher ref_hash None,
     su_pinHasher = NewArgon2Hasher ref_hash None, su_tokenGen = demo_tokens, su_oauth = demo_oauth,
     su_randInt = (\<lambda>n. ok 0), su_now = State (\<lambda>x. (x, x)), su_code = ''app''\<rparr>"

interpretation demo: running demo mem_live mem_glob
proof (rule running.intro)
  show "redis_kv (su_redis demo) mem_live mem_glob"
    using mem.redis_kv_axioms by (simp add: demo_def)
  show "hasher (su_passwordHasher demo)" "hasher (su_pinHasher demo)"
    using ref_hash.argon2.hasher_axioms [of None] by (simp_all add: demo_def)
qed

section \<open>A state of the service\<close>

definition ref_password :: "string \<Rightarrow> string" where
  "ref_password plain = ''$argon2id$'' @ plain"

definition alice :: User where
  "alice = \<lparr>u_ID = 1, u_UID = ''u-alice'', u_Username = ''alice'', u_Email = ''alice@x'',
     u_Password = ref_password ''Secret1!'', u_Status = UserStatusActive, u_CreatedAt = 0, u_UpdatedAt = 0,
     u_DeletedAt = None\<rparr>"

definition bob :: User where
  "bob = \<lparr>u_ID = 2, u_UID = ''u-bob'', u_Username = ''bob'', u_Email = ''bob@x'',
     u_Password = ref_password ''Hidden2?'', u_Status = UserStatusBanned, u_CreatedAt = 0, u_UpdatedAt = 0,
     u_DeletedAt = None\<rparr>"

definition demo_db :: pgstate where
  "demo_db = \<lparr>pg_user = [alice, bob], pg_device = [], pg_user_device = [], pg_user_pin = [], pg_user_profile = [],
     pg_user_file = [], pg_seq = 10, pg_now = 50, pg_script = []\<rparr>"

definition demo_world :: "(mem_redis, EventMessage list, time) world" where
  "demo_world = \<lparr>w_db = demo_db, w_redis = \<lparr>ms_keys = [], ms_clock = 100, ms_faults = []\<rparr>,
     w_tracker = \<lparr>mt_users = Map.empty, mt_now = 100\<rparr>, w_limiter = \<lparr>rl_keys = Map.empty, rl_now = 100\<rparr>,
     w_events = [], w_uids = 0, w_closed = False, w_outside = 100\<rparr>"

definition login_request :: "string \<Rightarrow> string \<Rightarrow> AuthParams" where
  "login_request user password =
     \<lparr>ap_Identifier = user, ap_IdentifierType = ''username'', ap_Password = password,
      ap_DeviceFingerprint = None, ap_DeviceName = None, ap_DeviceIP = None, ap_Extra = None\<rparr>"

end
