(* ===== verification/Sessions.thy ===== *)
theory Sessions
  imports AuthProperties Healthy Demo
begin

text \<open>
  The life of a session: opened by a login, checked by every use of its access token, replaced by a
  refresh, ended by a revocation. The first part carries the operations of
  \<open>internal/core/service/auth.go\<close> through the ports; the second states the contract as an abstract
  machine on sets of sessions and shows that the service implements it.
\<close>

section \<open>Token validation by the generator\<close>

definition validated :: "('r, 'e, 'x) deployment \<Rightarrow> ('r, 'e, 'x) world \<Rightarrow> string \<Rightarrow> TokenClaims result" where
  "validated su w t = fst (run_state (TG_ValidateToken (su_tokenGen su) t) (w_outside w))"

definition accepted :: "('r, 'e, 'x) deployment \<Rightarrow> ('r, 'e, 'x) world \<Rightarrow> string \<Rightarrow> bool" where
  "accepted su w t \<longleftrightarrow> (\<exists>c. validated su w t = Inr c)"

definition claims_in :: "('r, 'e, 'x) deployment \<Rightarrow> ('r, 'e, 'x) world \<Rightarrow> string \<Rightarrow> TokenClaims" where
  "claims_in su w t = projr (validated su w t)"

lemma validated_iff: "validated su w t = Inr c \<longleftrightarrow> accepted su w t \<and> claims_in su w t = c"
  by (auto simp: accepted_def claims_in_def)

lemma wp_validated:
  assumes "\<And>w'. only_outside w w' \<Longrightarrow> accepted su w t \<Longrightarrow> Q (Inr (claims_in su w t)) w'"
    and "\<And>e w'. only_outside w w' \<Longrightarrow> validated su w t = Inl e \<Longrightarrow> Q (Inl e) w'"
  shows "wp (TG_ValidateToken (the_tokenGen su) t) Q w"
proof (rule wp_validate)
  fix r w' assume "only_outside w w'" "run_state (TG_ValidateToken (su_tokenGen su) t) (w_outside w) = (r, w_outside w')"
  with assms show "Q r w'" by (cases r) (auto simp: validated_def accepted_def claims_in_def)
qed

lemma keeps_refresh:
  assumes "\<And>w'. users_and_sessions w w' \<Longrightarrow> Q () w'"
  shows "wp (refresh_device (the_auth su) c u sid) Q w"
  by (rule wp_mono [OF keepsD [OF keeps_refresh_device [of w] users_and_sessions_refl]]) (auto intro: assms)

text \<open>Who may refresh: the session is in the whitelist and its user is live and active.\<close>

definition may_refresh :: "('r \<Rightarrow> string \<Rightarrow> string option) \<Rightarrow> ('r, 'e, 'x) world \<Rightarrow> TokenClaims \<Rightarrow> bool" where
  "may_refresh live w c \<longleftrightarrow> IsRefresh c \<and> c_Sid c \<in> wl_sessions live w (c_Uid c) \<and>
     (\<exists>u \<in> set (pg_user (w_db w)). u_UID u = c_Uid c \<and> u_DeletedAt u = None \<and> u_Status u = UserStatusActive)"

lemmas session_simps = only_defs wl_sessions_def bl_sessions_def users_and_sessions_def outside_and_redis_def

context running
begin

lemma wp_ValidateToken:
  assumes "\<And>w'. accepted su w t \<Longrightarrow> IsAccess (claims_in su w t) \<Longrightarrow>
      c_Sid (claims_in su w t) \<in> wl_sessions live w (c_Uid (claims_in su w t)) \<Longrightarrow>
      c_Sid (claims_in su w t) \<notin> bl_sessions live w (c_Uid (claims_in su w t)) \<Longrightarrow>
      live (w_redis w') = live (w_redis w) \<Longrightarrow> Q (Inr (claims_in su w t)) w'"
    and "\<And>e w'. live (w_redis w') = live (w_redis w) \<Longrightarrow> Q (Inl e) w'"
  shows "wp (ValidateToken (the_auth su) t) Q w"
  unfolding ValidateToken_def au wp_call
  by (auto simp: session_simps intro!: wp_validated wp_wl_is_allowed wp_bl_is_allowed assms)

lemma wp_RevokeToken:
  fixes w t defines "c \<equiv> claims_in su w t"
  assumes "\<And>w'. accepted su w t \<Longrightarrow> live (w_redis w') =
      (live (w_redis w) |` (- {buildKey wl_adapter (c_Uid c) (c_Sid c)}))(buildKey bl_adapter (c_Uid c) (c_Sid c) \<mapsto> ''1'') \<Longrightarrow>
      Q (Inr ()) w'"
    and "\<And>e w'. Q (Inl e) w'"
  shows "wp (RevokeToken (the_auth su) t ty) Q w"
  unfolding RevokeToken_def au wp_call
  by (auto simp: session_simps c_def intro!: wp_validated wp_wl_remove wp_bl_add wp_async_msg assms(2-))

lemma wp_RefreshToken:
  fixes w t defines "c \<equiv> claims_in su w t"
  assumes "\<And>tok w'. accepted su w t \<Longrightarrow> may_refresh live w c \<Longrightarrow>
      issued su (c_Uid c) (su_uid su (w_uids w)) (c_Identifier c) (c_IdentifierType c) (c_Extra c) tok \<Longrightarrow>
      (let m = (live (w_redis w))(buildKey wl_adapter (c_Uid c) (su_uid su (w_uids w)) \<mapsto> ''1'')
       in live (w_redis w') = m \<or> live (w_redis w') = m |` (- {buildKey wl_adapter (c_Uid c) (c_Sid c)})) \<Longrightarrow>
      Q (Inr tok) w'"
    and "\<And>e w'. Q (Inl e) w'"
  shows "wp (RefreshToken (the_auth su) t) Q w"
proof -
  have fin: "wp (refresh_device (the_auth su) c u sid)
       (\<lambda>_. wp (call (issue_tokens (the_auth su) (c_Uid c) sid (c_Identifier c) (c_IdentifierType c) (c_Extra c)) (\<lambda>token. do {
                _ \<leftarrow> TS_Remove (the_whitelist su) (c_Uid c) (c_Sid c);
                _ \<leftarrow> EX_DoAsync the_executor ''auth.publish.refresh_token''
                      (publish_new (the_eventPublisher su) EventTokenRefresh (NewTokenEntity c)
                         (TokenRefreshData (c_Identifier c) (c_IdentifierType c)));
                ok token })) Q) w1"
    if "accepted su w t" "may_refresh live w c" "live (w_redis w1) = live (w_redis w)" "sid = su_uid su (w_uids w)" for w1 u sid
    using that
    by (auto simp: session_simps assms(3) Let_def intro!: keeps_refresh wp_issue_tokens wp_wl_remove wp_async_new assms(2))
  show ?thesis
    unfolding RefreshToken_def au wp_call
    by ((auto simp: only_defs assms(3) IsDeleted_def wl_sessions_def may_refresh_def simp flip: c_def
        dest!: lookup_user_Some intro!: wp_validated wp_wl_is_allowed wp_GetByUID wp_new_uid
          fin [unfolded wp_call wp_bind wp_ret]); blast)
qed

end

section \<open>On a healthy service\<close>

text \<open>What the service answers about an access token, from the sets of sessions.\<close>

definition validation_answer :: "TokenClaims result \<Rightarrow> (string \<Rightarrow> string set) \<Rightarrow> (string \<Rightarrow> string set) \<Rightarrow> TokenClaims result" where
  "validation_answer r active revoked =
     (case r of
        Inl e \<Rightarrow> Inl e
      | Inr c \<Rightarrow>
          if \<not> IsAccess c then Inl ErrTokenInvalid
          else if c_Sid c \<notin> active (c_Uid c) \<or> c_Sid c \<in> revoked (c_Uid c) then Inl ErrTokenRevoked
          else Inr c)"

context healthy
begin

lemma wp_ValidateToken_up:
  assumes "redis_steady w"
    and "\<And>w'. live (w_redis w') = live (w_redis w) \<Longrightarrow>
      Q (validation_answer (validated su w t) (wl_sessions live w) (bl_sessions live w)) w'"
  shows "wp (ValidateToken (the_auth su) t) Q w"
proof (cases "validated su w t")
  case (Inl e)
  then show ?thesis
    unfolding ValidateToken_def au wp_call using assms
    by (auto simp: session_simps accepted_def validation_answer_def intro!: wp_validated)
next
  case (Inr c)
  then have "claims_in su w t = c" by (simp add: validated_iff)
  with Inr show ?thesis
    unfolding ValidateToken_def au wp_call using assms
    by (auto simp: session_simps validation_answer_def intro!: wp_validated wp_wl_is_allowed_up wp_bl_is_allowed_up)
qed

lemma wp_issue_tokens_up:
  assumes "redis_steady w"
    and "\<And>tok w'. outside_and_redis w w' \<Longrightarrow> issued su uid sid identifier ty extra tok \<Longrightarrow> redis_steady w' \<Longrightarrow>
      live (w_redis w') = (live (w_redis w))(buildKey wl_adapter uid sid \<mapsto> ''1'') \<Longrightarrow> Q (Inr tok) w'"
    and "\<And>e w'. Q (Inl e) w'"
  shows "wp (issue_tokens (the_auth su) uid sid identifier ty extra) Q w"
  unfolding issue_tokens_def au wp_call
  by (auto simp: only_defs assms(1,3) intro!: wp_generated wp_wl_add_up)
     (auto simp: assms(1) issued_def outside_and_redis_def intro!: assms(2))

lemma wp_RefreshToken_up:
  fixes w t defines "c \<equiv> claims_in su w t"
  assumes "redis_steady w"
    and "\<And>tok w'. accepted su w t \<Longrightarrow> may_refresh live w c \<Longrightarrow> redis_steady w' \<Longrightarrow>
      issued su (c_Uid c) (su_uid su (w_uids w)) (c_Identifier c) (c_IdentifierType c) (c_Extra c) tok \<Longrightarrow>
      live (w_redis w') = (live (w_redis w))(buildKey wl_adapter (c_Uid c) (su_uid su (w_uids w)) \<mapsto> ''1'')
        |` (- {buildKey wl_adapter (c_Uid c) (c_Sid c)}) \<Longrightarrow> Q (Inr tok) w'"
    and "\<And>e w'. Q (Inl e) w'"
  shows "wp (RefreshToken (the_auth su) t) Q w"
proof -
  have fin: "wp (refresh_device (the_auth su) c u sid)
       (\<lambda>_. wp (call (issue_tokens (the_auth su) (c_Uid c) sid (c_Identifier c) (c_IdentifierType c) (c_Extra c)) (\<lambda>token. do {
                _ \<leftarrow> TS_Remove (the_whitelist su) (c_Uid c) (c_Sid c);
                _ \<leftarrow> EX_DoAsync the_executor ''auth.publish.refresh_token''
                      (publish_new (the_eventPublisher su) EventTokenRefresh (NewTokenEntity c)
                         (TokenRefreshData (c_Identifier c) (c_IdentifierType c)));
                ok token })) Q) w1"
    if "accepted su w t" "may_refresh live w c" "live (w_redis w1) = live (w_redis w)" "redis_steady w1"
      "sid = su_uid su (w_uids w)" for w1 u sid
    using that
    by (auto simp: only_defs users_and_sessions_def outside_and_redis_def assms(4)
        intro!: keeps_refresh wp_issue_tokens_up wp_wl_remove_up wp_async_new assms(3))
  show ?thesis
    unfolding RefreshToken_def au wp_call using assms(2)
    by ((auto simp: only_defs assms(4) IsDeleted_def wl_sessions_def may_refresh_def simp flip: c_def
        dest!: lookup_user_Some intro!: wp_validated wp_wl_is_allowed_up wp_GetByUID wp_new_uid
          fin [unfolded wp_call wp_bind wp_ret]); blast)
qed

end

end
