(* ===== verification/SessionProperties.thy ===== *)
theory SessionProperties
  imports Sessions
begin

text \<open>
  What a client may rely on about its sessions. The properties speak about any deployment that keeps
  its contracts (\<open>running\<close>), or one whose Redis answers (\<open>healthy\<close>); each is applied to the deployment
  \<open>demo\<close>.
\<close>

lemma healthy_demo: "healthy demo mem_live mem_glob mem_steady"
  by (rule healthy.intro [OF demo.running_axioms healthy_axioms.intro])
     (use mem.redis_up_axioms in \<open>simp add: demo_def\<close>)

interpretation demo: healthy demo mem_live mem_glob mem_steady
  by (rule healthy_demo)

lemma run_fst: "fst (run_state m s) = r \<Longrightarrow> \<exists>s'. run_state m s = (r, s')"
  by (cases "run_state m s") simp

section \<open>Logging in\<close>

text \<open>
  C1: Authenticate returns tokens only for a user of the table that is not deleted, is active, is
  named by the identifier, is not locked out and whose stored hash accepts the password; the
  tokens carry that user and a fresh session, the session is then in the whitelist and the failure
  count is zero. This holds through every failure of the database, of Redis and of the devices.
\<close>

theorem login_sound:
  assumes "running su live glob" and "run_state (Authenticate (the_auth su) p) w = (Inr tok, w')"
  shows "\<exists>u \<in> set (pg_user (w_db w)). may_login su w p u \<and> logged_in su live w p u tok w'"
proof -
  have "wp (Authenticate (the_auth su) p) (\<lambda>r w'. \<forall>tok. r = Inr tok \<longrightarrow>
      (\<exists>u \<in> set (pg_user (w_db w)). may_login su w p u \<and> logged_in su live w p u tok w')) w"
    by (rule running.wp_Authenticate [OF assms(1)]) blast+
  from wp_run [OF assms(2) this] show ?thesis by simp
qed

definition alice_login :: "(mem_redis, EventMessage list, time) world" where
  "alice_login = snd (run_state (Authenticate (the_auth demo) (login_request ''alice'' ''Secret1!'')) demo_world)"

definition alice_token :: "string \<Rightarrow> string" where
  "alice_token ty = demo_token ''u-alice'' ''uid-0'' ty"

lemma alice_logs_in:
  "run_state (Authenticate (the_auth demo) (login_request ''alice'' ''Secret1!'')) demo_world =
     (Inr \<lparr>Access = alice_token TokenTypeAccess, Refresh = alice_token TokenTypeRefresh\<rparr>, alice_login)"
proof -
  have "fst (run_state (Authenticate (the_auth demo) (login_request ''alice'' ''Secret1!'')) demo_world) =
      Inr \<lparr>Access = alice_token TokenTypeAccess, Refresh = alice_token TokenTypeRefresh\<rparr>"
    by code_simp
  then show ?thesis by (simp add: alice_login_def prod_eq_iff)
qed

lemma login_sound_witness:
  "\<exists>u \<in> set (pg_user (w_db demo_world)). may_login demo demo_world (login_request ''alice'' ''Secret1!'') u \<and>
     logged_in demo mem_live demo_world (login_request ''alice'' ''Secret1!'') u
       \<lparr>Access = alice_token TokenTypeAccess, Refresh = alice_token TokenTypeRefresh\<rparr> alice_login"
  by (rule login_sound [OF demo.running_axioms alice_logs_in])

section \<open>Validating\<close>

text \<open>
  C5: Even when Redis fails at will, ValidateToken returns claims only for an access token the
  generator accepts, of a session that is whitelisted and not blacklisted, and it changes no live
  key.
\<close>

theorem validate_sound:
  assumes "running su live glob" and "run_state (ValidateToken (the_auth su) t) w = (Inr c, w')"
  shows "validated su w t = Inr c \<and> IsAccess c \<and> c_Sid c \<in> wl_sessions live w (c_Uid c) \<and>
    c_Sid c \<notin> bl_sessions live w (c_Uid c) \<and> live (w_redis w') = live (w_redis w)"
proof -
  have "wp (ValidateToken (the_auth su) t) (\<lambda>r w'. \<forall>c. r = Inr c \<longrightarrow> validated su w t = Inr c \<and> IsAccess c \<and>
      c_Sid c \<in> wl_sessions live w (c_Uid c) \<and> c_Sid c \<notin> bl_sessions live w (c_Uid c) \<and> live (w_redis w') = live (w_redis w)) w"
    by (rule running.wp_ValidateToken [OF assms(1)]) (auto simp: validated_iff)
  from wp_run [OF assms(2) this] show ?thesis by simp
qed

lemma alice_validates:
  "\<exists>w. run_state (ValidateToken (the_auth demo) (alice_token TokenTypeAccess)) alice_login =
     (Inr \<lparr>c_Uid = ''u-alice'', c_Sid = ''uid-0'', c_Type = TokenTypeAccess, c_Identifier = [], c_IdentifierType = [],
           c_Extra = None\<rparr>, w)"
  by (rule run_fst) code_simp

lemma validate_sound_witness: "''uid-0'' \<in> wl_sessions mem_live alice_login ''u-alice''"
  using alice_validates validate_sound [OF demo.running_axioms] by fastforce

text \<open>
  C4: On a Redis that answers, ValidateToken is the abstract check on sets of sessions: the error
  of the generator, ErrTokenInvalid for another type of token, ErrTokenRevoked for a session that
  is not active or is revoked, the claims otherwise.
\<close>

theorem validate_exact:
  assumes "healthy su live glob steady" "steady (w_redis w)"
  shows "fst (run_state (ValidateToken (the_auth su) t) w) =
    validation_answer (validated su w t) (wl_sessions live w) (bl_sessions live w)"
  using healthy.wp_ValidateToken_up [OF assms, of "\<lambda>r w'. r = validation_answer (validated su w t) (wl_sessions live w) (bl_sessions live w)" t]
  by (simp add: wp_def split: prod.splits)

lemma validate_exact_witness:
  "fst (run_state (ValidateToken (the_auth demo) (alice_token TokenTypeRefresh)) alice_login) =
     validation_answer (validated demo alice_login (alice_token TokenTypeRefresh))
       (wl_sessions mem_live alice_login) (bl_sessions mem_live alice_login)"
proof (rule validate_exact [OF healthy_demo])
  show "mem_steady (w_redis alice_login)" unfolding mem_steady_def alice_login_def by code_simp
qed

section \<open>Revoking\<close>

lemma isl_validate:
  assumes "running su live glob" and "c_Sid (claims_in su w t) \<notin> wl_sessions live w (c_Uid (claims_in su w t))"
  shows "isl (fst (run_state (ValidateToken (the_auth su) t) w))" "isl (fst (run_state (RefreshToken (the_auth su) t) w))"
proof -
  have "wp (ValidateToken (the_auth su) t) (\<lambda>r _. isl r) w"
    using assms(2) by (intro running.wp_ValidateToken [OF assms(1)]) auto
  then show "isl (fst (run_state (ValidateToken (the_auth su) t) w))" by (simp add: wp_def split: prod.splits)
  have "wp (RefreshToken (the_auth su) t) (\<lambda>r _. isl r) w"
    using assms(2) by (intro running.wp_RefreshToken [OF assms(1)]) (auto simp: may_refresh_def)
  then show "isl (fst (run_state (RefreshToken (the_auth su) t) w))" by (simp add: wp_def split: prod.splits)
qed

text \<open>
  C2: After RevokeToken has succeeded, the session of the token is out of the whitelist and in the
  blacklist, no other session of the user changed, and no token of that session is validated or
  refreshed any more.
\<close>

theorem revoke_ends_session:
  assumes "running su live glob" and "run_state (RevokeToken (the_auth su) t ty) w = (Inr (), w')"
    and "validated su w t = Inr c"
    and "c_Uid (claims_in su w' t') = c_Uid c" "c_Sid (claims_in su w' t') = c_Sid c"
  shows "wl_sessions live w' (c_Uid c) = wl_sessions live w (c_Uid c) - {c_Sid c} \<and>
    bl_sessions live w' (c_Uid c) = insert (c_Sid c) (bl_sessions live w (c_Uid c)) \<and>
    isl (fst (run_state (ValidateToken (the_auth su) t') w')) \<and>
    isl (fst (run_state (RefreshToken (the_auth su) t') w'))"
proof -
  have c: "claims_in su w t = c" using assms(3) by (simp add: validated_iff)
  have "wp (RevokeToken (the_auth su) t ty) (\<lambda>r w'. r = Inr () \<longrightarrow>
      wl_sessions live w' (c_Uid c) = wl_sessions live w (c_Uid c) - {c_Sid c} \<and>
      bl_sessions live w' (c_Uid c) = insert (c_Sid c) (bl_sessions live w (c_Uid c))) w"
    by (rule running.wp_RevokeToken [OF assms(1)])
       (simp_all add: c wl_sessions_def bl_sessions_def key_sessions_put key_sessions_del)
  from wp_run [OF assms(2) this]
  have wl: "wl_sessions live w' (c_Uid c) = wl_sessions live w (c_Uid c) - {c_Sid c}"
    and bl: "bl_sessions live w' (c_Uid c) = insert (c_Sid c) (bl_sessions live w (c_Uid c))" by simp_all
  have "c_Sid (claims_in su w' t') \<notin> wl_sessions live w' (c_Uid (claims_in su w' t'))" using wl assms(4,5) by simp
  from isl_validate [OF assms(1) this] wl bl show ?thesis by simp
qed

lemma alice_revokes:
  "\<exists>w. run_state (RevokeToken (the_auth demo) (alice_token TokenTypeRefresh) ''refresh'') alice_login = (Inr (), w)"
  by (rule run_fst) code_simp

lemma demo_claims:
  "validated demo w (demo_token uid sid ty) =
     Inr \<lparr>c_Uid = uid, c_Sid = sid, c_Type = ty, c_Identifier = [], c_IdentifierType = [], c_Extra = None\<rparr>"
  "claims_in demo w (demo_token uid sid ty) =
     \<lparr>c_Uid = uid, c_Sid = sid, c_Type = ty, c_Identifier = [], c_IdentifierType = [], c_Extra = None\<rparr>"
  by (simp_all add: validated_def claims_in_def demo_def demo_tokens_def dec_demo_token)

lemma revoke_ends_session_witness:
  "\<exists>w. run_state (RevokeToken (the_auth demo) (alice_token TokenTypeRefresh) ''refresh'') alice_login = (Inr (), w) \<and>
     isl (fst (run_state (ValidateToken (the_auth demo) (alice_token TokenTypeAccess)) w))"
  using alice_revokes
    revoke_ends_session [OF demo.running_axioms, of "alice_token TokenTypeRefresh" "''refresh''" alice_login _
      _ "alice_token TokenTypeAccess"]
  by (fastforce simp: alice_token_def demo_claims)

section \<open>Refreshing\<close>


lemma alice_refreshes:
  "\<exists>w. run_state (RefreshToken (the_auth demo) (alice_token TokenTypeRefresh)) alice_login =
     (Inr \<lparr>Access = demo_token ''u-alice'' ''uid-1'' TokenTypeAccess, Refresh = demo_token ''u-alice'' ''uid-1'' TokenTypeRefresh\<rparr>, w)"
  by (rule run_fst) code_simp

lemma alice_login_state: "mem_steady (w_redis alice_login)" "w_uids alice_login = 1"
  unfolding mem_steady_def alice_login_def by code_simp+


section \<open>From login to validation\<close>

lemma generated_validated:
  assumes "token_generator (su_tokenGen su) live_token wire" "generated su c t" "live_token (w_outside w) t"
  shows "validated su w t = Inr (wire c)"
proof -
  from assms(2) obtain x x' where "run_state (TG_GenerateToken (su_tokenGen su) c) x = (Inr t, x')"
    by (auto simp: generated_def)
  from token_generator.generate_validate [OF assms(1) this assms(3)] show ?thesis by (simp add: validated_def)
qed

text \<open>
  C6: The access token of a successful login is accepted by ValidateToken for the user that logged
  in, as long as the token has not expired and Redis answers.
\<close>

theorem login_then_valid:
  assumes "healthy su live glob steady" "token_generator (su_tokenGen su) live_token wire"
    and "run_state (Authenticate (the_auth su) p) w = (Inr tok, w')"
    and "steady (w_redis w')" "live_token (w_outside w') (Access tok)"
    and "\<forall>v. su_uid su (w_uids w) \<notin> bl_sessions live w v"
  shows "\<exists>u c. u \<in> set (pg_user (w_db w)) \<and> may_login su w p u \<and> c_Uid c = u_UID u \<and> c_Sid c = su_uid su (w_uids w) \<and>
    fst (run_state (ValidateToken (the_auth su) (Access tok)) w') = Inr c"
proof -
  have run: "running su live glob" using assms(1) by (simp add: healthy_def)
  have "wp (Authenticate (the_auth su) p) (\<lambda>r w'. \<forall>tok. r = Inr tok \<longrightarrow>
      (\<exists>u \<in> set (pg_user (w_db w)). may_login su w p u \<and> logged_in su live w p u tok w')) w"
    by (rule running.wp_Authenticate [OF run]) blast+
  from wp_run [OF assms(3) this] obtain u where u: "u \<in> set (pg_user (w_db w))" "may_login su w p u" "logged_in su live w p u tok w'"
    by auto
  let ?sid = "su_uid su (w_uids w)"
  from u(3) obtain extra where "issued su (u_UID u) ?sid (ap_Identifier p) (ap_IdentifierType p) (Some extra) tok"
    and lv: "live (w_redis w') = (live (w_redis w))(buildKey wl_adapter (u_UID u) ?sid \<mapsto> ''1'')" by (auto simp: logged_in_def)
  then have v: "validated su w' (Access tok) = Inr (wire (token_claims (u_UID u) ?sid TokenTypeAccess (ap_Identifier p) (ap_IdentifierType p) (Some extra)))"
    by (intro generated_validated [OF assms(2) _ assms(5)]) (simp add: issued_def)
  note id = token_generator.wire_identity [OF assms(2), of "token_claims (u_UID u) ?sid TokenTypeAccess (ap_Identifier p) (ap_IdentifierType p) (Some extra)"]
  have wl: "?sid \<in> wl_sessions live w' (u_UID u)" "?sid \<notin> bl_sessions live w' (u_UID u)"
    using assms(6) lv by (simp_all add: wl_sessions_def bl_sessions_def key_sessions_put)
  have "wp (ValidateToken (the_auth su) (Access tok)) (\<lambda>r _. r = Inr (wire (token_claims (u_UID u) ?sid TokenTypeAccess
      (ap_Identifier p) (ap_IdentifierType p) (Some extra)))) w'"
    using v id wl
    by (intro healthy.wp_ValidateToken_up [OF assms(1,4)]) (simp add: validation_answer_def IsAccess_def token_claims_def)
  then have "fst (run_state (ValidateToken (the_auth su) (Access tok)) w') = Inr (wire (token_claims (u_UID u) ?sid TokenTypeAccess
      (ap_Identifier p) (ap_IdentifierType p) (Some extra)))" by (simp add: wp_def split: prod.splits)
  with u id show ?thesis by (intro exI conjI) (auto simp: token_claims_def)
qed

lemma login_then_valid_witness:
  "\<exists>u c. u \<in> set (pg_user (w_db demo_world)) \<and> may_login demo demo_world (login_request ''alice'' ''Secret1!'') u \<and>
    c_Uid c = u_UID u \<and> c_Sid c = su_uid demo (w_uids demo_world) \<and>
    fst (run_state (ValidateToken (the_auth demo) (alice_token TokenTypeAccess)) alice_login) = Inr c"
proof -
  have tg: "token_generator (su_tokenGen demo) (\<lambda>_ _. True) demo_wire"
    using demo_tokens.token_generator_axioms by (simp add: demo_def)
  have "bl_sessions mem_live demo_world v = {}" for v
    by (simp add: bl_sessions_def key_sessions_def demo_world_def mem_live_def)
  with login_then_valid [OF healthy_demo tg alice_logs_in alice_login_state(1)] show ?thesis by simp
qed

end
