(* ===== verification/Executor.thy ===== *)
theory Executor
  imports Errors "HOL-Library.Multiset"
begin

text \<open>
  \<open>internal/adapter/executor/service.go\<close>: the executor of background tasks. Its state is shared by
  goroutines, so \<open>DoAsync\<close> and \<open>Close\<close> are steps of a transition system whose grain is the critical
  section of the mutex, the \<open>WaitGroup\<close> and the \<open>sync.Once\<close>; tasks are numbered as they are submitted
  and end by themselves, by returning or by a recovered panic. \<open>DoParallel\<close> is a second transition
  system, over the completion channel of one call. Spans and log lines are not modelled.
\<close>

section \<open>Tasks that run in the caller\<close>

text \<open>\<open>Do\<close>: a nil function is refused, any other is called; its error is the answer.\<close>

definition Executor_Do :: "('s, unit result) prog option \<Rightarrow> ('s, unit result) prog" where
  "Executor_Do fn = (case fn of None \<Rightarrow> fail ErrExecutorFnInvalid | Some f \<Rightarrow> f)"

section \<open>Background tasks and shutdown\<close>

text \<open>\<open>closeOnce\<close>: not called yet, its function waiting for the \<open>WaitGroup\<close>, or returned.\<close>

datatype once = OnceFresh | OnceWaiting | OnceDone

record serviceExecutor =
  ex_closed :: bool
  ex_once :: once
  ex_wg :: "nat multiset" \<comment> \<open>the tasks the \<open>WaitGroup\<close> counts\<close>
  ex_next :: nat

definition NewServiceExecutor :: serviceExecutor where
  "NewServiceExecutor = \<lparr>ex_closed = False, ex_once = OnceFresh, ex_wg = {#}, ex_next = 0\<rparr>"

text \<open>The critical section of \<open>DoAsync\<close>: the error it returns, and the task it starts.\<close>

definition DoAsync :: "bool \<Rightarrow> serviceExecutor \<Rightarrow> go_error option \<times> serviceExecutor" where
  "DoAsync fn_is_nil s =
     (if fn_is_nil then (Some ErrExecutorFnInvalid, s)
      else if ex_closed s then (Some ErrExecutorClosed, s)
      else (None, s\<lparr>ex_wg := add_mset (ex_next s) (ex_wg s), ex_next := Suc (ex_next s)\<rparr>))"

text \<open>How a task may end; the deferred function calls \<open>wg.Done\<close> in every case.\<close>

datatype task_end = TaskReturned "go_error option" | TaskPanicked string

datatype ex_event =
    Submit nat            \<comment> \<open>\<open>DoAsync\<close> returned nil and started this task\<close>
  | Refuse go_error       \<comment> \<open>\<open>DoAsync\<close> returned this error\<close>
  | Finish nat task_end   \<comment> \<open>the deferred function of this task has run\<close>
  | CloseEnter            \<comment> \<open>the first \<open>Close\<close> has set \<open>closed\<close> and waits\<close>
  | CloseReturn           \<comment> \<open>the first \<open>Close\<close> returns\<close>
  | CloseAgain            \<comment> \<open>any other \<open>Close\<close> returns\<close>

inductive ex_step :: "serviceExecutor \<Rightarrow> ex_event \<Rightarrow> serviceExecutor \<Rightarrow> bool" where
  submit: "DoAsync n s = (None, s') \<Longrightarrow> ex_step s (Submit (ex_next s)) s'"
| refuse: "DoAsync n s = (Some e, s') \<Longrightarrow> ex_step s (Refuse e) s'"
| finish: "t \<in># ex_wg s \<Longrightarrow> ex_step s (Finish t r) (s\<lparr>ex_wg := ex_wg s - {#t#}\<rparr>)"
| close_enter: "ex_once s = OnceFresh \<Longrightarrow> ex_step s CloseEnter (s\<lparr>ex_closed := True, ex_once := OnceWaiting\<rparr>)"
| close_return: "ex_once s = OnceWaiting \<Longrightarrow> ex_wg s = {#} \<Longrightarrow> ex_step s CloseReturn (s\<lparr>ex_once := OnceDone\<rparr>)"
| close_again: "ex_once s = OnceDone \<Longrightarrow> ex_step s CloseAgain s"

inductive_cases ex_stepE: "ex_step s e s'"
inductive_simps ex_step_async: "ex_step s (Submit t) s'" "ex_step s (Refuse e) s'"
inductive_simps ex_step_simps [simp]:
  "ex_step s (Finish t r) s'" "ex_step s CloseEnter s'" "ex_step s CloseReturn s'" "ex_step s CloseAgain s'"

lemma ex_step_Submit [simp]:
  "ex_step s (Submit t) s' \<longleftrightarrow> \<not> ex_closed s \<and> t = ex_next s \<and>
     s' = s\<lparr>ex_wg := add_mset (ex_next s) (ex_wg s), ex_next := Suc (ex_next s)\<rparr>"
  by (auto simp: ex_step_async DoAsync_def intro: exI [of _ False])

lemma ex_step_Refuse [simp]:
  "ex_step s (Refuse e) s' \<longleftrightarrow> s' = s \<and> (e = ErrExecutorFnInvalid \<or> ex_closed s \<and> e = ErrExecutorClosed)"
  by (auto simp: ex_step_async DoAsync_def intro: exI [of _ True] exI [of _ False])

inductive ex_run :: "serviceExecutor \<Rightarrow> ex_event list \<Rightarrow> serviceExecutor \<Rightarrow> bool" where
  run_Nil: "ex_run s [] s"
| run_Cons: "ex_step s e s1 \<Longrightarrow> ex_run s1 es s' \<Longrightarrow> ex_run s (e # es) s'"

inductive_simps ex_run_simps [simp]: "ex_run s [] s'" "ex_run s (e # es) s'"

lemma ex_run_append: "ex_run s (es @ es') s' \<longleftrightarrow> (\<exists>s1. ex_run s es s1 \<and> ex_run s1 es' s')"
  by (induction es arbitrary: s) auto

text \<open>The tasks a run has accepted and the tasks it has seen end.\<close>

definition accepted_tasks :: "ex_event list \<Rightarrow> nat multiset" where
  "accepted_tasks es = mset (concat (map (\<lambda>e. case e of Submit t \<Rightarrow> [t] | _ \<Rightarrow> []) es))"

definition finished_tasks :: "ex_event list \<Rightarrow> nat multiset" where
  "finished_tasks es = mset (concat (map (\<lambda>e. case e of Finish t _ \<Rightarrow> [t] | _ \<Rightarrow> []) es))"

lemma task_counts [simp]:
  "accepted_tasks [] = {#}" "finished_tasks [] = {#}"
  "accepted_tasks (e # es) = (case e of Submit t \<Rightarrow> {#t#} | _ \<Rightarrow> {#}) + accepted_tasks es"
  "finished_tasks (e # es) = (case e of Finish t _ \<Rightarrow> {#t#} | _ \<Rightarrow> {#}) + finished_tasks es"
  by (simp_all add: accepted_tasks_def finished_tasks_def split: ex_event.split)

text \<open>The \<open>WaitGroup\<close> counts exactly the accepted tasks that have not ended.\<close>

lemma wait_group_counts: "ex_run s es s' \<Longrightarrow> ex_wg s + accepted_tasks es = ex_wg s' + finished_tasks es"
proof (induction rule: ex_run.induct)
  case (run_Cons s e s1 es s')
  have step: "ex_wg s + (case e of Submit t \<Rightarrow> {#t#} | _ \<Rightarrow> {#}) = ex_wg s1 + (case e of Finish t _ \<Rightarrow> {#t#} | _ \<Rightarrow> {#})"
    using run_Cons.hyps(1) by cases (auto simp: DoAsync_def split: if_splits)
  have "ex_wg s + accepted_tasks (e # es)
      = (ex_wg s + (case e of Submit t \<Rightarrow> {#t#} | _ \<Rightarrow> {#})) + accepted_tasks es"
    by (simp add: ac_simps)
  also have "\<dots> = (ex_wg s1 + accepted_tasks es) + (case e of Finish t _ \<Rightarrow> {#t#} | _ \<Rightarrow> {#})"
    unfolding step by (simp add: ac_simps)
  also have "\<dots> = ex_wg s' + finished_tasks (e # es)"
    unfolding run_Cons.IH by (simp add: ac_simps)
  finally show ?case .
qed simp

definition ex_invar :: "serviceExecutor \<Rightarrow> bool" where
  "ex_invar s \<longleftrightarrow> (ex_once s \<noteq> OnceFresh \<longrightarrow> ex_closed s) \<and> (ex_once s = OnceDone \<longrightarrow> ex_wg s = {#})
     \<and> (\<forall>t \<in># ex_wg s. t < ex_next s)"

lemma ex_invar_step: "ex_step s e s' \<Longrightarrow> ex_invar s \<Longrightarrow> ex_invar s'"
  by (erule ex_step.cases)
     (auto simp: ex_invar_def DoAsync_def less_Suc_eq split: if_splits dest: in_diffD)

lemma ex_invar_run: "ex_run s es s' \<Longrightarrow> ex_invar s \<Longrightarrow> ex_invar s'"
  by (induction rule: ex_run.induct) (auto dest: ex_invar_step)

lemma ex_invar_new: "ex_invar NewServiceExecutor"
  by (simp add: ex_invar_def NewServiceExecutor_def)

lemma done_stays:
  "ex_run s es s' \<Longrightarrow> ex_invar s \<Longrightarrow> ex_once s = OnceDone \<Longrightarrow>
     \<forall>e \<in> set es. e = Refuse ErrExecutorClosed \<or> e = Refuse ErrExecutorFnInvalid \<or> e = CloseAgain"
proof (induction rule: ex_run.induct)
  case (run_Cons s e s1 es s')
  from run_Cons.prems have c: "ex_closed s" "ex_wg s = {#}" by (auto simp: ex_invar_def)
  have "s1 = s \<and> (e = Refuse ErrExecutorClosed \<or> e = Refuse ErrExecutorFnInvalid \<or> e = CloseAgain)"
    using run_Cons.hyps(1) c run_Cons.prems(2)
    by cases (auto simp: DoAsync_def split: if_splits)
  with run_Cons.IH run_Cons.prems show ?case by simp
qed simp

text \<open>
  C30: When the first Close of the executor returns, every task DoAsync accepted has ended, by
  returning or by a recovered panic, and from then on nothing but refusals and further Close calls
  happen.
\<close>

theorem close_waits_for_all:
  assumes "ex_run NewServiceExecutor (es @ CloseReturn # es') s"
  shows "finished_tasks es = accepted_tasks es \<and>
    (\<forall>e \<in> set es'. e = Refuse ErrExecutorClosed \<or> e = Refuse ErrExecutorFnInvalid \<or> e = CloseAgain)"
proof -
  obtain s1 s2 where r1: "ex_run NewServiceExecutor es s1" and st: "ex_step s1 CloseReturn s2" and r2: "ex_run s2 es' s"
    using assms by (auto simp: ex_run_append)
  from st have w: "ex_wg s1 = {#}" and d: "ex_once s2 = OnceDone" by auto
  have "ex_invar s2" using ex_invar_step [OF st ex_invar_run [OF r1 ex_invar_new]] .
  with wait_group_counts [OF r1] w done_stays [OF r2 _ d] show ?thesis
    by (simp add: NewServiceExecutor_def)
qed

lemma close_waits_for_all_witness:
  "finished_tasks [Submit 0, Submit 1, Finish 1 (TaskPanicked ''x''), CloseEnter, Refuse ErrExecutorClosed,
       Finish 0 (TaskReturned None)] = {#0, 1#}"
proof -
  let ?es = "[Submit 0, Submit 1, Finish 1 (TaskPanicked ''x''), CloseEnter, Refuse ErrExecutorClosed, Finish 0 (TaskReturned None)]"
  have "\<exists>s. ex_run NewServiceExecutor (?es @ CloseReturn # [CloseAgain]) s"
    by (simp add: NewServiceExecutor_def DoAsync_def)
  then obtain s where "ex_run NewServiceExecutor (?es @ CloseReturn # [CloseAgain]) s" ..
  from close_waits_for_all [OF this] show ?thesis by simp
qed



section \<open>Tasks that run in parallel\<close>

text \<open>
  One call of \<open>DoParallel\<close>: the goroutines that have not sent yet, the buffered channel with what they
  sent, whether the caller's context is done, and the answer once there is one. A goroutine sends
  exactly one value: the context's error when it finds the context done, the error of the recovered
  panic, or what the task returned. The call returns when every goroutine is done, or with the
  context's error as soon as the context is done.
\<close>

datatype task_result = ResReturned "go_error option" | ResPanicked string | ResContext

record parallel =
  pl_pending :: "string multiset" \<comment> \<open>the names of the tasks still to send\<close>
  pl_chan :: "go_error option list"
  pl_ctxDone :: bool
  pl_answer :: "go_error option option"

definition panic_error :: "string \<Rightarrow> string \<Rightarrow> go_error" where
  "panic_error name msg = Fmt (''panic in task '' @ name @ '': '' @ msg) None"

fun sent_value :: "go_error \<Rightarrow> string \<Rightarrow> task_result \<Rightarrow> go_error option" where
  "sent_value ctxErr name (ResReturned e) = e"
| "sent_value ctxErr name (ResPanicked msg) = Some (panic_error name msg)"
| "sent_value ctxErr name ResContext = Some ctxErr"

text \<open>The loop over the closed channel: the first error that was sent.\<close>

fun first_error :: "go_error option list \<Rightarrow> go_error option" where
  "first_error [] = None"
| "first_error (Some e # es) = Some e"
| "first_error (None # es) = first_error es"

definition DoParallel_start :: "string list \<Rightarrow> parallel" where
  "DoParallel_start tasks = \<lparr>pl_pending = mset tasks, pl_chan = [], pl_ctxDone = False,
     pl_answer = (if tasks = [] then Some None else None)\<rparr>"

inductive pl_step :: "nat \<Rightarrow> go_error \<Rightarrow> parallel \<Rightarrow> parallel \<Rightarrow> bool" for capacity and ctxErr where
  send: "t \<in># pl_pending s \<Longrightarrow> length (pl_chan s) < capacity \<Longrightarrow> (r = ResContext \<longrightarrow> pl_ctxDone s) \<Longrightarrow>
     pl_step capacity ctxErr s (s\<lparr>pl_pending := pl_pending s - {#t#}, pl_chan := pl_chan s @ [sent_value ctxErr t r]\<rparr>)"
| cancel: "pl_step capacity ctxErr s (s\<lparr>pl_ctxDone := True\<rparr>)"
| all_done: "pl_answer s = None \<Longrightarrow> pl_pending s = {#} \<Longrightarrow>
     pl_step capacity ctxErr s (s\<lparr>pl_answer := Some (first_error (pl_chan s))\<rparr>)"
| ctx_done: "pl_answer s = None \<Longrightarrow> pl_ctxDone s \<Longrightarrow>
     pl_step capacity ctxErr s (s\<lparr>pl_answer := Some (Some ctxErr)\<rparr>)"

lemma first_error_None: "first_error es = None \<longleftrightarrow> (\<forall>e \<in> set es. e = None)"
  by (induction es rule: first_error.induct) auto

lemma first_error_in: "first_error es = Some e \<Longrightarrow> Some e \<in> set es"
  by (induction es rule: first_error.induct) auto

definition pl_invar :: "nat \<Rightarrow> go_error \<Rightarrow> parallel \<Rightarrow> bool" where
  "pl_invar n ctxErr s \<longleftrightarrow> length (pl_chan s) + size (pl_pending s) = n \<and>
     (pl_answer s = Some None \<longrightarrow> pl_pending s = {#} \<and> (\<forall>e \<in> set (pl_chan s). e = None)) \<and>
     (\<forall>e. pl_answer s = Some (Some e) \<longrightarrow> Some e \<in> set (pl_chan s) \<or> e = ctxErr \<and> pl_ctxDone s)"

lemma pl_invar_start: "pl_invar (length tasks) ctxErr (DoParallel_start tasks)"
  by (simp add: pl_invar_def DoParallel_start_def)

lemma pl_invar_step: "pl_step n ctxErr s s' \<Longrightarrow> pl_invar n ctxErr s \<Longrightarrow> pl_invar n ctxErr s'"
proof (induction rule: pl_step.induct)
  case (send t s r)
  then have "size (pl_pending s) = Suc (size (pl_pending s - {#t#}))" by (metis size_Suc_Diff1)
  with send show ?case by (auto simp: pl_invar_def)
qed (auto simp: pl_invar_def first_error_None dest: first_error_in)

lemma pl_invar_reach: "(pl_step n ctxErr)\<^sup>*\<^sup>* s s' \<Longrightarrow> pl_invar n ctxErr s \<Longrightarrow> pl_invar n ctxErr s'"
  by (induction rule: rtranclp_induct) (auto dest: pl_invar_step)

text \<open>
  C32: While DoParallel runs, a goroutine that has not sent yet always finds room in the channel,
  so none ever blocks; a nil answer means every task has sent nil, and an error answer was sent by
  a task or is the error of a context that is done.
\<close>

theorem parallel_never_blocks:
  assumes "(pl_step (length tasks) ctxErr)\<^sup>*\<^sup>* (DoParallel_start tasks) s"
  shows "(pl_pending s \<noteq> {#} \<longrightarrow> length (pl_chan s) < length tasks) \<and>
    (pl_answer s = Some None \<longrightarrow> length (pl_chan s) = length tasks \<and> (\<forall>e \<in> set (pl_chan s). e = None)) \<and>
    (\<forall>e. pl_answer s = Some (Some e) \<longrightarrow> Some e \<in> set (pl_chan s) \<or> e = ctxErr \<and> pl_ctxDone s)"
proof -
  have i: "pl_invar (length tasks) ctxErr s" by (rule pl_invar_reach [OF assms pl_invar_start])
  then have n: "length (pl_chan s) + size (pl_pending s) = length tasks" by (simp add: pl_invar_def)
  have "pl_pending s \<noteq> {#} \<Longrightarrow> 0 < size (pl_pending s)" using nonempty_has_size by blast
  with n i show ?thesis by (auto simp: pl_invar_def)
qed

lemma parallel_never_blocks_witness:
  "\<exists>s. (pl_step 2 ErrRequestCanceled)\<^sup>*\<^sup>* (DoParallel_start [''a'', ''b'']) s \<and>
     length (pl_chan s) < length [''a'', ''b'']"
proof -
  let ?s = "\<lparr>pl_pending = {#''b''#}, pl_chan = [Some (panic_error ''a'' ''x'')], pl_ctxDone = False, pl_answer = None\<rparr>"
  have "pl_step (length [''a'', ''b'']) ErrRequestCanceled (DoParallel_start [''a'', ''b'']) ?s"
    using pl_step.send [of "''a''" "DoParallel_start [''a'', ''b'']" 2 "ResPanicked ''x''" ErrRequestCanceled]
    by (simp add: DoParallel_start_def numeral_2_eq_2)
  then have r: "(pl_step (length [''a'', ''b'']) ErrRequestCanceled)\<^sup>*\<^sup>* (DoParallel_start [''a'', ''b'']) ?s" by blast
  have "length (pl_chan ?s) < length [''a'', ''b'']" using parallel_never_blocks [OF r] by simp
  with r show ?thesis by (intro exI [of _ ?s]) (simp add: numeral_2_eq_2)
qed

end
