(* ===== verification/Rabbit.thy ===== *)
theory Rabbit
  imports Errors
begin

text \<open>
  \<open>internal/infra/rabbit.go\<close>: the connection to RabbitMQ with its reconnection, and publishing with
  and without confirmation. The AMQP client is a library, taken as a record of programs over its own
  state; so are the two \<open>select\<close> statements that wait on timers, on the broker and on the context.
  Connections and channels are the handles the library gives out. Log lines are not modelled.
\<close>

section \<open>Durations as text\<close>

text \<open>\<open>time.Duration.String\<close>: the fraction without trailing zeros, then the units from the hour down.\<close>

fun frac_digits :: "nat \<Rightarrow> nat \<Rightarrow> string" where
  "frac_digits 0 n = []"
| "frac_digits (Suc p) n = frac_digits p (n div 10) @ [digit_char (n mod 10)]"

definition frac_text :: "nat \<Rightarrow> nat \<Rightarrow> string" where
  "frac_text prec n =
     (if n = 0 then [] else CHR ''.'' # rev (dropWhile (\<lambda>c. c = CHR ''0'') (rev (frac_digits prec n))))"

definition duration_String :: "duration \<Rightarrow> string" where
  "duration_String d =
     (let u = nat \<bar>d\<bar>; sign = (if d < 0 then ''-'' else []); secs = u div 1000000000 in
      if u = 0 then ''0s''
      else if u < 1000 then sign @ dec_nat u @ ''ns''
      else if u < 1000000 then sign @ dec_nat (u div 1000) @ frac_text 3 (u mod 1000) @ [CHR 0xC2, CHR 0xB5] @ ''s''
      else if u < 1000000000 then sign @ dec_nat (u div 1000000) @ frac_text 6 (u mod 1000000) @ ''ms''
      else sign
        @ (if 3600 \<le> secs then dec_nat (secs div 3600) @ ''h'' else [])
        @ (if 60 \<le> secs then dec_nat (secs div 60 mod 60) @ ''m'' else [])
        @ dec_nat (secs mod 60) @ frac_text 9 (u mod 1000000000) @ ''s'')"

section \<open>The library and the connection\<close>

record Publishing =
  pb_ContentType :: string
  pb_Headers :: "(string \<times> string) list option"
  pb_Body :: string
  pb_DeliveryMode :: nat
  pb_Priority :: nat
  pb_Timestamp :: time
  pb_Expiration :: string

datatype confirm_event =
    Confirmation bool nat   \<comment> \<open>acknowledged or not, delivery tag\<close>
  | ConfirmTimeout
  | ConfirmCanceled go_error

record 'b amqp_library =
  amqp_DialConfig :: "string \<Rightarrow> ('b, nat result) prog"
  conn_IsClosed :: "nat \<Rightarrow> ('b, bool) prog"
  conn_Close :: "nat \<Rightarrow> ('b, unit result) prog"
  conn_Channel :: "nat \<Rightarrow> ('b, nat result) prog"
  chan_Close :: "nat \<Rightarrow> ('b, unit result) prog"
  chan_Confirm :: "nat \<Rightarrow> ('b, unit result) prog"
  chan_Publish :: "nat \<Rightarrow> string \<Rightarrow> string \<Rightarrow> Publishing \<Rightarrow> ('b, unit result) prog"
  chan_ExchangeDeclare :: "nat \<Rightarrow> string \<Rightarrow> string \<Rightarrow> bool \<Rightarrow> ('b, unit result) prog"
  wait_confirm :: "nat \<Rightarrow> duration \<Rightarrow> ('b, confirm_event) prog"
  wait_backoff :: "duration \<Rightarrow> ('b, go_error option) prog" \<comment> \<open>Some: the context was done first\<close>
  rt_Now :: "('b, time) prog"

record RabbitConfig =
  rc_Host :: string
  rc_Port :: int
  rc_User :: string
  rc_Password :: string
  rc_Vhost :: string
  rc_ReconnectInterval :: duration
  rc_ReconnectMaxAttempts :: int

text \<open>\<open>rb_reconnect\<close> is the channel \<open>reconnectChan\<close> of capacity one: whether it holds a token.\<close>

record 'b Rabbit =
  rb_config :: RabbitConfig
  rb_conn :: "nat option"
  rb_closed :: bool
  rb_reconnect :: bool
  rb_lib :: 'b

abbreviation on_lib :: "('b, 'a) prog \<Rightarrow> ('b Rabbit, 'a) prog" where
  "on_lib \<equiv> zoom rb_lib (\<lambda>b. rb_lib_update (\<lambda>_. b))"

definition get_rabbit :: "('b Rabbit \<Rightarrow> 'a) \<Rightarrow> ('b Rabbit, 'a) prog" where
  "get_rabbit f = State (\<lambda>r. (f r, r))"

definition put_rabbit :: "('b Rabbit \<Rightarrow> 'b Rabbit) \<Rightarrow> ('b Rabbit, unit) prog" where
  "put_rabbit f = State (\<lambda>r. ((), f r))"

section \<open>Connecting\<close>

definition rabbitUrl :: "RabbitConfig \<Rightarrow> string" where
  "rabbitUrl c = ''amqp://'' @ rc_User c @ '':'' @ rc_Password c @ ''@'' @ rc_Host c @ '':'' @ FormatInt (rc_Port c)
     @ ''/'' @ rc_Vhost c"

definition dial_error :: "int \<Rightarrow> go_error \<Rightarrow> go_error" where
  "dial_error attempt err =
     Fmt (''failed to dial RabbitMQ (attempt '' @ FormatInt (attempt + 1) @ ''): '' @ Error_text err) (Some err)"

text \<open>
  The loop of \<open>connect\<close>. Without a maximum it runs until a dial succeeds: \<open>fuel\<close> bounds the attempts,
  and \<open>None\<close> is a loop still running. \<open>Some None\<close> is the nil error.
\<close>

fun connect_loop :: "'b amqp_library \<Rightarrow> nat \<Rightarrow> int \<Rightarrow> go_error option \<Rightarrow> ('b Rabbit, go_error option option) prog" where
  "connect_loop lib 0 attempt lastErr = ret None"
| "connect_loop lib (Suc fuel) attempt lastErr = do {
     cfg \<leftarrow> get_rabbit rb_config;
     (if \<not> (rc_ReconnectMaxAttempts cfg = 0 \<or> attempt < rc_ReconnectMaxAttempts cfg) then ret (Some lastErr)
      else do {
        ctx \<leftarrow> (if attempt > 0 then on_lib (wait_backoff lib (rc_ReconnectInterval cfg * min attempt 5)) else ret None);
        (case ctx of
           Some e \<Rightarrow> ret (Some (Some e))
         | None \<Rightarrow> do {
             d \<leftarrow> on_lib (amqp_DialConfig lib (rabbitUrl cfg));
             (case d of
                Inl err \<Rightarrow> connect_loop lib fuel (attempt + 1) (Some (dial_error attempt err))
              | Inr conn \<Rightarrow> do {
                  old \<leftarrow> get_rabbit rb_conn;
                  _ \<leftarrow> (case old of None \<Rightarrow> ret () | Some c \<Rightarrow> do { _ \<leftarrow> on_lib (conn_Close lib c); ret () });
                  _ \<leftarrow> put_rabbit (rb_conn_update (\<lambda>_. Some conn));
                  ret (Some None) }) }) }) }"

definition rabbit_connect :: "'b amqp_library \<Rightarrow> nat \<Rightarrow> ('b Rabbit, go_error option option) prog" where
  "rabbit_connect lib fuel = connect_loop lib fuel 0 None"

text \<open>\<open>NewRabbitConnection\<close> up to the start of the monitor.\<close>

definition rabbit_defaults :: "RabbitConfig \<Rightarrow> RabbitConfig" where
  "rabbit_defaults cfg = (if rc_ReconnectInterval cfg = 0 then cfg\<lparr>rc_ReconnectInterval := 1000000000\<rparr> else cfg)"

definition NewRabbitConnection :: "'b amqp_library \<Rightarrow> nat \<Rightarrow> RabbitConfig \<Rightarrow> 'b \<Rightarrow> ('b Rabbit result) option \<times> 'b Rabbit" where
  "NewRabbitConnection lib fuel cfg b =
     (case run_state (rabbit_connect lib fuel)
        \<lparr>rb_config = rabbit_defaults cfg, rb_conn = None, rb_closed = False, rb_reconnect = False, rb_lib = b\<rparr> of
        (None, r) \<Rightarrow> (None, r)
      | (Some (Some err), r) \<Rightarrow> (Some (Inl err), r)
      | (Some None, r) \<Rightarrow> (Some (Inr r), r))"

definition triggerReconnect :: "('b Rabbit, unit) prog" where
  "triggerReconnect = put_rabbit (rb_reconnect_update (\<lambda>_. True))"

text \<open>\<open>waitForClose\<close> once the connection has reported that it closed: a nil error is a clean close.\<close>

definition waitForClose :: "go_error option \<Rightarrow> ('b Rabbit, unit) prog" where
  "waitForClose err = (case err of None \<Rightarrow> ret () | Some _ \<Rightarrow> triggerReconnect)"

text \<open>One round of \<open>monitorConnection\<close>: a token in the channel is taken and answered by a connect.\<close>

definition monitorConnection :: "'b amqp_library \<Rightarrow> nat \<Rightarrow> ('b Rabbit, unit) prog" where
  "monitorConnection lib fuel = do {
     token \<leftarrow> get_rabbit rb_reconnect;
     (if token then do {
        _ \<leftarrow> put_rabbit (rb_reconnect_update (\<lambda>_. False));
        _ \<leftarrow> rabbit_connect lib fuel;
        ret () }
      else ret ()) }"

section \<open>Channels\<close>

definition getConnection :: "'b amqp_library \<Rightarrow> ('b Rabbit, nat result) prog" where
  "getConnection lib = do {
     conn \<leftarrow> get_rabbit rb_conn;
     (case conn of
        None \<Rightarrow> fail (Fmt ''no active connection'' None)
      | Some c \<Rightarrow> do {
          closed \<leftarrow> on_lib (conn_IsClosed lib c);
          (if closed then fail (Fmt ''no active connection'' None) else ok c) }) }"

definition getChannel :: "'b amqp_library \<Rightarrow> ('b Rabbit, nat result) prog" where
  "getChannel lib = call (getConnection lib) (\<lambda>conn. do {
     r \<leftarrow> on_lib (conn_Channel lib conn);
     (case r of
        Inl err \<Rightarrow> do {
          _ \<leftarrow> triggerReconnect;
          fail (Fmt (''failed to open channel: '' @ Error_text err) (Some err)) }
      | Inr ch \<Rightarrow> ok ch) })"

definition buildAmqpPublishing ::
  "'b amqp_library \<Rightarrow> string \<Rightarrow> (string \<times> string) list option \<Rightarrow> string \<Rightarrow> nat option \<Rightarrow> nat option \<Rightarrow> time option
     \<Rightarrow> duration option \<Rightarrow> ('b, Publishing) prog" where
  "buildAmqpPublishing lib contentType headers body deliveryMode priority timestamp expiration = do {
     now \<leftarrow> rt_Now lib;
     ret \<lparr>pb_ContentType = contentType, pb_Headers = headers, pb_Body = body,
          pb_DeliveryMode = (case deliveryMode of Some m \<Rightarrow> if m = 1 \<or> m = 2 then m else 0 | None \<Rightarrow> 0),
          pb_Priority = (case priority of Some p \<Rightarrow> p | None \<Rightarrow> 0),
          pb_Timestamp = (case timestamp of Some t \<Rightarrow> t | None \<Rightarrow> now),
          pb_Expiration = (case expiration of
             Some d \<Rightarrow> FormatInt (if 0 \<le> d then d div 1000000 else - ((- d) div 1000000)) | None \<Rightarrow> [])\<rparr> }"

definition DeclareExchange :: "'b amqp_library \<Rightarrow> string \<Rightarrow> string \<Rightarrow> bool \<Rightarrow> ('b Rabbit, unit result) prog" where
  "DeclareExchange lib exchange exchangeType durable = do {
     closed \<leftarrow> get_rabbit rb_closed;
     (if closed then fail (Fmt ''connection is closed'' None)
      else do {
        r \<leftarrow> getChannel lib;
        (case r of
           Inl err \<Rightarrow> fail (Fmt (''failed to open channel: '' @ Error_text err) (Some err))
         | Inr ch \<Rightarrow> do {
             d \<leftarrow> on_lib (chan_ExchangeDeclare lib ch exchange exchangeType durable);
             _ \<leftarrow> on_lib (chan_Close lib ch);
             (case d of
                Inl err \<Rightarrow> fail (Fmt (''failed to declare exchange: '' @ Error_text err) (Some err))
              | Inr _ \<Rightarrow> ok ()) }) }) }"

section \<open>Publishing\<close>

definition Rabbit_Publish ::
  "'b amqp_library \<Rightarrow> string \<Rightarrow> string \<Rightarrow> string \<Rightarrow> (string \<times> string) list option \<Rightarrow> string \<Rightarrow> nat option \<Rightarrow> nat option
     \<Rightarrow> time option \<Rightarrow> duration option \<Rightarrow> ('b Rabbit, unit result) prog" where
  "Rabbit_Publish lib exchange routingKey contentType headers body deliveryMode priority timestamp expiration = do {
     closed \<leftarrow> get_rabbit rb_closed;
     (if closed then fail (Fmt ''connection is closed'' None)
      else do {
        r \<leftarrow> getChannel lib;
        (case r of
           Inl err \<Rightarrow> fail (Fmt (''failed to publish: '' @ Error_text err) (Some err))
         | Inr ch \<Rightarrow> do {
             msg \<leftarrow> on_lib (buildAmqpPublishing lib contentType headers body deliveryMode priority timestamp expiration);
             p \<leftarrow> on_lib (chan_Publish lib ch exchange routingKey msg);
             (case p of
                Inl err \<Rightarrow> do {
                  _ \<leftarrow> triggerReconnect;
                  _ \<leftarrow> on_lib (chan_Close lib ch);
                  fail (Fmt (''publish failed: '' @ Error_text err) (Some err)) }
              | Inr _ \<Rightarrow> do { _ \<leftarrow> on_lib (chan_Close lib ch); ok () }) }) }) }"

definition attempt_error :: "string \<Rightarrow> nat \<Rightarrow> go_error \<Rightarrow> go_error" where
  "attempt_error what attempt err =
     Fmt (what @ '' (attempt '' @ FormatInt (int attempt + 1) @ ''): '' @ Error_text err) (Some err)"

text \<open>
  One attempt: \<open>Inr (Inr ())\<close> is the acknowledgement, \<open>Inl e\<close> ends the call with \<open>e\<close>, and
  \<open>Inr (Inl e)\<close> leaves \<open>e\<close> as the last error for the next attempt.
\<close>

definition publish_attempt ::
  "'b amqp_library \<Rightarrow> string \<Rightarrow> string \<Rightarrow> Publishing \<Rightarrow> duration \<Rightarrow> nat \<Rightarrow> ('b Rabbit, (go_error + unit) result) prog" where
  "publish_attempt lib exchange routingKey msg confirmTimeout attempt = do {
     r \<leftarrow> getChannel lib;
     (case r of
        Inl err \<Rightarrow> ok (Inl (attempt_error ''failed to publish'' attempt err))
      | Inr ch \<Rightarrow> do {
          c \<leftarrow> on_lib (chan_Confirm lib ch);
          (case c of
             Inl err \<Rightarrow> do {
               _ \<leftarrow> on_lib (chan_Close lib ch);
               ok (Inl (attempt_error ''failed to enable confirm mode'' attempt err)) }
           | Inr _ \<Rightarrow> do {
               p \<leftarrow> on_lib (chan_Publish lib ch exchange routingKey msg);
               (case p of
                  Inl err \<Rightarrow> do {
                    _ \<leftarrow> on_lib (chan_Close lib ch);
                    _ \<leftarrow> triggerReconnect;
                    ok (Inl (attempt_error ''publish failed'' attempt err)) }
                | Inr _ \<Rightarrow> do {
                    e \<leftarrow> on_lib (wait_confirm lib ch confirmTimeout);
                    _ \<leftarrow> on_lib (chan_Close lib ch);
                    (case e of
                       Confirmation ack tag \<Rightarrow>
                         if ack then ok (Inr ())
                         else ok (Inl (Fmt (''broker NACKed message (attempt '' @ FormatInt (int attempt + 1)
                                @ '', tag: '' @ FormatInt (int tag) @ '')'') None))
                     | ConfirmTimeout \<Rightarrow>
                         ok (Inl (Fmt (''confirmation timeout after '' @ duration_String confirmTimeout
                                @ '' (attempt '' @ FormatInt (int attempt + 1) @ '')'') None))
                     | ConfirmCanceled ctxErr \<Rightarrow>
                         fail (Fmt (''publish canceled while waiting for confirmation: '' @ Error_text ctxErr) (Some ctxErr))) }) }) }) }"

text \<open>
  The loop, by the number of attempts left. The log line of a retry reads the text of the last error:
  a nil one would be a nil dereference.
\<close>

definition nil_dereference :: go_error where
  "nil_dereference = Fmt ''invalid memory address or nil pointer dereference'' None"

fun publish_loop ::
  "'b amqp_library \<Rightarrow> string \<Rightarrow> string \<Rightarrow> Publishing \<Rightarrow> nat \<Rightarrow> duration \<Rightarrow> duration \<Rightarrow> nat \<Rightarrow> nat \<Rightarrow> go_error option
     \<Rightarrow> ('b Rabbit, unit result) prog" where
  "publish_loop lib exchange routingKey msg maxRetries retryInterval confirmTimeout 0 attempt lastErr =
     fail (Fmt (''publish failed after '' @ FormatInt (int maxRetries) @ '' attempts: ''
            @ (case lastErr of None \<Rightarrow> ''<nil>'' | Some e \<Rightarrow> Error_text e)) None)"
| "publish_loop lib exchange routingKey msg maxRetries retryInterval confirmTimeout (Suc left) attempt lastErr = do {
     ctx \<leftarrow> (if attempt > 0
            then (case lastErr of
                    None \<Rightarrow> fail nil_dereference
                  | Some _ \<Rightarrow> do {
                      c \<leftarrow> on_lib (wait_backoff lib (retryInterval * int (min attempt 5)));
                      ok c })
            else ok None);
     (case ctx of
        Inl e \<Rightarrow> fail e
      | Inr (Some ctxErr) \<Rightarrow> fail (Fmt (''publish canceled during backoff: '' @ Error_text ctxErr) (Some ctxErr))
      | Inr None \<Rightarrow> do {
          r \<leftarrow> publish_attempt lib exchange routingKey msg confirmTimeout attempt;
          (case r of
             Inl e \<Rightarrow> fail e
           | Inr (Inr _) \<Rightarrow> ok ()
           | Inr (Inl e) \<Rightarrow>
               publish_loop lib exchange routingKey msg maxRetries retryInterval confirmTimeout left (Suc attempt) (Some e)) }) }"

definition PublishWithConfirm ::
  "'b amqp_library \<Rightarrow> string \<Rightarrow> string \<Rightarrow> string \<Rightarrow> (string \<times> string) list option \<Rightarrow> string \<Rightarrow> nat option \<Rightarrow> nat option
     \<Rightarrow> time option \<Rightarrow> duration option \<Rightarrow> int \<Rightarrow> duration \<Rightarrow> duration \<Rightarrow> ('b Rabbit, unit result) prog" where
  "PublishWithConfirm lib exchange routingKey contentType headers body deliveryMode priority timestamp expiration
     maxRetries retryInterval confirmTimeout = do {
     closed \<leftarrow> get_rabbit rb_closed;
     (if closed then fail (Fmt ''connection is closed'' None)
      else do {
        let maxRetries' = (if maxRetries \<le> 0 then 5 else nat maxRetries);
            retryInterval' = (if retryInterval \<le> 0 then 1000000000 else retryInterval);
            confirmTimeout' = (if confirmTimeout \<le> 0 then 30 * 1000000000 else confirmTimeout)
        in do {
        msg \<leftarrow> on_lib (buildAmqpPublishing lib contentType headers body deliveryMode priority timestamp expiration);
        publish_loop lib exchange routingKey msg maxRetries' retryInterval' confirmTimeout' maxRetries' 0 None } }) }"

text \<open>\<open>Close\<close>: only the first call has an effect; the monitor has ended when \<open>wg.Wait\<close> returns.\<close>

definition Rabbit_Close :: "'b amqp_library \<Rightarrow> ('b Rabbit, unit result) prog" where
  "Rabbit_Close lib = do {
     closed \<leftarrow> get_rabbit rb_closed;
     (if closed then ok ()
      else do {
        _ \<leftarrow> put_rabbit (rb_closed_update (\<lambda>_. True));
        conn \<leftarrow> get_rabbit rb_conn;
        (case conn of
           None \<Rightarrow> ok ()
         | Some c \<Rightarrow> do {
             isClosed \<leftarrow> on_lib (conn_IsClosed lib c);
             (if isClosed then ok ()
              else do {
                e \<leftarrow> on_lib (conn_Close lib c);
                _ \<leftarrow> put_rabbit (rb_conn_update (\<lambda>_. None));
                (case e of
                   Inl err \<Rightarrow> fail (Fmt (''close errors: [connection close: '' @ Error_text err @ '']'') None)
                 | Inr _ \<Rightarrow> ok ()) }) }) }) }"

end
