(* ===== verification/RabbitProperties.thy ===== *)
theory RabbitProperties
  imports Rabbit
begin

text \<open>
  What publishing with confirmation promises: the contract of the AMQP client as the locale
  \<open>broker\<close>, observed through the messages it was handed and the ones the broker acknowledged, the
  rules for one attempt and for the loop, and what \<open>connect\<close> and a lost connection do. The locale is
  interpreted on a reference broker whose failures follow a script.
\<close>

section \<open>The contract of the client library\<close>

type_synonym message = "string \<times> string \<times> Publishing"

lemma wp_case_confirm [wp_simps, simp]:
  "wp (case e of Confirmation a t \<Rightarrow> f a t | ConfirmTimeout \<Rightarrow> g | ConfirmCanceled x \<Rightarrow> h x) Q =
     (case e of Confirmation a t \<Rightarrow> wp (f a t) Q | ConfirmTimeout \<Rightarrow> wp g Q | ConfirmCanceled x \<Rightarrow> wp (h x) Q)"
  by (simp split: confirm_event.splits)

lemma wp_get_rabbit [wp_simps, simp]: "wp (get_rabbit f) Q = (\<lambda>r. Q (f r) r)"
  by (simp add: get_rabbit_def)

lemma wp_put_rabbit [wp_simps, simp]: "wp (put_rabbit f) Q = (\<lambda>r. Q () (f r))"
  by (simp add: put_rabbit_def)

text \<open>
  \<open>sent\<close> is what was handed to the broker, in order, \<open>acked\<close> what it acknowledged, \<open>outstanding\<close> the
  last message of a channel. A publish that fails may or may not have reached the broker.
\<close>

locale broker =
  fixes lib :: "'b amqp_library"
    and sent :: "'b \<Rightarrow> message list"
    and acked :: "'b \<Rightarrow> message list"
    and outstanding :: "'b \<Rightarrow> nat \<Rightarrow> message option"
  assumes closed_law: "wp (conn_IsClosed lib c) (\<lambda>_ b'. sent b' = sent b \<and> acked b' = acked b) b"
    and channel_law: "wp (conn_Channel lib c) (\<lambda>_ b'. sent b' = sent b \<and> acked b' = acked b) b"
    and chan_close_law: "wp (chan_Close lib ch) (\<lambda>_ b'. sent b' = sent b \<and> acked b' = acked b) b"
    and confirm_law: "wp (chan_Confirm lib ch) (\<lambda>_ b'. sent b' = sent b \<and> acked b' = acked b) b"
    and backoff_law: "wp (wait_backoff lib d) (\<lambda>_ b'. sent b' = sent b \<and> acked b' = acked b) b"
    and now_law: "wp (rt_Now lib) (\<lambda>_ b'. sent b' = sent b \<and> acked b' = acked b) b"
    and publish_law: "wp (chan_Publish lib ch e k m) (\<lambda>r b'. acked b' = acked b \<and>
        (case r of Inl _ \<Rightarrow> sent b' = sent b \<or> sent b' = sent b @ [(e, k, m)]
         | Inr _ \<Rightarrow> sent b' = sent b @ [(e, k, m)] \<and> outstanding b' ch = Some (e, k, m))) b"
    and wait_law: "wp (wait_confirm lib ch t) (\<lambda>ev b'. sent b' = sent b \<and>
        (if \<exists>tag. ev = Confirmation True tag
         then \<exists>msg. outstanding b ch = Some msg \<and> acked b' = acked b @ [msg] else acked b' = acked b)) b"
begin

text \<open>An observation the quiet operations cannot change.\<close>

lemma quiet:
  assumes "wp m (\<lambda>_ b'. sent b' = sent b \<and> acked b' = acked b) b"
    and "\<And>x b'. sent b' = sent b \<Longrightarrow> acked b' = acked b \<Longrightarrow> Q x b'"
  shows "wp m Q b"
  by (rule wp_mono [OF assms(1)]) (use assms(2) in auto)

definition grown :: "'b \<Rightarrow> message \<Rightarrow> nat \<Rightarrow> nat \<Rightarrow> 'b \<Rightarrow> bool" where
  "grown b msg n a b' \<longleftrightarrow> sent b' = sent b @ replicate n msg \<and> acked b' = acked b @ replicate a msg"

lemma grown_refl: "grown b msg 0 0 b"
  by (simp add: grown_def)

lemma grown_trans: "grown b msg n a b' \<Longrightarrow> grown b' msg n' a' b'' \<Longrightarrow> grown b msg (n + n') (a + a') b''"
  by (simp add: grown_def replicate_add)

lemma wp_getChannel:
  assumes "\<And>x r'. sent (rb_lib r') = sent (rb_lib r) \<Longrightarrow> acked (rb_lib r') = acked (rb_lib r) \<Longrightarrow> Q x r'"
  shows "wp (getChannel lib) Q r"
  unfolding getChannel_def getConnection_def triggerReconnect_def
  by (auto split: option.splits sum.splits intro!: assms quiet [OF closed_law] quiet [OF channel_law])

text \<open>
  One attempt sends the message at most once, and the broker has acknowledged it when and only when
  the attempt says so.
\<close>

lemma wp_publish_attempt:
  assumes F: "\<And>x n r'. n \<le> 1 \<Longrightarrow> grown (rb_lib r) (e, k, m) n 0 (rb_lib r') \<Longrightarrow> x \<noteq> Inr (Inr ()) \<Longrightarrow> Q x r'"
    and S: "\<And>r'. grown (rb_lib r) (e, k, m) 1 1 (rb_lib r') \<Longrightarrow> Q (Inr (Inr ())) r'"
  shows "wp (publish_attempt lib e k m t i) Q r"
proof -
  have F1: "Q x r'" if "sent (rb_lib r') = sent (rb_lib r) \<or> sent (rb_lib r') = sent (rb_lib r) @ [(e, k, m)]"
    "acked (rb_lib r') = acked (rb_lib r)" "x \<noteq> Inr (Inr ())" for x r'
    using F [of 0 r' x] F [of 1 r' x] that by (auto simp: grown_def)
  have S1: "Q (Inr (Inr ())) r'" if "sent (rb_lib r') = sent (rb_lib r) @ [(e, k, m)]"
    "acked (rb_lib r') = acked (rb_lib r) @ [(e, k, m)]" for r'
    using S [of r'] that by (simp add: grown_def)
  show ?thesis
    unfolding publish_attempt_def triggerReconnect_def
    apply simp
    apply (rule wp_getChannel)
    apply (auto split: sum.splits intro!: F1 quiet [OF confirm_law] quiet [OF chan_close_law])
    apply (rule wp_mono [OF publish_law])
    apply (auto split: sum.splits intro!: quiet [OF chan_close_law] F1)
    apply (rule wp_mono [OF wait_law])
    apply (auto split: confirm_event.splits if_splits intro!: quiet [OF chan_close_law] F1 S1)
    done
qed

text \<open>The loop: at most one message per attempt left, and an acknowledgement exactly at success.\<close>

definition tried :: "message \<Rightarrow> 'b \<Rightarrow> nat \<Rightarrow> unit result \<Rightarrow> 'b \<Rightarrow> bool" where
  "tried msg b N x b' \<longleftrightarrow> (\<exists>n \<le> N. grown b msg n (if x = Inr () then 1 else 0) b')"

lemma tried_none: "sent b' = sent b \<Longrightarrow> acked b' = acked b \<Longrightarrow> tried msg b N (Inl e) b'"
  by (auto simp: tried_def grown_def intro: exI [of _ 0])

lemma tried_failed: "n \<le> 1 \<Longrightarrow> grown b msg n 0 b' \<Longrightarrow> tried msg b (Suc N) (Inl e) b'"
  by (auto simp: tried_def intro!: exI [of _ n])

lemma tried_acked: "grown b msg 1 1 b' \<Longrightarrow> tried msg b (Suc N) (Inr ()) b'"
  by (auto simp: tried_def intro: exI [of _ 1])

lemma tried_more: "n \<le> 1 \<Longrightarrow> grown b msg n 0 b' \<Longrightarrow> tried msg b' N x b'' \<Longrightarrow> tried msg b (Suc N) x b''"
  by (auto simp: tried_def intro!: exI [of _ "n + _"] dest: grown_trans)

lemma wp_publish_loop:
  "wp (publish_loop lib e k m mr ri ct left i le) (\<lambda>x r'. tried (e, k, m) (rb_lib r) left x (rb_lib r')) r"
proof (induction left arbitrary: i le r)
  case 0
  show ?case by (simp add: tried_none)
next
  case (Suc left)
  have "wp (publish_attempt lib e k m ct j) (\<lambda>x. wp (case x of Inl e \<Rightarrow> fail e | Inr (Inr _) \<Rightarrow> ok ()
        | Inr (Inl er) \<Rightarrow> publish_loop lib e k m mr ri ct left (Suc j) (Some er))
      (\<lambda>x r'. tried (e, k, m) (rb_lib r) (Suc left) x (rb_lib r'))) r0"
    if r0: "sent (rb_lib r0) = sent (rb_lib r)" "acked (rb_lib r0) = acked (rb_lib r)" for r0 j
  proof -
    have same: "grown (rb_lib r0) msg n a b' \<longleftrightarrow> grown (rb_lib r) msg n a b'" for msg n a b'
      using r0 by (simp add: grown_def)
    have next_attempt: "wp (publish_loop lib e k m mr ri ct left i' le') (\<lambda>x r'. tried (e, k, m) (rb_lib r) (Suc left) x (rb_lib r')) r1"
      if "n \<le> Suc 0" "grown (rb_lib r) (e, k, m) n 0 (rb_lib r1)" for r1 n i' le'
      by (rule wp_mono [OF Suc.IH], rule tried_more) (use that in simp_all)
    show ?thesis
      by (rule wp_publish_attempt)
         (auto simp: same split: sum.splits intro: tried_failed tried_acked next_attempt)
  qed
  then show ?case
    by (cases "i = 0") (auto split: option.splits simp del: wp_case_sum intro!: quiet [OF backoff_law] tried_none)
qed

lemma wp_build:
  assumes "\<And>t b'. sent b' = sent b \<Longrightarrow> acked b' = acked b \<Longrightarrow> pb_Body t = body \<Longrightarrow> pb_Headers t = hs \<Longrightarrow>
      pb_ContentType t = ct \<Longrightarrow> Q t b'"
  shows "wp (buildAmqpPublishing lib ct hs body dm pr ts ex) Q b"
  unfolding buildAmqpPublishing_def by (auto intro!: quiet [OF now_law] assms)

definition delivered ::
  "string \<Rightarrow> string \<Rightarrow> string \<Rightarrow> (string \<times> string) list option \<Rightarrow> string \<Rightarrow> 'b \<Rightarrow> nat \<Rightarrow> unit result \<Rightarrow> 'b \<Rightarrow> bool" where
  "delivered e k ct hs body b N x b' \<longleftrightarrow> (\<exists>m n. n \<le> N \<and> pb_Body m = body \<and> pb_Headers m = hs \<and> pb_ContentType m = ct \<and>
     sent b' = sent b @ replicate n (e, k, m) \<and> acked b' = acked b @ (if x = Inr () then [(e, k, m)] else []))"

lemma delivered_refused: "delivered e k ct hs body b N (Inl err) b"
  by (auto simp: delivered_def intro!: exI [of _ 0] exI [of _ "\<lparr>pb_ContentType = ct, pb_Headers = hs,
        pb_Body = body, pb_DeliveryMode = 0, pb_Priority = 0, pb_Timestamp = 0, pb_Expiration = []\<rparr>"])

lemma wp_PublishWithConfirm:
  "wp (PublishWithConfirm lib e k ct hs body dm pr ts ex mr ri cto)
     (\<lambda>x r'. delivered e k ct hs body (rb_lib r) (if mr \<le> 0 then 5 else nat mr) x (rb_lib r')) r"
proof -
  have "wp (publish_loop lib e k m mr' ri' ct' left i le)
     (\<lambda>x r'. delivered e k ct hs body (rb_lib r) left x (rb_lib r')) r0"
    if "sent (rb_lib r0) = sent (rb_lib r)" "acked (rb_lib r0) = acked (rb_lib r)"
      "pb_Body m = body" "pb_Headers m = hs" "pb_ContentType m = ct" for m mr' ri' ct' left i le r0
    by (rule wp_mono [OF wp_publish_loop]) (use that in \<open>auto simp: tried_def grown_def delivered_def split: if_splits\<close>)
  then show ?thesis
    unfolding PublishWithConfirm_def
    by (auto simp: Let_def delivered_refused simp del: publish_loop.simps intro!: wp_build)
qed

end

section \<open>A reference broker\<close>

text \<open>
  A broker in memory: every connection opens, a dial fails while \<open>rf_dials\<close> holds errors, and the
  answers to the published messages follow \<open>rf_script\<close> (a time-out once it is used up).
\<close>

record reference_broker =
  rf_dials :: "go_error list"
  rf_script :: "confirm_event list"
  rf_dead :: "nat list"
  rf_next :: nat
  rf_sent :: "message list"
  rf_acked :: "message list"
  rf_last :: "(nat \<times> message) list"

definition reference_amqp :: "reference_broker amqp_library" where
  "reference_amqp =
     \<lparr>amqp_DialConfig = (\<lambda>u. State (\<lambda>b. case rf_dials b of
         e # es \<Rightarrow> (Inl e, b\<lparr>rf_dials := es\<rparr>) | [] \<Rightarrow> (Inr (rf_next b), b\<lparr>rf_next := Suc (rf_next b)\<rparr>))),
      conn_IsClosed = (\<lambda>c. State (\<lambda>b. (c \<in> set (rf_dead b), b))),
      conn_Close = (\<lambda>c. State (\<lambda>b. (Inr (), b\<lparr>rf_dead := c # rf_dead b\<rparr>))),
      conn_Channel = (\<lambda>c. State (\<lambda>b. (Inr (rf_next b), b\<lparr>rf_next := Suc (rf_next b)\<rparr>))),
      chan_Close = (\<lambda>ch. State (\<lambda>b. (Inr (), b))),
      chan_Confirm = (\<lambda>ch. State (\<lambda>b. (Inr (), b))),
      chan_Publish = (\<lambda>ch e k m. State (\<lambda>b. (Inr (), b\<lparr>rf_sent := rf_sent b @ [(e, k, m)],
         rf_last := (ch, (e, k, m)) # rf_last b\<rparr>))),
      chan_ExchangeDeclare = (\<lambda>ch e t d. State (\<lambda>b. (Inr (), b))),
      wait_confirm = (\<lambda>ch t. State (\<lambda>b. case (rf_script b, map_of (rf_last b) ch) of
         (Confirmation True tag # es, Some msg) \<Rightarrow>
            (Confirmation True tag, b\<lparr>rf_script := es, rf_acked := rf_acked b @ [msg]\<rparr>)
       | (Confirmation False tag # es, _) \<Rightarrow> (Confirmation False tag, b\<lparr>rf_script := es\<rparr>)
       | (_, _) \<Rightarrow> (ConfirmTimeout, b))),
      wait_backoff = (\<lambda>d. State (\<lambda>b. (None, b))),
      rt_Now = State (\<lambda>b. (0, b))\<rparr>"

interpretation ref_broker: broker reference_amqp rf_sent rf_acked "\<lambda>b. map_of (rf_last b)"
  by unfold_locales
     (auto simp: reference_amqp_def split: list.splits confirm_event.splits bool.splits option.splits)

section \<open>Properties\<close>


definition demo_rabbit :: "confirm_event list \<Rightarrow> reference_broker Rabbit" where
  "demo_rabbit script =
     \<lparr>rb_config = \<lparr>rc_Host = ''mq'', rc_Port = 5672, rc_User = ''u'', rc_Password = ''p'', rc_Vhost = [],
        rc_ReconnectInterval = 1000000000, rc_ReconnectMaxAttempts = 3\<rparr>,
      rb_conn = Some 0, rb_closed = False, rb_reconnect = False,
      rb_lib = \<lparr>rf_dials = [], rf_script = script, rf_dead = [], rf_next = 1, rf_sent = [], rf_acked = [], rf_last = []\<rparr>\<rparr>"


text \<open>The last error a retry logs is never nil, whatever the library does.\<close>

lemma any_outcome: "(\<And>x s'. Q x s') \<Longrightarrow> wp m Q s"
  by (rule wpI)

lemmas any_lib = any_outcome [where m = "amqp_DialConfig lib u"] any_outcome [where m = "conn_IsClosed lib c"]
  any_outcome [where m = "conn_Close lib c"] any_outcome [where m = "conn_Channel lib c"]
  any_outcome [where m = "chan_Close lib c"] any_outcome [where m = "chan_Confirm lib c"]
  any_outcome [where m = "chan_Publish lib c e k m"] any_outcome [where m = "wait_confirm lib c t"]
  any_outcome [where m = "wait_backoff lib t"] any_outcome [where m = "rt_Now lib"]
  any_outcome [where m = "getChannel lib"] any_outcome [where m = "buildAmqpPublishing lib u hs w dm pr ts ex"]
  for lib u w c e k m t hs dm pr ts ex

lemma not_nil_dereference [simp]:
  "nil_dereference \<noteq> Fmt (''publish canceled'' @ t) c" "nil_dereference \<noteq> Fmt (''publish failed'' @ t) c"
  "nil_dereference \<noteq> Fmt ''connection is closed'' c" "Fmt ''connection is closed'' c \<noteq> nil_dereference"
  by (simp_all add: nil_dereference_def)

lemma attempt_no_panic: "wp (publish_attempt lib e k m t i) (\<lambda>x _. x \<noteq> Inl nil_dereference) r"
  unfolding publish_attempt_def
  by (auto simp: nil_dereference_def split: sum.splits confirm_event.splits intro!: any_outcome)

lemma loop_no_panic:
  "0 < i \<longrightarrow> le \<noteq> None \<Longrightarrow> wp (publish_loop lib e k m mr ri ct left i le) (\<lambda>x _. x \<noteq> Inl nil_dereference) r"
proof (induction left arbitrary: i le r)
  case (Suc left)
  have "wp (publish_attempt lib e k m ct j) (\<lambda>x. wp (case x of Inl e \<Rightarrow> fail e | Inr (Inr _) \<Rightarrow> ok ()
        | Inr (Inl er) \<Rightarrow> publish_loop lib e k m mr ri ct left (Suc j) (Some er)) (\<lambda>x _. x \<noteq> Inl nil_dereference)) r0"
    for j r0
    by (rule wp_mono [OF attempt_no_panic]) (auto split: sum.splits intro: Suc.IH)
  with Suc.prems show ?case
    by (cases "i = 0")
       (auto simp: nil_dereference_def simp del: wp_case_sum split: option.splits intro!: any_outcome)
qed (simp add: nil_dereference_def)

text \<open>
  Whatever the AMQP client answers, the retry loop of PublishWithConfirm never reads the text
  of a nil last error.
\<close>

theorem publish_no_nil_dereference:
  "fst (run_state (PublishWithConfirm lib e k ct hs body dm pr ts ex maxRetries ri cto) r) \<noteq> Inl nil_dereference"
proof -
  have "wp (PublishWithConfirm lib e k ct hs body dm pr ts ex maxRetries ri cto) (\<lambda>x _. x \<noteq> Inl nil_dereference) r"
    unfolding PublishWithConfirm_def Let_def
    by (cases "rb_closed r")
       (auto simp: nil_dereference_def [symmetric] simp del: publish_loop.simps intro!: any_lib loop_no_panic)
  then show ?thesis by (simp add: wp_def split: prod.splits)
qed

text \<open>The loop of \<open>connect\<close> with a maximum: it ends, and an error leaves the connection as it was.\<close>

definition connected :: "'b Rabbit \<Rightarrow> go_error option option \<Rightarrow> 'b Rabbit \<Rightarrow> bool" where
  "connected r x r' \<longleftrightarrow> rb_config r' = rb_config r \<and> rb_closed r' = rb_closed r \<and> rb_reconnect r' = rb_reconnect r \<and>
     (case x of None \<Rightarrow> False | Some None \<Rightarrow> rb_conn r' \<noteq> None | Some (Some _) \<Rightarrow> rb_conn r' = rb_conn r)"

lemma connected_none: "rb_config r' = rb_config r \<Longrightarrow> rb_closed r' = rb_closed r \<Longrightarrow> rb_reconnect r' = rb_reconnect r \<Longrightarrow>
    rb_conn r' = rb_conn r \<Longrightarrow> connected r (Some (Some e)) r'"
  by (simp add: connected_def)

lemma connected_new: "rb_config r' = rb_config r \<Longrightarrow> rb_closed r' = rb_closed r \<Longrightarrow> rb_reconnect r' = rb_reconnect r \<Longrightarrow>
    rb_conn r' \<noteq> None \<Longrightarrow> connected r (Some None) r'"
  by (simp add: connected_def)

lemma connect_loop_ends:
  assumes "rc_ReconnectMaxAttempts (rb_config r) = N" and "0 < N" and "0 \<le> a" and "a \<le> N"
    and "nat (N - a) < fuel" and "a = N \<longrightarrow> le \<noteq> None"
  shows "wp (connect_loop lib fuel a le) (connected r) r"
  using assms
proof (induction fuel arbitrary: r a le)
  case (Suc fuel)
  show ?case
  proof (cases "a = N")
    case True
    with Suc.prems show ?thesis by (auto simp: connected_def)
  next
    case False
    with Suc.prems have a: "a < N" "nat (N - (a + 1)) < fuel" by auto
    have again: "wp (connect_loop lib fuel b (Some err)) (connected r) r0"
      if b: "b = a + 1" and r0: "rb_config r0 = rb_config r" "rb_conn r0 = rb_conn r" "rb_closed r0 = rb_closed r" "rb_reconnect r0 = rb_reconnect r"
      for err r0 b
      by (rule wp_mono [OF Suc.IH [of r0 b]]) (use Suc.prems a b r0 in \<open>auto simp: connected_def split: option.splits\<close>)
    from a Suc.prems show ?thesis
      by (cases "a = 0")
         (auto split: option.splits sum.splits intro!: any_lib connected_none connected_new
            again)
  qed
qed simp

lemma connect_ends:
  assumes "rc_ReconnectMaxAttempts (rb_config r) \<noteq> 0" "nat (rc_ReconnectMaxAttempts (rb_config r)) < fuel"
  shows "\<exists>x r'. run_state (rabbit_connect lib fuel) r = (Some x, r') \<and> rb_config r' = rb_config r \<and>
    (if rc_ReconnectMaxAttempts (rb_config r) < 0 then x = None \<and> r' = r
     else (case x of None \<Rightarrow> rb_conn r' \<noteq> None | Some _ \<Rightarrow> rb_conn r' = rb_conn r))"
proof (cases "rc_ReconnectMaxAttempts (rb_config r) < 0")
  case True
  with assms(2) show ?thesis
    by (cases fuel) (auto simp: rabbit_connect_def get_rabbit_def)
next
  case False
  obtain x r' where run: "run_state (rabbit_connect lib fuel) r = (x, r')" by fastforce
  from assms False have "wp (rabbit_connect lib fuel) (connected r) r"
    unfolding rabbit_connect_def by (intro connect_loop_ends) auto
  from wp_run [OF run this] run False show ?thesis
    by (auto simp: connected_def split: option.splits)
qed

text \<open>
  C33: With a maximum number of attempts connect always returns: nil with a connection in place,
  or an error with the old connection untouched; with a negative maximum it returns nil at once,
  without a connection.
\<close>

theorem connect_returns:
  assumes "rc_ReconnectMaxAttempts (rb_config r) \<noteq> 0" "nat (rc_ReconnectMaxAttempts (rb_config r)) < fuel"
  shows "\<exists>x r'. run_state (rabbit_connect lib fuel) r = (Some x, r') \<and> rb_config r' = rb_config r \<and>
    (if rc_ReconnectMaxAttempts (rb_config r) < 0 then x = None \<and> r' = r
     else (case x of None \<Rightarrow> rb_conn r' \<noteq> None | Some _ \<Rightarrow> rb_conn r' = rb_conn r))"
  by (rule connect_ends [OF assms])

lemma connect_returns_witness:
  "\<exists>x r'. run_state (rabbit_connect reference_amqp 4) (demo_rabbit []) = (Some x, r') \<and>
    rb_config r' = rb_config (demo_rabbit []) \<and>
    (case x of None \<Rightarrow> rb_conn r' \<noteq> None | Some _ \<Rightarrow> rb_conn r' = rb_conn (demo_rabbit []))"
proof -
  have m: "rc_ReconnectMaxAttempts (rb_config (demo_rabbit [])) = 3" by (simp add: demo_rabbit_def)
  then have "rc_ReconnectMaxAttempts (rb_config (demo_rabbit [])) \<noteq> 0"
    "nat (rc_ReconnectMaxAttempts (rb_config (demo_rabbit []))) < 4" by simp_all
  from connect_returns [OF this, of reference_amqp] m show ?thesis by simp
qed

text \<open>
  A connection that is gone: publishing fails, and as the failing path never asks the monitor to
  reconnect, no later publish can succeed unless the close listener left a token.
\<close>

definition gone :: "'b amqp_library \<Rightarrow> 'b Rabbit \<Rightarrow> bool" where
  "gone lib r \<longleftrightarrow> \<not> rb_reconnect r \<and>
     (case rb_conn r of None \<Rightarrow> True | Some c \<Rightarrow> run_state (conn_IsClosed lib c) (rb_lib r) = (True, rb_lib r))"

lemma gone_channel:
  "gone lib r \<Longrightarrow> run_state (getChannel lib) r = (Inl (Fmt ''no active connection'' None), r)"
  by (auto simp: gone_def getChannel_def getConnection_def get_rabbit_def call_def zoom_def split: option.splits)

text \<open>
  C34: Once the connection is gone and no reconnection is pending, Publish fails and leaves no
  request to reconnect, so a round of the monitor changes nothing and every later publish fails
  the same way.
\<close>

theorem lost_connection_never_recovers:
  assumes "gone lib r"
  shows "\<exists>err r'. run_state (do { x \<leftarrow> Rabbit_Publish lib e k ct hs body dm pr ts ex;
      _ \<leftarrow> monitorConnection lib fuel; ret x }) r = (Inl err, r') \<and> r' = r"
  using assms
  by (auto simp: Rabbit_Publish_def monitorConnection_def get_rabbit_def gone_channel gone_def)

lemma lost_connection_never_recovers_witness:
  "\<exists>err. fst (run_state (do { x \<leftarrow> Rabbit_Publish reference_amqp ''x'' ''k'' ''t'' None ''b'' None None None None;
      _ \<leftarrow> monitorConnection reference_amqp 9; ret x }) (demo_rabbit []\<lparr>rb_conn := None\<rparr>)) = Inl err"
proof -
  have "gone reference_amqp (demo_rabbit []\<lparr>rb_conn := None\<rparr>)" by (simp add: gone_def demo_rabbit_def)
  from lost_connection_never_recovers [OF this, of "''x''" "''k''" "''t''" None "''b''" None None None None 9]
  show ?thesis by (metis fst_conv)
qed

end
