(* ===== verification/Publishers.thy ===== *)
theory Publishers
  imports Events Ports Rabbit
begin

text \<open>
  \<open>internal/adapter/event\<close> and \<open>pkg/util/context.go\<close>: what a request's context carries, the cloud
  event made of a message, and the publishers: none, HTTP, RabbitMQ and several at once. JSON, the
  UUIDs, the clock, the trace headers and the HTTP client are a library; spans and log lines are not
  modelled.
\<close>

section \<open>Request context\<close>

text \<open>The values of a context, innermost first; a key's value need not be a string.\<close>

datatype ctx_value = CtxString string | CtxOther nat

datatype ContextKey = ClientNameKey | ActorIdKey | ActorTypeKey | ActorNameKey | OtherKey string

type_synonym go_context = "(ContextKey \<times> ctx_value) list"

definition WithValue :: "go_context \<Rightarrow> ContextKey \<Rightarrow> ctx_value \<Rightarrow> go_context" where
  "WithValue ctx k v = (k, v) # ctx"

definition ctx_string :: "go_context \<Rightarrow> ContextKey \<Rightarrow> string option" where
  "ctx_string ctx k = (case map_of ctx k of Some (CtxString s) \<Rightarrow> Some s | _ \<Rightarrow> None)"

definition SetClientName :: "go_context \<Rightarrow> string \<Rightarrow> go_context" where
  "SetClientName ctx clientName = WithValue ctx ClientNameKey (CtxString clientName)"

definition GetClientName :: "go_context \<Rightarrow> string" where
  "GetClientName ctx = (case ctx_string ctx ClientNameKey of Some clientName \<Rightarrow> clientName | None \<Rightarrow> ''unknown'')"

definition SetActor :: "go_context \<Rightarrow> string \<Rightarrow> string \<Rightarrow> string \<Rightarrow> go_context" where
  "SetActor ctx actorId actorType actorName =
     WithValue (WithValue (WithValue ctx ActorIdKey (CtxString actorId))
       ActorTypeKey (CtxString actorType)) ActorNameKey (CtxString actorName)"

definition GetActor :: "go_context \<Rightarrow> string \<times> string \<times> string" where
  "GetActor ctx =
     ((case ctx_string ctx ActorIdKey of Some actorId \<Rightarrow> actorId | None \<Rightarrow> ''unknown''),
      (case ctx_string ctx ActorTypeKey of Some actorType \<Rightarrow> actorType | None \<Rightarrow> ''unknown''),
      (case ctx_string ctx ActorNameKey of Some actorName \<Rightarrow> actorName | None \<Rightarrow> ''unknown''))"

lemma GetClientName_set [simp]:
  "GetClientName (SetClientName ctx n) = n" "GetClientName (SetActor ctx a b c) = GetClientName ctx"
  by (simp_all add: GetClientName_def SetClientName_def SetActor_def WithValue_def ctx_string_def)

lemma GetActor_set [simp]:
  "GetActor (SetActor ctx a b c) = (a, b, c)" "GetActor (SetClientName ctx n) = GetActor ctx"
  by (simp_all add: GetActor_def SetClientName_def SetActor_def WithValue_def ctx_string_def)

section \<open>Cloud events\<close>

record CloudEventData =
  ced_Client :: string
  ced_ActorId :: string
  ced_ActorType :: string
  ced_ActorName :: string
  ced_EntityId :: string
  ced_EntityType :: string
  ced_EntityName :: "string option"
  ced_MetaData :: string

record CloudEvent =
  ce_ID :: string
  ce_Source :: string
  ce_SpecVersion :: string
  ce_Type :: string
  ce_Time :: time
  ce_Data :: CloudEventData

record http_request =
  hq_URL :: string
  hq_Header :: "(string \<times> string list) list"
  hq_Body :: string

record http_response =
  hp_StatusCode :: int
  hp_Body :: string

text \<open>The libraries of the publishers, over a state of their own.\<close>

record 's event_library =
  el_MarshalMetadata :: "Metadata \<Rightarrow> string result"
  el_MarshalError :: "string \<Rightarrow> string"
  el_MarshalData :: "CloudEventData \<Rightarrow> string result"
  el_NewUUID :: "('s, string) prog"
  el_Now :: "('s, time) prog"
  el_InjectContext :: "go_context \<Rightarrow> (string \<times> string list) list"
  el_NewRequest :: "string \<Rightarrow> string \<Rightarrow> http_request result"
  el_Do :: "http_request \<Rightarrow> ('s, http_response result) prog"

definition marshal_metadata :: "'s event_library \<Rightarrow> Metadata \<Rightarrow> string" where
  "marshal_metadata lib d = (case el_MarshalMetadata lib d of
     Inr b \<Rightarrow> b | Inl err \<Rightarrow> el_MarshalError lib (''failed to marshal event data: '' @ Error_text err))"

definition NewCloudEvent :: "'s event_library \<Rightarrow> go_context \<Rightarrow> EventMessage \<Rightarrow> ('s, CloudEvent) prog" where
  "NewCloudEvent lib ctx message = do {
     uid \<leftarrow> el_NewUUID lib;
     now \<leftarrow> el_Now lib;
     ret (let (actorId, actorType, actorName) = GetActor ctx in
       \<lparr>ce_ID = uid, ce_Source = ''service-user'', ce_SpecVersion = ''1.0'',
        ce_Type = EventType_string (em_Type message), ce_Time = now,
        ce_Data = \<lparr>ced_Client = GetClientName ctx, ced_ActorId = actorId, ced_ActorType = actorType,
          ced_ActorName = actorName, ced_EntityId = en_ID (em_Entity message),
          ced_EntityType = en_Type (em_Entity message), ced_EntityName = en_Name (em_Entity message),
          ced_MetaData = marshal_metadata lib (em_Metadata message)\<rparr>\<rparr>) }"

section \<open>Publishers\<close>

record 's Publisher =
  pub_Name :: string
  pub_Publish :: "go_context \<Rightarrow> EventMessage \<Rightarrow> ('s, unit result) prog"
  pub_Close :: "('s, unit result) prog"

text \<open>A publisher as the port the services call, within one request.\<close>

definition EventPublisher_of :: "'s Publisher \<Rightarrow> go_context \<Rightarrow> 's EventPublisher" where
  "EventPublisher_of p ctx = \<lparr>EP_Publish = pub_Publish p ctx\<rparr>"

definition NewNoOpPublisher :: "'s Publisher" where
  "NewNoOpPublisher = \<lparr>pub_Name = ''NoOpPublisher'',
     pub_Publish = (\<lambda>ctx message. case Message_Validate message of Inl err \<Rightarrow> fail err | Inr _ \<Rightarrow> ok ()),
     pub_Close = ok ()\<rparr>"

subsection \<open>Several publishers\<close>

fun publish_each :: "'s Publisher list \<Rightarrow> go_context \<Rightarrow> EventMessage \<Rightarrow> go_error option \<Rightarrow> ('s, go_error option) prog" where
  "publish_each [] ctx message firstErr = ret firstErr"
| "publish_each (p # ps) ctx message firstErr = do {
     r \<leftarrow> pub_Publish p ctx message;
     publish_each ps ctx message (case r of Inr _ \<Rightarrow> firstErr
       | Inl err \<Rightarrow> (case firstErr of None \<Rightarrow> Some err | Some _ \<Rightarrow> firstErr)) }"

fun close_each :: "'s Publisher list \<Rightarrow> go_error option \<Rightarrow> ('s, go_error option) prog" where
  "close_each [] firstErr = ret firstErr"
| "close_each (p # ps) firstErr = do {
     r \<leftarrow> pub_Close p;
     close_each ps (case r of Inr _ \<Rightarrow> firstErr
       | Inl err \<Rightarrow> (case firstErr of None \<Rightarrow> Some err | Some _ \<Rightarrow> firstErr)) }"

definition nil_or :: "go_error option \<Rightarrow> unit result" where
  "nil_or e = (case e of None \<Rightarrow> Inr () | Some err \<Rightarrow> Inl err)"

text \<open>Nil publishers are dropped when the publisher is made.\<close>

definition NewMultiEventPublisher :: "'s Publisher option list \<Rightarrow> 's Publisher" where
  "NewMultiEventPublisher publishers =
     (let ps = map the (filter (\<lambda>p. p \<noteq> None) publishers) in
      \<lparr>pub_Name = ''MultiEventPublisher'',
       pub_Publish = (\<lambda>ctx message. case Message_Validate message of
          Inl err \<Rightarrow> fail err
        | Inr _ \<Rightarrow> do { e \<leftarrow> publish_each ps ctx message None; ret (nil_or e) }),
       pub_Close = do { e \<leftarrow> close_each ps None; ret (nil_or e) }\<rparr>)"

subsection \<open>HTTP\<close>

text \<open>\<open>textproto.CanonicalMIMEHeaderKey\<close>: a key with a byte no header may have is left alone.\<close>

definition is_letter :: "char \<Rightarrow> bool" where
  "is_letter c \<longleftrightarrow> (let n = (of_char c :: nat) in 65 \<le> n \<and> n \<le> 90 \<or> 97 \<le> n \<and> n \<le> 122)"

definition upper_char :: "char \<Rightarrow> char" where
  "upper_char c = (let n = (of_char c :: nat) in if 97 \<le> n \<and> n \<le> 122 then char_of (n - 32) else c)"

definition lower_char :: "char \<Rightarrow> char" where
  "lower_char c = (let n = (of_char c :: nat) in if 65 \<le> n \<and> n \<le> 90 then char_of (n + 32) else c)"

definition is_header_char :: "char \<Rightarrow> bool" where
  "is_header_char c \<longleftrightarrow> is_letter c \<or> digit_val c \<noteq> None \<or> c \<in> set ''!#$%&*+-.^_|~'' \<or> c = CHR 0x27 \<or> c = CHR 0x60"

fun canonical_from :: "bool \<Rightarrow> string \<Rightarrow> string" where
  "canonical_from upper [] = []"
| "canonical_from upper (c # cs) =
     (if upper then upper_char c else lower_char c) # canonical_from (c = CHR ''-'') cs"

definition CanonicalHeaderKey :: "string \<Rightarrow> string" where
  "CanonicalHeaderKey k = (if list_all is_header_char k then canonical_from True k else k)"

definition Header_Set :: "string \<Rightarrow> string \<Rightarrow> (string \<times> string list) list \<Rightarrow> (string \<times> string list) list" where
  "Header_Set k v h = map_put (CanonicalHeaderKey k) [v] h"

definition Header_Add :: "string \<Rightarrow> string \<Rightarrow> (string \<times> string list) list \<Rightarrow> (string \<times> string list) list" where
  "Header_Add k v h = (let k' = CanonicalHeaderKey k in
     map_put k' ((case map_of h k' of None \<Rightarrow> [] | Some vs \<Rightarrow> vs) @ [v]) h)"

definition ce_headers :: "CloudEvent \<Rightarrow> (string \<times> string list) list \<Rightarrow> (string \<times> string list) list" where
  "ce_headers ce h =
     Header_Set ''Actor-Type'' (ced_ActorType (ce_Data ce)) (Header_Set ''Actor-Id'' (ced_ActorId (ce_Data ce))
     (Header_Set ''Client'' (ced_Client (ce_Data ce)) (Header_Set ''Ce-ID'' (ce_ID ce)
     (Header_Set ''Ce-Specversion'' (ce_SpecVersion ce) (Header_Set ''Ce-Source'' (ce_Source ce)
     (Header_Set ''Ce-Type'' (ce_Type ce) (Header_Set ''Content-Type'' ''application/cloudevents+json'' h)))))))"

definition trace_headers :: "(string \<times> string list) list \<Rightarrow> (string \<times> string list) list \<Rightarrow> (string \<times> string list) list" where
  "trace_headers md h = fold (\<lambda>(k, vs). fold (Header_Add k) vs) md h"

definition HTTP_Publish :: "'s event_library \<Rightarrow> string \<Rightarrow> go_context \<Rightarrow> EventMessage \<Rightarrow> ('s, unit result) prog" where
  "HTTP_Publish lib url ctx message =
     (case Message_Validate message of
        Inl err \<Rightarrow> fail err
      | Inr _ \<Rightarrow> do {
          ce \<leftarrow> NewCloudEvent lib ctx message;
          (case el_MarshalData lib (ce_Data ce) of
             Inl err \<Rightarrow> fail (Fmt (''failed to marshal event: '' @ Error_text err) (Some err))
           | Inr body \<Rightarrow>
               (case el_NewRequest lib url body of
                  Inl err \<Rightarrow> fail (Fmt (''failed to create request: '' @ Error_text err) (Some err))
                | Inr req \<Rightarrow> do {
                    r \<leftarrow> el_Do lib (hq_Header_update (\<lambda>h. trace_headers (el_InjectContext lib ctx) (ce_headers ce h)) req);
                    (case r of
                       Inl err \<Rightarrow> fail (Fmt (''failed to publish event: '' @ Error_text err) (Some err))
                     | Inr resp \<Rightarrow>
                         if 400 \<le> hp_StatusCode resp
                         then fail (Fmt (''event publish failed with status '' @ FormatInt (hp_StatusCode resp) @ '': '' @ hp_Body resp) None)
                         else ok ()) })) })"

definition NewHTTPPublisher :: "'s event_library \<Rightarrow> string \<Rightarrow> 's Publisher" where
  "NewHTTPPublisher lib url = \<lparr>pub_Name = ''HTTPPublisher'', pub_Publish = HTTP_Publish lib url, pub_Close = ok ()\<rparr>"

subsection \<open>RabbitMQ\<close>

text \<open>The interface \<open>RabbitConn\<close>.\<close>

record 's RabbitConn =
  RC_PublishWithConfirm :: "string \<Rightarrow> string \<Rightarrow> string \<Rightarrow> (string \<times> string) list option \<Rightarrow> string \<Rightarrow> nat option \<Rightarrow> nat option
     \<Rightarrow> time option \<Rightarrow> duration option \<Rightarrow> int \<Rightarrow> duration \<Rightarrow> duration \<Rightarrow> ('s, unit result) prog"
  RC_Close :: "('s, unit result) prog"

record RabbitmqPublisherConfig =
  rpc_Exchange :: string
  rpc_RoutingKeyPrefix :: string
  rpc_ConfirmTimeout :: duration
  rpc_MaxRetries :: int
  rpc_RetryInterval :: duration

definition TrimPrefix :: "string \<Rightarrow> string \<Rightarrow> string" where
  "TrimPrefix s p = (if take (length p) s = p then drop (length p) s else s)"

definition routing_prefix :: "string \<Rightarrow> string" where
  "routing_prefix p = (if p \<noteq> [] \<and> last p \<noteq> CHR ''.'' then p @ ''.'' else p)"

definition getRoutingKey :: "string \<Rightarrow> string \<Rightarrow> string" where
  "getRoutingKey routingKeyPrefix eventType = routingKeyPrefix @ TrimPrefix eventType ''.''"

definition rabbit_headers :: "CloudEvent \<Rightarrow> (string \<times> string) list" where
  "rabbit_headers ce =
     (let h = [(''ce_type'', ce_Type ce), (''ce_source'', ce_Source ce), (''ce_id'', ce_ID ce),
         (''ce_specversion'', ce_SpecVersion ce), (''ce_timestamp'', FormatInt (ce_Time ce div 1000000)),
         (''client'', ced_Client (ce_Data ce)), (''actor_id'', ced_ActorId (ce_Data ce)),
         (''actor_type'', ced_ActorType (ce_Data ce)), (''actor_name'', ced_ActorName (ce_Data ce)),
         (''entity_id'', ced_EntityId (ce_Data ce)), (''entity_type'', ced_EntityType (ce_Data ce))]
      in (case ced_EntityName (ce_Data ce) of None \<Rightarrow> h | Some n \<Rightarrow> map_put ''entity_name'' n h))"

definition rabbit_trace :: "(string \<times> string list) list \<Rightarrow> (string \<times> string) list \<Rightarrow> (string \<times> string) list" where
  "rabbit_trace md h = fold (\<lambda>(k, vs) h. case vs of [] \<Rightarrow> h | v # _ \<Rightarrow> map_put k v h) md h"

definition Rabbitmq_Publish ::
  "'s event_library \<Rightarrow> 's RabbitConn \<Rightarrow> RabbitmqPublisherConfig \<Rightarrow> go_context \<Rightarrow> EventMessage \<Rightarrow> ('s, unit result) prog" where
  "Rabbitmq_Publish lib conn cfg ctx message =
     (case Message_Validate message of
        Inl err \<Rightarrow> fail err
      | Inr _ \<Rightarrow> do {
          ce \<leftarrow> NewCloudEvent lib ctx message;
          (case el_MarshalData lib (ce_Data ce) of
             Inl err \<Rightarrow> fail (Fmt (''failed to marshal cloud event: '' @ Error_text err) (Some err))
           | Inr body \<Rightarrow> do {
               r \<leftarrow> RC_PublishWithConfirm conn (rpc_Exchange cfg)
                 (getRoutingKey (routing_prefix (rpc_RoutingKeyPrefix cfg)) (ce_Type ce))
                 ''application/cloudevents+json''
                 (Some (rabbit_trace (el_InjectContext lib ctx) (rabbit_headers ce))) body
                 (Some 2) (Some 10) None None (rpc_MaxRetries cfg) (rpc_RetryInterval cfg) (rpc_ConfirmTimeout cfg);
               (case r of
                  Inl err \<Rightarrow> fail (Fmt (''failed to publish message to RabbitMQ: '' @ Error_text err) (Some err))
                | Inr _ \<Rightarrow> ok ()) }) })"

text \<open>A nil connection panics: there is no publisher then.\<close>

definition NewRabbitmqPublisher ::
  "'s event_library \<Rightarrow> 's RabbitConn option \<Rightarrow> RabbitmqPublisherConfig \<Rightarrow> 's Publisher option" where
  "NewRabbitmqPublisher lib conn cfg = (case conn of None \<Rightarrow> None | Some c \<Rightarrow>
     Some \<lparr>pub_Name = ''RabbitmqPublisher'', pub_Publish = Rabbitmq_Publish lib c cfg, pub_Close = RC_Close c\<rparr>)"

section \<open>The publisher of the composition root\<close>

record EventPublisherConfig =
  epc_Enabled :: bool
  epc_HTTPEnabled :: bool
  epc_HTTPURL :: string
  epc_RabbitEnabled :: bool
  epc_Rabbit :: RabbitmqPublisherConfig

definition main_publisher :: "'s event_library \<Rightarrow> 's RabbitConn \<Rightarrow> EventPublisherConfig \<Rightarrow> 's Publisher" where
  "main_publisher lib conn cfg =
     (let backends = (if epc_Enabled cfg
        then (if epc_HTTPEnabled cfg then [Some (NewHTTPPublisher lib (epc_HTTPURL cfg))] else [])
          @ (if epc_RabbitEnabled cfg then [NewRabbitmqPublisher lib (Some conn) (epc_Rabbit cfg)] else [])
        else [])
      in (case backends of [] \<Rightarrow> NewNoOpPublisher | [p] \<Rightarrow> the p | _ \<Rightarrow> NewMultiEventPublisher backends))"

end
