(* ===== verification/PublisherProperties.thy ===== *)
theory PublisherProperties
  imports Publishers RabbitProperties
begin

text \<open>
  What a published event amounts to: the fan-out of several publishers against the sequence of their
  answers, and the delivery of an event through the RabbitMQ publisher, the connection and the
  broker.
\<close>

section \<open>Fan-out\<close>

text \<open>Every publisher in turn, whatever the others answered.\<close>

fun answers :: "'s Publisher list \<Rightarrow> go_context \<Rightarrow> EventMessage \<Rightarrow> 's \<Rightarrow> unit result list \<times> 's" where
  "answers [] ctx m s = ([], s)"
| "answers (p # ps) ctx m s =
     (let (r, s1) = run_state (pub_Publish p ctx m) s; (rs, s2) = answers ps ctx m s1 in (r # rs, s2))"

fun first_failure :: "unit result list \<Rightarrow> unit result" where
  "first_failure [] = Inr ()"
| "first_failure (Inl err # rs) = Inl err"
| "first_failure (Inr _ # rs) = first_failure rs"

lemma publish_each_answers:
  "run_state (publish_each ps ctx m e0) s =
     (case answers ps ctx m s of (rs, s') \<Rightarrow> (case e0 of Some err \<Rightarrow> Some err
        | None \<Rightarrow> (case first_failure rs of Inl err \<Rightarrow> Some err | Inr _ \<Rightarrow> None), s'))"
  by (induction ps arbitrary: s e0) (auto split: prod.splits sum.splits option.splits)

lemma length_answers: "length (fst (answers ps ctx m s)) = length ps"
  by (induction ps arbitrary: s) (auto simp: Let_def split: prod.splits, metis fst_conv)

text \<open>
  C36: The multi publisher is the sequence of its backends: an invalid message reaches none; a
  valid one is given to every non-nil backend in order, whatever the others answer, and the first
  error is returned.
\<close>

theorem multi_publisher_fans_out:
  "run_state (pub_Publish (NewMultiEventPublisher ps) ctx m) s =
     (case Message_Validate m of
        Inl err \<Rightarrow> (Inl err, s)
      | Inr _ \<Rightarrow> (case answers (map the (filter (\<lambda>p. p \<noteq> None) ps)) ctx m s of
          (rs, s') \<Rightarrow> (first_failure rs, s')))
   \<and> length (fst (answers (map the (filter (\<lambda>p. p \<noteq> None) ps)) ctx m s)) = length (filter (\<lambda>p. p \<noteq> None) ps)"
  by (auto simp: NewMultiEventPublisher_def publish_each_answers nil_or_def length_answers Let_def
      split: sum.splits prod.splits)

section \<open>Delivery through RabbitMQ\<close>

record ('b, 'x) publishing =
  pw_rabbit :: "'b Rabbit"
  pw_env :: 'x

abbreviation on_rabbit :: "('b Rabbit, 'a) prog \<Rightarrow> (('b, 'x) publishing, 'a) prog" where
  "on_rabbit \<equiv> zoom pw_rabbit (\<lambda>r. pw_rabbit_update (\<lambda>_. r))"

abbreviation on_env :: "('x, 'a) prog \<Rightarrow> (('b, 'x) publishing, 'a) prog" where
  "on_env \<equiv> zoom pw_env (\<lambda>r. pw_env_update (\<lambda>_. r))"

definition rabbit_conn :: "'b amqp_library \<Rightarrow> ('b, 'x) publishing RabbitConn" where
  "rabbit_conn lib = \<lparr>RC_PublishWithConfirm = (\<lambda>e k ct hs body dm pr ts ex mr ri cto.
       on_rabbit (PublishWithConfirm lib e k ct hs body dm pr ts ex mr ri cto)),
     RC_Close = on_rabbit (Rabbit_Close lib)\<rparr>"

definition env_library :: "'x event_library \<Rightarrow> ('b, 'x) publishing event_library" where
  "env_library ev = \<lparr>el_MarshalMetadata = el_MarshalMetadata ev, el_MarshalError = el_MarshalError ev,
     el_MarshalData = el_MarshalData ev, el_NewUUID = on_env (el_NewUUID ev), el_Now = on_env (el_Now ev),
     el_InjectContext = el_InjectContext ev, el_NewRequest = el_NewRequest ev, el_Do = (\<lambda>q. on_env (el_Do ev q))\<rparr>"

lemma rabbit_conn_publish [simp]:
  "RC_PublishWithConfirm (rabbit_conn lib) e k ct hs body dm pr ts ex mr ri cto =
     on_rabbit (PublishWithConfirm lib e k ct hs body dm pr ts ex mr ri cto)"
  by (simp add: rabbit_conn_def)

lemma env_library_pure [simp]:
  "el_MarshalData (env_library ev) = el_MarshalData ev" "el_InjectContext (env_library ev) = el_InjectContext ev"
  by (simp_all add: env_library_def)

text \<open>The cloud event of a message in a context, but for its identifier and its time.\<close>

definition event_of :: "'x event_library \<Rightarrow> go_context \<Rightarrow> EventMessage \<Rightarrow> CloudEvent \<Rightarrow> bool" where
  "event_of ev ctx m ce \<longleftrightarrow> ce_Type ce = EventType_string (em_Type m) \<and> ce_Source ce = ''service-user'' \<and>
     ced_Client (ce_Data ce) = GetClientName ctx \<and>
     (ced_ActorId (ce_Data ce), ced_ActorType (ce_Data ce), ced_ActorName (ce_Data ce)) = GetActor ctx \<and>
     ced_EntityId (ce_Data ce) = en_ID (em_Entity m) \<and> ced_EntityType (ce_Data ce) = en_Type (em_Entity m) \<and>
     ced_EntityName (ce_Data ce) = en_Name (em_Entity m) \<and> ced_MetaData (ce_Data ce) = marshal_metadata ev (em_Metadata m)"

lemma wp_NewCloudEvent:
  assumes "\<And>ce w'. pw_rabbit w' = pw_rabbit w \<Longrightarrow> event_of ev ctx m ce \<Longrightarrow> Q ce w'"
  shows "wp (NewCloudEvent (env_library ev) ctx m) Q w"
  unfolding NewCloudEvent_def env_library_def
  by (auto simp: Let_def marshal_metadata_def event_of_def split: prod.splits sum.splits intro!: wpI assms)

text \<open>
  What a successful or failed publication leaves at the broker: the event, on the exchange and under
  the routing key of the configuration, with the JSON of its data as body.
\<close>

definition event_message ::
  "'x event_library \<Rightarrow> RabbitmqPublisherConfig \<Rightarrow> go_context \<Rightarrow> EventMessage \<Rightarrow> message \<Rightarrow> bool" where
  "event_message ev cfg ctx m msg \<longleftrightarrow> (\<exists>ce body. event_of ev ctx m ce \<and> el_MarshalData ev (ce_Data ce) = Inr body \<and>
     (case msg of (exchange, key, p) \<Rightarrow>
        exchange = rpc_Exchange cfg \<and>
        key = getRoutingKey (routing_prefix (rpc_RoutingKeyPrefix cfg)) (EventType_string (em_Type m)) \<and>
        pb_Body p = body \<and> pb_ContentType p = ''application/cloudevents+json'' \<and>
        pb_Headers p = Some (rabbit_trace (el_InjectContext ev ctx) (rabbit_headers ce))))"

context broker
begin

definition published :: "'x event_library \<Rightarrow> RabbitmqPublisherConfig \<Rightarrow> go_context \<Rightarrow> EventMessage \<Rightarrow>
    ('b, 'x) publishing \<Rightarrow> unit result \<Rightarrow> ('b, 'x) publishing \<Rightarrow> bool" where
  "published ev cfg ctx m w x w' \<longleftrightarrow>
     (if x = Inr () then Message_Validate m = Inr () \<and> (\<exists>msg. event_message ev cfg ctx m msg \<and>
             acked (rb_lib (pw_rabbit w')) = acked (rb_lib (pw_rabbit w)) @ [msg])
      else acked (rb_lib (pw_rabbit w')) = acked (rb_lib (pw_rabbit w)) \<and>
             (Message_Validate m \<noteq> Inr () \<longrightarrow> x = Message_Validate m \<and> w' = w))"

lemma published_refused: "Message_Validate m = Inl err \<Longrightarrow> published ev cfg ctx m w (Inl err) w"
  by (simp add: published_def)

lemma published_failed: "Message_Validate m = Inr () \<Longrightarrow> pw_rabbit w' = pw_rabbit w \<Longrightarrow> published ev cfg ctx m w (Inl err) w'"
  by (simp add: published_def)

lemma wp_Rabbitmq_Publish:
  "wp (Rabbitmq_Publish (env_library ev) (rabbit_conn lib) cfg ctx m) (published ev cfg ctx m w) w"
proof (cases "Message_Validate m")
  case (Inl err)
  then show ?thesis by (simp add: Rabbitmq_Publish_def published_refused)
next
  case (Inr u)
  have deliver: "wp (on_rabbit (PublishWithConfirm lib (rpc_Exchange cfg)
        (getRoutingKey (routing_prefix (rpc_RoutingKeyPrefix cfg)) (ce_Type ce)) ''application/cloudevents+json''
        (Some (rabbit_trace (el_InjectContext ev ctx) (rabbit_headers ce))) body
        (Some 2) (Some 10) None None (rpc_MaxRetries cfg) (rpc_RetryInterval cfg) (rpc_ConfirmTimeout cfg)))
      (\<lambda>r. case r of Inl err \<Rightarrow> wp (fail (Fmt (why err) (Some err))) (published ev cfg ctx m w)
         | Inr _ \<Rightarrow> wp (ok ()) (published ev cfg ctx m w)) w'"
    if "pw_rabbit w' = pw_rabbit w" "event_of ev ctx m ce" "el_MarshalData ev (ce_Data ce) = Inr body" for w' ce body why
  proof (simp only: wp_zoom, rule wp_mono [OF wp_PublishWithConfirm])
    fix x and r' :: "'b Rabbit"
    assume d: "delivered (rpc_Exchange cfg) (getRoutingKey (routing_prefix (rpc_RoutingKeyPrefix cfg)) (ce_Type ce))
        ''application/cloudevents+json'' (Some (rabbit_trace (el_InjectContext ev ctx) (rabbit_headers ce))) body
        (rb_lib (pw_rabbit w')) (if rpc_MaxRetries cfg \<le> 0 then 5 else nat (rpc_MaxRetries cfg)) x (rb_lib r')"
    from that have "ce_Type ce = EventType_string (em_Type m)" by (simp add: event_of_def)
    with d that Inr show "(case x of Inl err \<Rightarrow> wp (fail (Fmt (why err) (Some err))) (published ev cfg ctx m w)
         | Inr _ \<Rightarrow> wp (ok ()) (published ev cfg ctx m w)) (w'\<lparr>pw_rabbit := r'\<rparr>)"
      by (cases x) (auto simp: delivered_def event_message_def published_def)
  qed
  show ?thesis
    unfolding Rabbitmq_Publish_def
    using Inr by (auto simp del: wp_zoom split: sum.splits intro!: wp_NewCloudEvent deliver published_failed)
qed

end


definition demo_event :: EventMessage where
  "demo_event = \<lparr>em_Type = EventUserDeleted, em_Entity = \<lparr>en_ID = ''u1'', en_Type = EntityTypeUser, en_Name = None\<rparr>,
     em_Metadata = UserDeletedData\<rparr>"

definition demo_event_library :: "nat event_library" where
  "demo_event_library = \<lparr>el_MarshalMetadata = (\<lambda>_. Inr ''{}''), el_MarshalError = (\<lambda>_. ''{}''),
     el_MarshalData = (\<lambda>d. Inr (ced_EntityId d)), el_NewUUID = State (\<lambda>n. (dec_nat n, Suc n)),
     el_Now = State (\<lambda>n. (5000000, n)), el_InjectContext = (\<lambda>_. [(''traceparent'', [''00''])]),
     el_NewRequest = (\<lambda>u b. Inr \<lparr>hq_URL = u, hq_Header = [], hq_Body = b\<rparr>),
     el_Do = (\<lambda>_. ret (Inr \<lparr>hp_StatusCode = 200, hp_Body = []\<rparr>))\<rparr>"

definition demo_cfg :: RabbitmqPublisherConfig where
  "demo_cfg = \<lparr>rpc_Exchange = ''events'', rpc_RoutingKeyPrefix = ''svc'', rpc_ConfirmTimeout = 0, rpc_MaxRetries = 3,
     rpc_RetryInterval = 0\<rparr>"


end
