(* ===== verification/Validation.thy ===== *)
theory Validation
  imports Model
begin

text \<open>
  \<open>internal/adapter/api/grpc/validator\<close>: the checks of a request's fields. The custom validators are
  written out; of the validator library the tags the requests use are modelled as documented, with
  the e-mail and URI checks as parameters. Go ranges over the runes of a string, so UTF-8 decoding
  is part of the model; the Unicode tables beyond ASCII are a parameter.
\<close>

section \<open>Runes\<close>

definition cont_byte :: "nat \<Rightarrow> bool" where
  "cont_byte b \<longleftrightarrow> 128 \<le> b \<and> b \<le> 191"

definition RuneError :: nat where "RuneError = 65533"

text \<open>The range of the second byte of a three-byte and of a four-byte sequence.\<close>

definition second_byte :: "nat \<Rightarrow> nat \<Rightarrow> bool" where
  "second_byte b0 b1 \<longleftrightarrow>
     (if b0 = 224 then 160 else if b0 = 240 then 144 else 128) \<le> b1 \<and>
     b1 \<le> (if b0 = 237 then 159 else if b0 = 244 then 143 else 191)"

text \<open>\<open>utf8.DecodeRune\<close> on a non-empty list of bytes: the rune and its width.\<close>

fun decode_rune :: "nat list \<Rightarrow> nat \<times> nat" where
  "decode_rune (b0 # b1 # b2 # b3 # bs) =
     (if b0 < 128 then (b0, 1)
      else if 194 \<le> b0 \<and> b0 \<le> 223 \<and> cont_byte b1 then ((b0 - 192) * 64 + (b1 - 128), 2)
      else if 224 \<le> b0 \<and> b0 \<le> 239 \<and> second_byte b0 b1 \<and> cont_byte b2
      then ((b0 - 224) * 4096 + (b1 - 128) * 64 + (b2 - 128), 3)
      else if 240 \<le> b0 \<and> b0 \<le> 244 \<and> second_byte b0 b1 \<and> cont_byte b2 \<and> cont_byte b3
      then ((b0 - 240) * 262144 + (b1 - 128) * 4096 + (b2 - 128) * 64 + (b3 - 128), 4)
      else (RuneError, 1))"
| "decode_rune [b0, b1, b2] =
     (if b0 < 128 then (b0, 1)
      else if 194 \<le> b0 \<and> b0 \<le> 223 \<and> cont_byte b1 then ((b0 - 192) * 64 + (b1 - 128), 2)
      else if 224 \<le> b0 \<and> b0 \<le> 239 \<and> second_byte b0 b1 \<and> cont_byte b2
      then ((b0 - 224) * 4096 + (b1 - 128) * 64 + (b2 - 128), 3)
      else (RuneError, 1))"
| "decode_rune [b0, b1] =
     (if b0 < 128 then (b0, 1)
      else if 194 \<le> b0 \<and> b0 \<le> 223 \<and> cont_byte b1 then ((b0 - 192) * 64 + (b1 - 128), 2)
      else (RuneError, 1))"
| "decode_rune [b0] = (if b0 < 128 then (b0, 1) else (RuneError, 1))"
| "decode_rune [] = (RuneError, 0)"

function rune_list :: "nat list \<Rightarrow> nat list" where
  "rune_list [] = []"
| "rune_list (b # bs) = (case decode_rune (b # bs) of (r, w) \<Rightarrow> r # rune_list (drop (w - 1) bs))"
  by pat_completeness auto
termination by (relation "measure length") auto

definition runes :: "string \<Rightarrow> nat list" where
  "runes s = rune_list (map of_char s)"

lemma rune_list_ascii: "\<forall>b \<in> set bs. b < 128 \<Longrightarrow> rune_list bs = bs"
proof (induction bs)
  case (Cons b bs)
  then have "decode_rune (b # bs) = (b, 1)"
    by (cases "b # bs" rule: decode_rune.cases) auto
  with Cons show ?case by simp
qed simp

section \<open>Custom validators\<close>

text \<open>The classes of \<open>package unicode\<close>: ASCII written out, the rest a parameter.\<close>

record unicode_tables =
  ut_Upper :: "nat \<Rightarrow> bool"
  ut_Lower :: "nat \<Rightarrow> bool"
  ut_Digit :: "nat \<Rightarrow> bool"
  ut_Letter :: "nat \<Rightarrow> bool"

definition unicode_IsUpper :: "unicode_tables \<Rightarrow> nat \<Rightarrow> bool" where
  "unicode_IsUpper u r = (if r < 128 then 65 \<le> r \<and> r \<le> 90 else ut_Upper u r)"
definition unicode_IsLower :: "unicode_tables \<Rightarrow> nat \<Rightarrow> bool" where
  "unicode_IsLower u r = (if r < 128 then 97 \<le> r \<and> r \<le> 122 else ut_Lower u r)"
definition unicode_IsDigit :: "unicode_tables \<Rightarrow> nat \<Rightarrow> bool" where
  "unicode_IsDigit u r = (if r < 128 then 48 \<le> r \<and> r \<le> 57 else ut_Digit u r)"
definition unicode_IsLetter :: "unicode_tables \<Rightarrow> nat \<Rightarrow> bool" where
  "unicode_IsLetter u r = (if r < 128 then 65 \<le> r \<and> r \<le> 90 \<or> 97 \<le> r \<and> r \<le> 122 else ut_Letter u r)"

text \<open>
  The pattern of \<open>isSpecialChar\<close> is not the character class it looks like: the class ends at its
  first closing bracket and a brace pair follows, or, after the bar, a run of nine or ten characters.
\<close>

definition special_class :: "nat \<Rightarrow> bool" where
  "special_class r \<longleftrightarrow> r \<in> set (map of_char ''!@#$%^&*()_['') \<or> 43 \<le> r \<and> r \<le> 61"

fun special_left :: "nat list \<Rightarrow> bool" where
  "special_left (x # a # b # _) \<longleftrightarrow> special_class x \<and> a = 123 \<and> b = 125"
| "special_left _ \<longleftrightarrow> False"

fun special_right :: "nat list \<Rightarrow> bool" where
  "special_right (a # b # c # d # e # f # g # h # i # rest) \<longleftrightarrow>
     [a, b, c, d, e] = [59, 39, 58, 34, 44] \<and> f \<noteq> 10 \<and> g = 47 \<and> h = 60 \<and>
     (i = 93 \<or> i = 62 \<and> (case rest of [] \<Rightarrow> False | j # _ \<Rightarrow> j = 93))"
| "special_right _ \<longleftrightarrow> False"

fun special_search :: "nat list \<Rightarrow> bool" where
  "special_search [] \<longleftrightarrow> False"
| "special_search (r # rs) \<longleftrightarrow> special_left (r # rs) \<or> special_right (r # rs) \<or> special_search rs"

definition isSpecialChar :: "nat \<Rightarrow> bool" where
  "isSpecialChar r = special_search [r]"

record strength = st_upper :: bool st_lower :: bool st_digit :: bool st_special :: bool

definition strength_step :: "unicode_tables \<Rightarrow> nat \<Rightarrow> strength \<Rightarrow> strength" where
  "strength_step u ch s =
     (if unicode_IsUpper u ch then s\<lparr>st_upper := True\<rparr>
      else if unicode_IsLower u ch then s\<lparr>st_lower := True\<rparr>
      else if unicode_IsDigit u ch then s\<lparr>st_digit := True\<rparr>
      else if isSpecialChar ch then s\<lparr>st_special := True\<rparr> else s)"

definition passwordStrengthValidator :: "unicode_tables \<Rightarrow> string \<Rightarrow> bool" where
  "passwordStrengthValidator u password =
     (let s = fold (strength_step u) (runes password)
                \<lparr>st_upper = False, st_lower = False, st_digit = False, st_special = False\<rparr>
      in st_upper s \<and> st_lower s \<and> st_digit s \<and> st_special s)"

text \<open>The loop over the bytes, with the previous byte and the length of the current run.\<close>

fun no_repeated_from :: "char \<Rightarrow> nat \<Rightarrow> string \<Rightarrow> bool" where
  "no_repeated_from prev count [] \<longleftrightarrow> True"
| "no_repeated_from prev count (c # cs) \<longleftrightarrow>
     (if c = prev then (if count + 1 \<ge> 3 then False else no_repeated_from c (count + 1) cs)
      else no_repeated_from c 1 cs)"

fun noRepeatedCharsValidator :: "string \<Rightarrow> bool" where
  "noRepeatedCharsValidator [] \<longleftrightarrow> True"
| "noRepeatedCharsValidator (c # cs) \<longleftrightarrow> no_repeated_from c 1 cs"

definition mixedCharsValidator :: "unicode_tables \<Rightarrow> string \<Rightarrow> bool" where
  "mixedCharsValidator u password \<longleftrightarrow>
     list_ex (unicode_IsLetter u) (runes password) \<and> list_ex (\<lambda>r. \<not> unicode_IsLetter u r) (runes password)"

section \<open>PINs\<close>

definition digit_of :: "char \<Rightarrow> int" where
  "digit_of c = int (of_char c) - 48"

text \<open>The differences of neighbours, as in the loop named alternating.\<close>

fun steps_equal :: "int list \<Rightarrow> bool" where
  "steps_equal (a # b # c # xs) \<longleftrightarrow> c - b = b - a \<and> steps_equal (b # c # xs)"
| "steps_equal _ \<longleftrightarrow> True"

definition sequential_pins :: "string list" where
  "sequential_pins = [''123456'', ''234567'', ''345678'', ''456789'', ''654321'', ''765432'', ''876543'', ''987654'']"

text \<open>
  \<open>None\<close> is the panic of an index out of range (a PIN of two or three characters). The bytes are
  taken for runes: the only caller passes ASCII digits.
\<close>

definition isCommonPINPattern :: "string \<Rightarrow> bool option" where
  "isCommonPINPattern pin =
     (if (\<forall>c \<in> set (tl pin). c = hd pin) then Some True
      else if pin \<in> set sequential_pins then Some True
      else if steps_equal (map digit_of pin) then Some True
      else (case pin of
          a # b # c # d # _ \<Rightarrow>
            let month = digit_of a * 10 + digit_of b; day = digit_of c * 10 + digit_of d
            in Some (1 \<le> month \<and> month \<le> 12 \<and> 1 \<le> day \<and> day \<le> 31)
        | _ \<Rightarrow> None))"

definition pinValidator :: "string \<Rightarrow> bool option" where
  "pinValidator pin =
     (if length pin \<noteq> 6 then Some False
      else if \<not> list_all (\<lambda>c. digit_val c \<noteq> None) pin then Some False
      else (case isCommonPINPattern pin of None \<Rightarrow> None | Some b \<Rightarrow> Some (\<not> b)))"

definition username_byte :: "char \<Rightarrow> bool" where
  "username_byte c \<longleftrightarrow> (let n = (of_char c :: nat) in
     65 \<le> n \<and> n \<le> 90 \<or> 97 \<le> n \<and> n \<le> 122 \<or> 48 \<le> n \<and> n \<le> 57) \<or> c = CHR ''_'' \<or> c = CHR ''.''"

definition usernameValidator :: "string \<Rightarrow> bool" where
  "usernameValidator username \<longleftrightarrow> 3 \<le> length username \<and> username \<noteq> [] \<and> list_all username_byte username"

section \<open>Fields and tags\<close>

record validator_library =
  vl_tables :: unicode_tables
  vl_email :: "string \<Rightarrow> bool"
  vl_uri :: "string \<Rightarrow> bool"

datatype tag =
    Required | Min nat | Max nat | Oneof "string list" | Email | Uri | EqField string string
  | PasswordStrength | NoRepeated | MixedChars | PinTag | UsernameTag

record field_error =
  fe_Field :: string
  fe_Tag :: string
  fe_Param :: string

fun tag_name :: "tag \<Rightarrow> string" where
  "tag_name Required = ''required''"
| "tag_name (Min _) = ''min''"
| "tag_name (Max _) = ''max''"
| "tag_name (Oneof _) = ''oneof''"
| "tag_name Email = ''email''"
| "tag_name Uri = ''uri''"
| "tag_name (EqField _ _) = ''eqfield''"
| "tag_name PasswordStrength = ''password_strength''"
| "tag_name NoRepeated = ''no_repeated''"
| "tag_name MixedChars = ''mixed_chars''"
| "tag_name PinTag = ''pin''"
| "tag_name UsernameTag = ''username''"

fun join_words :: "string list \<Rightarrow> string" where
  "join_words [] = []"
| "join_words [w] = w"
| "join_words (w # ws) = w @ '' '' @ join_words ws"

fun tag_param :: "tag \<Rightarrow> string" where
  "tag_param (Min n) = dec_nat n"
| "tag_param (Max n) = dec_nat n"
| "tag_param (Oneof ws) = join_words ws"
| "tag_param (EqField f _) = f"
| "tag_param _ = []"

text \<open>Whether a string passes a tag; \<open>EqField\<close> carries the value of the other field.\<close>

fun tag_ok :: "validator_library \<Rightarrow> tag \<Rightarrow> string \<Rightarrow> bool" where
  "tag_ok v Required s \<longleftrightarrow> s \<noteq> []"
| "tag_ok v (Min n) s \<longleftrightarrow> n \<le> length (runes s)"
| "tag_ok v (Max n) s \<longleftrightarrow> length (runes s) \<le> n"
| "tag_ok v (Oneof ws) s \<longleftrightarrow> s \<in> set ws"
| "tag_ok v Email s \<longleftrightarrow> vl_email v s"
| "tag_ok v Uri s \<longleftrightarrow> vl_uri v s"
| "tag_ok v (EqField _ t) s \<longleftrightarrow> s = t"
| "tag_ok v PasswordStrength s \<longleftrightarrow> passwordStrengthValidator (vl_tables v) s"
| "tag_ok v NoRepeated s \<longleftrightarrow> noRepeatedCharsValidator s"
| "tag_ok v MixedChars s \<longleftrightarrow> mixedCharsValidator (vl_tables v) s"
| "tag_ok v PinTag s \<longleftrightarrow> pinValidator s = Some True"
| "tag_ok v UsernameTag s \<longleftrightarrow> usernameValidator s"

text \<open>A field is reported with the first tag it fails.\<close>

fun check_string :: "validator_library \<Rightarrow> string \<Rightarrow> tag list \<Rightarrow> string \<Rightarrow> field_error list" where
  "check_string v f [] s = []"
| "check_string v f (t # ts) s =
     (if tag_ok v t s then check_string v f ts s else [\<lparr>fe_Field = f, fe_Tag = tag_name t, fe_Param = tag_param t\<rparr>])"

text \<open>\<open>omitempty\<close>: an empty string, or a nil pointer, is not looked at; a pointer to \<open>""\<close> is.\<close>

definition omitempty_string :: "validator_library \<Rightarrow> string \<Rightarrow> tag list \<Rightarrow> string \<Rightarrow> field_error list" where
  "omitempty_string v f ts s = (if s = [] then [] else check_string v f ts s)"

definition omitempty_ptr :: "validator_library \<Rightarrow> string \<Rightarrow> tag list \<Rightarrow> string option \<Rightarrow> field_error list" where
  "omitempty_ptr v f ts p = (case p of None \<Rightarrow> [] | Some s \<Rightarrow> check_string v f ts s)"

definition check_int :: "string \<Rightarrow> int \<Rightarrow> int option \<Rightarrow> int \<Rightarrow> field_error list" where
  "check_int f lo hi i =
     (if i = 0 then [\<lparr>fe_Field = f, fe_Tag = ''required'', fe_Param = []\<rparr>]
      else if i < lo then [\<lparr>fe_Field = f, fe_Tag = ''min'', fe_Param = FormatInt lo\<rparr>]
      else (case hi of None \<Rightarrow> [] | Some m \<Rightarrow>
        if i > m then [\<lparr>fe_Field = f, fe_Tag = ''max'', fe_Param = FormatInt m\<rparr>] else []))"

definition check_size :: "string \<Rightarrow> nat \<Rightarrow> string \<Rightarrow> field_error list" where
  "check_size f m b = (if length b \<le> m then [] else [\<lparr>fe_Field = f, fe_Tag = ''max'', fe_Param = dec_nat m\<rparr>])"

definition FormatFieldError :: "field_error \<Rightarrow> string" where
  "FormatFieldError e =
     (let field = fe_Field e; tag = fe_Tag e in
      if tag = ''required'' then field @ '' is required''
      else if tag = ''email'' then field @ '' must be a valid email''
      else if tag = ''min'' then field @ '' must be at least '' @ fe_Param e @ '' characters''
      else if tag = ''max'' then field @ '' must be at most '' @ fe_Param e @ '' characters''
      else if tag = ''len'' then field @ '' must be exactly '' @ fe_Param e @ '' characters''
      else if tag = ''oneof'' then field @ '' must be one of: '' @ fe_Param e
      else if tag = ''password_strength'' then field @ '' must contain uppercase, lowercase, digit, and special character''
      else if tag = ''no_repeated'' then field @ '' must not contain 3 or more repeated characters''
      else if tag = ''mixed_chars'' then field @ '' must contain both letters and other characters''
      else if tag = ''numeric'' then field @ '' must contain only digits''
      else if tag = ''uri'' then field @ '' must be a valid URL''
      else if tag = ''pin'' then field @ '' must be a valid 6-digit PIN (no common patterns)''
      else if tag = ''username'' then field @ '' must contain only letters, numbers, underscores, or dots''
      else field @ '' is invalid ('' @ tag @ '')'')"

text \<open>\<open>ValidationErrors\<close> on the errors of the validator: the text of the first.\<close>

definition ValidationErrors :: "field_error list \<Rightarrow> string" where
  "ValidationErrors es = (case es of [] \<Rightarrow> [] | e # _ \<Rightarrow> FormatFieldError e)"

lemma check_string_ok: "check_string v f ts s = [] \<longleftrightarrow> (\<forall>t \<in> set ts. tag_ok v t s)"
  by (induction ts) auto

section \<open>What the custom validators accept\<close>

lemma never_special [simp]: "\<not> isSpecialChar r"
  by (simp add: isSpecialChar_def)

lemma strength_never_special: "st_special (fold (strength_step u) rs s) = st_special s"
  by (induction rs arbitrary: s) (auto simp: strength_step_def)

text \<open>
  The password_strength validator accepts no password: its pattern for special characters
  needs at least three characters, but is matched against one.
\<close>

theorem password_strength_rejects_all: "\<not> passwordStrengthValidator u password"
  by (simp add: passwordStrengthValidator_def Let_def strength_never_special)

lemma digit_of_val: "digit_val c = Some n \<Longrightarrow> digit_of c = int n"
  by (auto simp: digit_val_def digit_of_def Let_def split: if_splits)

lemma six: "length pin = 6 \<longleftrightarrow> (\<exists>a b c d e f. pin = [a, b, c, d, e, f])"
  by (auto simp: numeral_eq_Suc length_Suc_conv)

lemma steps_equal_six:
  "steps_equal [a, b, c, d, e, f] \<longleftrightarrow> (\<exists>k. list_all (\<lambda>i. [a, b, c, d, e, f] ! Suc i - [a, b, c, d, e, f] ! i = k) [0..<5])"
  by (auto simp: upt_rec numeral_eq_Suc)

lemma special_pins_have_steps:
  assumes "length pin = 6" and "(\<forall>c \<in> set (tl pin). c = hd pin) \<or> pin \<in> set sequential_pins"
  shows "steps_equal (map digit_of pin)"
  using assms by (auto simp: six sequential_pins_def digit_of_def)

lemma two_digits:
  assumes "digit_val a = Some x" "digit_val b = Some y"
  shows "parse_digits 0 [a, b] = UVal (10 * x + y)"
proof -
  have "x \<le> 9" "y \<le> 9" using assms by (auto simp: digit_val_def Let_def split: if_splits)
  with assms show ?thesis by simp
qed

text \<open>
  C39: The PIN validator never panics and accepts exactly the six-digit PINs whose digits are not
  in arithmetic progression (repeated and sequential PINs among them) and that do not start with a
  month and a day.
\<close>

theorem pin_validator_exact:
  "pinValidator pin = Some (length pin = 6 \<and> list_all (\<lambda>c. digit_val c \<noteq> None) pin \<and>
     \<not> (\<exists>k. list_all (\<lambda>i. map digit_of pin ! Suc i - map digit_of pin ! i = k) [0..<5]) \<and>
     \<not> (\<exists>m d. parse_digits 0 (take 2 pin) = UVal m \<and> parse_digits 0 (take 2 (drop 2 pin)) = UVal d \<and>
          1 \<le> m \<and> m \<le> 12 \<and> 1 \<le> d \<and> d \<le> 31))"
proof (cases "length pin = 6 \<and> list_all (\<lambda>c. digit_val c \<noteq> None) pin")
  case True
  then obtain a b c d e f where pin: "pin = [a, b, c, d, e, f]" by (auto simp: six)
  with True obtain x y z w where dv: "digit_val a = Some x" "digit_val b = Some y" "digit_val c = Some z" "digit_val d = Some w"
    by auto
  have date: "(\<exists>m n. parse_digits 0 (take 2 pin) = UVal m \<and> parse_digits 0 (take 2 (drop 2 pin)) = UVal n \<and>
      1 \<le> m \<and> m \<le> 12 \<and> 1 \<le> n \<and> n \<le> 31) \<longleftrightarrow>
      1 \<le> digit_of a * 10 + digit_of b \<and> digit_of a * 10 + digit_of b \<le> 12 \<and>
      1 \<le> digit_of c * 10 + digit_of d \<and> digit_of c * 10 + digit_of d \<le> 31"
    using dv by (auto simp: pin two_digits digit_of_val simp del: parse_digits.simps)
  have common: "isCommonPINPattern pin = Some (steps_equal (map digit_of pin) \<or>
      1 \<le> digit_of a * 10 + digit_of b \<and> digit_of a * 10 + digit_of b \<le> 12 \<and>
      1 \<le> digit_of c * 10 + digit_of d \<and> digit_of c * 10 + digit_of d \<le> 31)"
    using special_pins_have_steps [of pin] True unfolding isCommonPINPattern_def
    by (auto simp: pin Let_def)
  have steps: "steps_equal (map digit_of pin) \<longleftrightarrow> (\<exists>k. list_all (\<lambda>i. map digit_of pin ! Suc i - map digit_of pin ! i = k) [0..<5])"
    unfolding pin list.map by (rule steps_equal_six)
  show ?thesis
    using True unfolding pinValidator_def common date steps by auto
next
  case False
  then show ?thesis by (auto simp: pinValidator_def)
qed

text \<open>The loop over neighbouring bytes finds exactly the triples of equal bytes.\<close>

fun triple :: "string \<Rightarrow> bool" where
  "triple (a # b # c # cs) \<longleftrightarrow> a = b \<and> b = c \<or> triple (b # c # cs)"
| "triple _ \<longleftrightarrow> False"

lemma triple_Cons: "p \<noteq> a \<Longrightarrow> triple (p # a # cs) \<longleftrightarrow> triple (a # cs)"
  by (cases cs) auto

lemma no_repeated_from_triple:
  "(no_repeated_from p (Suc 0) cs \<longleftrightarrow> \<not> triple (p # cs)) \<and> (no_repeated_from p (Suc (Suc 0)) cs \<longleftrightarrow> \<not> triple (p # p # cs))"
proof (induction cs arbitrary: p)
  case (Cons a cs)
  show ?case by (cases "a = p") (use Cons.IH [of a] in \<open>auto simp: triple_Cons\<close>)
qed simp

lemma no_repeated_exact: "noRepeatedCharsValidator s \<longleftrightarrow> \<not> triple s"
  by (cases s) (simp_all add: no_repeated_from_triple [simplified])

end
