(* ===== verification/Requests.thy ===== *)
theory Requests
  imports Validation
begin

text \<open>
  \<open>internal/adapter/api/grpc/request\<close>: the request structs with their validation tags, their
  construction from the protobuf messages, and the parameters they become. The generated protobuf
  types are records with the fields the code reads; a message with one field is that field. Every
  \<open>validate_X\<close> is what \<open>validator.Struct\<close> reports on the struct \<open>X\<close>, field by field.
\<close>

section \<open>Common\<close>

record pb_Pagination =
  pbp_Page :: int
  pbp_Limit :: int
  pbp_Sort :: string
  pbp_OrderBy :: string

record PaginationRequest =
  pq_Page :: int
  pq_Limit :: int
  pq_Sort :: string
  pq_OrderBy :: string

definition ToPaginationParams :: "PaginationRequest \<Rightarrow> PaginationParam" where
  "ToPaginationParams pr = \<lparr>p_Page = Some (pq_Page pr), p_Limit = Some (pq_Limit pr),
     p_OrderBy = Some (pq_OrderBy pr), p_Sort = Some (pq_Sort pr)\<rparr>"

definition PaginationRequestFromPb :: "pb_Pagination \<Rightarrow> PaginationRequest" where
  "PaginationRequestFromPb req = \<lparr>pq_Page = pbp_Page req, pq_Limit = pbp_Limit req,
     pq_Sort = TrimSpace (pbp_Sort req), pq_OrderBy = TrimSpace (pbp_OrderBy req)\<rparr>"

definition validate_Pagination :: "validator_library \<Rightarrow> PaginationRequest \<Rightarrow> field_error list" where
  "validate_Pagination v pr = check_int ''Page'' 1 None (pq_Page pr) @ check_int ''Limit'' 1 (Some 100) (pq_Limit pr)
     @ omitempty_string v ''Sort'' [Oneof [''asc'', ''desc'']] (pq_Sort pr)"

text \<open>A struct behind a pointer is validated when the pointer is not nil.\<close>

definition validate_ptr :: "('a \<Rightarrow> field_error list) \<Rightarrow> 'a option \<Rightarrow> field_error list" where
  "validate_ptr f p = (case p of None \<Rightarrow> [] | Some x \<Rightarrow> f x)"

definition required :: "validator_library \<Rightarrow> string \<Rightarrow> string \<Rightarrow> field_error list" where
  "required v f s = check_string v f [Required] s"

text \<open>An optional field that is kept only when something is left of it after trimming.\<close>

definition trimmed_opt :: "string option \<Rightarrow> string option" where
  "trimmed_opt p = (case p of None \<Rightarrow> None | Some s \<Rightarrow> if TrimSpace s \<noteq> [] then Some (TrimSpace s) else None)"

definition default_page :: PaginationParam where
  "default_page = \<lparr>p_Page = Some 1, p_Limit = Some 10, p_OrderBy = Some ''created_at'', p_Sort = Some ''desc''\<rparr>"

text \<open>The list messages and requests differ in their filter only.\<close>

record 'f pb_ListRequest =
  pbl_Pagination :: "pb_Pagination option"
  pbl_Filter :: "'f option"

record 'f ListRequest =
  lr_Pagination :: "PaginationRequest option"
  lr_Filter :: "'f option"

definition list_pagination :: "PaginationRequest option \<Rightarrow> PaginationParam" where
  "list_pagination p = (case p of Some r \<Rightarrow> ToPaginationParams r | None \<Rightarrow> default_page)"

section \<open>Authentication\<close>

record pb_AuthRequest =
  pba_Identifier :: string
  pba_IdentifierType :: string
  pba_Password :: string
  pba_DeviceIp :: "string option"
  pba_DeviceName :: "string option"
  pba_DeviceFingerprint :: "string option"
  pba_Extra :: "anymap option"

record AuthRequest =
  aq_Identifier :: string
  aq_IdentifierType :: string
  aq_Password :: string
  aq_DeviceFingerprint :: "string option"
  aq_DeviceName :: "string option"
  aq_DeviceIP :: "string option"
  aq_Extra :: "anymap option"

definition ToAuthParams :: "AuthRequest \<Rightarrow> AuthParams" where
  "ToAuthParams r = \<lparr>ap_Identifier = aq_Identifier r, ap_IdentifierType = aq_IdentifierType r,
     ap_Password = aq_Password r, ap_DeviceFingerprint = aq_DeviceFingerprint r,
     ap_DeviceName = aq_DeviceName r, ap_DeviceIP = aq_DeviceIP r, ap_Extra = aq_Extra r\<rparr>"

definition AuthRequestFromPb :: "pb_AuthRequest \<Rightarrow> AuthRequest" where
  "AuthRequestFromPb req = \<lparr>aq_Identifier = TrimSpace (pba_Identifier req),
     aq_IdentifierType = TrimSpace (pba_IdentifierType req), aq_Password = TrimSpace (pba_Password req),
     aq_DeviceFingerprint = trimmed_opt (pba_DeviceFingerprint req),
     aq_DeviceName = trimmed_opt (pba_DeviceName req), aq_DeviceIP = trimmed_opt (pba_DeviceIp req),
     aq_Extra = pba_Extra req\<rparr>"

definition validate_Auth :: "validator_library \<Rightarrow> AuthRequest \<Rightarrow> field_error list" where
  "validate_Auth v r = required v ''Identifier'' (aq_Identifier r)
     @ check_string v ''IdentifierType'' [Required, Oneof [''email'', ''username'', ''phone'']] (aq_IdentifierType r)
     @ required v ''Password'' (aq_Password r)
     @ omitempty_ptr v ''DeviceFingerprint'' [Max 255] (aq_DeviceFingerprint r)
     @ omitempty_ptr v ''DeviceName'' [Max 100] (aq_DeviceName r)
     @ omitempty_ptr v ''DeviceIP'' [Max 100] (aq_DeviceIP r)"

record RefreshTokenRequest = rt_RefreshToken :: string
record ValidateTokenRequest = vt_AccessToken :: string
record GoogleOAuthRequest = go_RedirectUri :: string

definition RefreshTokenRequestFromPb :: "string \<Rightarrow> RefreshTokenRequest" where
  "RefreshTokenRequestFromPb refreshToken = \<lparr>rt_RefreshToken = TrimSpace refreshToken\<rparr>"

definition ValidateTokenRequestFromPb :: "string \<Rightarrow> ValidateTokenRequest" where
  "ValidateTokenRequestFromPb accessToken = \<lparr>vt_AccessToken = TrimSpace accessToken\<rparr>"

definition GoogleOAuthRequestFromPb :: "string \<Rightarrow> GoogleOAuthRequest" where
  "GoogleOAuthRequestFromPb redirectUri = \<lparr>go_RedirectUri = TrimSpace redirectUri\<rparr>"

definition validate_RefreshToken :: "validator_library \<Rightarrow> RefreshTokenRequest \<Rightarrow> field_error list" where
  "validate_RefreshToken v r = required v ''RefreshToken'' (rt_RefreshToken r)"

definition validate_ValidateToken :: "validator_library \<Rightarrow> ValidateTokenRequest \<Rightarrow> field_error list" where
  "validate_ValidateToken v r = required v ''AccessToken'' (vt_AccessToken r)"

definition validate_GoogleOAuth :: "validator_library \<Rightarrow> GoogleOAuthRequest \<Rightarrow> field_error list" where
  "validate_GoogleOAuth v r = check_string v ''RedirectUri'' [Required, Uri] (go_RedirectUri r)"

record VerifyPinRequest =
  vp_Uid :: string
  vp_Code :: string

definition VerifyPinRequestFromPb :: "VerifyPinRequest \<Rightarrow> VerifyPinRequest" where
  "VerifyPinRequestFromPb req = \<lparr>vp_Uid = TrimSpace (vp_Uid req), vp_Code = TrimSpace (vp_Code req)\<rparr>"

definition validate_VerifyPin :: "validator_library \<Rightarrow> VerifyPinRequest \<Rightarrow> field_error list" where
  "validate_VerifyPin v r = required v ''Uid'' (vp_Uid r) @ check_string v ''Code'' [Required, PinTag] (vp_Code r)"

record HandleGoogleOAuthRequest =
  hg_Code :: string
  hg_State :: string
  hg_RedirectUri :: string

definition HandleGoogleOAuthRequestFromPb :: "HandleGoogleOAuthRequest \<Rightarrow> HandleGoogleOAuthRequest" where
  "HandleGoogleOAuthRequestFromPb req = \<lparr>hg_Code = TrimSpace (hg_Code req), hg_State = TrimSpace (hg_State req),
     hg_RedirectUri = TrimSpace (hg_RedirectUri req)\<rparr>"

definition validate_HandleGoogleOAuth :: "validator_library \<Rightarrow> HandleGoogleOAuthRequest \<Rightarrow> field_error list" where
  "validate_HandleGoogleOAuth v r = required v ''Code'' (hg_Code r) @ required v ''State'' (hg_State r)
     @ check_string v ''RedirectUri'' [Required, Uri] (hg_RedirectUri r)"

record RevokeTokenRequest =
  rv_Token :: string
  rv_TokenType :: string

definition RevokeTokenRequestFromPb :: "RevokeTokenRequest \<Rightarrow> RevokeTokenRequest" where
  "RevokeTokenRequestFromPb req = \<lparr>rv_Token = TrimSpace (rv_Token req), rv_TokenType = TrimSpace (rv_TokenType req)\<rparr>"

definition validate_RevokeToken :: "validator_library \<Rightarrow> RevokeTokenRequest \<Rightarrow> field_error list" where
  "validate_RevokeToken v r = required v ''Token'' (rv_Token r)
     @ check_string v ''TokenType'' [Required, Oneof [''access'', ''refresh'']] (rv_TokenType r)"

section \<open>Users\<close>

record UserGetRequest = ug_Uid :: string
record UserDeleteRequest = udel_Uid :: string
record UserGetProfileRequest = ugp_UserUid :: string

definition UserGetRequestFromPb :: "string \<Rightarrow> UserGetRequest" where
  "UserGetRequestFromPb uid = \<lparr>ug_Uid = TrimSpace uid\<rparr>"
definition UserDeleteRequestFromPb :: "string \<Rightarrow> UserDeleteRequest" where
  "UserDeleteRequestFromPb uid = \<lparr>udel_Uid = TrimSpace uid\<rparr>"
definition UserGetProfileRequestFromPb :: "string \<Rightarrow> UserGetProfileRequest" where
  "UserGetProfileRequestFromPb userUid = \<lparr>ugp_UserUid = TrimSpace userUid\<rparr>"

definition validate_UserGet :: "validator_library \<Rightarrow> UserGetRequest \<Rightarrow> field_error list" where
  "validate_UserGet v r = required v ''Uid'' (ug_Uid r)"
definition validate_UserDelete :: "validator_library \<Rightarrow> UserDeleteRequest \<Rightarrow> field_error list" where
  "validate_UserDelete v r = required v ''Uid'' (udel_Uid r)"
definition validate_UserGetProfile :: "validator_library \<Rightarrow> UserGetProfileRequest \<Rightarrow> field_error list" where
  "validate_UserGetProfile v r = required v ''UserUid'' (ugp_UserUid r)"

record UserFilterRequest =
  uf_Uids :: "string list"
  uf_Username :: "string option"
  uf_Email :: "string option"
  uf_Status :: "int option"
  uf_Exists :: "bool option"
  uf_Query :: "string option"

definition ToUserFilterParams :: "UserFilterRequest \<Rightarrow> UserListFilterParam" where
  "ToUserFilterParams r = \<lparr>ul_Uids = uf_Uids r, ul_Username = uf_Username r, ul_Email = uf_Email r,
     ul_Exists = uf_Exists r, ul_Status = uf_Status r, ul_Query = uf_Query r\<rparr>"

definition UserFilterRequestFromPb :: "UserFilterRequest \<Rightarrow> UserFilterRequest" where
  "UserFilterRequestFromPb req = \<lparr>uf_Uids = uf_Uids req, uf_Username = map_option TrimSpace (uf_Username req),
     uf_Email = map_option TrimSpace (uf_Email req), uf_Status = uf_Status req, uf_Exists = uf_Exists req,
     uf_Query = uf_Query req\<rparr>"

definition username_tags :: "tag list" where
  "username_tags = [Min 3, Max 50, UsernameTag]"

definition validate_UserFilter :: "validator_library \<Rightarrow> UserFilterRequest \<Rightarrow> field_error list" where
  "validate_UserFilter v r = omitempty_ptr v ''Username'' username_tags (uf_Username r)
     @ omitempty_ptr v ''Email'' [Email] (uf_Email r)"

type_synonym UserListRequest = "UserFilterRequest ListRequest"

definition UserListRequestFromPb :: "UserFilterRequest pb_ListRequest \<Rightarrow> UserListRequest" where
  "UserListRequestFromPb req = \<lparr>lr_Pagination = map_option PaginationRequestFromPb (pbl_Pagination req),
     lr_Filter = map_option UserFilterRequestFromPb (pbl_Filter req)\<rparr>"

definition empty_user_filter :: UserListFilterParam where
  "empty_user_filter = \<lparr>ul_Uids = [], ul_Username = None, ul_Email = None, ul_Exists = None, ul_Status = None, ul_Query = None\<rparr>"

definition ToUserListParams :: "UserListRequest \<Rightarrow> PaginationParam \<times> UserListFilterParam" where
  "ToUserListParams r = (list_pagination (lr_Pagination r),
     (case lr_Filter r of Some f \<Rightarrow> ToUserFilterParams f | None \<Rightarrow> empty_user_filter))"

definition validate_UserList :: "validator_library \<Rightarrow> UserListRequest \<Rightarrow> field_error list" where
  "validate_UserList v r = validate_ptr (validate_Pagination v) (lr_Pagination r)
     @ validate_ptr (validate_UserFilter v) (lr_Filter r)"

record UserAddRequest =
  ua_Username :: string
  ua_Email :: string
  ua_Password :: string

definition UserAddRequestFromPb :: "UserAddRequest \<Rightarrow> UserAddRequest" where
  "UserAddRequestFromPb req = \<lparr>ua_Username = TrimSpace (ua_Username req), ua_Email = TrimSpace (ua_Email req),
     ua_Password = TrimSpace (ua_Password req)\<rparr>"

definition validate_UserAdd :: "validator_library \<Rightarrow> UserAddRequest \<Rightarrow> field_error list" where
  "validate_UserAdd v r = check_string v ''Username'' (Required # username_tags) (ua_Username r)
     @ check_string v ''Email'' [Required, Email] (ua_Email r)
     @ check_string v ''Password'' [Required, Min 8, Max 128] (ua_Password r)"

record UserUpdateRequest =
  uq_Uid :: string
  uq_Username :: "string option"
  uq_Email :: "string option"
  uq_Password :: "string option"
  uq_Status :: "int option"

definition UserUpdateRequestFromPb :: "UserUpdateRequest \<Rightarrow> UserUpdateRequest" where
  "UserUpdateRequestFromPb req = \<lparr>uq_Uid = TrimSpace (uq_Uid req), uq_Username = map_option TrimSpace (uq_Username req),
     uq_Email = map_option TrimSpace (uq_Email req), uq_Password = map_option TrimSpace (uq_Password req),
     uq_Status = uq_Status req\<rparr>"

definition validate_UserUpdate :: "validator_library \<Rightarrow> UserUpdateRequest \<Rightarrow> field_error list" where
  "validate_UserUpdate v r = required v ''Uid'' (uq_Uid r) @ omitempty_ptr v ''Username'' username_tags (uq_Username r)
     @ omitempty_ptr v ''Email'' [Email] (uq_Email r) @ omitempty_ptr v ''Password'' [Min 8, Max 128] (uq_Password r)"

record pb_UpdateProfileRequest =
  pbu_UserUid :: string
  pbu_FirstName :: string
  pbu_LastName :: string
  pbu_Bio :: string
  pbu_Avatar :: string

record UserUpdateProfileRequest =
  up_UserUid :: string
  up_FirstName :: "string option"
  up_LastName :: "string option"
  up_Bio :: "string option"

definition UserUpdateProfileRequestFromPb :: "pb_UpdateProfileRequest \<Rightarrow> UserUpdateProfileRequest" where
  "UserUpdateProfileRequestFromPb req = \<lparr>up_UserUid = TrimSpace (pbu_UserUid req),
     up_FirstName = (if pbu_FirstName req \<noteq> [] then Some (TrimSpace (pbu_FirstName req)) else None),
     up_LastName = (if pbu_LastName req \<noteq> [] then Some (TrimSpace (pbu_LastName req)) else None),
     up_Bio = (if pbu_Bio req \<noteq> [] then Some (TrimSpace (pbu_Bio req)) else None)\<rparr>"

definition validate_UserUpdateProfile :: "validator_library \<Rightarrow> UserUpdateProfileRequest \<Rightarrow> field_error list" where
  "validate_UserUpdateProfile v r = required v ''UserUid'' (up_UserUid r)
     @ omitempty_ptr v ''FirstName'' [Min 1, Max 100] (up_FirstName r)
     @ omitempty_ptr v ''LastName'' [Min 1, Max 100] (up_LastName r) @ omitempty_ptr v ''Bio'' [Max 500] (up_Bio r)"

record UserUpdatePinRequest =
  upin_UserUid :: string
  upin_PIN :: string

definition UserUpdatePinRequestFromPb :: "UserUpdatePinRequest \<Rightarrow> UserUpdatePinRequest" where
  "UserUpdatePinRequestFromPb req = \<lparr>upin_UserUid = TrimSpace (upin_UserUid req), upin_PIN = TrimSpace (upin_PIN req)\<rparr>"

definition validate_UserUpdatePin :: "validator_library \<Rightarrow> UserUpdatePinRequest \<Rightarrow> field_error list" where
  "validate_UserUpdatePin v r = required v ''UserUid'' (upin_UserUid r) @ check_string v ''PIN'' [Required, PinTag] (upin_PIN r)"

record UserFilterDeviceRequest =
  ufd_DeviceUids :: "string list"
  ufd_DeviceName :: "string option"
  ufd_Revoked :: "bool option"

definition ToUserDeviceListFilterParams :: "UserFilterDeviceRequest \<Rightarrow> UserDeviceListFilterParam" where
  "ToUserDeviceListFilterParams r = \<lparr>udl_UserUids = [], udl_DeviceUids = ufd_DeviceUids r,
     udl_DeviceName = ufd_DeviceName r, udl_IpAddress = None, udl_Revoked = ufd_Revoked r\<rparr>"

definition UserFilterDeviceRequestFromPb :: "UserFilterDeviceRequest \<Rightarrow> UserFilterDeviceRequest" where
  "UserFilterDeviceRequestFromPb req = \<lparr>ufd_DeviceUids = ufd_DeviceUids req,
     ufd_DeviceName = trimmed_opt (ufd_DeviceName req), ufd_Revoked = ufd_Revoked req\<rparr>"

record pb_ListDevicesRequest =
  pld_UserUid :: string
  pld_Pagination :: "pb_Pagination option"
  pld_Filter :: "UserFilterDeviceRequest option"

record UserListDevicesRequest =
  uld_UserUid :: string
  uld_Pagination :: "PaginationRequest option"
  uld_Filter :: "UserFilterDeviceRequest option"

definition UserListDevicesRequestFromPb :: "pb_ListDevicesRequest \<Rightarrow> UserListDevicesRequest" where
  "UserListDevicesRequestFromPb req = \<lparr>uld_UserUid = TrimSpace (pld_UserUid req),
     uld_Pagination = map_option PaginationRequestFromPb (pld_Pagination req),
     uld_Filter = map_option UserFilterDeviceRequestFromPb (pld_Filter req)\<rparr>"

definition ToUserDeviceListParam :: "UserListDevicesRequest \<Rightarrow> PaginationParam \<times> UserDeviceListFilterParam" where
  "ToUserDeviceListParam r = (list_pagination (uld_Pagination r),
     (case uld_Filter r of Some f \<Rightarrow> ToUserDeviceListFilterParams f
      | None \<Rightarrow> \<lparr>udl_UserUids = [], udl_DeviceUids = [], udl_DeviceName = None, udl_IpAddress = None, udl_Revoked = None\<rparr>)
        \<lparr>udl_UserUids := [uld_UserUid r]\<rparr>)"

definition validate_UserListDevices :: "validator_library \<Rightarrow> UserListDevicesRequest \<Rightarrow> field_error list" where
  "validate_UserListDevices v r = required v ''UserUid'' (uld_UserUid r)
     @ validate_ptr (validate_Pagination v) (uld_Pagination r)"

record UserRevokeDeviceRequest =
  urd_UserUid :: string
  urd_DeviceUid :: string

definition UserRevokeDeviceRequestFromPb :: "UserRevokeDeviceRequest \<Rightarrow> UserRevokeDeviceRequest" where
  "UserRevokeDeviceRequestFromPb req = \<lparr>urd_UserUid = TrimSpace (urd_UserUid req), urd_DeviceUid = TrimSpace (urd_DeviceUid req)\<rparr>"

definition validate_UserRevokeDevice :: "validator_library \<Rightarrow> UserRevokeDeviceRequest \<Rightarrow> field_error list" where
  "validate_UserRevokeDevice v r = required v ''UserUid'' (urd_UserUid r) @ required v ''DeviceUid'' (urd_DeviceUid r)"

record UserChangePasswordRequest =
  ucp_Uid :: string
  ucp_CurrentPassword :: string
  ucp_NewPassword :: string
  ucp_ConfirmPassword :: string

definition UserChangePasswordRequestFromPb :: "UserChangePasswordRequest \<Rightarrow> UserChangePasswordRequest" where
  "UserChangePasswordRequestFromPb req = \<lparr>ucp_Uid = TrimSpace (ucp_Uid req),
     ucp_CurrentPassword = TrimSpace (ucp_CurrentPassword req), ucp_NewPassword = TrimSpace (ucp_NewPassword req),
     ucp_ConfirmPassword = TrimSpace (ucp_ConfirmPassword req)\<rparr>"

definition validate_UserChangePassword :: "validator_library \<Rightarrow> UserChangePasswordRequest \<Rightarrow> field_error list" where
  "validate_UserChangePassword v r = required v ''Uid'' (ucp_Uid r)
     @ check_string v ''CurrentPassword'' [Required, Min 8, Max 128] (ucp_CurrentPassword r)
     @ check_string v ''NewPassword'' [Required, Min 8, Max 128] (ucp_NewPassword r)
     @ check_string v ''ConfirmPassword'' [Required, Min 8, Max 128, EqField ''NewPassword'' (ucp_NewPassword r)]
         (ucp_ConfirmPassword r)"

section \<open>Devices\<close>

record DeviceGetRequest = dg_Uid :: string
record DeviceDeleteRequest = dd_Uid :: string

definition DeviceGetRequestFromPb :: "string \<Rightarrow> DeviceGetRequest" where
  "DeviceGetRequestFromPb uid = \<lparr>dg_Uid = TrimSpace uid\<rparr>"
definition DeviceDeleteRequestFromPb :: "string \<Rightarrow> DeviceDeleteRequest" where
  "DeviceDeleteRequestFromPb uid = \<lparr>dd_Uid = TrimSpace uid\<rparr>"

definition validate_DeviceGet :: "validator_library \<Rightarrow> DeviceGetRequest \<Rightarrow> field_error list" where
  "validate_DeviceGet v r = required v ''Uid'' (dg_Uid r)"
definition validate_DeviceDelete :: "validator_library \<Rightarrow> DeviceDeleteRequest \<Rightarrow> field_error list" where
  "validate_DeviceDelete v r = required v ''Uid'' (dd_Uid r)"

record DeviceFilterRequest =
  df_Uids :: "string list"
  df_DeviceName :: "string option"
  df_DeviceFingerprint :: "string option"

definition ToDeviceFilterParams :: "DeviceFilterRequest \<Rightarrow> DeviceListFilterParam" where
  "ToDeviceFilterParams r = \<lparr>dl_Ids = [], dl_Uids = df_Uids r, dl_DeviceName = df_DeviceName r,
     dl_DeviceFingerprint = df_DeviceFingerprint r\<rparr>"

definition DeviceFilterRequestFromPb :: "DeviceFilterRequest \<Rightarrow> DeviceFilterRequest" where
  "DeviceFilterRequestFromPb req = \<lparr>df_Uids = df_Uids req, df_DeviceName = trimmed_opt (df_DeviceName req),
     df_DeviceFingerprint = trimmed_opt (df_DeviceFingerprint req)\<rparr>"

type_synonym DeviceListRequest = "DeviceFilterRequest ListRequest"

definition DeviceListRequestFromPb :: "DeviceFilterRequest pb_ListRequest \<Rightarrow> DeviceListRequest" where
  "DeviceListRequestFromPb req = \<lparr>lr_Pagination = map_option PaginationRequestFromPb (pbl_Pagination req),
     lr_Filter = map_option DeviceFilterRequestFromPb (pbl_Filter req)\<rparr>"

definition ToDeviceListParams :: "DeviceListRequest \<Rightarrow> PaginationParam \<times> DeviceListFilterParam" where
  "ToDeviceListParams r = (list_pagination (lr_Pagination r),
     (case lr_Filter r of Some f \<Rightarrow> ToDeviceFilterParams f
      | None \<Rightarrow> \<lparr>dl_Ids = [], dl_Uids = [], dl_DeviceName = None, dl_DeviceFingerprint = None\<rparr>))"

definition validate_DeviceList :: "validator_library \<Rightarrow> DeviceListRequest \<Rightarrow> field_error list" where
  "validate_DeviceList v r = validate_ptr (validate_Pagination v) (lr_Pagination r)"

section \<open>Files\<close>

record UserFileGetRequest = fg_Uid :: string
record UserFileDeleteRequest = fd_Uid :: string

definition UserFileGetRequestFromPb :: "string \<Rightarrow> UserFileGetRequest" where
  "UserFileGetRequestFromPb uid = \<lparr>fg_Uid = TrimSpace uid\<rparr>"
definition UserFileDeleteRequestFromPb :: "string \<Rightarrow> UserFileDeleteRequest" where
  "UserFileDeleteRequestFromPb uid = \<lparr>fd_Uid = TrimSpace uid\<rparr>"

definition validate_UserFileGet :: "validator_library \<Rightarrow> UserFileGetRequest \<Rightarrow> field_error list" where
  "validate_UserFileGet v r = required v ''Uid'' (fg_Uid r)"
definition validate_UserFileDelete :: "validator_library \<Rightarrow> UserFileDeleteRequest \<Rightarrow> field_error list" where
  "validate_UserFileDelete v r = required v ''Uid'' (fd_Uid r)"

record UserFileFilterRequest =
  ff_Uids :: "string list"
  ff_UserUid :: "string list"
  ff_FileType :: "string option"
  ff_Visibility :: "string option"

definition ToUserFileFilterParams :: "UserFileFilterRequest \<Rightarrow> UserFileListFilterParam" where
  "ToUserFileFilterParams r = \<lparr>fl_Uids = ff_Uids r, fl_UserUid = ff_UserUid r, fl_FileType = ff_FileType r,
     fl_Visibility = ff_Visibility r\<rparr>"

definition UserFileFilterRequestFromPb :: "UserFileFilterRequest \<Rightarrow> UserFileFilterRequest" where
  "UserFileFilterRequestFromPb req = \<lparr>ff_Uids = ff_Uids req, ff_UserUid = ff_UserUid req,
     ff_FileType = trimmed_opt (ff_FileType req), ff_Visibility = ff_Visibility req\<rparr>"

type_synonym UserFileListRequest = "UserFileFilterRequest ListRequest"

definition UserFileListRequestFromPb :: "UserFileFilterRequest pb_ListRequest \<Rightarrow> UserFileListRequest" where
  "UserFileListRequestFromPb req = \<lparr>lr_Pagination = map_option PaginationRequestFromPb (pbl_Pagination req),
     lr_Filter = map_option UserFileFilterRequestFromPb (pbl_Filter req)\<rparr>"

definition ToUserFileListParams :: "UserFileListRequest \<Rightarrow> PaginationParam \<times> UserFileListFilterParam" where
  "ToUserFileListParams r = (list_pagination (lr_Pagination r),
     (case lr_Filter r of Some f \<Rightarrow> ToUserFileFilterParams f
      | None \<Rightarrow> \<lparr>fl_Uids = [], fl_UserUid = [], fl_FileType = None, fl_Visibility = None\<rparr>))"

definition validate_UserFileList :: "validator_library \<Rightarrow> UserFileListRequest \<Rightarrow> field_error list" where
  "validate_UserFileList v r = validate_ptr (validate_Pagination v) (lr_Pagination r)"

record pb_FileAddRequest =
  pfa_UserUid :: string
  pfa_Name :: string
  pfa_Filename :: string
  pfa_Filedata :: string
  pfa_Public :: bool

record UserFileAddRequest =
  fa_UserUid :: string
  fa_Name :: string
  fa_Filename :: string
  fa_FileData :: string

definition UserFileAddRequestFromPb :: "pb_FileAddRequest \<Rightarrow> UserFileAddRequest" where
  "UserFileAddRequestFromPb req = \<lparr>fa_UserUid = TrimSpace (pfa_UserUid req), fa_Name = TrimSpace (pfa_Name req),
     fa_Filename = TrimSpace (pfa_Filename req), fa_FileData = pfa_Filedata req\<rparr>"

definition validate_UserFileAdd :: "validator_library \<Rightarrow> UserFileAddRequest \<Rightarrow> field_error list" where
  "validate_UserFileAdd v r = required v ''UserUid'' (fa_UserUid r)
     @ check_string v ''Name'' [Required, Min 1, Max 255] (fa_Name r)
     @ check_string v ''Filename'' [Required, Min 1, Max 255] (fa_Filename r)
     @ check_size ''FileData'' 10485760 (fa_FileData r)"

record pb_FileUpdateRequest =
  pfu_Uid :: string
  pfu_Name :: "string option"
  pfu_Filename :: "string option"
  pfu_Filedata :: string
  pfu_Public :: "bool option"

record UserFileUpdateRequest =
  fq_Uid :: string
  fq_Name :: "string option"
  fq_Filename :: "string option"
  fq_FileData :: string

definition UserFileUpdateRequestFromPb :: "pb_FileUpdateRequest \<Rightarrow> UserFileUpdateRequest" where
  "UserFileUpdateRequestFromPb req = \<lparr>fq_Uid = TrimSpace (pfu_Uid req), fq_Name = map_option TrimSpace (pfu_Name req),
     fq_Filename = map_option TrimSpace (pfu_Filename req), fq_FileData = pfu_Filedata req\<rparr>"

definition validate_UserFileUpdate :: "validator_library \<Rightarrow> UserFileUpdateRequest \<Rightarrow> field_error list" where
  "validate_UserFileUpdate v r = required v ''Uid'' (fq_Uid r)
     @ omitempty_ptr v ''Name'' [Min 1, Max 255] (fq_Name r) @ omitempty_ptr v ''Filename'' [Min 1, Max 255] (fq_Filename r)
     @ check_size ''FileData'' 10485760 (fq_FileData r)"

section \<open>What validation guarantees\<close>

text \<open>A page request that passes has a page and a limit in range, and a sort direction that is a keyword.\<close>

lemma validate_Pagination_ok:
  "validate_Pagination v pr = [] \<longleftrightarrow> 1 \<le> pq_Page pr \<and> 1 \<le> pq_Limit pr \<and> pq_Limit pr \<le> 100 \<and>
     pq_Sort pr \<in> {[], ''asc'', ''desc''}"
  by (auto simp: validate_Pagination_def check_int_def omitempty_string_def)

lemma validate_ptr_ok: "validate_ptr f p = [] \<longleftrightarrow> (\<forall>x. p = Some x \<longrightarrow> f x = [])"
  by (auto simp: validate_ptr_def split: option.splits)

text \<open>The parameters of a page that passed: what reaches the repositories, default included.\<close>

definition safe_page :: "PaginationParam \<Rightarrow> bool" where
  "safe_page p \<longleftrightarrow> (\<exists>n l d. p_Page p = Some n \<and> 1 \<le> n \<and> p_Limit p = Some l \<and> 1 \<le> l \<and> l \<le> 100 \<and>
     p_Sort p = Some d \<and> d \<in> {[], ''asc'', ''desc''})"

lemma list_pagination_safe: "validate_ptr (validate_Pagination v) p = [] \<Longrightarrow> safe_page (list_pagination p)"
  by (auto simp: safe_page_def list_pagination_def default_page_def ToPaginationParams_def validate_ptr_ok
      validate_Pagination_ok split: option.splits)

end
