(* ===== verification/Responses.thy ===== *)
theory Responses
  imports Validation Errors
begin

text \<open>
  \<open>internal/adapter/api/grpc/response\<close>: the protobuf answers made of the domain's data, and the
  gRPC status made of an error. The generated messages are records with the fields the code sets; a
  gRPC status keeps its details. A handler fails with an error of the services or with the errors of
  the validator.
\<close>

section \<open>Messages\<close>

definition int32 :: "int \<Rightarrow> int" where
  "int32 i = (i + 2 ^ 31) mod 2 ^ 32 - 2 ^ 31"

lemma int32_id [simp]: "- (2 ^ 31) \<le> i \<Longrightarrow> i < 2 ^ 31 \<Longrightarrow> int32 i = i"
  by (simp add: int32_def mod_pos_pos_trivial)

record pb_Meta =
  pbm_Page :: int
  pbm_Limit :: int
  pbm_Total :: int
  pbm_Pages :: int

definition ToProtoMeta :: "Meta option \<Rightarrow> pb_Meta option" where
  "ToProtoMeta m = map_option (\<lambda>m. \<lparr>pbm_Page = int32 (m_Page m), pbm_Limit = int32 (m_Limit m),
     pbm_Total = m_Total m, pbm_Pages = int32 (m_Pages m)\<rparr>) m"

definition toProtoTimestampPB :: "time \<Rightarrow> time option" where
  "toProtoTimestampPB t = (if t = 0 then None else Some t)"

definition toProtoTimestampPBPtr :: "time option \<Rightarrow> time option" where
  "toProtoTimestampPBPtr t = (case t of None \<Rightarrow> None | Some t \<Rightarrow> toProtoTimestampPB t)"

text \<open>\<open>structpb.NewStruct\<close> refuses strings that are not UTF-8.\<close>

function valid_utf8 :: "nat list \<Rightarrow> bool" where
  "valid_utf8 [] \<longleftrightarrow> True"
| "valid_utf8 (b # bs) \<longleftrightarrow> (case decode_rune (b # bs) of (r, w) \<Rightarrow>
     (w = 1 \<longrightarrow> r < 128) \<and> valid_utf8 (drop (w - 1) bs))"
  by pat_completeness auto
termination by (relation "measure length") auto

definition valid_string :: "string \<Rightarrow> bool" where
  "valid_string s \<longleftrightarrow> valid_utf8 (map of_char s)"

fun struct_value :: "any \<Rightarrow> bool" where
  "struct_value (AStr s) \<longleftrightarrow> valid_string s"
| "struct_value (AList vs) \<longleftrightarrow> (\<forall>v \<in> set vs. struct_value v)"
| "struct_value (AMap m) \<longleftrightarrow> (\<forall>kv \<in> set m. valid_string (fst kv) \<and> struct_value (snd kv))"
| "struct_value _ \<longleftrightarrow> True"

definition NewStruct :: "anymap \<Rightarrow> anymap option" where
  "NewStruct m = (if struct_value (AMap m) then Some m else None)"

definition ToStruct :: "anymap option \<Rightarrow> anymap option" where
  "ToStruct m = (case m of None \<Rightarrow> None | Some m \<Rightarrow> NewStruct m)"

record pb_Token =
  pbt_AccessToken :: string
  pbt_RefreshToken :: string

definition ToProtoToken :: "Token option \<Rightarrow> pb_Token option" where
  "ToProtoToken t = map_option (\<lambda>t. \<lparr>pbt_AccessToken = Access t, pbt_RefreshToken = Refresh t\<rparr>) t"

record pb_User =
  pbus_Uid :: string
  pbus_Username :: string
  pbus_Email :: string
  pbus_Status :: int
  pbus_CreatedAt :: "time option"
  pbus_UpdatedAt :: "time option"
  pbus_DeletedAt :: "time option"

definition ToProtoUser :: "User \<Rightarrow> pb_User" where
  "ToProtoUser u = \<lparr>pbus_Uid = u_UID u, pbus_Username = u_Username u, pbus_Email = u_Email u,
     pbus_Status = int32 (u_Status u), pbus_CreatedAt = toProtoTimestampPB (u_CreatedAt u),
     pbus_UpdatedAt = toProtoTimestampPB (u_UpdatedAt u), pbus_DeletedAt = toProtoTimestampPBPtr (u_DeletedAt u)\<rparr>"

text \<open>A list answer: the items and the page data.\<close>

record 'a pb_ListResponse =
  pbr_Items :: "'a list"
  pbr_Meta :: "pb_Meta option"

definition ToProtoUserList :: "User page option \<Rightarrow> Meta option \<Rightarrow> pb_User pb_ListResponse" where
  "ToProtoUserList users meta = (case users of
     None \<Rightarrow> \<lparr>pbr_Items = [], pbr_Meta = ToProtoMeta meta\<rparr>
   | Some us \<Rightarrow> \<lparr>pbr_Items = map ToProtoUser (Items us), pbr_Meta = ToProtoMeta meta\<rparr>)"

record pb_Profile =
  pbp_Uid :: string
  pbp_FirstName :: string
  pbp_LastName :: string
  pbp_Bio :: string
  pbp_Attributes :: "anymap option"

definition ToProtoProfile :: "UserProfile \<Rightarrow> pb_Profile" where
  "ToProtoProfile p = \<lparr>pbp_Uid = pr_UserUID p, pbp_FirstName = pr_FirstName p, pbp_LastName = pr_LastName p,
     pbp_Bio = pr_Bio p, pbp_Attributes = ToStruct (pr_Attributes p)\<rparr>"

record pb_Device =
  pbd_Uid :: string
  pbd_DeviceFingerprint :: string
  pbd_DeviceName :: string
  pbd_CreatedAt :: "time option"

text \<open>The device of the user package has no fingerprint.\<close>

definition ToProtoDevice :: "Device \<Rightarrow> pb_Device" where
  "ToProtoDevice d = \<lparr>pbd_Uid = d_UID d, pbd_DeviceFingerprint = [], pbd_DeviceName = d_DeviceName d,
     pbd_CreatedAt = toProtoTimestampPB (d_CreatedAt d)\<rparr>"

definition ToProtoDeviceFull :: "Device \<Rightarrow> pb_Device" where
  "ToProtoDeviceFull d = \<lparr>pbd_Uid = d_UID d, pbd_DeviceFingerprint = d_DeviceFingerprint d,
     pbd_DeviceName = d_DeviceName d, pbd_CreatedAt = toProtoTimestampPB (d_CreatedAt d)\<rparr>"

definition ToProtoDeviceList :: "Device page option \<Rightarrow> Meta option \<Rightarrow> pb_Device pb_ListResponse" where
  "ToProtoDeviceList devices meta = (case devices of
     None \<Rightarrow> \<lparr>pbr_Items = [], pbr_Meta = ToProtoMeta meta\<rparr>
   | Some ds \<Rightarrow> \<lparr>pbr_Items = map ToProtoDeviceFull (Items ds), pbr_Meta = ToProtoMeta meta\<rparr>)"

record pb_UserFile =
  pbf_Uid :: string
  pbf_UserUid :: string
  pbf_FileType :: string
  pbf_FileName :: string
  pbf_FilePath :: string
  pbf_MimeType :: string
  pbf_SizeBytes :: int
  pbf_Visibility :: string
  pbf_CreatedAt :: "time option"

definition ToProtoUserFile :: "UserFile \<Rightarrow> pb_UserFile" where
  "ToProtoUserFile f = \<lparr>pbf_Uid = f_UID f, pbf_UserUid = f_UserUID f, pbf_FileType = f_FileType f,
     pbf_FileName = f_FileName f, pbf_FilePath = f_FilePath f, pbf_MimeType = f_MimeType f,
     pbf_SizeBytes = f_SizeBytes f, pbf_Visibility = f_Visibility f, pbf_CreatedAt = toProtoTimestampPB (f_CreatedAt f)\<rparr>"

definition ToProtoFileList :: "UserFile page option \<Rightarrow> Meta option \<Rightarrow> pb_UserFile pb_ListResponse" where
  "ToProtoFileList files meta = (case files of
     None \<Rightarrow> \<lparr>pbr_Items = [], pbr_Meta = ToProtoMeta meta\<rparr>
   | Some fs \<Rightarrow> \<lparr>pbr_Items = map ToProtoUserFile (Items fs), pbr_Meta = ToProtoMeta meta\<rparr>)"

section \<open>Errors\<close>

datatype grpc_code =
    CodeCanceled | CodeInvalidArgument | CodeDeadlineExceeded | CodeNotFound | CodePermissionDenied
  | CodeResourceExhausted | CodeAborted | CodeUnimplemented | CodeInternal

definition GrpcErrorCode :: "(int \<times> grpc_code) list" where
  "GrpcErrorCode =
     [(Code ErrInternalServerError, CodeInternal),
      (Code ErrTraceInformationMissing, CodeInternal),
      (Code ErrRequestCanceled, CodeCanceled),
      (Code ErrRequestTimeout, CodeDeadlineExceeded),
      (Code ErrRequestAborted, CodeAborted),
      (Code ErrUnimplemented, CodeUnimplemented),
      (Code ErrNotFound, CodeNotFound),
      (Code ErrInvalidArgument, CodeInvalidArgument),
      (Code ErrValidation, CodeInvalidArgument),
      (Code ErrPermissionDenied, CodePermissionDenied),
      (Code ErrResourceConflict, CodeAborted),
      (Code ErrInvalidCredentials, CodeInvalidArgument),
      (Code ErrInvalidIdentifierType, CodeInvalidArgument),
      (Code ErrRateLimitExceeded, CodeResourceExhausted),
      (Code ErrTokenRevoked, CodeInvalidArgument),
      (Code ErrTokenBlacklisted, CodeInvalidArgument),
      (Code ErrTokenInvalid, CodeInvalidArgument),
      (Code ErrTokenInvalidClaim, CodeInvalidArgument),
      (Code ErrTokenExpired, CodeInvalidArgument),
      (Code ErrInvalidTokenType, CodeInvalidArgument),
      (Code ErrOAuthClientIDRequired, CodeInvalidArgument),
      (Code ErrOAuthClientSecretRequired, CodeInvalidArgument),
      (Code ErrOAuthFailedGenerateCodeVerifier, CodeInvalidArgument),
      (Code ErrOAuthInvalidMinVerifierLength, CodeInvalidArgument),
      (Code ErrOAuthInvalidMaxVerifierLength, CodeInvalidArgument),
      (Code ErrOAuthInvalidState, CodeInvalidArgument),
      (Code ErrOAuthExchangeFailed, CodeInvalidArgument),
      (Code ErrOAuthUserInfoFailed, CodeInvalidArgument),
      (Code ErrOAuthAccessDenied, CodeInvalidArgument),
      (Code ErrOAuthInvalidCode, CodeInvalidArgument),
      (Code ErrOAuthServerError, CodeInvalidArgument),
      (Code ErrOAuthTemporarilyUnavailable, CodeInvalidArgument),
      (Code ErrOAuthCodeVerifierMissing, CodeInvalidArgument),
      (Code ErrAccountLockedOut, CodeInvalidArgument),
      (Code ErrInvalidUID, CodeInvalidArgument),
      (Code ErrInvalidUsername, CodeInvalidArgument),
      (Code ErrInvalidEmail, CodeInvalidArgument),
      (Code ErrInvalidPassword, CodeInvalidArgument),
      (Code ErrUserNotFound, CodeInvalidArgument),
      (Code ErrUserAlreadyExists, CodeInvalidArgument),
      (Code ErrDuplicateEmail, CodeInvalidArgument),
      (Code ErrDuplicateUsername, CodeInvalidArgument),
      (Code ErrInvalidStatus, CodeInvalidArgument),
      (Code ErrUserDeleted, CodeInvalidArgument),
      (Code ErrUserInactive, CodeInvalidArgument),
      (Code ErrInvalidCurrentPassword, CodeInvalidArgument),
      (Code ErrPasswordMismatch, CodeInvalidArgument),
      (Code ErrProfileNotFound, CodeInvalidArgument),
      (Code ErrPinNotSet, CodeInvalidArgument),
      (Code ErrPinInvalid, CodeInvalidArgument),
      (Code ErrPINTooManyAttempts, CodeInvalidArgument),
      (Code ErrFileNotFound, CodeInvalidArgument),
      (Code ErrDeviceNotFound, CodeInvalidArgument),
      (Code ErrDeviceRevoked, CodeInvalidArgument),
      (Code ErrUserDeviceNotFound, CodeInvalidArgument)]"

definition extractErrorCode :: "int \<Rightarrow> grpc_code" where
  "extractErrorCode code = (case map_of GrpcErrorCode code of Some c \<Rightarrow> c | None \<Rightarrow> CodeInternal)"

record status =
  st_Code :: grpc_code
  st_Message :: string
  st_FieldViolations :: "(string \<times> string) list"
  st_Reason :: string
  st_Domain :: string
  st_Metadata :: "(string \<times> string) list"

datatype rpc_error = ServiceError go_error | FieldErrors "field_error list"

text \<open>\<open>errors.As\<close> for a \<open>*CustomError\<close>: the first one of the unwrap chain.\<close>

fun As_CustomError :: "go_error \<Rightarrow> go_error option" where
  "As_CustomError (CustomError c m es cause) = Some (CustomError c m es cause)"
| "As_CustomError (Fmt s w) = (case w of None \<Rightarrow> None | Some e \<Rightarrow> As_CustomError e)"
| "As_CustomError e = None"

definition buildResponse :: "go_error \<Rightarrow> status" where
  "buildResponse err =
     \<lparr>st_Code = extractErrorCode (Code err),
      st_Message = (if Code err = Code ErrTraceInformationMissing then Message ErrInternalServerError else Message err),
      st_FieldViolations = concat (map (\<lambda>(field, messages). map (\<lambda>msg. (field, msg)) messages) (Errors err)),
      st_Reason = ''SERVICE_ERROR'', st_Domain = ''user.service'',
      st_Metadata = [(''code'', FormatInt (Code err)), (''message'', Message err)]\<rparr>"

definition extractValidationErrors :: "field_error list \<Rightarrow> (string \<times> string list) list" where
  "extractValidationErrors errs = fold (\<lambda>e m. map_put (fe_Field e)
     ((case map_of m (fe_Field e) of None \<Rightarrow> [] | Some ms \<Rightarrow> ms) @ [FormatFieldError e]) m) errs []"

definition ValidationError :: "field_error list \<Rightarrow> go_error" where
  "ValidationError errs = NewCustomError (Code ErrValidation) (Message ErrValidation) (extractValidationErrors errs)"

text \<open>None of the errors of the model is a gRPC status itself.\<close>

fun MakeErrorResponse :: "rpc_error \<Rightarrow> status" where
  "MakeErrorResponse (FieldErrors errs) = buildResponse (ValidationError errs)"
| "MakeErrorResponse (ServiceError err) =
     (case As_CustomError err of
        Some customErr \<Rightarrow> buildResponse customErr
      | None \<Rightarrow> if errors_Is err ContextCanceled then buildResponse ErrRequestCanceled
                else if errors_Is err ContextDeadlineExceeded then buildResponse ErrRequestTimeout
                else buildResponse ErrInternalServerError)"

end
