(* ===== verification/Handlers.thy ===== *)
theory Handlers
  imports AuthService UserService DeviceService Requests Responses
begin

text \<open>
  \<open>internal/adapter/api/grpc/handler\<close>: one definition per RPC, over the services. A handler validates
  the request struct it made of the message, calls the service and builds the answer; which of the
  two, the trimmed struct or the message as it came, it hands on is as in the code.
\<close>

type_synonym ('s, 'a) rpc = "('s, rpc_error + 'a) prog"

definition validated :: "field_error list \<Rightarrow> ('s, 'a) rpc \<Rightarrow> ('s, 'a) rpc" where
  "validated errs k = (if errs \<noteq> [] then fail (FieldErrors errs) else k)"

definition service :: "('s, 'a result) prog \<Rightarrow> ('a \<Rightarrow> ('s, 'b) rpc) \<Rightarrow> ('s, 'b) rpc" where
  "service m k = do { r \<leftarrow> m; (case r of Inl err \<Rightarrow> fail (ServiceError err) | Inr x \<Rightarrow> k x) }"

definition pb_token :: "Token \<Rightarrow> pb_Token" where
  "pb_token t = \<lparr>pbt_AccessToken = Access t, pbt_RefreshToken = Refresh t\<rparr>"

section \<open>Authentication\<close>

definition AuthHandler_Auth :: "validator_library \<Rightarrow> 's authService \<Rightarrow> pb_AuthRequest \<Rightarrow> ('s, pb_Token) rpc" where
  "AuthHandler_Auth v s req = (let r = AuthRequestFromPb req in
     validated (validate_Auth v r) (service (Authenticate s (ToAuthParams r)) (\<lambda>result. ok (pb_token result))))"

definition AuthHandler_RefreshToken :: "validator_library \<Rightarrow> 's authService \<Rightarrow> string \<Rightarrow> ('s, pb_Token) rpc" where
  "AuthHandler_RefreshToken v s refreshToken =
     validated (validate_RefreshToken v (RefreshTokenRequestFromPb refreshToken))
       (service (RefreshToken s refreshToken) (\<lambda>result. ok (pb_token result)))"

record pb_ValidateTokenResponse =
  pbv_Uid :: string
  pbv_Identifier :: string
  pbv_IdentifierType :: string
  pbv_Claims :: "anymap option"

definition AuthHandler_ValidateToken ::
  "validator_library \<Rightarrow> 's authService \<Rightarrow> string \<Rightarrow> ('s, pb_ValidateTokenResponse) rpc" where
  "AuthHandler_ValidateToken v s accessToken =
     validated (validate_ValidateToken v (ValidateTokenRequestFromPb accessToken))
       (service (ValidateToken s accessToken) (\<lambda>claims.
          ok \<lparr>pbv_Uid = c_Uid claims, pbv_Identifier = c_Identifier claims,
              pbv_IdentifierType = c_IdentifierType claims,
              pbv_Claims = (case c_Extra claims of None \<Rightarrow> None | Some m \<Rightarrow> NewStruct m)\<rparr>))"

definition AuthHandler_VerifyPin :: "validator_library \<Rightarrow> 's authService \<Rightarrow> VerifyPinRequest \<Rightarrow> ('s, bool) rpc" where
  "AuthHandler_VerifyPin v s req =
     validated (validate_VerifyPin v (VerifyPinRequestFromPb req))
       (service (VerifyPin s (vp_Uid req) (vp_Code req)) (\<lambda>valid. ok valid))"

definition AuthHandler_GoogleOAuth :: "validator_library \<Rightarrow> 's authService \<Rightarrow> string \<Rightarrow> ('s, string \<times> string) rpc" where
  "AuthHandler_GoogleOAuth v s redirectUri =
     validated (validate_GoogleOAuth v (GoogleOAuthRequestFromPb redirectUri))
       (service (GoogleOAuth s redirectUri) (\<lambda>(url, state). ok (url, state)))"

text \<open>\<open>None\<close>: the search for a free user name has used up its fuel.\<close>

definition AuthHandler_HandleGoogleOAuth ::
  "nat \<Rightarrow> validator_library \<Rightarrow> 's authService \<Rightarrow> HandleGoogleOAuthRequest \<Rightarrow> ('s, (rpc_error + pb_Token) option) prog" where
  "AuthHandler_HandleGoogleOAuth fuel v s req =
     (let errs = validate_HandleGoogleOAuth v (HandleGoogleOAuthRequestFromPb req) in
      if errs \<noteq> [] then ret (Some (Inl (FieldErrors errs)))
      else do {
        r \<leftarrow> HandleGoogleOAuth fuel s (hg_Code req) (hg_State req) (hg_RedirectUri req);
        ret (case r of None \<Rightarrow> None | Some (Inl err) \<Rightarrow> Some (Inl (ServiceError err))
             | Some (Inr result) \<Rightarrow> Some (Inr (pb_token result))) })"

definition AuthHandler_RevokeToken :: "validator_library \<Rightarrow> 's authService \<Rightarrow> RevokeTokenRequest \<Rightarrow> ('s, bool) rpc" where
  "AuthHandler_RevokeToken v s req =
     validated (validate_RevokeToken v (RevokeTokenRequestFromPb req))
       (service (RevokeToken s (rv_Token req) (rv_TokenType req)) (\<lambda>_. ok True))"

section \<open>Users\<close>

definition item_meta :: "nat \<Rightarrow> int \<Rightarrow> pb_Meta" where
  "item_meta n limit = \<lparr>pbm_Page = 0, pbm_Limit = limit, pbm_Total = int n, pbm_Pages = 0\<rparr>"

text \<open>The answer of the list handlers: the limit that was asked for, no page.\<close>

definition list_answer :: "('a \<Rightarrow> 'b) \<Rightarrow> PaginationParam \<Rightarrow> 'a page \<Rightarrow> 'b pb_ListResponse" where
  "list_answer f p result = \<lparr>pbr_Items = map f (Items result),
     pbr_Meta = Some (item_meta (length (Items result)) (int32 (case p_Limit p of Some l \<Rightarrow> l | None \<Rightarrow> 0)))\<rparr>"

definition UserHandler_Get :: "validator_library \<Rightarrow> 's userService \<Rightarrow> string \<Rightarrow> ('s, pb_User) rpc" where
  "UserHandler_Get v s uid = validated (validate_UserGet v (UserGetRequestFromPb uid))
     (service (UserService_Get s uid) (\<lambda>u. ok (ToProtoUser u)))"

definition UserHandler_List ::
  "validator_library \<Rightarrow> 's userService \<Rightarrow> UserFilterRequest pb_ListRequest \<Rightarrow> ('s, pb_User pb_ListResponse) rpc" where
  "UserHandler_List v s req = (let r = UserListRequestFromPb req; (pagination, filter') = ToUserListParams r in
     validated (validate_UserList v r)
       (service (UserService_List s (Some pagination) (Some filter')) (\<lambda>result. ok (list_answer ToProtoUser pagination result))))"

definition UserHandler_Add :: "validator_library \<Rightarrow> 's userService \<Rightarrow> UserAddRequest \<Rightarrow> ('s, string) rpc" where
  "UserHandler_Add v s req = validated (validate_UserAdd v (UserAddRequestFromPb req))
     (service (UserService_Create s \<lparr>uc_Username = ua_Username req, uc_Email = ua_Email req, uc_Password = ua_Password req\<rparr>)
        (\<lambda>u. ok (u_UID u)))"

definition UserHandler_Update :: "validator_library \<Rightarrow> 's userService \<Rightarrow> UserUpdateRequest \<Rightarrow> ('s, bool) rpc" where
  "UserHandler_Update v s req = validated (validate_UserUpdate v (UserUpdateRequestFromPb req))
     (service (UserService_Update s (uq_Uid req) \<lparr>uu_Username = uq_Username req, uu_Email = uq_Email req,
          uu_Password = uq_Password req, uu_Status = uq_Status req\<rparr>) (\<lambda>_. ok True))"

definition UserHandler_Delete :: "validator_library \<Rightarrow> 's userService \<Rightarrow> string \<Rightarrow> ('s, bool) rpc" where
  "UserHandler_Delete v s uid = validated (validate_UserDelete v (UserDeleteRequestFromPb uid))
     (service (UserService_Delete s uid) (\<lambda>_. ok True))"

definition UserHandler_GetProfile :: "validator_library \<Rightarrow> 's userService \<Rightarrow> string \<Rightarrow> ('s, pb_Profile) rpc" where
  "UserHandler_GetProfile v s userUid = validated (validate_UserGetProfile v (UserGetProfileRequestFromPb userUid))
     (service (GetProfile s userUid) (\<lambda>p. ok (ToProtoProfile p)))"

definition nonempty_opt :: "string \<Rightarrow> string option" where
  "nonempty_opt s = (if s \<noteq> [] then Some s else None)"

definition UserHandler_UpdateProfile :: "validator_library \<Rightarrow> 's userService \<Rightarrow> pb_UpdateProfileRequest \<Rightarrow> ('s, bool) rpc" where
  "UserHandler_UpdateProfile v s req = validated (validate_UserUpdateProfile v (UserUpdateProfileRequestFromPb req))
     (service (UpdateProfile s (pbu_UserUid req)
        \<lparr>pu_FirstName = nonempty_opt (pbu_FirstName req), pu_LastName = nonempty_opt (pbu_LastName req),
         pu_Bio = nonempty_opt (pbu_Bio req), pu_Avatar = pbu_Avatar req, pu_Attributes = None\<rparr>) (\<lambda>_. ok True))"

definition UserHandler_UpdatePin :: "validator_library \<Rightarrow> 's userService \<Rightarrow> UserUpdatePinRequest \<Rightarrow> ('s, bool) rpc" where
  "UserHandler_UpdatePin v s req = validated (validate_UserUpdatePin v (UserUpdatePinRequestFromPb req))
     (service (SetPin s (upin_UserUid req) (upin_PIN req)) (\<lambda>_. ok True))"

definition UserHandler_ListDevice ::
  "validator_library \<Rightarrow> 's userService \<Rightarrow> pb_ListDevicesRequest \<Rightarrow> ('s, pb_Device pb_ListResponse) rpc" where
  "UserHandler_ListDevice v s req = (let r = UserListDevicesRequestFromPb req; (pagination, filter') = ToUserDeviceListParam r in
     validated (validate_UserListDevices v r)
       (service (ListDevice s (uld_UserUid r) (Some pagination) (Some filter')) (\<lambda>result.
          ok \<lparr>pbr_Items = map ToProtoDevice (Items result), pbr_Meta = Some (item_meta (length (Items result)) 20)\<rparr>)))"

definition UserHandler_RevokeDevice :: "validator_library \<Rightarrow> 's userService \<Rightarrow> UserRevokeDeviceRequest \<Rightarrow> ('s, bool) rpc" where
  "UserHandler_RevokeDevice v s req = validated (validate_UserRevokeDevice v (UserRevokeDeviceRequestFromPb req))
     (service (RevokeDevice s (urd_UserUid req) (urd_DeviceUid req)) (\<lambda>_. ok True))"

definition UserHandler_ChangePassword :: "validator_library \<Rightarrow> 's userService \<Rightarrow> UserChangePasswordRequest \<Rightarrow> ('s, bool) rpc" where
  "UserHandler_ChangePassword v s req = validated (validate_UserChangePassword v (UserChangePasswordRequestFromPb req))
     (if ucp_NewPassword req \<noteq> ucp_ConfirmPassword req
      then fail (ServiceError (NewCustomError (Code ErrValidation) ''new password and confirm password do not match'' []))
      else service (ChangePassword s (ucp_Uid req)
             \<lparr>cp_CurrentPassword = ucp_CurrentPassword req, cp_NewPassword = ucp_NewPassword req\<rparr>) (\<lambda>_. ok True))"

section \<open>Devices\<close>

definition DeviceHandler_Get :: "validator_library \<Rightarrow> 's deviceService \<Rightarrow> string \<Rightarrow> ('s, pb_Device) rpc" where
  "DeviceHandler_Get v s uid = validated (validate_DeviceGet v (DeviceGetRequestFromPb uid))
     (service (DeviceService_Get s uid) (\<lambda>d. ok (ToProtoDeviceFull d)))"

definition DeviceHandler_List ::
  "validator_library \<Rightarrow> 's deviceService \<Rightarrow> DeviceFilterRequest pb_ListRequest \<Rightarrow> ('s, pb_Device pb_ListResponse) rpc" where
  "DeviceHandler_List v s req = (let r = DeviceListRequestFromPb req; (pagination, filter') = ToDeviceListParams r in
     validated (validate_DeviceList v r)
       (service (DeviceService_List s (Some pagination) (Some filter')) (\<lambda>result. ok (list_answer ToProtoDeviceFull pagination result))))"

definition DeviceHandler_Delete :: "validator_library \<Rightarrow> 's deviceService \<Rightarrow> string \<Rightarrow> ('s, bool) rpc" where
  "DeviceHandler_Delete v s uid = validated (validate_DeviceDelete v (DeviceDeleteRequestFromPb uid))
     (service (DeviceService_Delete s uid) (\<lambda>_. ok True))"

section \<open>Files\<close>

definition MaxFileSize :: nat where "MaxFileSize = 10 * 1024 * 1024"

text \<open>The last extension of a file name, without the dot; \<open>[]\<close> without a dot.\<close>

definition file_extension :: "string \<Rightarrow> string" where
  "file_extension filename =
     (if CHR ''.'' \<in> set filename then rev (takeWhile (\<lambda>c. c \<noteq> CHR ''.'') (rev filename)) else [])"

definition getMimeType :: "string \<Rightarrow> string" where
  "getMimeType filename = (let extension = file_extension filename in
     if extension = ''jpg'' \<or> extension = ''jpeg'' then ''image/jpeg''
     else if extension = ''png'' then ''image/png''
     else if extension = ''gif'' then ''image/gif''
     else if extension = ''pdf'' then ''application/pdf''
     else if extension = ''txt'' then ''text/plain''
     else if extension = ''json'' then ''application/json''
     else ''application/octet-stream'')"

definition getVisibility :: "bool \<Rightarrow> string" where
  "getVisibility public = (if public then FileVisibilityPublic else FileVisibilityPrivate)"

text \<open>\<open>base64.StdEncoding\<close>: three bytes are four letters, the last group is padded.\<close>

definition base64_alphabet :: string where
  "base64_alphabet = ''ABCDEFGHIJKLMNOPQRSTUVWXYZabcdefghijklmnopqrstuvwxyz0123456789+/''"

fun base64_encode :: "nat list \<Rightarrow> string" where
  "base64_encode (a # b # c # bs) =
     map (\<lambda>i. base64_alphabet ! i) [a div 4, a mod 4 * 16 + b div 16, b mod 16 * 4 + c div 64, c mod 64] @ base64_encode bs"
| "base64_encode [a, b] = map (\<lambda>i. base64_alphabet ! i) [a div 4, a mod 4 * 16 + b div 16, b mod 16 * 4] @ ''=''"
| "base64_encode [a] = map (\<lambda>i. base64_alphabet ! i) [a div 4, a mod 4 * 16] @ ''==''"
| "base64_encode [] = []"

definition data_url :: "string \<Rightarrow> string \<Rightarrow> string" where
  "data_url mimeType bytes = ''data:'' @ mimeType @ '';base64,'' @ base64_encode (map of_char bytes)"

definition file_too_large :: rpc_error where
  "file_too_large = ServiceError (NewCustomError (Code ErrRateLimitExceeded) ''file size exceeds maximum limit'' [])"

definition UserFileHandler_Get :: "validator_library \<Rightarrow> 's userFileService \<Rightarrow> string \<Rightarrow> ('s, pb_UserFile) rpc" where
  "UserFileHandler_Get v s uid = validated (validate_UserFileGet v (UserFileGetRequestFromPb uid))
     (service (UserFileService_Get s uid) (\<lambda>f. ok (ToProtoUserFile f)))"

definition UserFileHandler_List ::
  "validator_library \<Rightarrow> 's userFileService \<Rightarrow> UserFileFilterRequest pb_ListRequest \<Rightarrow> ('s, pb_UserFile pb_ListResponse) rpc" where
  "UserFileHandler_List v s req = (let r = UserFileListRequestFromPb req; (pagination, filter') = ToUserFileListParams r in
     validated (validate_UserFileList v r)
       (service (UserFileService_List s (Some pagination) (Some filter')) (\<lambda>result. ok (list_answer ToProtoUserFile pagination result))))"

definition UserFileHandler_Add :: "validator_library \<Rightarrow> 's userFileService \<Rightarrow> pb_FileAddRequest \<Rightarrow> ('s, string) rpc" where
  "UserFileHandler_Add v s req = validated (validate_UserFileAdd v (UserFileAddRequestFromPb req))
     (if length (pfa_Filedata req) > MaxFileSize then fail file_too_large
      else service (UserFileService_Add s
        \<lparr>fc_UserUID = pfa_UserUid req, fc_FileType = ''uploaded'', fc_FileName = pfa_Name req,
         fc_FilePath = (if pfa_Filedata req \<noteq> [] then data_url (getMimeType (pfa_Filename req)) (pfa_Filedata req) else []),
         fc_MimeType = getMimeType (pfa_Filename req), fc_SizeBytes = int (length (pfa_Filedata req)),
         fc_Visibility = getVisibility (pfa_Public req)\<rparr>) (\<lambda>f. ok (f_UID f)))"

definition file_update_param :: "pb_FileUpdateRequest \<Rightarrow> UserFileUpdateParam" where
  "file_update_param req =
     \<lparr>fu_FileName = (case pfu_Filename req of Some n \<Rightarrow> Some n | None \<Rightarrow> pfu_Name req),
      fu_FilePath = (if pfu_Filedata req = [] then None
        else (let filename = (case pfu_Filename req of Some n \<Rightarrow> n
                | None \<Rightarrow> (case pfu_Name req of Some n \<Rightarrow> n | None \<Rightarrow> []));
                  mimeType = (if getMimeType filename = [] then ''application/octet-stream'' else getMimeType filename)
              in Some (data_url mimeType (pfu_Filedata req)))),
      fu_MimeType = None,
      fu_SizeBytes = (if pfu_Filedata req = [] then None else Some (int (length (pfu_Filedata req)))),
      fu_Visibility = map_option getVisibility (pfu_Public req)\<rparr>"

definition UserFileHandler_Update :: "validator_library \<Rightarrow> 's userFileService \<Rightarrow> pb_FileUpdateRequest \<Rightarrow> ('s, bool) rpc" where
  "UserFileHandler_Update v s req = validated (validate_UserFileUpdate v (UserFileUpdateRequestFromPb req))
     (if length (pfu_Filedata req) > MaxFileSize then fail file_too_large
      else service (UserFileService_Update s (pfu_Uid req) (file_update_param req)) (\<lambda>_. ok True))"

definition UserFileHandler_Delete :: "validator_library \<Rightarrow> 's userFileService \<Rightarrow> string \<Rightarrow> ('s, bool) rpc" where
  "UserFileHandler_Delete v s uid = validated (validate_UserFileDelete v (UserFileDeleteRequestFromPb uid))
     (service (UserFileService_Delete s uid) (\<lambda>_. ok True))"

end
