(* ===== verification/Middleware.thy ===== *)
theory Middleware
  imports Handlers Publishers
begin

text \<open>
  \<open>internal/adapter/api/grpc/middleware\<close> and \<open>server.go\<close>: the interceptor that puts the caller's
  names into the context and turns errors into gRPC statuses, chains of interceptors, and the
  registration of the services. The metadata of a request is a map from lower-case keys to values;
  spans, metrics and log lines are not modelled, but for the errors of creating the metrics.
\<close>

section \<open>The request interceptor\<close>

type_synonym metadata = "(string \<times> string list) list"

definition md_first :: "metadata \<Rightarrow> string \<Rightarrow> string" where
  "md_first md k = (case map_of md k of Some (v # _) \<Rightarrow> v | _ \<Rightarrow> ''unknown'')"

text \<open>The context of the handler: the names are set, to unknown when there is no metadata.\<close>

definition request_context :: "metadata option \<Rightarrow> go_context \<Rightarrow> go_context" where
  "request_context md ctx = (let m = (case md of None \<Rightarrow> [] | Some m \<Rightarrow> m) in
     SetActor (SetClientName ctx (md_first m ''client''))
       (md_first m ''actor-id'') (md_first m ''actor-type'') (md_first m ''actor-name''))"

text \<open>An answer on the wire: a status, or an error that is not one.\<close>

datatype wire_error = WireStatus status | WireRaw go_error

record metric_setup =
  ms_counter :: "go_error option"
  ms_histogram :: "go_error option"

definition UnaryRequestInterceptor ::
  "metric_setup \<Rightarrow> metadata option \<Rightarrow> (go_context \<Rightarrow> ('s, 'a) rpc) \<Rightarrow> go_context \<Rightarrow> ('s, wire_error + 'a) prog" where
  "UnaryRequestInterceptor m md handler ctx =
     (case ms_counter m of
        Some err \<Rightarrow> fail (WireRaw err)
      | None \<Rightarrow> (case ms_histogram m of
          Some err \<Rightarrow> fail (WireRaw err)
        | None \<Rightarrow> do {
            r \<leftarrow> handler (request_context md ctx);
            (case r of Inl err \<Rightarrow> fail (WireStatus (MakeErrorResponse err)) | Inr resp \<Rightarrow> ok resp) }))"

text \<open>A stream is handled with the same context, in a stream that returns it.\<close>

record 'c WrappedServerStream =
  ws_ServerStream :: 'c
  ws_wrappedCtx :: go_context

definition StreamRequestInterceptor ::
  "metric_setup \<Rightarrow> metadata option \<Rightarrow> ('c WrappedServerStream \<Rightarrow> ('s, unit) rpc) \<Rightarrow> 'c \<Rightarrow> go_context
     \<Rightarrow> ('s, wire_error + unit) prog" where
  "StreamRequestInterceptor m md handler ss ctx =
     (case ms_counter m of
        Some err \<Rightarrow> fail (WireRaw err)
      | None \<Rightarrow> (case ms_histogram m of
          Some err \<Rightarrow> fail (WireRaw err)
        | None \<Rightarrow> do {
            r \<leftarrow> handler \<lparr>ws_ServerStream = ss, ws_wrappedCtx = request_context md ctx\<rparr>;
            (case r of Inl err \<Rightarrow> fail (WireStatus (MakeErrorResponse err)) | Inr resp \<Rightarrow> ok ()) }))"

section \<open>Chains\<close>

type_synonym ('c, 'r) handler_fn = "'c \<Rightarrow> 'r"
type_synonym ('c, 'r) interceptor = "'c \<Rightarrow> ('c, 'r) handler_fn \<Rightarrow> 'r"

text \<open>The loop runs from the last interceptor to the first, each wrapping the handler so far.\<close>

definition chain_interceptors :: "('c, 'r) interceptor list \<Rightarrow> ('c, 'r) interceptor" where
  "chain_interceptors interceptors =
     (case interceptors of
        [] \<Rightarrow> (\<lambda>c handler. handler c)
      | [i] \<Rightarrow> i
      | _ \<Rightarrow> (\<lambda>c handler. fold (\<lambda>i prev c. i c prev) (rev interceptors) handler c))"

definition ChainUnaryInterceptors :: "(go_context \<times> 'q, 'r) interceptor list \<Rightarrow> (go_context \<times> 'q, 'r) interceptor" where
  "ChainUnaryInterceptors = chain_interceptors"

definition ChainStreamInterceptors :: "('srv \<times> 'ss, 'r) interceptor list \<Rightarrow> ('srv \<times> 'ss, 'r) interceptor" where
  "ChainStreamInterceptors = chain_interceptors"

lemma chain_is_composition: "chain_interceptors is c h = foldr (\<lambda>i h c. i c h) is h c"
  by (auto simp: chain_interceptors_def foldr_conv_fold split: list.split)

section \<open>The server\<close>

datatype grpc_service = AuthServiceServer | UserServiceServer | DeviceServiceServer | UserFileServiceServer | Reflection

record Server =
  sv_registered :: "grpc_service list"
  sv_regOnce :: bool
  sv_listener :: "string option"

definition NewServer :: Server where
  "NewServer = \<lparr>sv_registered = [], sv_regOnce = False, sv_listener = None\<rparr>"

definition RegisterServices :: "Server \<Rightarrow> Server" where
  "RegisterServices s = (if sv_regOnce s then s
     else s\<lparr>sv_regOnce := True, sv_registered := sv_registered s
       @ [AuthServiceServer, UserServiceServer, DeviceServiceServer, UserFileServiceServer, Reflection]\<rparr>)"

text \<open>\<open>Start\<close> up to \<open>Serve\<close>, on the result of listening.\<close>

definition Server_Start :: "string result \<Rightarrow> Server \<Rightarrow> unit result \<times> Server" where
  "Server_Start listen s = (case listen of
     Inl err \<Rightarrow> (Inl err, s\<lparr>sv_listener := None\<rparr>)
   | Inr addr \<Rightarrow> (Inr (), RegisterServices (s\<lparr>sv_listener := Some addr\<rparr>)))"

definition Server_Stop :: "Server \<Rightarrow> unit result \<times> Server" where
  "Server_Stop s = (Inr (), s\<lparr>sv_listener := None\<rparr>)"

definition Server_Addr :: "Server \<Rightarrow> string" where
  "Server_Addr s = (case sv_listener s of Some a \<Rightarrow> a | None \<Rightarrow> [])"

lemma register_once: "RegisterServices (RegisterServices s) = RegisterServices s"
  by (simp add: RegisterServices_def)

section \<open>What a client sees\<close>

lemma request_context_names:
  "GetClientName (request_context md ctx) = (case md of None \<Rightarrow> ''unknown'' | Some m \<Rightarrow> md_first m ''client'')"
  "GetActor (request_context md ctx) = (case md of None \<Rightarrow> (''unknown'', ''unknown'', ''unknown'')
     | Some m \<Rightarrow> (md_first m ''actor-id'', md_first m ''actor-type'', md_first m ''actor-name''))"
  by (auto simp: request_context_def Let_def md_first_def split: option.splits)

lemma As_CustomError_custom: "As_CustomError e = Some e' \<Longrightarrow> \<exists>c m es cause. e' = CustomError c m es cause"
  by (induction e rule: As_CustomError.induct) (auto split: option.splits)

lemma As_CustomError_foreign: "As_CustomError e = None \<longleftrightarrow> foreign e"
  by (induction e rule: As_CustomError.induct) (auto split: option.splits)


text \<open>The message that is replaced in the status is still in its details.\<close>

lemma masked_message_leaks:
  "st_Message (MakeErrorResponse (ServiceError ErrTraceInformationMissing)) = Message ErrInternalServerError \<and>
   (''message'', Message ErrTraceInformationMissing) \<in> set (st_Metadata (MakeErrorResponse (ServiceError ErrTraceInformationMissing))) \<and>
   Message ErrTraceInformationMissing \<noteq> Message ErrInternalServerError"
  by (simp add: buildResponse_def sentinel_defs)

end
