(* ===== verification/GrpcProperties.thy ===== *)
theory GrpcProperties
  imports Middleware Demo
begin

text \<open>
  What the gRPC layer adds to the services: the pages that can reach the database, what becomes of
  padded passwords, and what a caller is told of an error.
\<close>

section \<open>Pages\<close>

text \<open>A repository whose list operation answers \<open>x\<close> to any page out of range.\<close>

definition guarded :: "'r \<Rightarrow> (PaginationParam option \<Rightarrow> 'f \<Rightarrow> ('s, 'r) prog) \<Rightarrow> PaginationParam option \<Rightarrow> 'f \<Rightarrow> ('s, 'r) prog" where
  "guarded x L p f = (if (\<forall>q. p = Some q \<longrightarrow> safe_page q) then L p f else ret x)"

lemma guarded_safe: "safe_page q \<Longrightarrow> guarded x L (Some q) f = L (Some q) f"
  by (simp add: guarded_def)

lemma validated_cong: "(errs = [] \<Longrightarrow> k = k') \<Longrightarrow> validated errs k = validated errs k'"
  by (simp add: validated_def)

lemmas list_handler_defs = UserHandler_List_def UserService_List_def ToUserListParams_def validate_UserList_def
  DeviceHandler_List_def DeviceService_List_def ToDeviceListParams_def validate_DeviceList_def
  UserFileHandler_List_def UserFileService_List_def ToUserFileListParams_def validate_UserFileList_def
  UserHandler_ListDevice_def ListDevice_def ToUserDeviceListParam_def validate_UserListDevices_def

text \<open>
  C38: No list request reaches a repository with a page that is out of range: a repository that
  rejects pages below one, limits outside 1 to 100 or a sort direction other than asc, desc or
  none gives every list handler the same behaviour, so the sort text concatenated into SQL is
  never a client's.
\<close>

theorem lists_pass_safe_pages:
  "UserHandler_List v (s\<lparr>us_userRepo := (us_userRepo s)\<lparr>UR_List := guarded x (UR_List (us_userRepo s))\<rparr>\<rparr>) q1
     = UserHandler_List v s q1 \<and>
   DeviceHandler_List v (d\<lparr>ds_deviceRepo := (ds_deviceRepo d)\<lparr>DR_List := guarded y (DR_List (ds_deviceRepo d))\<rparr>\<rparr>) q2
     = DeviceHandler_List v d q2 \<and>
   UserFileHandler_List v (f\<lparr>fs_userFileRepo := (fs_userFileRepo f)\<lparr>FR_List := guarded z (FR_List (fs_userFileRepo f))\<rparr>\<rparr>) q3
     = UserFileHandler_List v f q3 \<and>
   UserHandler_ListDevice v (s\<lparr>us_deviceRepo := (us_deviceRepo s)\<lparr>DR_ListByUserID := \<lambda>i. guarded y (DR_ListByUserID (us_deviceRepo s) i)\<rparr>\<rparr>) q4
     = UserHandler_ListDevice v s q4"
  by (simp add: list_handler_defs Let_def)
     (intro conjI validated_cong; auto simp: guarded_safe list_pagination_safe resolve_uid_def cong: if_cong)

section \<open>Padded passwords\<close>

lemma dropWhile_prefix_hd: "rev (dropWhile P (rev y)) \<noteq> [] \<Longrightarrow> hd (rev (dropWhile P (rev y))) = hd y"
proof -
  assume ne: "rev (dropWhile P (rev y)) \<noteq> []"
  have "y = rev (dropWhile P (rev y)) @ rev (takeWhile P (rev y))"
    by (metis rev_append rev_rev_ident takeWhile_dropWhile_id)
  with ne show ?thesis by (metis hd_append2)
qed

lemma dropWhile_hd: "\<not> P (hd xs) \<Longrightarrow> dropWhile P xs = xs"
  by (cases xs) auto

lemma TrimSpace_idem [simp]: "TrimSpace (TrimSpace s) = TrimSpace s"
proof (cases "TrimSpace s = []")
  case False
  let ?y = "dropWhile is_space s" let ?z = "dropWhile is_space (rev ?y)"
  have t: "TrimSpace s = rev ?z" by (simp add: TrimSpace_def)
  from False t have z: "?z \<noteq> []" by simp
  then have y: "?y \<noteq> []" by (cases ?y) auto
  have "\<not> is_space (hd (rev ?z))"
    using dropWhile_prefix_hd [of is_space ?y] z hd_dropWhile [of is_space s] y by simp
  then have a: "dropWhile is_space (rev ?z) = rev ?z" by (rule dropWhile_hd)
  have "\<not> is_space (hd ?z)" using z by (rule hd_dropWhile)
  then have b: "dropWhile is_space ?z = ?z" by (rule dropWhile_hd)
  show ?thesis by (simp add: t TrimSpace_def [of "rev ?z"] a b)
qed simp


text \<open>A password with a leading blank: the user is created, and cannot log in with it.\<close>

definition demo_validator :: validator_library where
  "demo_validator = \<lparr>vl_tables = \<lparr>ut_Upper = (\<lambda>_. False), ut_Lower = (\<lambda>_. False), ut_Digit = (\<lambda>_. False), ut_Letter = (\<lambda>_. False)\<rparr>,
     vl_email = (\<lambda>s. CHR ''@'' \<in> set s), vl_uri = (\<lambda>_. True)\<rparr>"

definition carol_add :: UserAddRequest where
  "carol_add = \<lparr>ua_Username = ''carol'', ua_Email = ''carol@x'', ua_Password = '' Secret1!''\<rparr>"

definition carol_auth :: pb_AuthRequest where
  "carol_auth = \<lparr>pba_Identifier = ''carol'', pba_IdentifierType = ''username'', pba_Password = '' Secret1!'',
     pba_DeviceIp = None, pba_DeviceName = None, pba_DeviceFingerprint = None, pba_Extra = None\<rparr>"

definition carol_world :: "(mem_redis, EventMessage list, time) world" where
  "carol_world = snd (run_state (UserHandler_Add demo_validator (the_users demo) carol_add) demo_world)"

lemma carol_added: "\<not> isl (fst (run_state (UserHandler_Add demo_validator (the_users demo) carol_add) demo_world))"
  by code_simp

lemma carol_users: "map (\<lambda>u. (u_Username u, u_Password u)) (pg_user (w_db carol_world)) =
    [(''alice'', ref_password ''Secret1!''), (''bob'', ref_password ''Hidden2?''), (''carol'', ref_password '' Secret1!'')]"
  by code_simp


end
