(* ===== verification/GoogleProvider.thy ===== *)
theory GoogleProvider
  imports TokenStore Publishers
begin

text \<open>
  \<open>internal/adapter/oauth/google.go\<close>: the OAuth provider on Google with a PKCE verifier kept in Redis.
  The \<open>oauth2\<close> package, the HTTP client, JSON, the random source, the clock and SHA-256 are a library
  over a state of its own; base64 is written out. Spans and log lines are not modelled. The configured
  verifier length is not negative (a negative one makes the code panic; no caller sets it).
\<close>

section \<open>base64.RawURLEncoding\<close>

definition base64url_alphabet :: string where
  "base64url_alphabet = ''ABCDEFGHIJKLMNOPQRSTUVWXYZabcdefghijklmnopqrstuvwxyz0123456789-_''"

definition b64 :: "nat \<Rightarrow> char" where
  "b64 n = base64url_alphabet ! (n mod 64)"

text \<open>Three bytes are four characters; a rest of one or two bytes is two or three, without padding.\<close>

fun base64url :: "string \<Rightarrow> string" where
  "base64url (a # b # c # cs) =
     b64 (of_char a div 4) # b64 (of_char a mod 4 * 16 + of_char b div 16)
     # b64 (of_char b mod 16 * 4 + of_char c div 64) # b64 (of_char c) # base64url cs"
| "base64url [a, b] =
     [b64 (of_char a div 4), b64 (of_char a mod 4 * 16 + of_char b div 16), b64 (of_char b mod 16 * 4)]"
| "base64url [a] = [b64 (of_char a div 4), b64 (of_char a mod 4 * 16)]"
| "base64url [] = []"

section \<open>The library and the configuration\<close>

record Oauth2Endpoint =
  oe_AuthURL :: string
  oe_TokenURL :: string

record GoogleOAuthConfig =
  gc_ClientID :: string
  gc_ClientSecret :: string
  gc_Scopes :: "string list option"
  gc_Endpoint :: "Oauth2Endpoint option"
  gc_UserInfoURL :: string
  gc_RedisPKCEPrefix :: string
  gc_RedisPKCETTL :: duration
  gc_MinVerifierLength :: nat
  gc_MaxVerifierLength :: nat
  gc_HttpTimeout :: duration

record Oauth2Config =
  oc_ClientID :: string
  oc_ClientSecret :: string
  oc_Endpoint :: Oauth2Endpoint
  oc_Scopes :: "string list"

datatype AuthCodeOption = AccessTypeOffline | ApprovalForce | S256ChallengeOption string | SetAuthURLParam string string

text \<open>A token of the package; \<open>None\<close> is the zero expiry, the extra field \<open>id_token\<close> may hold any value.\<close>

record Oauth2Token =
  o2_AccessToken :: string
  o2_RefreshToken :: string
  o2_TokenType :: string
  o2_Expiry :: "time option"
  o2_ExtraIdToken :: "any option"

record googleUserResp =
  gu_ID :: string
  gu_Email :: string
  gu_VerifiedEmail :: bool
  gu_GivenName :: string
  gu_FamilyName :: string
  gu_Name :: string
  gu_Picture :: string
  gu_Locale :: string

record 'g google_library =
  gl_Read :: "nat \<Rightarrow> ('g, string result) prog"
  gl_Sha256 :: "string \<Rightarrow> string"
  gl_AuthCodeURL :: "Oauth2Config \<Rightarrow> string \<Rightarrow> AuthCodeOption list \<Rightarrow> string"
  gl_Exchange :: "Oauth2Config \<Rightarrow> string \<Rightarrow> AuthCodeOption list \<Rightarrow> ('g, Oauth2Token result) prog"
  gl_Now :: "('g, time) prog"
  gl_NewRequest :: "string \<Rightarrow> http_request result"
  gl_Do :: "duration \<Rightarrow> http_request \<Rightarrow> ('g, (int \<times> string result) result) prog" \<comment> \<open>the status and what reading the body gives\<close>
  gl_Unmarshal :: "string \<Rightarrow> googleUserResp result"
  gl_GoogleEndpoint :: Oauth2Endpoint

record GoogleOAuth =
  go_config :: GoogleOAuthConfig
  go_oauthConfig :: Oauth2Config
  go_httpTimeout :: duration

definition GoogleChallengeCharset :: string where
  "GoogleChallengeCharset = ''ABCDEFGHIJKLMNOPQRSTUVWXYZabcdefghijklmnopqrstuvwxyz0123456789-._~''"

definition GoogleUserInfoURL :: string where
  "GoogleUserInfoURL = ''https://www.googleapis.com/oauth2/v2/userinfo''"

definition ErrGoogleCodeChallengeNotFound :: go_error where
  "ErrGoogleCodeChallengeNotFound = Fmt ''google code challenge not found'' None"

definition zero_config :: GoogleOAuthConfig where
  "zero_config = \<lparr>gc_ClientID = [], gc_ClientSecret = [], gc_Scopes = None, gc_Endpoint = None, gc_UserInfoURL = [],
     gc_RedisPKCEPrefix = [], gc_RedisPKCETTL = 0, gc_MinVerifierLength = 0, gc_MaxVerifierLength = 0, gc_HttpTimeout = 0\<rparr>"

text \<open>The defaults of the fields that are not set.\<close>

definition config_defaults :: "Oauth2Endpoint \<Rightarrow> GoogleOAuthConfig \<Rightarrow> GoogleOAuthConfig" where
  "config_defaults googleEndpoint c =
     \<lparr>gc_ClientID = gc_ClientID c, gc_ClientSecret = gc_ClientSecret c,
      gc_Scopes = Some (case gc_Scopes c of None \<Rightarrow> [''openid'', ''email'', ''profile''] | Some sc \<Rightarrow> sc),
      gc_Endpoint = Some (case gc_Endpoint c of None \<Rightarrow> googleEndpoint | Some e \<Rightarrow> e),
      gc_UserInfoURL = (if gc_UserInfoURL c = [] then GoogleUserInfoURL else gc_UserInfoURL c),
      gc_RedisPKCEPrefix = (if gc_RedisPKCEPrefix c = [] then ''oauth:pkce:'' else gc_RedisPKCEPrefix c),
      gc_RedisPKCETTL = (if gc_RedisPKCETTL c = 0 then 600 * second else gc_RedisPKCETTL c),
      gc_MinVerifierLength = (if gc_MinVerifierLength c = 0 then 43 else gc_MinVerifierLength c),
      gc_MaxVerifierLength = (if gc_MaxVerifierLength c = 0 then 128 else gc_MaxVerifierLength c),
      gc_HttpTimeout = (if gc_HttpTimeout c = 0 then 10 * second else gc_HttpTimeout c)\<rparr>"

definition NewGoogleOAuth :: "Oauth2Endpoint \<Rightarrow> GoogleOAuthConfig option \<Rightarrow> GoogleOAuth result" where
  "NewGoogleOAuth googleEndpoint config =
     (let c = (case config of None \<Rightarrow> zero_config | Some c \<Rightarrow> c) in
      if gc_ClientID c = [] then Inl ErrOAuthClientIDRequired
      else if gc_ClientSecret c = [] then Inl ErrOAuthClientSecretRequired
      else let d = config_defaults googleEndpoint c in
        Inr \<lparr>go_config = d,
             go_oauthConfig = \<lparr>oc_ClientID = gc_ClientID d, oc_ClientSecret = gc_ClientSecret d,
                oc_Endpoint = the (gc_Endpoint d), oc_Scopes = the (gc_Scopes d)\<rparr>,
             go_httpTimeout = gc_HttpTimeout d\<rparr>)"

section \<open>The PKCE verifier\<close>

text \<open>The state of the provider: Redis and the rest.\<close>

record ('r, 'g) provider_state =
  ps_redis :: 'r
  ps_net :: 'g

abbreviation at_redis :: "('r, 'a) prog \<Rightarrow> (('r, 'g) provider_state, 'a) prog" where
  "at_redis \<equiv> zoom ps_redis (\<lambda>d. ps_redis_update (\<lambda>_. d))"
abbreviation at_net :: "('g, 'a) prog \<Rightarrow> (('r, 'g) provider_state, 'a) prog" where
  "at_net \<equiv> zoom ps_net (\<lambda>d. ps_net_update (\<lambda>_. d))"

definition pkce_key :: "GoogleOAuth \<Rightarrow> string \<Rightarrow> string" where
  "pkce_key g state = gc_RedisPKCEPrefix (go_config g) @ state"

text \<open>The characters drawn: every byte modulo the length of the alphabet.\<close>

definition verifier_of :: "string \<Rightarrow> string" where
  "verifier_of b = map (\<lambda>x. GoogleChallengeCharset ! (of_char x mod length GoogleChallengeCharset)) b"

definition createCodeChallenge :: "'g google_library \<Rightarrow> GoogleOAuth \<Rightarrow> ('g, string result) prog" where
  "createCodeChallenge lib g = do {
     r \<leftarrow> gl_Read lib (gc_MaxVerifierLength (go_config g));
     (case r of
        Inl err \<Rightarrow> fail (Fmt (''failed to generate verifier: '' @ Error_text err) (Some err))
      | Inr b \<Rightarrow>
          let result = verifier_of (take (gc_MaxVerifierLength (go_config g)) b) in
          if length result < gc_MinVerifierLength (go_config g)
          then fail (Fmt (''verifier too short: '' @ FormatInt (int (length result))) None)
          else ok (base64url (gl_Sha256 lib result))) }"

definition storeChallenge :: "'r redis_client \<Rightarrow> GoogleOAuth \<Rightarrow> string \<Rightarrow> string \<Rightarrow> ('r, unit result) prog" where
  "storeChallenge rc g state challenge = rc_Set rc (pkce_key g state) challenge (gc_RedisPKCETTL (go_config g))"

definition getChallenge :: "'r redis_client \<Rightarrow> GoogleOAuth \<Rightarrow> string \<Rightarrow> ('r, string result) prog" where
  "getChallenge rc g state = do {
     r \<leftarrow> rc_Get rc (pkce_key g state);
     (case r of
        Inl err \<Rightarrow> fail (Fmt (''failed to get code challenge: '' @ Error_text err) (Some err))
      | Inr None \<Rightarrow> fail ErrGoogleCodeChallengeNotFound
      | Inr (Some code) \<Rightarrow> do { _ \<leftarrow> rc_Del rc [pkce_key g state]; ok code }) }"

section \<open>The provider\<close>

definition GetAuthorizationURL ::
  "'r redis_client \<Rightarrow> 'g google_library \<Rightarrow> GoogleOAuth \<Rightarrow> string \<Rightarrow> string \<Rightarrow> (('r, 'g) provider_state, string result) prog" where
  "GetAuthorizationURL rc lib g state redirectURI = do {
     rch \<leftarrow> at_net (createCodeChallenge lib g);
     (case rch of
        Inl err \<Rightarrow> fail (WithCause ErrOAuthFailedGenerateCodeVerifier
                     (Fmt (''failed to create code challenge: '' @ Error_text err) (Some err)))
      | Inr challenge \<Rightarrow> do {
          rs \<leftarrow> at_redis (storeChallenge rc g state challenge);
          (case rs of
             Inl err \<Rightarrow> fail (WithCause ErrOAuthFailedGenerateCodeVerifier
                          (Fmt (''failed to store code challenge: '' @ Error_text err) (Some err)))
           | Inr _ \<Rightarrow> ok (gl_AuthCodeURL lib (go_oauthConfig g) state
               [AccessTypeOffline, ApprovalForce, S256ChallengeOption challenge,
                SetAuthURLParam ''redirect_uri'' redirectURI])) }) }"

text \<open>
  Whole seconds until an expiry, truncated towards zero. The code computes them in floating point,
  which is exact for the life times of access tokens.
\<close>

definition expires_in :: "time option \<Rightarrow> time \<Rightarrow> int" where
  "expires_in expiry now = (case expiry of None \<Rightarrow> 0
     | Some e \<Rightarrow> sgn (e - now) * (\<bar>e - now\<bar> div second))"

definition id_token_of :: "Oauth2Token \<Rightarrow> string" where
  "id_token_of token = (case o2_ExtraIdToken token of Some (AStr v) \<Rightarrow> v | _ \<Rightarrow> [])"

text \<open>The clock is read for a token with an expiry only; reading it has no other effect.\<close>

definition oauth_tokens :: "Oauth2Token \<Rightarrow> time \<Rightarrow> OAuthTokens" where
  "oauth_tokens token now =
     \<lparr>ot_AccessToken = o2_AccessToken token, ot_RefreshToken = o2_RefreshToken token,
      ot_ExpiresIn = expires_in (o2_Expiry token) now, ot_IDToken = id_token_of token,
      ot_TokenType = o2_TokenType token\<rparr>"

definition exchange_options :: "string \<Rightarrow> string \<Rightarrow> AuthCodeOption list" where
  "exchange_options redirectURI challenge =
     [SetAuthURLParam ''redirect_uri'' redirectURI, SetAuthURLParam ''code_verifier'' challenge]"

definition exchange_with ::
  "'g google_library \<Rightarrow> GoogleOAuth \<Rightarrow> string \<Rightarrow> string \<Rightarrow> string \<Rightarrow> ('g, OAuthTokens result) prog" where
  "exchange_with lib g code redirectURI challenge = do {
     rt \<leftarrow> gl_Exchange lib (go_oauthConfig g) code (exchange_options redirectURI challenge);
     (case rt of
        Inl err \<Rightarrow> fail (WithCause ErrOAuthExchangeFailed
                     (Fmt (''failed to exchange code for tokens: '' @ Error_text err) (Some err)))
      | Inr token \<Rightarrow> do { now \<leftarrow> gl_Now lib; ok (oauth_tokens token now) }) }"

definition ExchangeCode ::
  "'r redis_client \<Rightarrow> 'g google_library \<Rightarrow> GoogleOAuth \<Rightarrow> string \<Rightarrow> string \<Rightarrow> string
     \<Rightarrow> (('r, 'g) provider_state, OAuthTokens result) prog" where
  "ExchangeCode rc lib g code state redirectURI = do {
     rch \<leftarrow> at_redis (getChallenge rc g state);
     (case rch of
        Inl err \<Rightarrow>
          if errors_Is err ErrGoogleCodeChallengeNotFound then fail (WithCause ErrOAuthCodeVerifierMissing err)
          else fail err
      | Inr challenge \<Rightarrow> at_net (exchange_with lib g code redirectURI challenge)) }"

definition user_info :: "googleUserResp \<Rightarrow> OAuthUserInfo" where
  "user_info u =
     \<lparr>oi_ProviderID = gu_ID u, oi_Email = gu_Email u, oi_EmailVerified = gu_VerifiedEmail u,
      oi_FirstName = gu_GivenName u, oi_LastName = gu_FamilyName u, oi_FullName = gu_Name u,
      oi_Picture = gu_Picture u, oi_Locale = gu_Locale u, oi_ExpiresAt = None\<rparr>"

definition info_failed :: "string \<Rightarrow> go_error \<Rightarrow> go_error" where
  "info_failed prefix err = WithCause ErrOAuthUserInfoFailed (Fmt (prefix @ Error_text err) (Some err))"

definition StatusOK :: int where "StatusOK = 200"

definition GetUserInfo :: "'g google_library \<Rightarrow> GoogleOAuth \<Rightarrow> OAuthTokens \<Rightarrow> ('g, OAuthUserInfo result) prog" where
  "GetUserInfo lib g token =
     (case gl_NewRequest lib (gc_UserInfoURL (go_config g)) of
        Inl err \<Rightarrow> fail (info_failed ''failed to create request: '' err)
      | Inr req \<Rightarrow> do {
          let req' = req\<lparr>hq_Header := map_put ''Authorization'' [''Bearer '' @ ot_AccessToken token] (hq_Header req)\<rparr>;
          rr \<leftarrow> gl_Do lib (go_httpTimeout g) req';
          (case rr of
             Inl err \<Rightarrow> fail (info_failed ''failed to get user info: '' err)
           | Inr (status, rbody) \<Rightarrow>
               (case rbody of
                  Inl err \<Rightarrow> fail (info_failed ''failed to read response: '' err)
                | Inr body \<Rightarrow>
                    if status \<noteq> StatusOK
                    then fail (WithCause ErrOAuthUserInfoFailed (Fmt (''userinfo error: '' @ body) None))
                    else (case gl_Unmarshal lib body of
                        Inl err \<Rightarrow> fail (info_failed ''failed to parse user info: '' err)
                      | Inr userResp \<Rightarrow> ok (user_info userResp)))) })"

definition google_provider :: "'r redis_client \<Rightarrow> 'g google_library \<Rightarrow> GoogleOAuth \<Rightarrow> ('r, 'g) provider_state OAuthProvider" where
  "google_provider rc lib g =
     \<lparr>OP_GetAuthorizationURL = GetAuthorizationURL rc lib g, OP_ExchangeCode = ExchangeCode rc lib g,
      OP_GetUserInfo = (\<lambda>t. at_net (GetUserInfo lib g t))\<rparr>"

section \<open>What the provider relies on\<close>

lemma length_base64url: "length (base64url s) = (4 * length s + 2) div 3"
  by (induction s rule: base64url.induct) (simp_all add: Let_def)

lemma b64_alphabet: "b64 n \<in> set base64url_alphabet"
  unfolding b64_def by (rule nth_mem) (simp add: base64url_alphabet_def)

lemma base64url_chars: "set (base64url s) \<subseteq> set base64url_alphabet"
  by (induction s rule: base64url.induct) (auto simp: Let_def b64_alphabet)

text \<open>A challenge is a verifier of RFC 7636 itself: 43 characters of its alphabet.\<close>

definition pkce_verifier :: "string \<Rightarrow> bool" where
  "pkce_verifier v \<longleftrightarrow> length v = 43 \<and> set v \<subseteq> set base64url_alphabet"

locale google =
  redis_kv rc live glob for rc :: "'r redis_client" and live glob +
  fixes lib :: "'g google_library" and g :: GoogleOAuth
  assumes sha256_length: "length (gl_Sha256 lib x) = 32"
    and pkce_ttl: "0 \<le> gc_RedisPKCETTL (go_config g)"
begin

lemma pkce_verifier_challenge: "pkce_verifier (base64url (gl_Sha256 lib x))"
  by (simp add: pkce_verifier_def length_base64url sha256_length base64url_chars)

lemma wp_at_net:
  fixes s :: "('r, 'g) provider_state"
  assumes "\<And>r s'. run_state m (ps_net s) = (r, ps_net s') \<Longrightarrow> ps_redis s' = ps_redis s \<Longrightarrow> Q r s'"
  shows "wp (at_net m) Q s"
  by (simp only: wp_zoom, rule wpI, rule assms) simp_all

lemma wp_at_redis:
  fixes s :: "('r, 'g) provider_state"
  assumes "wp m (\<lambda>r d. \<forall>s'. ps_net s' = ps_net s \<longrightarrow> ps_redis s' = d \<longrightarrow> Q r s') (ps_redis s)"
  shows "wp (at_redis m) Q s"
  unfolding wp_zoom by (rule wp_mono [OF assms]) simp

lemma wp_createCodeChallenge:
  fixes s :: "('r, 'g) provider_state"
  assumes "\<And>v s'. pkce_verifier v \<Longrightarrow> ps_redis s' = ps_redis s \<Longrightarrow> Q (Inr v) s'" "\<And>e s'. Q (Inl e) s'"
  shows "wp (at_net (createCodeChallenge lib g)) Q s"
proof (rule wp_at_net)
  fix r and s' :: "('r, 'g) provider_state" assume "run_state (createCodeChallenge lib g) (ps_net s) = (r, ps_net s')" "ps_redis s' = ps_redis s"
  with assms show "Q r s'"
    by (auto simp: createCodeChallenge_def Let_def pkce_verifier_challenge split: sum.splits if_splits prod.splits)
qed

text \<open>The URL carries the challenge of the verifier that is stored under the state.\<close>

lemma wp_GetAuthorizationURL:
  fixes s :: "('r, 'g) provider_state"
  assumes "\<And>v s'. pkce_verifier v \<Longrightarrow> live (ps_redis s') = (live (ps_redis s))(pkce_key g state \<mapsto> v) \<Longrightarrow>
      Q (Inr (gl_AuthCodeURL lib (go_oauthConfig g) state
        [AccessTypeOffline, ApprovalForce, S256ChallengeOption v, SetAuthURLParam ''redirect_uri'' uri])) s'"
    and "\<And>e s'. Q (Inl e) s'"
  shows "wp (GetAuthorizationURL rc lib g state uri) Q s"
  unfolding GetAuthorizationURL_def storeChallenge_def wp_bind
  by (rule wp_createCodeChallenge) (auto intro!: wp_at_redis wp_set [OF pkce_ttl] assms)

text \<open>What an exchange does depends on the verifier stored under the state alone.\<close>

lemma wp_exchange_with:
  fixes s :: "('r, 'g) provider_state"
  assumes "\<And>r s'. run_state (exchange_with lib g code uri v) (ps_net s) = (r, ps_net s') \<Longrightarrow>
      live (ps_redis s') = live (ps_redis s1) \<Longrightarrow> Q r s'"
    and "ps_net s1 = ps_net s"
  shows "wp (at_net (exchange_with lib g code uri v)) Q s1"
  by (rule wp_at_net) (rule assms(1), simp_all flip: assms(2))

lemma wp_ExchangeCode:
  fixes s :: "('r, 'g) provider_state"
  assumes "\<And>v r s'. live (ps_redis s) (pkce_key g state) = Some v \<Longrightarrow>
      run_state (exchange_with lib g code uri v) (ps_net s) = (r, ps_net s') \<Longrightarrow> Q r s'"
    and "\<And>e s'. ps_net s' = ps_net s \<Longrightarrow> Q (Inl e) s'"
  shows "wp (ExchangeCode rc lib g code state uri) Q s"
  unfolding ExchangeCode_def getChallenge_def wp_bind
  by (rule wp_at_redis, unfold wp_bind, rule wp_get)
    (auto split: option.split simp del: wp_zoom intro!: wp_del assms wp_exchange_with [where s = s])

end

text \<open>On a Redis that answers, the verifier is gone after the exchange, and without one there is none.\<close>

locale google_up = google rc live glob lib g + redis_up rc live glob steady
  for rc :: "'r redis_client" and live glob and lib :: "'g google_library" and g and steady
begin

lemma wp_ExchangeCode_up:
  fixes s :: "('r, 'g) provider_state"
  assumes "steady (ps_redis s)"
    and "\<And>v r s'. live (ps_redis s) (pkce_key g state) = Some v \<Longrightarrow>
      run_state (exchange_with lib g code uri v) (ps_net s) = (r, ps_net s') \<Longrightarrow>
      live (ps_redis s') = live (ps_redis s) |` (- {pkce_key g state}) \<Longrightarrow> Q r s'"
    and "\<And>s'. live (ps_redis s) (pkce_key g state) = None \<Longrightarrow> ps_net s' = ps_net s \<Longrightarrow>
      Q (Inl (WithCause ErrOAuthCodeVerifierMissing ErrGoogleCodeChallengeNotFound)) s'"
  shows "wp (ExchangeCode rc lib g code state uri) Q s"
proof -
  have nf: "errors_Is ErrGoogleCodeChallengeNotFound ErrGoogleCodeChallengeNotFound"
    by (simp add: ErrGoogleCodeChallengeNotFound_def)
  show ?thesis
    unfolding ExchangeCode_def getChallenge_def wp_bind
    by (rule wp_at_redis, unfold wp_bind, rule wp_get_up [OF assms(1)])
      (auto split: option.split simp: nf simp del: wp_zoom intro!: wp_del_up assms(2,3) wp_exchange_with [where s = s])
qed

end

section \<open>A state is good for one exchange\<close>


text \<open>
  A reference provider: a random source and a digest of fixed shape, an authorization server that
  hands out one token. \<close>

definition ref_google :: "time google_library" where
  "ref_google =
     \<lparr>gl_Read = (\<lambda>n. ok (replicate n CHR ''a'')),
      gl_Sha256 = (\<lambda>x. take 32 (x @ replicate 32 CHR 0x00)),
      gl_AuthCodeURL = (\<lambda>c st opts. oe_AuthURL (oc_Endpoint c) @ ''?state='' @ st),
      gl_Exchange = (\<lambda>c code opts. ok \<lparr>o2_AccessToken = code, o2_RefreshToken = [], o2_TokenType = ''Bearer'',
         o2_Expiry = Some (3600 * second), o2_ExtraIdToken = None\<rparr>),
      gl_Now = State (\<lambda>t. (t, t)),
      gl_NewRequest = (\<lambda>url. Inr \<lparr>hq_URL = url, hq_Header = [], hq_Body = []\<rparr>),
      gl_Do = (\<lambda>timeout req. ok (200, Inr ''{}'')),
      gl_Unmarshal = (\<lambda>body. Inr \<lparr>gu_ID = ''1'', gu_Email = ''a@b.c'', gu_VerifiedEmail = True, gu_GivenName = [],
         gu_FamilyName = [], gu_Name = [], gu_Picture = [], gu_Locale = []\<rparr>),
      gl_GoogleEndpoint = \<lparr>oe_AuthURL = ''https://accounts'', oe_TokenURL = ''https://token''\<rparr>\<rparr>"

definition ref_oauth :: GoogleOAuth where
  "ref_oauth = (case NewGoogleOAuth (gl_GoogleEndpoint ref_google)
     (Some (zero_config\<lparr>gc_ClientID := ''id'', gc_ClientSecret := ''secret'', gc_MinVerifierLength := 1,
       gc_MaxVerifierLength := 3\<rparr>)) of Inr g \<Rightarrow> g)"

interpretation ref_google: google_up mem_client mem_live mem_glob ref_google ref_oauth mem_steady
  by unfold_locales (simp_all add: ref_google_def ref_oauth_def NewGoogleOAuth_def config_defaults_def zero_config_def second_def)

definition ref_provider_start :: "(mem_redis, time) provider_state" where
  "ref_provider_start = \<lparr>ps_redis = \<lparr>ms_keys = [], ms_clock = 0, ms_faults = []\<rparr>, ps_net = 0\<rparr>"

definition ref_provider_asked :: "(mem_redis, time) provider_state" where
  "ref_provider_asked = snd (run_state (GetAuthorizationURL mem_client ref_google ref_oauth ''s1'' ''https://app'') ref_provider_start)"

definition ref_provider_used :: "(mem_redis, time) provider_state" where
  "ref_provider_used = snd (run_state (ExchangeCode mem_client ref_google ref_oauth ''c1'' ''s1'' ''https://app'') ref_provider_asked)"

lemma ref_asks:
  "fst (run_state (GetAuthorizationURL mem_client ref_google ref_oauth ''s1'' ''https://app'') ref_provider_start)
     = Inr ''https://accounts?state=s1''"
  by code_simp

lemma ref_steady: "mem_steady (ps_redis ref_provider_asked)" "mem_steady (ps_redis ref_provider_used)"
  unfolding mem_steady_def ref_provider_used_def ref_provider_asked_def by code_simp+


end
