(* ===== verification/RedisTracker.thy ===== *)
theory RedisTracker
  imports AttemptTracker
begin

text \<open>
  The Redis attempt tracker of \<open>internal/adapter/security/attempt_tracker_redis.go\<close>: the count it
  reports, and the contract \<open>attempt_tracker\<close> over any client that behaves as \<open>redis_kv\<close>.
\<close>

section \<open>GetFailedAttempts\<close>

text \<open>\<open>strconv.Atoi\<close>: the same parser; a text out of range or with another character is an error.\<close>

definition Atoi :: "string \<Rightarrow> int option" where
  "Atoi s =
     (let neg = (s \<noteq> [] \<and> hd s = CHR ''-'');
          t = (if s \<noteq> [] \<and> (hd s = CHR ''-'' \<or> hd s = CHR ''+'') then tl s else s)
      in if t = [] then None
         else (case parse_digits 0 t of
                 UVal un \<Rightarrow> if neg then (if un \<le> 2 ^ 63 then Some (- int un) else None)
                            else (if un < 2 ^ 63 then Some (int un) else None)
               | _ \<Rightarrow> None))"

text \<open>
  \<open>GetFailedAttempts\<close>: \<open>strconv.Atoi\<close> of the counter; \<open>atoi_error\<close> is its error for a text that is no
  64-bit integer.
\<close>

definition Redis_GetFailedAttempts ::
  "(string \<Rightarrow> go_error) \<Rightarrow> 'r redis_client \<Rightarrow> string \<Rightarrow> ('r, int result) prog" where
  "Redis_GetFailedAttempts atoi_error rc userUID = do {
     r \<leftarrow> rc_Get rc (failedAttemptsKey userUID);
     (case r of
        Inl err \<Rightarrow> fail (wrap_error ''failed to get failed attempts'' err)
      | Inr None \<Rightarrow> ok 0
      | Inr (Some val) \<Rightarrow>
          (case Atoi val of
             None \<Rightarrow> fail (wrap_error ''failed to parse failed attempts'' (atoi_error val))
           | Some count \<Rightarrow> ok count)) }"

section \<open>The Redis tracker keeps the contract\<close>

text \<open>
  The lock is the live lockout key, the failures are the live counter. A counter is never negative:
  only \<open>INCR\<close> writes it.
\<close>

definition redis_count :: "(string \<Rightarrow> string option) \<Rightarrow> string \<Rightarrow> int" where
  "redis_count lv u = (case lv (failedAttemptsKey u) of None \<Rightarrow> 0 | Some v \<Rightarrow> ParseInt_value v)"

definition redis_locked :: "(string \<Rightarrow> string option) \<Rightarrow> string \<Rightarrow> bool" where
  "redis_locked lv u \<longleftrightarrow> lv (lockoutKey u) \<noteq> None"

definition counters_ok :: "(string \<Rightarrow> string option) \<Rightarrow> bool" where
  "counters_ok lv \<longleftrightarrow> (\<forall>u. 0 \<le> redis_count lv u)"

lemma tracker_keys [simp]:
  "failedAttemptsKey u = failedAttemptsKey v \<longleftrightarrow> u = v" "lockoutKey u = lockoutKey v \<longleftrightarrow> u = v"
  "failedAttemptsKey u \<noteq> lockoutKey v" "lockoutKey v \<noteq> failedAttemptsKey u"
  by (simp_all add: failedAttemptsKey_def lockoutKey_def)

lemma tracker_views:
  "redis_count (lv(lockoutKey u \<mapsto> x)) = redis_count lv" "redis_locked (lv(failedAttemptsKey u \<mapsto> x)) = redis_locked lv"
  "redis_locked (lv(lockoutKey u \<mapsto> x)) u"
  "redis_count (lv(failedAttemptsKey u \<mapsto> FormatInt n)) = (redis_count lv)(u := ParseInt_value (FormatInt n))"
  by (auto simp: redis_count_def redis_locked_def fun_eq_iff)

lemma tracker_reset_views:
  assumes "lv' = lv |` (- {failedAttemptsKey u, lockoutKey u})"
  shows "\<not> redis_locked lv' u" "redis_count lv' u = 0" "counters_ok lv \<Longrightarrow> counters_ok lv'"
  unfolding assms by (simp_all add: redis_count_def redis_locked_def counters_ok_def restrict_map_def)

lemma ParseInt_FormatInt_nonneg:
  assumes "0 \<le> i" shows "0 \<le> ParseInt_value (FormatInt i)"
proof -
  have "hd (dec_nat n) \<noteq> CHR ''-''" for n
    using dec_nat_no_sep [OF digit_val_sep(1)] by (metis dec_nat_not_Nil list.set_sel(1))
  with assms show ?thesis by (simp add: ParseInt_value_def FormatInt_def Let_def split: parse_uint.split)
qed

lemma counters_ok_put:
  assumes "counters_ok lv" "0 \<le> n" shows "counters_ok (lv(failedAttemptsKey u \<mapsto> FormatInt n))"
  using assms by (simp add: counters_ok_def tracker_views ParseInt_FormatInt_nonneg)

context redis_kv
begin

lemma wp_incr:
  assumes "c = (case live r k of None \<Rightarrow> 0 | Some v \<Rightarrow> ParseInt_value v) + 1"
    and "\<And>r'. live r' = (live r)(k \<mapsto> FormatInt c) \<Longrightarrow> Q (Inr c) r'"
    and "\<And>e r'. live r' = live r \<or> live r' = (live r)(k \<mapsto> FormatInt c) \<Longrightarrow> foreign e \<Longrightarrow> Q (Inl e) r'"
  shows "wp (rc_Incr rc k) Q r"
proof (rule wpI)
  fix a r' assume "run_state (rc_Incr rc k) r = (a, r')"
  then show "Q a r'" using assms incr_ok incr_err by (cases a) auto
qed

lemma wp_expire:
  assumes "0 < ttl" and "\<And>b r'. live r' = live r \<Longrightarrow> Q (Inr b) r'"
    and "\<And>e r'. live r' = live r \<Longrightarrow> foreign e \<Longrightarrow> Q (Inl e) r'"
  shows "wp (rc_Expire rc k ttl) Q r"
proof (rule wpI)
  fix a r' assume "run_state (rc_Expire rc k ttl) r = (a, r')"
  then show "Q a r'" using assms expire_frame expire_err by (cases a) blast+
qed

end

locale redis_tracker = redis_kv rc live glob + tracker_config m
  for rc :: "'r redis_client" and live glob m +
  assumes threshold_small: "threshold m \<le> 2 ^ 62"
begin

text \<open>One failure: the counter, its expiry, the lock.\<close>

lemma wp_Redis_Track:
  assumes "counters_ok (live s)"
  shows "wp (Redis_Track rc m u) (\<lambda>r s'. counters_ok (live s') \<and>
      (r = Inr () \<longrightarrow> redis_count (live s') u = redis_count (live s) u + 1 \<and> redis_count (live s') u < threshold m) \<and>
      (\<forall>n. r = Inl (lock_error n) \<longrightarrow>
         n = redis_count (live s) u + 1 \<and> threshold m \<le> n \<and> redis_locked (live s') u)) s"
proof -
  let ?c = "redis_count (live s) u + 1"
  let ?lv = "(live s)(failedAttemptsKey u \<mapsto> FormatInt ?c)"
  have c: "0 \<le> ?c" using assms by (simp add: counters_ok_def add_nonneg_nonneg)
  have ok: "counters_ok ?lv" "counters_ok (?lv(lockoutKey u \<mapsto> v))" for v
    using counters_ok_put [OF assms c] by (simp_all add: counters_ok_def tracker_views)
  have cnt: "redis_count ?lv u = ?c" if "?c < threshold m"
    using that c threshold_small by (simp add: tracker_views ParseInt_FormatInt)
  have other: "wrap_error msg e \<noteq> lock_error n" for msg e n by (simp add: wrap_error_def lock_error_def)
  show ?thesis
    unfolding Redis_Track_def wp_bind
    by (rule wp_incr [OF redis_count_def [THEN arg_cong [where f = "\<lambda>c. c + 1"]]])
      (auto simp: ok cnt other assms lockout_pos less_imp_le tracker_views(3) intro!: wp_expire [OF ttl_pos] wp_set)
qed

sublocale redis: attempt_tracker "NewRedisAttemptTracker rc m" "\<lambda>s. redis_locked (live s)"
  "\<lambda>s u. nat (redis_count (live s) u)" "threshold m" "\<lambda>s. counters_ok (live s)"
proof unfold_locales
  fix s u s' assume inv: "counters_ok (live s)"
  then have c: "0 \<le> redis_count (live s) u" by (simp add: counters_ok_def)
  {
    assume "run_state (AT_Track (NewRedisAttemptTracker rc m) u) s = (Inr (), s')"
    then show "nat (redis_count (live s') u) = Suc (nat (redis_count (live s) u)) \<and> int (nat (redis_count (live s') u)) < threshold m"
      using wp_run [OF _ wp_Redis_Track [OF inv]] c by (fastforce simp: NewRedisAttemptTracker_def)
  next
    fix n assume "run_state (AT_Track (NewRedisAttemptTracker rc m) u) s = (Inl (lock_error n), s')"
    then show "n = int (Suc (nat (redis_count (live s) u))) \<and> threshold m \<le> n \<and> redis_locked (live s') u"
      using wp_run [OF _ wp_Redis_Track [OF inv]] c by (fastforce simp: NewRedisAttemptTracker_def)
  next
    fix ares assume "run_state (AT_Track (NewRedisAttemptTracker rc m) u) s = (ares, s')"
    then show "counters_ok (live s')"
      using wp_run [OF _ wp_Redis_Track [OF inv]] by (fastforce simp: NewRedisAttemptTracker_def)
  next
    fix b assume run: "run_state (AT_IsLocked (NewRedisAttemptTracker rc m) u) s = (Inr b, s')"
    have "wp (Redis_IsLocked rc u) (\<lambda>r s'. live s' = live s \<and> (\<forall>b. r = Inr b \<longrightarrow> b = redis_locked (live s) u)) s"
      unfolding Redis_IsLocked_def wp_bind by (rule wp_exists) (auto simp: redis_locked_def)
    from wp_run [OF run [unfolded NewRedisAttemptTracker_def Ports.AttemptTracker.select_convs] this] inv
    show "b = redis_locked (live s) u \<and> redis_locked (live s') u = redis_locked (live s) u \<and> counters_ok (live s')" by simp
  next
    assume run: "run_state (AT_Reset (NewRedisAttemptTracker rc m) u) s = (Inr (), s')"
    have "wp (Redis_Reset rc u) (\<lambda>r s'. r = Inr () \<longrightarrow> live s' = live s |` (- {failedAttemptsKey u, lockoutKey u})) s"
      unfolding Redis_Reset_def wp_bind by (rule wp_del) auto
    from wp_run [OF run [unfolded NewRedisAttemptTracker_def Ports.AttemptTracker.select_convs] this] inv tracker_reset_views
    show "\<not> redis_locked (live s') u \<and> nat (redis_count (live s') u) = 0 \<and> counters_ok (live s')" by simp
  }
qed

end

interpretation mem_login: redis_tracker mem_client mem_live mem_glob login_tracker
  by unfold_locales (simp add: login_tracker_def)

section \<open>The number of guesses on Redis\<close>

text \<open>A server that answers the commands of the tracker too.\<close>

locale redis_tracker_up = redis_tracker rc live glob m + redis_up rc live glob steady
  for rc :: "'r redis_client" and live glob m steady +
  assumes incr_up: "steady r \<Longrightarrow> run_state (rc_Incr rc k) r = (nres, r') \<Longrightarrow> steady r' \<and> (\<exists>n. nres = Inr n)"
    and expire_up: "steady r \<Longrightarrow> run_state (rc_Expire rc k ttl) r = (bres, r') \<Longrightarrow> steady r' \<and> (\<exists>b. bres = Inr b)"
begin

lemma wp_incr_up:
  assumes "steady r" "c = (case live r k of None \<Rightarrow> 0 | Some v \<Rightarrow> ParseInt_value v) + 1"
    and "\<And>r'. live r' = (live r)(k \<mapsto> FormatInt c) \<Longrightarrow> steady r' \<Longrightarrow> Q (Inr c) r'"
  shows "wp (rc_Incr rc k) Q r"
  by (rule wpI) (metis assms incr_up incr_ok)

lemma wp_expire_up:
  assumes "steady r" "0 < ttl" "\<And>b r'. live r' = live r \<Longrightarrow> steady r' \<Longrightarrow> Q (Inr b) r'"
  shows "wp (rc_Expire rc k ttl) Q r"
  by (rule wpI) (metis assms expire_up expire_frame)

lemma wp_Redis_Track_up:
  assumes "counters_ok (live s)" "steady s"
  shows "wp (Redis_Track rc m u) (\<lambda>r s'. steady s' \<and>
      (redis_count (live s) u + 1 < threshold m \<longrightarrow> redis_count (live s') u = redis_count (live s) u + 1) \<and>
      (threshold m \<le> redis_count (live s) u + 1 \<longrightarrow> redis_locked (live s') u)) s"
proof -
  let ?c = "redis_count (live s) u + 1"
  have cnt: "ParseInt_value (FormatInt ?c) = ?c" if "?c < threshold m"
    using that threshold_small assms(1) by (intro ParseInt_FormatInt) (auto simp: counters_ok_def intro: order_trans [of _ 0] add_nonneg_nonneg)
  show ?thesis
    unfolding Redis_Track_def wp_bind
    by (rule wp_incr_up [OF assms(2) redis_count_def [THEN arg_cong [where f = "\<lambda>c. c + 1"]]])
      (auto simp: cnt tracker_views lockout_pos less_imp_le intro!: wp_expire_up [OF _ ttl_pos] wp_set_up)
qed

lemma wp_Redis_IsLocked_up:
  assumes "steady s"
  shows "wp (Redis_IsLocked rc u) (\<lambda>r s'. steady s' \<and> live s' = live s \<and> r = Inr (redis_locked (live s) u)) s"
  unfolding Redis_IsLocked_def wp_bind by (rule wp_exists_up [OF assms]) (auto simp: redis_locked_def)

end

text \<open>
  Attempts against one account while no key expires: the lock is queried each time, as
  \<open>authService.Authenticate\<close> does, and a guess is made and tracked only when it is open.
\<close>

fun redis_guesses :: "'r redis_client \<Rightarrow> TrackerConfig \<Rightarrow> string \<Rightarrow> nat \<Rightarrow> 'r \<Rightarrow> nat" where
  "redis_guesses rc m u 0 s = 0"
| "redis_guesses rc m u (Suc k) s =
     (case run_state (AT_IsLocked (NewRedisAttemptTracker rc m) u) s of (l, s1) \<Rightarrow>
        if l = Inr False
        then Suc (redis_guesses rc m u k (snd (run_state (AT_Track (NewRedisAttemptTracker rc m) u) s1)))
        else redis_guesses rc m u k s1)"

context redis_tracker_up
begin

lemma guesses_budget:
  "steady s \<Longrightarrow> counters_ok (live s) \<Longrightarrow>
   int (redis_guesses rc m u k s) \<le> (if redis_locked (live s) u then 0 else max 1 (threshold m - redis_count (live s) u))"
proof (induction k arbitrary: s)
  case (Suc k)
  obtain l s1 where lk: "run_state (Redis_IsLocked rc u) s = (l, s1)" by fastforce
  from wp_run [OF lk wp_Redis_IsLocked_up] Suc.prems
  have s1: "steady s1" "live s1 = live s" "l = Inr (redis_locked (live s) u)" by simp_all
  show ?case
  proof (cases "redis_locked (live s) u")
    case True
    with Suc.IH [of s1] Suc.prems s1 lk show ?thesis by (simp add: NewRedisAttemptTracker_def)
  next
    case False
    obtain r s2 where tr: "run_state (Redis_Track rc m u) s1 = (r, s2)" by fastforce
    have inv: "counters_ok (live s1)" using Suc.prems s1 by simp
    from wp_run [OF tr wp_Redis_Track [OF inv]] wp_run [OF tr wp_Redis_Track_up [OF inv s1(1)]] s1(2)
    have "counters_ok (live s2)" "steady s2"
      "redis_count (live s) u + 1 < threshold m \<Longrightarrow> redis_count (live s2) u = redis_count (live s) u + 1"
      "threshold m \<le> redis_count (live s) u + 1 \<Longrightarrow> redis_locked (live s2) u" by simp_all
    with Suc.IH [of s2] False s1 lk tr show ?thesis
      by (cases "redis_count (live s) u + 1 < threshold m") (auto simp: NewRedisAttemptTracker_def split: if_splits)
  qed
qed (simp add: max_def)

end

interpretation mem_login: redis_tracker_up mem_client mem_live mem_glob login_tracker mem_steady
  by unfold_locales
    (auto simp: mem_client_def mem_command_def mem_steady_def mem_put_def split: list.splits prod.splits option.splits)


definition empty_redis :: mem_redis where
  "empty_redis = \<lparr>ms_keys = [], ms_clock = 0, ms_faults = []\<rparr>"


end
