(* ===== verification/RedisLimiter.thy ===== *)
theory RedisLimiter
  imports RateLimiter
begin

text \<open>
  \<open>internal/adapter/security/rate_limiter_redis.go\<close>: the sliding window of the Redis limiter, a Lua
  script on a sorted set. The script is part of the source and is translated with the documented
  meaning of its four commands; what \<open>Eval\<close> returns to the adapter is a parameter. Scores and windows
  are milliseconds, exact in the floating point numbers that carry them.
\<close>

section \<open>Sorted sets\<close>

text \<open>
  A sorted set as its members with their scores, and the time at which the key expires. \<open>zs_uuids\<close>
  counts the UUIDs drawn for members.
\<close>

record zset_state =
  zs_sets :: "string \<Rightarrow> ((string \<times> int) list \<times> time option) option"
  zs_now :: time
  zs_uuids :: nat

definition zset_live :: "zset_state \<Rightarrow> string \<Rightarrow> (string \<times> int) list \<times> time option" where
  "zset_live s key = (case zs_sets s key of
      None \<Rightarrow> ([], None)
    | Some (es, x) \<Rightarrow> (case x of None \<Rightarrow> (es, x) | Some t \<Rightarrow> if zs_now s < t then (es, x) else ([], None)))"

text \<open>An empty sorted set is no key.\<close>

definition zset_store :: "string \<Rightarrow> (string \<times> int) list \<Rightarrow> time option \<Rightarrow> zset_state \<Rightarrow> zset_state" where
  "zset_store key es x s = s\<lparr>zs_sets := (zs_sets s)(key := if es = [] then None else Some (es, x))\<rparr>"

section \<open>The script\<close>

definition limiter_script :: "string \<Rightarrow> int \<Rightarrow> int \<Rightarrow> int \<Rightarrow> string \<Rightarrow> int \<Rightarrow> (zset_state, int) prog" where
  "limiter_script key now window_start limit member expiry = State (\<lambda>s.
     let (es0, x) = zset_live s key;
         es = filter (\<lambda>(_, score). \<not> (0 \<le> score \<and> score \<le> window_start)) es0;
         count = int (length es)
     in if count \<ge> limit then (0, zset_store key es x s)
        else let es' = map_put member now es
             in (1, if expiry \<le> 0 then zset_store key [] None s
                    else zset_store key es' (Some (zs_now s + expiry * 1000)) s))"

section \<open>The adapter\<close>

datatype script_reply = IntReply int | OtherReply

definition trunc_div :: "int \<Rightarrow> int \<Rightarrow> int" where
  "trunc_div a b = sgn a * (\<bar>a\<bar> div b)"

definition Milliseconds :: "duration \<Rightarrow> int" where
  "Milliseconds d = trunc_div d 1000000"

definition whole_seconds :: "duration \<Rightarrow> int" where
  "whole_seconds d = trunc_div d 1000000000"

definition rate_limit_key :: "string \<Rightarrow> string" where
  "rate_limit_key deviceIp = ''auth:rate_limit:ip:'' @ deviceIp"

definition Redis_Acquire ::
  "(string \<Rightarrow> int \<Rightarrow> int \<Rightarrow> int \<Rightarrow> string \<Rightarrow> int \<Rightarrow> ('s, script_reply result) prog) \<Rightarrow> ('s, time) prog \<Rightarrow> ('s, string) prog
     \<Rightarrow> LimiterConfig \<Rightarrow> string \<Rightarrow> ('s, bool result) prog" where
  "Redis_Acquire eval unixMilli newUUID m deviceIp = do {
     now \<leftarrow> unixMilli;
     member \<leftarrow> newUUID;
     r \<leftarrow> eval (rate_limit_key deviceIp) now (now - Milliseconds (rl_windowSize m)) (int (rl_limit m)) member
            (whole_seconds (rl_windowSize m));
     (case r of
        Inl err \<Rightarrow> fail (Fmt (''failed to check rate limit: '' @ Error_text err) (Some err))
      | Inr OtherReply \<Rightarrow> fail (Fmt ''unexpected result format from rate limit script'' None)
      | Inr (IntReply allowed) \<Rightarrow> ok (allowed = 1)) }"

definition NewRedisRateLimiter ::
  "(string \<Rightarrow> int \<Rightarrow> int \<Rightarrow> int \<Rightarrow> string \<Rightarrow> int \<Rightarrow> ('s, script_reply result) prog) \<Rightarrow> ('s, time) prog \<Rightarrow> ('s, string) prog
     \<Rightarrow> 's redis_client \<Rightarrow> LimiterConfig \<Rightarrow> 's RateLimiter" where
  "NewRedisRateLimiter eval unixMilli newUUID rc m =
     \<lparr>RL_Acquire = Redis_Acquire eval unixMilli newUUID m, RL_Reset = Limiter_Redis_Reset rc\<rparr>"

text \<open>The adapter on a server that runs the script, with the clock of the server.\<close>

definition zset_acquire :: "(nat \<Rightarrow> string) \<Rightarrow> LimiterConfig \<Rightarrow> string \<Rightarrow> (zset_state, bool result) prog" where
  "zset_acquire uuid = Redis_Acquire
     (\<lambda>key now ws limit member expiry. do { n \<leftarrow> limiter_script key now ws limit member expiry; ok (IntReply n) })
     (State (\<lambda>s. (zs_now s, s))) (State (\<lambda>s. (uuid (zs_uuids s), s\<lparr>zs_uuids := Suc (zs_uuids s)\<rparr>)))"

section \<open>It answers as the memory limiter does\<close>

fun redis_granted :: "(nat \<Rightarrow> string) \<Rightarrow> LimiterConfig \<Rightarrow> string \<Rightarrow> (string \<times> time) list \<Rightarrow> zset_state \<Rightarrow> time list" where
  "redis_granted uuid m ip [] s = []"
| "redis_granted uuid m ip ((a, t) # reqs) s =
     (case run_state (zset_acquire uuid m a) (s\<lparr>zs_now := t\<rparr>) of
        (r, s') \<Rightarrow> (if a = ip \<and> r = Inr True then [t] else []) @ redis_granted uuid m ip reqs s')"

text \<open>
  The scores of a live key that are still in the window are the timestamps the memory limiter still
  counts; what has expired is out of the window.
\<close>

definition same_window :: "int \<Rightarrow> (string \<times> int) list \<times> time option \<Rightarrow> time \<Rightarrow> time list \<Rightarrow> bool" where
  "same_window w ex now ts \<longleftrightarrow> filter (\<lambda>t. now - w < t) (map snd (fst ex)) = filter (\<lambda>t. now - w < t) ts"

definition agrees :: "(nat \<Rightarrow> string) \<Rightarrow> int \<Rightarrow> MemoryRateLimiter \<Rightarrow> zset_state \<Rightarrow> bool" where
  "agrees uuid w s z \<longleftrightarrow> rl_now s = zs_now z \<and> limiter_invar s \<and>
     (\<forall>ip. same_window w (zset_live z (rate_limit_key ip)) (rl_now s) (stamps s ip)) \<and>
     (\<forall>key es x. zs_sets z key = Some (es, x) \<longrightarrow>
        (\<forall>(m, t) \<in> set es. 0 \<le> t \<and> t \<le> zs_now z \<and> m \<in> uuid ` {..<zs_uuids z} \<and> (\<forall>e. x = Some e \<longrightarrow> t + w \<le> e)))"

lemma map_put_fresh: "k \<notin> fst ` set m \<Longrightarrow> map_put k v m = m @ [(k, v)]"
  by (induction k v m rule: map_put.induct) auto

lemma zset_live_subset: "zset_live z key = (es, x) \<Longrightarrow> es = [] \<or> zs_sets z key = Some (es, x)"
  by (auto simp: zset_live_def split: option.splits if_splits)

lemma agrees_later:
  assumes "agrees uuid w s z" "rl_now s \<le> t"
  shows "agrees uuid w (s\<lparr>rl_now := t\<rparr>) (z\<lparr>zs_now := t\<rparr>)"
proof -
  have inv: "limiter_invar (s\<lparr>rl_now := t\<rparr>)"
    using assms by (fastforce simp: agrees_def limiter_invar_def stamps_def)
  have "same_window w (zset_live (z\<lparr>zs_now := t\<rparr>) (rate_limit_key ip)) t (stamps s ip)" for ip
  proof -
    have old: "filter (\<lambda>u. t - w < u) (map snd (fst (zset_live z (rate_limit_key ip)))) = filter (\<lambda>u. t - w < u) (stamps s ip)"
      using assms by (intro filter_filter_later [of "rl_now s - w" "t - w"]) (auto simp: agrees_def same_window_def)
    show ?thesis
    proof (cases "zs_sets z (rate_limit_key ip)")
      case None
      with old show ?thesis by (simp add: same_window_def zset_live_def)
    next
      case (Some ex)
      obtain es x where ex: "ex = (es, x)" by (cases ex)
      have gone: "filter (\<lambda>u. t - w < u) (map snd es) = []" if "x = Some e" "e \<le> t" for e
        using assms(1) Some that unfolding agrees_def ex by (fastforce simp: filter_empty_conv)
      show ?thesis
        using old gone assms
        by (cases x) (auto simp: same_window_def zset_live_def Some ex agrees_def split: if_splits)
    qed
  qed
  moreover have "stamps (s\<lparr>rl_now := t\<rparr>) ip = stamps s ip" for ip by (simp add: stamps_def)
  ultimately show ?thesis using assms inv by (fastforce simp: agrees_def)
qed

text \<open>What one run of the script makes of a live key.\<close>

lemma rate_limit_key_inj [simp]: "rate_limit_key a = rate_limit_key b \<longleftrightarrow> a = b"
  by (simp add: rate_limit_key_def)

lemma zset_live_store:
  "zset_live (zset_store key es x s) k =
     (if k = key then (if es = [] \<or> (\<exists>t. x = Some t \<and> t \<le> zs_now s) then ([], None) else (es, x)) else zset_live s k)"
  by (auto simp: zset_live_def zset_store_def split: option.split)

lemma zset_uuids_live [simp]: "zset_live (z\<lparr>zs_uuids := n\<rparr>) = zset_live z"
  by (rule ext) (simp add: zset_live_def split: option.split)

lemma whole_second_window:
  assumes "0 < W" shows "Milliseconds (W * 1000000000) = W * 1000" "whole_seconds (W * 1000000000) = W"
proof -
  have "W * 1000000000 div 1000000 = W * 1000" by simp
  with assms show "Milliseconds (W * 1000000000) = W * 1000" "whole_seconds (W * 1000000000) = W"
    by (simp_all add: Milliseconds_def whole_seconds_def trunc_div_def sgn_if abs_mult)
qed

lemma zset_acquire_run:
  assumes ag: "agrees uuid w s z" and inj: "inj uuid" and W: "0 < W" "rl_windowSize m = W * 1000000000" "w = W * 1000"
    and live: "zset_live z (rate_limit_key a) = (es0, x)"
    and es: "es = filter (\<lambda>e. rl_now s - w < snd e) es0"
  shows "run_state (zset_acquire uuid m a) z =
    (let z1 = z\<lparr>zs_uuids := Suc (zs_uuids z)\<rparr> in
     if length es < rl_limit m
     then (Inr True, zset_store (rate_limit_key a) (es @ [(uuid (zs_uuids z), rl_now s)]) (Some (rl_now s + w)) z1)
     else (Inr False, zset_store (rate_limit_key a) es x z1))"
proof -
  have now: "zs_now z = rl_now s" using ag by (simp add: agrees_def)
  have mem: "0 \<le> t \<and> k \<in> uuid ` {..<zs_uuids z}" if "(k, t) \<in> set es0" for k t
    using that ag zset_live_subset [OF live] by (fastforce simp: agrees_def)
  have eq: "filter (\<lambda>(_, score). \<not> (0 \<le> score \<and> score \<le> rl_now s - w)) es0 = es"
    unfolding es by (rule filter_cong) (auto simp: not_le dest!: mem)
  have "uuid (zs_uuids z) \<notin> fst ` set es"
    using mem inj unfolding es by (fastforce dest: injD)
  then have put: "map_put (uuid (zs_uuids z)) (rl_now s) es = es @ [(uuid (zs_uuids z), rl_now s)]"
    by (rule map_put_fresh)
  have ms: "Milliseconds (rl_windowSize m) = w" "whole_seconds (rl_windowSize m) * 1000 = w" "\<not> whole_seconds (rl_windowSize m) \<le> 0"
    using W(1) by (simp_all add: W whole_second_window [OF W(1)] not_le)
  show ?thesis
    by (simp add: zset_acquire_def Redis_Acquire_def limiter_script_def now live ms eq [simplified] put Let_def)
qed

lemma agrees_store:
  assumes ag: "agrees uuid w s z"
    and s': "s' = s\<lparr>rl_keys := (rl_keys s)(ip_key a \<mapsto> map snd es)\<rparr>" "limiter_invar s'"
    and z': "z' = zset_store (rate_limit_key a) es x (z\<lparr>zs_uuids := Suc (zs_uuids z)\<rparr>)"
    and es: "\<And>k t. (k, t) \<in> set es \<Longrightarrow>
      0 \<le> t \<and> t \<le> rl_now s \<and> k \<in> uuid ` {..<Suc (zs_uuids z)} \<and> (\<forall>e. x = Some e \<longrightarrow> t + w \<le> e)"
    and x: "\<And>e. x = Some e \<Longrightarrow> rl_now s < e"
  shows "agrees uuid w s' z'"
proof -
  have now: "zs_now z = rl_now s" "zs_now z' = rl_now s" "rl_now s' = rl_now s" "zs_uuids z' = Suc (zs_uuids z)"
    using ag by (simp_all add: agrees_def s' z' zset_store_def)
  have "same_window w (zset_live z' (rate_limit_key ip)) (rl_now s) (stamps s' ip)" for ip
    using ag x by (auto simp: agrees_def same_window_def s' z' zset_live_store stamps_put)
  moreover have "0 \<le> t \<and> t \<le> rl_now s \<and> k \<in> uuid ` {..<Suc (zs_uuids z)} \<and> (\<forall>e. y = Some e \<longrightarrow> t + w \<le> e)"
    if "zs_sets z' key = Some (es', y)" "(k, t) \<in> set es'" for key es' y k t
  proof (cases "key = rate_limit_key a")
    case True
    with that es show ?thesis by (auto simp: z' zset_store_def split: if_splits)
  next
    case False
    with that have "zs_sets z key = Some (es', y)" by (simp add: z' zset_store_def split: if_splits)
    with ag that(2) now show ?thesis by (fastforce simp: agrees_def)
  qed
  ultimately show ?thesis using s'(2) unfolding agrees_def now by blast
qed

lemma agrees_acquire:
  assumes ag: "agrees uuid w s z" and inj: "inj uuid" and W: "0 < W" "rl_windowSize m = W * 1000000000" "w = W * 1000"
    and now: "0 \<le> rl_now s"
    and redis: "run_state (zset_acquire uuid m a) z = (r, z')"
    and mem: "run_state (Memory_Acquire \<lparr>rl_limit = rl_limit m, rl_windowSize = w\<rparr> a) s = (r', s')"
  shows "r = r' \<and> agrees uuid w s' z' \<and> rl_now s' = rl_now s"
proof -
  obtain es0 x where live: "zset_live z (rate_limit_key a) = (es0, x)" by fastforce
  let ?es = "filter (\<lambda>e. rl_now s - w < snd e) es0"
  let ?c = "filter (\<lambda>t. rl_now s - w < t) (stamps s a)"
  have c: "?c = map snd ?es"
    using ag live by (auto simp: agrees_def same_window_def filter_map comp_def dest: spec [of _ a])
  have inv: "limiter_invar s" using ag by (simp add: agrees_def)
  have entries: "0 \<le> t \<and> t \<le> rl_now s \<and> k \<in> uuid ` {..<zs_uuids z} \<and> (\<forall>e. y = Some e \<longrightarrow> t + w \<le> e)"
    if "zs_sets z key = Some (es, y)" "(k, t) \<in> set es" for key es y k t
    using ag that by (fastforce simp: agrees_def)
  have old: "0 \<le> t \<and> t \<le> rl_now s \<and> k \<in> uuid ` {..<zs_uuids z} \<and> (\<forall>e. x = Some e \<longrightarrow> t + w \<le> e)" if "(k, t) \<in> set es0" for k t
    using zset_live_subset [OF live] entries that by fastforce
  note runs = zset_acquire_run [OF ag inj W live refl] stamps_after_acquire [OF inv]
  have inv': "limiter_invar s'"
    using limiter_config.acquire_keeps_invar [of "\<lparr>rl_limit = rl_limit m, rl_windowSize = w\<rparr>" s a] W(1,3) inv mem
    by (simp add: limiter_config_def)
  have x: "rl_now s < e" if "x = Some e" for e
    using live that ag by (auto simp: zset_live_def agrees_def split: option.splits if_splits)
  show ?thesis
  proof (cases "length ?es < rl_limit m")
    case True
    then have r: "r = Inr True" "r' = Inr True"
      and z': "z' = zset_store (rate_limit_key a) (?es @ [(uuid (zs_uuids z), rl_now s)]) (Some (rl_now s + w)) (z\<lparr>zs_uuids := Suc (zs_uuids z)\<rparr>)"
      and s': "s' = s\<lparr>rl_keys := (rl_keys s)(ip_key a \<mapsto> map snd (?es @ [(uuid (zs_uuids z), rl_now s)]))\<rparr>"
      using redis mem by (simp_all add: runs c Let_def)
    have "agrees uuid w s' z'"
      by (rule agrees_store [OF ag s' inv' z']) (use old now W(1,3) in force)+
    with r s' show ?thesis by simp
  next
    case False
    then have r: "r = Inr False" "r' = Inr False"
      and z': "z' = zset_store (rate_limit_key a) ?es x (z\<lparr>zs_uuids := Suc (zs_uuids z)\<rparr>)"
      and s': "s' = s\<lparr>rl_keys := (rl_keys s)(ip_key a \<mapsto> map snd ?es)\<rparr>"
      using redis mem by (simp_all add: runs c Let_def)
    have "agrees uuid w s' z'"
      by (rule agrees_store [OF ag s' inv' z']) (use old x in force)+
    with r s' show ?thesis by simp
  qed
qed

lemma granted_agree:
  assumes "agrees uuid w s z" "inj uuid" "0 < W" "rl_windowSize m = W * 1000000000" "w = W * 1000" "0 \<le> rl_now s"
    and "sorted (map snd reqs)" "\<forall>q \<in> set reqs. rl_now s \<le> snd q"
  shows "redis_granted uuid m ip reqs z = granted \<lparr>rl_limit = rl_limit m, rl_windowSize = w\<rparr> ip reqs s"
  using assms(1,6-)
proof (induction reqs arbitrary: s z)
  case (Cons q reqs)
  obtain a t where q: "q = (a, t)" by (cases q)
  let ?m = "\<lparr>rl_limit = rl_limit m, rl_windowSize = w\<rparr>"
  have t: "rl_now s \<le> t" using Cons.prems q by simp
  obtain r z' where redis: "run_state (zset_acquire uuid m a) (z\<lparr>zs_now := t\<rparr>) = (r, z')" by fastforce
  obtain r' s' where mem: "run_state (Memory_Acquire ?m a) (s\<lparr>rl_now := t\<rparr>) = (r', s')" by fastforce
  have "r = r' \<and> agrees uuid w s' z' \<and> rl_now s' = rl_now (s\<lparr>rl_now := t\<rparr>)"
    by (rule agrees_acquire [OF agrees_later [OF Cons.prems(1) t] assms(2-5) _ redis mem]) (use Cons.prems(2) t in simp)
  with Cons.IH [of s' z'] Cons.prems q redis mem t show ?case
    by (auto simp: NewMemoryRateLimiter_def)
qed simp



text \<open>
  With a window below one second the Redis limiter grants every request: the expiry it sets
  is 0 seconds, which deletes the key.
\<close>

theorem subsecond_window_never_limits:
  assumes "0 < rl_windowSize m" "rl_windowSize m < 1000000000" "0 < rl_limit m"
    and "zs_sets z = Map.empty"
  shows "redis_granted uuid m ip reqs z = map snd (filter (\<lambda>q. fst q = ip) reqs)"
  using assms(4)
proof (induction reqs arbitrary: z)
  case (Cons q reqs)
  obtain a t where q: "q = (a, t)" by (cases q)
  have secs: "whole_seconds (rl_windowSize m) = 0" using assms(1,2) by (simp add: whole_seconds_def trunc_div_def)
  obtain r z' where run: "run_state (zset_acquire uuid m a) (z\<lparr>zs_now := t\<rparr>) = (r, z')" by fastforce
  then have "r = Inr True" "zs_sets z' = Map.empty"
    using Cons.prems assms(3)
    by (auto simp: zset_acquire_def Redis_Acquire_def limiter_script_def call_def secs zset_live_def zset_store_def Let_def)
  with Cons.IH [of z'] run q show ?case by simp
qed simp

lemma subsecond_window_never_limits_witness:
  "redis_granted (\<lambda>n. []) \<lparr>rl_limit = 1, rl_windowSize = 500000000\<rparr> ''a'' [(''a'', 1), (''a'', 2), (''a'', 3)]
     \<lparr>zs_sets = Map.empty, zs_now = 0, zs_uuids = 0\<rparr> = [1, 2, 3]"
  by (subst subsecond_window_never_limits) simp_all

end
