(* ===== verification/SharedPorts.thy ===== *)
theory SharedPorts
  imports Ports
begin

text \<open>
  Requests that run at the same time. A port call is one step; before it, other requests may have
  made any number of calls of their own. \<open>interfere\<close> puts the effect of the others before a call: the
  schedule is a list of what they do before the first call, before the second, and so on. A record
  of port operations is brought to the shared state operation by operation.
\<close>

named_theorems through \<open>calls that keep an invariant of the service\<close>

type_synonym 'w shared = "'w \<times> ('w \<Rightarrow> 'w) list"

fun others_first :: "'w shared \<Rightarrow> 'w shared" where
  "others_first (w, []) = (w, [])"
| "others_first (w, e # es) = (e w, es)"

definition interfere :: "('w, 'a) prog \<Rightarrow> ('w shared, 'a) prog" where
  "interfere m = State (\<lambda>s. case others_first s of (w, es) \<Rightarrow> (case run_state m w of (a, w') \<Rightarrow> (a, (w', es))))"

lemma wp_interfere:
  "wp (interfere m) Q (w, []) = wp m (\<lambda>a w'. Q a (w', [])) w"
  "wp (interfere m) Q (w, e # es) = wp m (\<lambda>a w'. Q a (w', es)) (e w)"
  by (simp_all add: interfere_def wp_def split: prod.split)

text \<open>A predicate that the steps of the others keep, on the shared state.\<close>

definition shared_inv :: "('w \<Rightarrow> bool) \<Rightarrow> 'w shared \<Rightarrow> bool" where
  "shared_inv J s \<longleftrightarrow> J (fst s) \<and> (\<forall>e \<in> set (snd s). \<forall>w. J w \<longrightarrow> J (e w))"

lemma keeps_interfere: "keeps J m \<Longrightarrow> keeps (shared_inv J) (interfere m)"
proof (rule keepsI)
  fix s :: "'a shared" assume J: "keeps J m" "shared_inv J s"
  obtain w es where s: "s = (w, es)" by (cases s)
  then show "wp (interfere m) (\<lambda>_. shared_inv J) s"
  proof (cases es)
    case Nil
    with s J(2) have "wp m (\<lambda>_. J) w" by (intro keepsD [OF J(1)]) (simp add: shared_inv_def)
    with s Nil show ?thesis by (simp add: wp_interfere shared_inv_def)
  next
    case (Cons e es')
    with s J(2) have "wp m (\<lambda>_. J) (e w)" by (intro keepsD [OF J(1)]) (simp add: shared_inv_def)
    with s Cons J(2) show ?thesis by (auto simp: wp_interfere shared_inv_def elim: wp_mono)
  qed
qed

section \<open>The ports on the shared state\<close>

definition shared_hasher :: "'w Hasher \<Rightarrow> ('w shared) Hasher" where
  "shared_hasher R = \<lparr>H_Hash = (\<lambda>p. interfere (H_Hash R p)), H_Compare = H_Compare R\<rparr>"

definition shared_user_repo :: "'w UserRepository \<Rightarrow> ('w shared) UserRepository" where
  "shared_user_repo R =
     \<lparr>UR_Create = (\<lambda>u. interfere (UR_Create R u)), UR_Update = (\<lambda>u. interfere (UR_Update R u)),
     UR_Delete = (\<lambda>u. interfere (UR_Delete R u)), UR_GetByID = (\<lambda>i. interfere (UR_GetByID R i)),
     UR_GetByUID = (\<lambda>v. interfere (UR_GetByUID R v)), UR_GetByUsername = (\<lambda>v. interfere (UR_GetByUsername R v)),
     UR_GetByEmail = (\<lambda>v. interfere (UR_GetByEmail R v)), UR_List = (\<lambda>p f. interfere (UR_List R p f))\<rparr>"

definition shared_device_repo :: "'w DeviceRepository \<Rightarrow> ('w shared) DeviceRepository" where
  "shared_device_repo R =
     \<lparr>DR_Create = (\<lambda>d. interfere (DR_Create R d)), DR_Update = (\<lambda>d. interfere (DR_Update R d)),
     DR_Delete = (\<lambda>d. interfere (DR_Delete R d)), DR_GetByID = (\<lambda>i. interfere (DR_GetByID R i)),
     DR_GetByUID = (\<lambda>v. interfere (DR_GetByUID R v)),
     DR_GetByFingerprint = (\<lambda>v. interfere (DR_GetByFingerprint R v)),
     DR_List = (\<lambda>p f. interfere (DR_List R p f)),
     DR_ListByUserID = (\<lambda>i p f. interfere (DR_ListByUserID R i p f))\<rparr>"

definition shared_user_device_repo :: "'w UserDeviceRepository \<Rightarrow> ('w shared) UserDeviceRepository" where
  "shared_user_device_repo R =
     \<lparr>UDR_Create = (\<lambda>d. interfere (UDR_Create R d)), UDR_Update = (\<lambda>d. interfere (UDR_Update R d)),
     UDR_UpdateSessionID = (\<lambda>i j v. interfere (UDR_UpdateSessionID R i j v)),
     UDR_Delete = (\<lambda>d. interfere (UDR_Delete R d)),
     UDR_GetByUserIDAndDeviceID = (\<lambda>i j. interfere (UDR_GetByUserIDAndDeviceID R i j)),
     UDR_List = (\<lambda>p f. interfere (UDR_List R p f)), UDR_Revoke = (\<lambda>i j. interfere (UDR_Revoke R i j))\<rparr>"

definition shared_pin_repo :: "'w UserPinRepository \<Rightarrow> ('w shared) UserPinRepository" where
  "shared_pin_repo R =
     \<lparr>PR_Create = (\<lambda>x. interfere (PR_Create R x)), PR_Update = (\<lambda>x. interfere (PR_Update R x)),
     PR_Delete = (\<lambda>x. interfere (PR_Delete R x)), PR_GetByUserID = (\<lambda>i. interfere (PR_GetByUserID R i))\<rparr>"

definition shared_profile_repo :: "'w UserProfileRepository \<Rightarrow> ('w shared) UserProfileRepository" where
  "shared_profile_repo R =
     \<lparr>PFR_Create = (\<lambda>x. interfere (PFR_Create R x)), PFR_Update = (\<lambda>x. interfere (PFR_Update R x)),
     PFR_Delete = (\<lambda>x. interfere (PFR_Delete R x)),
     PFR_GetByUserID = (\<lambda>i. interfere (PFR_GetByUserID R i))\<rparr>"

definition shared_file_repo :: "'w UserFileRepository \<Rightarrow> ('w shared) UserFileRepository" where
  "shared_file_repo R =
     \<lparr>FR_Create = (\<lambda>x. interfere (FR_Create R x)), FR_Update = (\<lambda>x. interfere (FR_Update R x)),
     FR_Delete = (\<lambda>x. interfere (FR_Delete R x)), FR_GetByID = (\<lambda>i. interfere (FR_GetByID R i)),
     FR_GetByUID = (\<lambda>v. interfere (FR_GetByUID R v)), FR_List = (\<lambda>p f. interfere (FR_List R p f))\<rparr>"

definition shared_token_gen :: "'w TokenGenerator \<Rightarrow> ('w shared) TokenGenerator" where
  "shared_token_gen R =
     \<lparr>TG_GenerateToken = (\<lambda>c. interfere (TG_GenerateToken R c)),
     TG_ValidateToken = (\<lambda>t. interfere (TG_ValidateToken R t))\<rparr>"

definition shared_store :: "'w TokenStore \<Rightarrow> ('w shared) TokenStore" where
  "shared_store R =
     \<lparr>TS_Add = (\<lambda>u t. interfere (TS_Add R u t)), TS_Remove = (\<lambda>u t. interfere (TS_Remove R u t)),
     TS_RemoveAll = (\<lambda>u. interfere (TS_RemoveAll R u)),
     TS_IsAllowed = (\<lambda>u t. interfere (TS_IsAllowed R u t))\<rparr>"

definition shared_uid_gen :: "'w UIDGenerator \<Rightarrow> ('w shared) UIDGenerator" where
  "shared_uid_gen R =
     \<lparr>UG_New = interfere (UG_New R)\<rparr>"

definition shared_tracker :: "'w AttemptTracker \<Rightarrow> ('w shared) AttemptTracker" where
  "shared_tracker R =
     \<lparr>AT_Track = (\<lambda>u. interfere (AT_Track R u)), AT_IsLocked = (\<lambda>u. interfere (AT_IsLocked R u)),
     AT_Reset = (\<lambda>u. interfere (AT_Reset R u))\<rparr>"

definition shared_limiter :: "'w RateLimiter \<Rightarrow> ('w shared) RateLimiter" where
  "shared_limiter R =
     \<lparr>RL_Acquire = (\<lambda>ip. interfere (RL_Acquire R ip)),
     RL_Reset = (\<lambda>ip. interfere (RL_Reset R ip))\<rparr>"

definition shared_publisher :: "'w EventPublisher \<Rightarrow> ('w shared) EventPublisher" where
  "shared_publisher R =
     \<lparr>EP_Publish = (\<lambda>m. interfere (EP_Publish R m))\<rparr>"

definition shared_resolver :: "'w UserResolver \<Rightarrow> ('w shared) UserResolver" where
  "shared_resolver R =
     \<lparr>RS_IDsByUIDs = (\<lambda>vs. interfere (RS_IDsByUIDs R vs)),
     RS_UIDsByIDs = (\<lambda>js. interfere (RS_UIDsByIDs R js)),
     RS_Invalidate = (\<lambda>opts. interfere (RS_Invalidate R opts))\<rparr>"

definition shared_oauth :: "'w OAuthProvider \<Rightarrow> ('w shared) OAuthProvider" where
  "shared_oauth R =
     \<lparr>OP_GetAuthorizationURL = (\<lambda>a b. interfere (OP_GetAuthorizationURL R a b)),
     OP_ExchangeCode = (\<lambda>c a b. interfere (OP_ExchangeCode R c a b)),
     OP_GetUserInfo = (\<lambda>t. interfere (OP_GetUserInfo R t))\<rparr>"

section \<open>Ports that keep a predicate\<close>

text \<open>
  Every operation of the port that a service calls keeps \<open>J\<close>.
\<close>

definition hasher_keeps :: "('s \<Rightarrow> bool) \<Rightarrow> 's Hasher \<Rightarrow> bool" where
  "hasher_keeps J R \<longleftrightarrow> (\<forall>p. keeps J (H_Hash R p))"

lemma hasher_keepsD [through]: "hasher_keeps J R \<Longrightarrow> keeps J (H_Hash R p)"
  by (simp add: hasher_keeps_def)

definition user_repo_keeps :: "('s \<Rightarrow> bool) \<Rightarrow> 's UserRepository \<Rightarrow> bool" where
  "user_repo_keeps J R \<longleftrightarrow>
     (\<forall>u. keeps J (UR_Create R u)) \<and> (\<forall>u. keeps J (UR_Update R u)) \<and>
     (\<forall>u. keeps J (UR_Delete R u)) \<and> (\<forall>i. keeps J (UR_GetByID R i)) \<and>
     (\<forall>v. keeps J (UR_GetByUID R v)) \<and> (\<forall>v. keeps J (UR_GetByUsername R v)) \<and>
     (\<forall>v. keeps J (UR_GetByEmail R v)) \<and> (\<forall>p f. keeps J (UR_List R p f))"

lemma user_repo_keepsD [through]:
  assumes "user_repo_keeps J R"
  shows
    "keeps J (UR_Create R u)" "keeps J (UR_Update R u)" "keeps J (UR_Delete R u)" "keeps J (UR_GetByID R i)"
    "keeps J (UR_GetByUID R v)" "keeps J (UR_GetByUsername R v)" "keeps J (UR_GetByEmail R v)" "keeps J (UR_List R p f)"
  using assms by (simp_all add: user_repo_keeps_def)

definition device_repo_keeps :: "('s \<Rightarrow> bool) \<Rightarrow> 's DeviceRepository \<Rightarrow> bool" where
  "device_repo_keeps J R \<longleftrightarrow>
     (\<forall>d. keeps J (DR_Create R d)) \<and> (\<forall>d. keeps J (DR_Update R d)) \<and>
     (\<forall>d. keeps J (DR_Delete R d)) \<and> (\<forall>i. keeps J (DR_GetByID R i)) \<and>
     (\<forall>v. keeps J (DR_GetByUID R v)) \<and> (\<forall>v. keeps J (DR_GetByFingerprint R v)) \<and>
     (\<forall>p f. keeps J (DR_List R p f)) \<and> (\<forall>i p f. keeps J (DR_ListByUserID R i p f))"

lemma device_repo_keepsD [through]:
  assumes "device_repo_keeps J R"
  shows
    "keeps J (DR_Create R d)" "keeps J (DR_Update R d)" "keeps J (DR_Delete R d)" "keeps J (DR_GetByID R i)"
    "keeps J (DR_GetByUID R v)" "keeps J (DR_GetByFingerprint R v)" "keeps J (DR_List R p f)"
    "keeps J (DR_ListByUserID R i p f)"
  using assms by (simp_all add: device_repo_keeps_def)

definition user_device_repo_keeps :: "('s \<Rightarrow> bool) \<Rightarrow> 's UserDeviceRepository \<Rightarrow> bool" where
  "user_device_repo_keeps J R \<longleftrightarrow>
     (\<forall>d. keeps J (UDR_Create R d)) \<and> (\<forall>d. keeps J (UDR_Update R d)) \<and>
     (\<forall>i j v. keeps J (UDR_UpdateSessionID R i j v)) \<and> (\<forall>d. keeps J (UDR_Delete R d)) \<and>
     (\<forall>i j. keeps J (UDR_GetByUserIDAndDeviceID R i j)) \<and> (\<forall>p f. keeps J (UDR_List R p f)) \<and>
     (\<forall>i j. keeps J (UDR_Revoke R i j))"

lemma user_device_repo_keepsD [through]:
  assumes "user_device_repo_keeps J R"
  shows
    "keeps J (UDR_Create R d)" "keeps J (UDR_Update R d)" "keeps J (UDR_UpdateSessionID R i j v)" "keeps J (UDR_Delete R d)"
    "keeps J (UDR_GetByUserIDAndDeviceID R i j)" "keeps J (UDR_List R p f)" "keeps J (UDR_Revoke R i j)"
  using assms by (simp_all add: user_device_repo_keeps_def)

definition pin_repo_keeps :: "('s \<Rightarrow> bool) \<Rightarrow> 's UserPinRepository \<Rightarrow> bool" where
  "pin_repo_keeps J R \<longleftrightarrow>
     (\<forall>x. keeps J (PR_Create R x)) \<and> (\<forall>x. keeps J (PR_Update R x)) \<and>
     (\<forall>x. keeps J (PR_Delete R x)) \<and> (\<forall>i. keeps J (PR_GetByUserID R i))"

lemma pin_repo_keepsD [through]:
  assumes "pin_repo_keeps J R"
  shows
    "keeps J (PR_Create R x)" "keeps J (PR_Update R x)" "keeps J (PR_Delete R x)" "keeps J (PR_GetByUserID R i)"
  using assms by (simp_all add: pin_repo_keeps_def)

definition profile_repo_keeps :: "('s \<Rightarrow> bool) \<Rightarrow> 's UserProfileRepository \<Rightarrow> bool" where
  "profile_repo_keeps J R \<longleftrightarrow>
     (\<forall>x. keeps J (PFR_Create R x)) \<and> (\<forall>x. keeps J (PFR_Update R x)) \<and>
     (\<forall>x. keeps J (PFR_Delete R x)) \<and> (\<forall>i. keeps J (PFR_GetByUserID R i))"

lemma profile_repo_keepsD [through]:
  assumes "profile_repo_keeps J R"
  shows
    "keeps J (PFR_Create R x)" "keeps J (PFR_Update R x)" "keeps J (PFR_Delete R x)" "keeps J (PFR_GetByUserID R i)"
  using assms by (simp_all add: profile_repo_keeps_def)

definition file_repo_keeps :: "('s \<Rightarrow> bool) \<Rightarrow> 's UserFileRepository \<Rightarrow> bool" where
  "file_repo_keeps J R \<longleftrightarrow>
     (\<forall>x. keeps J (FR_Create R x)) \<and> (\<forall>x. keeps J (FR_Update R x)) \<and>
     (\<forall>x. keeps J (FR_Delete R x)) \<and> (\<forall>i. keeps J (FR_GetByID R i)) \<and>
     (\<forall>v. keeps J (FR_GetByUID R v)) \<and> (\<forall>p f. keeps J (FR_List R p f))"

lemma file_repo_keepsD [through]:
  assumes "file_repo_keeps J R"
  shows
    "keeps J (FR_Create R x)" "keeps J (FR_Update R x)" "keeps J (FR_Delete R x)" "keeps J (FR_GetByID R i)"
    "keeps J (FR_GetByUID R v)" "keeps J (FR_List R p f)"
  using assms by (simp_all add: file_repo_keeps_def)

definition token_gen_keeps :: "('s \<Rightarrow> bool) \<Rightarrow> 's TokenGenerator \<Rightarrow> bool" where
  "token_gen_keeps J R \<longleftrightarrow>
     (\<forall>c. keeps J (TG_GenerateToken R c)) \<and> (\<forall>t. keeps J (TG_ValidateToken R t))"

lemma token_gen_keepsD [through]:
  assumes "token_gen_keeps J R"
  shows
    "keeps J (TG_GenerateToken R c)" "keeps J (TG_ValidateToken R t)"
  using assms by (simp_all add: token_gen_keeps_def)

definition store_keeps :: "('s \<Rightarrow> bool) \<Rightarrow> 's TokenStore \<Rightarrow> bool" where
  "store_keeps J R \<longleftrightarrow>
     (\<forall>u t. keeps J (TS_Add R u t)) \<and> (\<forall>u t. keeps J (TS_IsAllowed R u t))"

lemma store_keepsD [through]:
  assumes "store_keeps J R"
  shows
    "keeps J (TS_Add R u t)" "keeps J (TS_IsAllowed R u t)"
  using assms by (simp_all add: store_keeps_def)

definition uid_gen_keeps :: "('s \<Rightarrow> bool) \<Rightarrow> 's UIDGenerator \<Rightarrow> bool" where
  "uid_gen_keeps J R \<longleftrightarrow>
     keeps J (UG_New R)"

lemma uid_gen_keepsD [through]:
  assumes "uid_gen_keeps J R"
  shows
    "keeps J (UG_New R)"
  using assms by (simp_all add: uid_gen_keeps_def)

definition tracker_keeps :: "('s \<Rightarrow> bool) \<Rightarrow> 's AttemptTracker \<Rightarrow> bool" where
  "tracker_keeps J R \<longleftrightarrow>
     (\<forall>u. keeps J (AT_Track R u)) \<and> (\<forall>u. keeps J (AT_IsLocked R u)) \<and>
     (\<forall>u. keeps J (AT_Reset R u))"

lemma tracker_keepsD [through]:
  assumes "tracker_keeps J R"
  shows
    "keeps J (AT_Track R u)" "keeps J (AT_IsLocked R u)" "keeps J (AT_Reset R u)"
  using assms by (simp_all add: tracker_keeps_def)

definition limiter_keeps :: "('s \<Rightarrow> bool) \<Rightarrow> 's RateLimiter \<Rightarrow> bool" where
  "limiter_keeps J R \<longleftrightarrow>
     (\<forall>ip. keeps J (RL_Acquire R ip))"

lemma limiter_keepsD [through]:
  assumes "limiter_keeps J R"
  shows
    "keeps J (RL_Acquire R ip)"
  using assms by (simp_all add: limiter_keeps_def)

definition publisher_keeps :: "('s \<Rightarrow> bool) \<Rightarrow> 's EventPublisher \<Rightarrow> bool" where
  "publisher_keeps J R \<longleftrightarrow>
     (\<forall>m. keeps J (EP_Publish R m))"

lemma publisher_keepsD [through]:
  assumes "publisher_keeps J R"
  shows
    "keeps J (EP_Publish R m)"
  using assms by (simp_all add: publisher_keeps_def)

definition resolver_keeps :: "('s \<Rightarrow> bool) \<Rightarrow> 's UserResolver \<Rightarrow> bool" where
  "resolver_keeps J R \<longleftrightarrow>
     (\<forall>vs. keeps J (RS_IDsByUIDs R vs)) \<and> (\<forall>js. keeps J (RS_UIDsByIDs R js)) \<and>
     (\<forall>opts. keeps J (RS_Invalidate R opts))"

lemma resolver_keepsD [through]:
  assumes "resolver_keeps J R"
  shows
    "keeps J (RS_IDsByUIDs R vs)" "keeps J (RS_UIDsByIDs R js)" "keeps J (RS_Invalidate R opts)"
  using assms by (simp_all add: resolver_keeps_def)

definition oauth_keeps :: "('s \<Rightarrow> bool) \<Rightarrow> 's OAuthProvider \<Rightarrow> bool" where
  "oauth_keeps J R \<longleftrightarrow>
     (\<forall>a b. keeps J (OP_GetAuthorizationURL R a b)) \<and> (\<forall>c a b. keeps J (OP_ExchangeCode R c a b)) \<and>
     (\<forall>t. keeps J (OP_GetUserInfo R t))"

lemma oauth_keepsD [through]:
  assumes "oauth_keeps J R"
  shows
    "keeps J (OP_GetAuthorizationURL R a b)" "keeps J (OP_ExchangeCode R c a b)" "keeps J (OP_GetUserInfo R t)"
  using assms by (simp_all add: oauth_keeps_def)

text \<open>Interference keeps what the ports and the others keep.\<close>

lemma shared_keeps:
  "user_repo_keeps J R0 \<Longrightarrow> user_repo_keeps (shared_inv J) (shared_user_repo R0)"
  "device_repo_keeps J R1 \<Longrightarrow> device_repo_keeps (shared_inv J) (shared_device_repo R1)"
  "user_device_repo_keeps J R2 \<Longrightarrow> user_device_repo_keeps (shared_inv J) (shared_user_device_repo R2)"
  "pin_repo_keeps J R3 \<Longrightarrow> pin_repo_keeps (shared_inv J) (shared_pin_repo R3)"
  "profile_repo_keeps J R4 \<Longrightarrow> profile_repo_keeps (shared_inv J) (shared_profile_repo R4)"
  "file_repo_keeps J R5 \<Longrightarrow> file_repo_keeps (shared_inv J) (shared_file_repo R5)"
  "token_gen_keeps J R6 \<Longrightarrow> token_gen_keeps (shared_inv J) (shared_token_gen R6)"
  "store_keeps J R7 \<Longrightarrow> store_keeps (shared_inv J) (shared_store R7)"
  "uid_gen_keeps J R8 \<Longrightarrow> uid_gen_keeps (shared_inv J) (shared_uid_gen R8)"
  "tracker_keeps J R9 \<Longrightarrow> tracker_keeps (shared_inv J) (shared_tracker R9)"
  "limiter_keeps J R10 \<Longrightarrow> limiter_keeps (shared_inv J) (shared_limiter R10)"
  "publisher_keeps J R11 \<Longrightarrow> publisher_keeps (shared_inv J) (shared_publisher R11)"
  "resolver_keeps J R12 \<Longrightarrow> resolver_keeps (shared_inv J) (shared_resolver R12)"
  "oauth_keeps J R13 \<Longrightarrow> oauth_keeps (shared_inv J) (shared_oauth R13)"
  "hasher_keeps J R14 \<Longrightarrow> hasher_keeps (shared_inv J) (shared_hasher R14)"
  by (simp_all add: user_repo_keeps_def shared_user_repo_def
      device_repo_keeps_def shared_device_repo_def
      user_device_repo_keeps_def shared_user_device_repo_def
      pin_repo_keeps_def shared_pin_repo_def
      profile_repo_keeps_def shared_profile_repo_def
      file_repo_keeps_def shared_file_repo_def
      token_gen_keeps_def shared_token_gen_def
      store_keeps_def shared_store_def
      uid_gen_keeps_def shared_uid_gen_def
      tracker_keeps_def shared_tracker_def
      limiter_keeps_def shared_limiter_def
      publisher_keeps_def shared_publisher_def
      resolver_keeps_def shared_resolver_def
      oauth_keeps_def shared_oauth_def
      hasher_keeps_def shared_hasher_def
      keeps_interfere)

end
