(* ===== verification/Interleaving.thy ===== *)
theory Interleaving
  imports World SharedPorts
begin

text \<open>
  The four services as one bundle, the requests they serve, and what happens when requests overlap:
  the states that port calls of any number of requests reach in any order (\<open>port_steps\<close>), and the
  requests themselves with the others in between (\<open>shared_services\<close>). A request that overlaps with
  others makes nothing but port steps, which is what the invariants of the service rest on.
\<close>

section \<open>The services and their requests\<close>

record 's services =
  sv_auth :: "'s authService"
  sv_users :: "'s userService"
  sv_devices :: "'s deviceService"
  sv_files :: "'s userFileService"

definition the_services :: "('r, 'e, 'x) deployment \<Rightarrow> ('r, 'e, 'x) world services" where
  "the_services su = \<lparr>sv_auth = the_auth su, sv_users = the_users su, sv_devices = the_devices su, sv_files = the_files su\<rparr>"

datatype service_call =
    Call_Authenticate AuthParams | Call_GoogleOAuth string | Call_HandleGoogleOAuth string string string
  | Call_RefreshToken string | Call_ValidateToken string | Call_RevokeToken string string | Call_VerifyPin string string
  | Call_GetUser string | Call_ListUsers "PaginationParam option" "UserListFilterParam option"
  | Call_CreateUser UserCreateParam | Call_UpdateUser string UserUpdateParam | Call_DeleteUser string
  | Call_GetProfile string | Call_UpdateProfile string UserProfileUpdateParam | Call_SetPin string string
  | Call_ListDevice string "PaginationParam option" "UserDeviceListFilterParam option" | Call_RevokeDevice string string
  | Call_ChangePassword string UserChangePasswordParam
  | Call_GetDevice string | Call_ListDevices "PaginationParam option" "DeviceListFilterParam option" | Call_DeleteDevice string
  | Call_GetFile string | Call_ListFiles "PaginationParam option" "UserFileListFilterParam option"
  | Call_AddFile UserFileCreateParam | Call_UpdateFile string UserFileUpdateParam | Call_DeleteFile string

definition no_answer :: "('s, 'a) prog \<Rightarrow> ('s, unit) prog" where
  "no_answer m = do { _ \<leftarrow> m; ret () }"

fun serve_with :: "nat \<Rightarrow> 's services \<Rightarrow> service_call \<Rightarrow> ('s, unit) prog" where
  "serve_with fuel S (Call_Authenticate p) = no_answer (Authenticate (sv_auth S) p)"
| "serve_with fuel S (Call_GoogleOAuth uri) = no_answer (GoogleOAuth (sv_auth S) uri)"
| "serve_with fuel S (Call_HandleGoogleOAuth code st uri) = no_answer (HandleGoogleOAuth fuel (sv_auth S) code st uri)"
| "serve_with fuel S (Call_RefreshToken t) = no_answer (RefreshToken (sv_auth S) t)"
| "serve_with fuel S (Call_ValidateToken t) = no_answer (ValidateToken (sv_auth S) t)"
| "serve_with fuel S (Call_RevokeToken t ty) = no_answer (RevokeToken (sv_auth S) t ty)"
| "serve_with fuel S (Call_VerifyPin uid pin) = no_answer (VerifyPin (sv_auth S) uid pin)"
| "serve_with fuel S (Call_GetUser uid) = no_answer (UserService_Get (sv_users S) uid)"
| "serve_with fuel S (Call_ListUsers p flt) = no_answer (UserService_List (sv_users S) p flt)"
| "serve_with fuel S (Call_CreateUser c) = no_answer (UserService_Create (sv_users S) c)"
| "serve_with fuel S (Call_UpdateUser uid upd) = no_answer (UserService_Update (sv_users S) uid upd)"
| "serve_with fuel S (Call_DeleteUser uid) = no_answer (UserService_Delete (sv_users S) uid)"
| "serve_with fuel S (Call_GetProfile uid) = no_answer (GetProfile (sv_users S) uid)"
| "serve_with fuel S (Call_UpdateProfile uid p) = no_answer (UpdateProfile (sv_users S) uid p)"
| "serve_with fuel S (Call_SetPin uid pin) = no_answer (SetPin (sv_users S) uid pin)"
| "serve_with fuel S (Call_ListDevice uid p flt') = no_answer (ListDevice (sv_users S) uid p flt')"
| "serve_with fuel S (Call_RevokeDevice uid duid) = no_answer (RevokeDevice (sv_users S) uid duid)"
| "serve_with fuel S (Call_ChangePassword uid pw) = no_answer (ChangePassword (sv_users S) uid pw)"
| "serve_with fuel S (Call_GetDevice uid) = no_answer (DeviceService_Get (sv_devices S) uid)"
| "serve_with fuel S (Call_ListDevices p dflt) = no_answer (DeviceService_List (sv_devices S) p dflt)"
| "serve_with fuel S (Call_DeleteDevice uid) = no_answer (DeviceService_Delete (sv_devices S) uid)"
| "serve_with fuel S (Call_GetFile uid) = no_answer (UserFileService_Get (sv_files S) uid)"
| "serve_with fuel S (Call_ListFiles p fflt) = no_answer (UserFileService_List (sv_files S) p fflt)"
| "serve_with fuel S (Call_AddFile c) = no_answer (UserFileService_Add (sv_files S) c)"
| "serve_with fuel S (Call_UpdateFile uid u) = no_answer (UserFileService_Update (sv_files S) uid u)"
| "serve_with fuel S (Call_DeleteFile uid) = no_answer (UserFileService_Delete (sv_files S) uid)"

definition serve :: "nat \<Rightarrow> ('r, 'e, 'x) deployment \<Rightarrow> service_call \<Rightarrow> (('r, 'e, 'x) world, unit) prog" where
  "serve fuel su = serve_with fuel (the_services su)"

section \<open>Port calls\<close>

text \<open>The executor looks whether it has been closed.\<close>

definition is_closed :: "(('r, 'e, 'x) world, bool) prog" where
  "is_closed = State (\<lambda>w. (w_closed w, w))"

inductive port_call :: "('r, 'e, 'x) deployment \<Rightarrow> (('r, 'e, 'x) world, unit) prog \<Rightarrow> bool" for su where
  "port_call su (no_answer (UR_Create (the_userRepo su) u))"
| "port_call su (no_answer (UR_Update (the_userRepo su) u))"
| "port_call su (no_answer (UR_Delete (the_userRepo su) u))"
| "port_call su (no_answer (UR_GetByID (the_userRepo su) i))"
| "port_call su (no_answer (UR_GetByUID (the_userRepo su) v))"
| "port_call su (no_answer (UR_GetByUsername (the_userRepo su) v))"
| "port_call su (no_answer (UR_GetByEmail (the_userRepo su) v))"
| "port_call su (no_answer (UR_List (the_userRepo su) p uf))"
| "port_call su (no_answer (DR_Create (the_deviceRepo su) dv))"
| "port_call su (no_answer (DR_Update (the_deviceRepo su) dv))"
| "port_call su (no_answer (DR_Delete (the_deviceRepo su) dv))"
| "port_call su (no_answer (DR_GetByID (the_deviceRepo su) i))"
| "port_call su (no_answer (DR_GetByUID (the_deviceRepo su) v))"
| "port_call su (no_answer (DR_GetByFingerprint (the_deviceRepo su) v))"
| "port_call su (no_answer (DR_List (the_deviceRepo su) p df))"
| "port_call su (no_answer (DR_ListByUserID (the_deviceRepo su) i p df))"
| "port_call su (no_answer (UDR_Create (the_userDeviceRepo su) ud))"
| "port_call su (no_answer (UDR_Update (the_userDeviceRepo su) ud))"
| "port_call su (no_answer (UDR_UpdateSessionID (the_userDeviceRepo su) i j v))"
| "port_call su (no_answer (UDR_Delete (the_userDeviceRepo su) ud))"
| "port_call su (no_answer (UDR_GetByUserIDAndDeviceID (the_userDeviceRepo su) i j))"
| "port_call su (no_answer (UDR_List (the_userDeviceRepo su) p udf))"
| "port_call su (no_answer (UDR_Revoke (the_userDeviceRepo su) i j))"
| "port_call su (no_answer (PR_Create (the_pinRepo su) pn))"
| "port_call su (no_answer (PR_Update (the_pinRepo su) pn))"
| "port_call su (no_answer (PR_Delete (the_pinRepo su) pn))"
| "port_call su (no_answer (PR_GetByUserID (the_pinRepo su) i))"
| "port_call su (no_answer (PFR_Create (the_profileRepo su) pf))"
| "port_call su (no_answer (PFR_Update (the_profileRepo su) pf))"
| "port_call su (no_answer (PFR_Delete (the_profileRepo su) pf))"
| "port_call su (no_answer (PFR_GetByUserID (the_profileRepo su) i))"
| "port_call su (no_answer (FR_Create (the_userFileRepo su) fl))"
| "port_call su (no_answer (FR_Update (the_userFileRepo su) fl))"
| "port_call su (no_answer (FR_Delete (the_userFileRepo su) fl))"
| "port_call su (no_answer (FR_GetByID (the_userFileRepo su) i))"
| "port_call su (no_answer (FR_GetByUID (the_userFileRepo su) v))"
| "port_call su (no_answer (FR_List (the_userFileRepo su) p ff))"
| "port_call su (no_answer (H_Hash (zoom_hasher h) v))"
| "port_call su (no_answer (TG_GenerateToken (the_tokenGen su) c))"
| "port_call su (no_answer (TG_ValidateToken (the_tokenGen su) v))"
| "port_call su (no_answer (TS_Add (the_whitelist su) u t))"
| "port_call su (no_answer (TS_Remove (the_whitelist su) u t))"
| "port_call su (no_answer (TS_IsAllowed (the_whitelist su) u t))"
| "port_call su (no_answer (TS_Add (the_blacklist su) u t))"
| "port_call su (no_answer (TS_IsAllowed (the_blacklist su) u t))"
| "port_call su (no_answer (UG_New (the_uidGen su)))"
| "port_call su (no_answer (AT_Track (the_attemptTracker su) v))"
| "port_call su (no_answer (AT_IsLocked (the_attemptTracker su) v))"
| "port_call su (no_answer (AT_Reset (the_attemptTracker su) v))"
| "port_call su (no_answer (RL_Acquire (the_rateLimiter su) v))"
| "port_call su (no_answer (EP_Publish (the_eventPublisher su) msg))"
| "port_call su (no_answer (RS_IDsByUIDs (the_userResolver su) vs))"
| "port_call su (no_answer (RS_UIDsByIDs (the_userResolver su) js))"
| "port_call su (no_answer (RS_Invalidate (the_userResolver su) opts))"
| "port_call su (no_answer (OP_GetAuthorizationURL (the_oauth su) a b))"
| "port_call su (no_answer (OP_ExchangeCode (the_oauth su) a b v))"
| "port_call su (no_answer (OP_GetUserInfo (the_oauth su) tk))"
| "port_call su (no_answer (on_outside (su_now su)))"
| "port_call su (no_answer (on_outside (su_randInt su n)))"
| "port_call su (no_answer is_closed)"

text \<open>
  Between two calls everything but the tables may change: time passes, keys of Redis expire, the next
  statements will fail or succeed.
\<close>

definition elapsed :: "('r \<Rightarrow> string \<Rightarrow> string option) \<Rightarrow> ('r, 'e, 'x) world \<Rightarrow> ('r, 'e, 'x) world \<Rightarrow> bool" where
  "elapsed live w w' \<longleftrightarrow> (\<exists>t os. w_db w' = (w_db w)\<lparr>pg_now := t, pg_script := os\<rparr>) \<and>
     live (w_redis w') \<subseteq>\<^sub>m live (w_redis w)"

inductive port_steps ::
  "('r, 'e, 'x) deployment \<Rightarrow> ('r \<Rightarrow> string \<Rightarrow> string option) \<Rightarrow> ('r, 'e, 'x) world \<Rightarrow> ('r, 'e, 'x) world \<Rightarrow> bool"
  for su live w0 where
  start: "port_steps su live w0 w0"
| port: "port_steps su live w0 w \<Longrightarrow> port_call su m \<Longrightarrow> port_steps su live w0 (snd (run_state m w))"
| elapse: "port_steps su live w0 w \<Longrightarrow> elapsed live w w' \<Longrightarrow> port_steps su live w0 w'"

lemma port_steps_trans: "port_steps su live b c \<Longrightarrow> port_steps su live a b \<Longrightarrow> port_steps su live a c"
  by (induction rule: port_steps.induct) (auto intro: port_steps.intros)

section \<open>Requests that overlap\<close>

definition shared_executor :: "(('r, 'e, 'x) world shared) Executor" where
  "shared_executor = \<lparr>EX_DoAsync = (\<lambda>name fn. do {
     closed \<leftarrow> interfere is_closed;
     (if closed then fail ErrExecutorClosed
      else do { _ \<leftarrow> fn; ok () }) })\<rparr>"

definition shared_auth :: "('r, 'e, 'x) deployment \<Rightarrow> (('r, 'e, 'x) world shared) authService" where
  "shared_auth su =
     \<lparr>as_userRepo = shared_user_repo (the_userRepo su), as_deviceRepo = shared_device_repo (the_deviceRepo su),
      as_userDeviceRepo = shared_user_device_repo (the_userDeviceRepo su), as_pinRepo = shared_pin_repo (the_pinRepo su),
      as_passwordHasher = shared_hasher (zoom_hasher (su_passwordHasher su)),
      as_pinHasher = shared_hasher (zoom_hasher (su_pinHasher su)), as_tokenGen = shared_token_gen (the_tokenGen su),
      as_uidGen = shared_uid_gen (the_uidGen su), as_oauthProvider = shared_oauth (the_oauth su),
      as_tokenWhitelist = shared_store (the_whitelist su), as_tokenBlacklist = shared_store (the_blacklist su),
      as_executor = shared_executor, as_eventPublisher = shared_publisher (the_eventPublisher su),
      as_attemptTracker = shared_tracker (the_attemptTracker su), as_rateLimiter = shared_limiter (the_rateLimiter su),
      as_now = interfere (on_outside (su_now su)), as_randInt = (\<lambda>n. interfere (on_outside (su_randInt su n)))\<rparr>"

definition shared_users :: "('r, 'e, 'x) deployment \<Rightarrow> (('r, 'e, 'x) world shared) userService" where
  "shared_users su =
     \<lparr>us_userRepo = shared_user_repo (the_userRepo su), us_profileRepo = shared_profile_repo (the_profileRepo su),
      us_pinRepo = shared_pin_repo (the_pinRepo su), us_deviceRepo = shared_device_repo (the_deviceRepo su),
      us_userDeviceRepo = shared_user_device_repo (the_userDeviceRepo su),
      us_passwordHasher = shared_hasher (zoom_hasher (su_passwordHasher su)),
      us_pinHasher = shared_hasher (zoom_hasher (su_pinHasher su)), us_uidGen = shared_uid_gen (the_uidGen su),
      us_tokenWhitelist = shared_store (the_whitelist su), us_eventPublisher = shared_publisher (the_eventPublisher su),
      us_userResolver = shared_resolver (the_userResolver su)\<rparr>"

definition shared_devices :: "('r, 'e, 'x) deployment \<Rightarrow> (('r, 'e, 'x) world shared) deviceService" where
  "shared_devices su =
     \<lparr>ds_deviceRepo = shared_device_repo (the_deviceRepo su), ds_userDeviceRepo = shared_user_device_repo (the_userDeviceRepo su),
      ds_eventPublisher = shared_publisher (the_eventPublisher su)\<rparr>"

definition shared_files :: "('r, 'e, 'x) deployment \<Rightarrow> (('r, 'e, 'x) world shared) userFileService" where
  "shared_files su =
     \<lparr>fs_userFileRepo = shared_file_repo (the_userFileRepo su), fs_userRepo = shared_user_repo (the_userRepo su),
      fs_userResolver = shared_resolver (the_userResolver su), fs_uidGen = shared_uid_gen (the_uidGen su),
      fs_eventPublisher = shared_publisher (the_eventPublisher su)\<rparr>"

definition shared_services :: "('r, 'e, 'x) deployment \<Rightarrow> (('r, 'e, 'x) world shared) services" where
  "shared_services su = \<lparr>sv_auth = shared_auth su, sv_users = shared_users su, sv_devices = shared_devices su, sv_files = shared_files su\<rparr>"

text \<open>
  The others make port calls and let time pass. \<open>reachable\<close> are the states between the requests when
  each request overlaps with any number of others.
\<close>

definition other_requests :: "('r, 'e, 'x) deployment \<Rightarrow> ('r \<Rightarrow> string \<Rightarrow> string option) \<Rightarrow> (('r, 'e, 'x) world \<Rightarrow> ('r, 'e, 'x) world) \<Rightarrow> bool" where
  "other_requests su live e \<longleftrightarrow> (\<forall>w. port_steps su live w (e w))"

definition overlapped :: "nat \<Rightarrow> ('r, 'e, 'x) deployment \<Rightarrow> service_call \<Rightarrow> (('r, 'e, 'x) world \<Rightarrow> ('r, 'e, 'x) world) list
    \<Rightarrow> ('r, 'e, 'x) world \<Rightarrow> ('r, 'e, 'x) world" where
  "overlapped fuel su c es w = fst (snd (run_state (serve_with fuel (shared_services su) c) (w, es)))"

inductive reachable ::
  "('r, 'e, 'x) deployment \<Rightarrow> ('r \<Rightarrow> string \<Rightarrow> string option) \<Rightarrow> ('r, 'e, 'x) world \<Rightarrow> ('r, 'e, 'x) world \<Rightarrow> bool"
  for su live w0 where
  start: "reachable su live w0 w0"
| serve: "reachable su live w0 w \<Longrightarrow> reachable su live w0 (snd (run_state (serve fuel su c) w))"
| overlap: "reachable su live w0 w \<Longrightarrow> \<forall>e \<in> set es. other_requests su live e \<Longrightarrow>
    reachable su live w0 (overlapped fuel su c es w)"
| elapse: "reachable su live w0 w \<Longrightarrow> elapsed live w w' \<Longrightarrow> reachable su live w0 w'"

section \<open>A request is a sequence of port calls\<close>

text \<open>
  Ports that keep a predicate bring it through every method of the four services, for any
  implementation of the ports.
\<close>

lemma keeps_random_password:
  assumes "\<And>n. keeps I (rnd n)" shows "keeps I (GenerateRandomPassword rnd len)"
proof -
  have chars: "keeps I (randomChars rnd css)" for css
    by (induction css) (auto simp: randomChar_def intro!: keeps_intros assms)
  have shuffle: "keeps I (shuffle_from rnd i pw)" for i pw
    by (induction i arbitrary: pw) (auto intro!: keeps_intros assms)
  show ?thesis
    unfolding GenerateRandomPassword_def shuffle_password_def by (intro keeps_intros chars shuffle)
qed

locale kept_by_ports =
  fixes S :: "'s services" and J :: "'s \<Rightarrow> bool"
  assumes auth_repos: "user_repo_keeps J (as_userRepo (sv_auth S))" "device_repo_keeps J (as_deviceRepo (sv_auth S))"
      "user_device_repo_keeps J (as_userDeviceRepo (sv_auth S))" "pin_repo_keeps J (as_pinRepo (sv_auth S))"
    and auth_security: "hasher_keeps J (as_passwordHasher (sv_auth S))" "hasher_keeps J (as_pinHasher (sv_auth S))"
      "token_gen_keeps J (as_tokenGen (sv_auth S))" "store_keeps J (as_tokenWhitelist (sv_auth S))"
      "keeps J (TS_Remove (as_tokenWhitelist (sv_auth S)) u t)" "store_keeps J (as_tokenBlacklist (sv_auth S))"
      "tracker_keeps J (as_attemptTracker (sv_auth S))" "limiter_keeps J (as_rateLimiter (sv_auth S))"
    and auth_other: "uid_gen_keeps J (as_uidGen (sv_auth S))" "oauth_keeps J (as_oauthProvider (sv_auth S))"
      "publisher_keeps J (as_eventPublisher (sv_auth S))" "keeps J (as_now (sv_auth S))" "keeps J (as_randInt (sv_auth S) n)"
      "keeps J m \<Longrightarrow> keeps J (EX_DoAsync (as_executor (sv_auth S)) name m)"
    and users: "user_repo_keeps J (us_userRepo (sv_users S))" "profile_repo_keeps J (us_profileRepo (sv_users S))"
      "pin_repo_keeps J (us_pinRepo (sv_users S))" "device_repo_keeps J (us_deviceRepo (sv_users S))"
      "user_device_repo_keeps J (us_userDeviceRepo (sv_users S))" "hasher_keeps J (us_passwordHasher (sv_users S))"
      "hasher_keeps J (us_pinHasher (sv_users S))" "uid_gen_keeps J (us_uidGen (sv_users S))"
      "keeps J (TS_Remove (us_tokenWhitelist (sv_users S)) u t)" "publisher_keeps J (us_eventPublisher (sv_users S))"
      "resolver_keeps J (us_userResolver (sv_users S))"
    and devices: "device_repo_keeps J (ds_deviceRepo (sv_devices S))"
      "user_device_repo_keeps J (ds_userDeviceRepo (sv_devices S))" "publisher_keeps J (ds_eventPublisher (sv_devices S))"
    and files: "file_repo_keeps J (fs_userFileRepo (sv_files S))" "user_repo_keeps J (fs_userRepo (sv_files S))"
      "resolver_keeps J (fs_userResolver (sv_files S))" "uid_gen_keeps J (fs_uidGen (sv_files S))"
      "publisher_keeps J (fs_eventPublisher (sv_files S))"
begin

declare auth_repos [through] auth_security [through] auth_other [through] users [through] devices [through] files [through]

lemma through_publish [through]:
  "publisher_keeps J P \<Longrightarrow> keeps J (publish_new P t en d)" "publisher_keeps J P \<Longrightarrow> keeps J (publish_msg P t en d)"
  unfolding publish_new_def publish_msg_def by (intro keeps_intros through; assumption)+

lemmas auth_parts = check_device_ip_def findUser_def login_user_def open_session_def login_device_def
  findOrCreateDevice_def findOrCreateUserDevice_def issue_tokens_def refresh_device_def Let_def

lemma through_search_username: "keeps J (search_username fuel (sv_auth S) username)"
  by (induction fuel arbitrary: username) (auto intro!: keeps_intros through)

lemma through_login:
  "keeps J (Authenticate (sv_auth S) p)" "keeps J (GoogleOAuth (sv_auth S) uri)"
  unfolding Authenticate_def GoogleOAuth_def auth_parts by (intro keeps_intros through)+

lemma through_oauth: "keeps J (HandleGoogleOAuth fuel (sv_auth S) code st uri)"
proof -
  have rnd: "keeps J (GenerateRandomPassword (as_randInt (sv_auth S)) n)" for n
    by (intro keeps_random_password through)
  show ?thesis
    unfolding HandleGoogleOAuth_def oauth_user_def oauth_create_def oauth_session_def generateUsername_def auth_parts
    by (intro keeps_intros rnd through_search_username through)
qed

lemma through_tokens:
  "keeps J (RefreshToken (sv_auth S) t)" "keeps J (ValidateToken (sv_auth S) t)"
  "keeps J (RevokeToken (sv_auth S) t ty)" "keeps J (VerifyPin (sv_auth S) uid pin)"
  unfolding RefreshToken_def ValidateToken_def RevokeToken_def VerifyPin_def auth_parts
  by (intro keeps_intros through)+

lemmas user_parts = resolve_uid_def must_be_free_def free_or_own_def update_username_def update_email_def
  update_password_def current_profile_def Let_def

lemma through_user_service:
  "keeps J (UserService_Get (sv_users S) uid)" "keeps J (UserService_List (sv_users S) p uflt)"
  "keeps J (UserService_Create (sv_users S) c)" "keeps J (UserService_Update (sv_users S) uid upd)"
  "keeps J (UserService_Delete (sv_users S) uid)" "keeps J (GetProfile (sv_users S) uid)"
  "keeps J (UpdateProfile (sv_users S) uid popt)" "keeps J (SetPin (sv_users S) uid pin)"
  "keeps J (ListDevice (sv_users S) uid p dflt)" "keeps J (RevokeDevice (sv_users S) uid duid)"
  "keeps J (ChangePassword (sv_users S) uid pw)"
  unfolding UserService_Get_def UserService_List_def UserService_Create_def UserService_Update_def
    UserService_Delete_def GetProfile_def UpdateProfile_def SetPin_def ListDevice_def RevokeDevice_def
    ChangePassword_def user_parts
  by (intro keeps_intros through)+

lemma through_device_service:
  "keeps J (DeviceService_Get (sv_devices S) uid)" "keeps J (DeviceService_List (sv_devices S) p dflt)"
  "keeps J (DeviceService_Delete (sv_devices S) uid)"
  unfolding DeviceService_Get_def DeviceService_List_def DeviceService_Delete_def
  by (intro keeps_intros through)+

lemma through_file_service:
  "keeps J (UserFileService_Get (sv_files S) uid)" "keeps J (UserFileService_List (sv_files S) p fflt)"
  "keeps J (UserFileService_Add (sv_files S) fc)" "keeps J (UserFileService_Update (sv_files S) uid fu)"
  "keeps J (UserFileService_Delete (sv_files S) uid)"
  unfolding UserFileService_Get_def UserFileService_List_def UserFileService_Add_def UserFileService_Update_def
    UserFileService_Delete_def Let_def
  by (intro keeps_intros through)+

lemma through_serve: "keeps J (serve_with fuel S c)"
  by (cases c)
    (simp_all add: no_answer_def, (intro keeps_intros through_login through_oauth through_tokens through_user_service
      through_device_service through_file_service)+)

end

text \<open>On the services of the deployment: a request alone makes nothing but port calls.\<close>

lemma keeps_port: "port_call su (no_answer m) \<Longrightarrow> keeps (port_steps su live w0) m"
proof (rule keepsI, rule wpI)
  fix w r w' assume "port_call su (no_answer m)" "port_steps su live w0 w" "run_state m w = (r, w')"
  then show "port_steps su live w0 w'" using port_steps.port [of su live w0 w "no_answer m"] by (simp add: no_answer_def)
qed

lemma the_ports_keep:
  "user_repo_keeps (port_steps su live w0) (the_userRepo su)" "device_repo_keeps (port_steps su live w0) (the_deviceRepo su)"
  "user_device_repo_keeps (port_steps su live w0) (the_userDeviceRepo su)" "pin_repo_keeps (port_steps su live w0) (the_pinRepo su)"
  "profile_repo_keeps (port_steps su live w0) (the_profileRepo su)" "file_repo_keeps (port_steps su live w0) (the_userFileRepo su)"
  "hasher_keeps (port_steps su live w0) (zoom_hasher h)" "token_gen_keeps (port_steps su live w0) (the_tokenGen su)"
  "store_keeps (port_steps su live w0) (the_whitelist su)" "store_keeps (port_steps su live w0) (the_blacklist su)"
  "keeps (port_steps su live w0) (TS_Remove (the_whitelist su) u t)" "uid_gen_keeps (port_steps su live w0) (the_uidGen su)"
  "tracker_keeps (port_steps su live w0) (the_attemptTracker su)" "limiter_keeps (port_steps su live w0) (the_rateLimiter su)"
  "publisher_keeps (port_steps su live w0) (the_eventPublisher su)" "resolver_keeps (port_steps su live w0) (the_userResolver su)"
  "oauth_keeps (port_steps su live w0) (the_oauth su)" "keeps (port_steps su live w0) (on_outside (su_now su))"
  "keeps (port_steps su live w0) (on_outside (su_randInt su n))" "keeps (port_steps su live w0) is_closed"
  by (simp_all add: user_repo_keeps_def device_repo_keeps_def user_device_repo_keeps_def pin_repo_keeps_def profile_repo_keeps_def
      file_repo_keeps_def hasher_keeps_def token_gen_keeps_def store_keeps_def uid_gen_keeps_def tracker_keeps_def
      limiter_keeps_def publisher_keeps_def resolver_keeps_def oauth_keeps_def keeps_port port_call.intros)

lemma async_keeps: "keeps J is_closed \<Longrightarrow> keeps J m \<Longrightarrow> keeps J (EX_DoAsync the_executor name m)"
  unfolding the_executor_def Executor.select_convs is_closed_def by (intro keeps_intros)

lemma shared_async_keeps:
  "keeps J is_closed \<Longrightarrow> keeps (shared_inv J) m \<Longrightarrow> keeps (shared_inv J) (EX_DoAsync shared_executor name m)"
  unfolding shared_executor_def Executor.select_convs by (intro keeps_intros keeps_interfere)

lemma shared_remove_keeps: "keeps J (TS_Remove R u t) \<Longrightarrow> keeps (shared_inv J) (TS_Remove (shared_store R) u t)"
  by (simp add: shared_store_def keeps_interfere)

interpretation alone: kept_by_ports "the_services su" "port_steps su live w0" for su live w0
  by unfold_locales
    (simp_all add: the_services_def the_auth_def the_users_def the_devices_def the_files_def the_ports_keep async_keeps)

interpretation overlapping: kept_by_ports "shared_services su" "shared_inv (port_steps su live w0)" for su live w0
  by unfold_locales
    (simp_all add: shared_services_def shared_auth_def shared_users_def shared_devices_def shared_files_def the_ports_keep
      shared_keeps shared_async_keeps shared_remove_keeps keeps_interfere)

text \<open>
  However requests overlap, the service only goes through states that port calls reach one by one.
\<close>

lemma overlapped_port_steps:
  assumes "\<forall>e \<in> set es. other_requests su live e" shows "port_steps su live w (overlapped fuel su c es w)"
proof -
  have "shared_inv (port_steps su live w) (w, es)"
    using assms by (auto simp: shared_inv_def other_requests_def intro: port_steps.start port_steps_trans)
  from wp_run [OF _ keepsD [OF overlapping.through_serve this]] show ?thesis
    by (cases "run_state (serve_with fuel (shared_services su) c) (w, es)") (auto simp: overlapped_def shared_inv_def)
qed

lemma serve_port_steps: "port_steps su live w (snd (run_state (serve fuel su c) w))"
  unfolding serve_def
  using wp_run [OF _ keepsD [OF alone.through_serve port_steps.start]]
  by (cases "run_state (serve_with fuel (the_services su) c) w") auto

lemma reachable_port_steps: "reachable su live w0 w \<Longrightarrow> port_steps su live w0 w"
  by (induction rule: reachable.induct)
    (auto intro: port_steps.start port_steps.elapse port_steps_trans [OF serve_port_steps] port_steps_trans [OF overlapped_port_steps])

end
