(* ===== verification/ServiceInvariant.thy ===== *)
theory ServiceInvariant
  imports Interleaving Running
begin

text \<open>
  Invariants of the running service. \<open>table_invariant\<close> is a predicate of the database that every
  repository operation keeps; \<open>service_invariant\<close> one of the whole state that every port keeps. It then
  holds in every state that requests reach, one after the other or overlapping, through every failure.
\<close>

section \<open>An invariant of the tables\<close>

text \<open>
  What the repositories promise about a predicate of the database that every statement keeps. The
  lemmas of the locale bring it through every operation of the repositories.
\<close>

lemma keeps_statement_inv:
  assumes "\<And>d. I d \<Longrightarrow> I (snd (f d))" "\<And>d os. I (d\<lparr>pg_script := os\<rparr>) = I d"
  shows "keeps I (statement f)"
  by (rule keepsI, rule wp_statement) (use assms in auto)

lemma keeps_query_rows_inv:
  "(\<And>d os. I (d\<lparr>pg_script := os\<rparr>) = I d) \<Longrightarrow> keeps I (query_rows select)"
  by (rule keepsI, rule wp_query_rows) simp_all

lemma keeps_queries:
  assumes "\<And>d os. I (d\<lparr>pg_script := os\<rparr>) = I d"
  shows "keeps I (query_row table P)" "keeps I (query_count table Q)" "keeps I (query_page arrange table P clause limit offset)"
  unfolding query_row_def query_count_def query_page_def
  by (rule keeps_statement_inv, simp_all add: assms split: option.split) (rule keeps_statement_inv, simp_all add: assms, rule keeps_query_rows_inv, rule assms)

locale table_invariant =
  fixes I :: "pgstate \<Rightarrow> bool"
  assumes script: "I (d\<lparr>pg_script := os\<rparr>) = I d"
    and users: "keeps I (UserRepository_Create u)" "keeps I (UserRepository_Update u)" "keeps I (UserRepository_Delete u)"
    and devices: "keeps I (DeviceRepository_Create dv)" "keeps I (DeviceRepository_Update dv)" "keeps I (DeviceRepository_Delete dv)"
    and files: "keeps I (UserFileRepository_Create fl)" "keeps I (UserFileRepository_Update fl)" "keeps I (UserFileRepository_Delete fl)"
    and user_devices: "keeps I (UserDeviceRepository_Create db ud)" "keeps I (UserDeviceRepository_Update db ud)"
      "keeps I (UserDeviceRepository_UpdateSessionID i j v)" "keeps I (UserDeviceRepository_Delete ud)"
      "keeps I (UserDeviceRepository_Revoke i j)"
    and pins: "keeps I (PinRepository_Create pn)" "keeps I (PinRepository_Update pn)" "keeps I (PinRepository_Delete pn)"
    and profiles: "keeps I (ProfileRepository_Create pf)" "keeps I (ProfileRepository_Update pf)" "keeps I (ProfileRepository_Delete pf)"
begin

lemmas keeps_stores = users devices files user_devices pins profiles

lemma keeps_statement_here: "(\<And>d. snd (f d) = d) \<Longrightarrow> keeps I (statement f)"
  by (rule keeps_statement_inv) (simp_all add: script)

lemmas keeps_reads = keeps_queries [OF script]

lemma keeps_scan_or: "keeps I q \<Longrightarrow> keeps I (scan_or nf q)"
  unfolding scan_or_def by (intro keeps_intros)

lemma keeps_rows_here: "keeps I (query_rows select)"
  by (rule keeps_query_rows_inv) (rule script)

lemma keeps_scan_profile: "keeps I q \<Longrightarrow> keeps I (scanProfile q)"
  unfolding scanProfile_def by (intro keeps_intros)

lemma keeps_list_rows: "keeps I (list_rows arrange table P allowed alias pagination)"
  unfolding list_rows_def by (auto intro!: keeps_intros keeps_reads split: prod.split sum.split)

lemma keeps_lookups:
  "keeps I (UserRepository_GetByID i)" "keeps I (UserRepository_GetByUID v)" "keeps I (UserRepository_GetByUsername v)"
  "keeps I (UserRepository_GetByEmail v)" "keeps I (UserRepository_List db p uflt)"
  "keeps I (DeviceRepository_GetByID i)" "keeps I (DeviceRepository_GetByUID v)" "keeps I (DeviceRepository_GetByFingerprint v)"
  "keeps I (DeviceRepository_List db p dflt)" "keeps I (DeviceRepository_ListByUserID db j p dflt)"
  "keeps I (UserFileRepository_GetByID i)" "keeps I (UserFileRepository_GetByUID v)"
  "keeps I (UserDeviceRepository_GetByUserIDAndDeviceID i j)" "keeps I (UserDeviceRepository_List db p udflt)"
  "keeps I (PinRepository_GetByUserID i)" "keeps I (ProfileRepository_GetByUserID i)"
  unfolding UserRepository_GetByID_def UserRepository_GetByUID_def UserRepository_GetByUsername_def
    UserRepository_GetByEmail_def UserRepository_List_def DeviceRepository_GetByID_def DeviceRepository_GetByUID_def
    DeviceRepository_GetByFingerprint_def DeviceRepository_List_def DeviceRepository_ListByUserID_def
    UserFileRepository_GetByID_def UserFileRepository_GetByUID_def UserDeviceRepository_GetByUserIDAndDeviceID_def
    UserDeviceRepository_List_def PinRepository_GetByUserID_def ProfileRepository_GetByUserID_def scan_defs
  by (intro keeps_intros keeps_scan_or keeps_scan_profile keeps_list_rows keeps_reads)+

lemma keeps_file_list: "keeps I (UserFileRepository_List db p flt)"
  unfolding UserFileRepository_List_def Let_def user_ids_def
  by (intro keeps_intros keeps_list_rows keeps_rows_here)

lemmas keeps_tables = keeps_stores keeps_lookups keeps_file_list

end

named_theorems kept \<open>port calls that keep an invariant of the service\<close>

section \<open>An invariant of the service\<close>

text \<open>
  \<open>J\<close> depends on the database through a family of table invariants, on Redis through what the token
  stores and the resolver do to it, and on nothing else.
\<close>

locale service_invariant =
  fixes su :: "('r, 'e, 'x) deployment" and live :: "'r \<Rightarrow> string \<Rightarrow> string option"
    and J :: "('r, 'e, 'x) world \<Rightarrow> bool" and I :: "'i \<Rightarrow> pgstate \<Rightarrow> bool"
  assumes tables: "table_invariant (I i)"
    and db: "J w \<Longrightarrow> \<exists>i. I i (w_db w) \<and> (\<forall>w'. only_db w w' \<longrightarrow> I i (w_db w') \<longrightarrow> J w')"
    and other: "J w \<Longrightarrow> w_db w' = w_db w \<Longrightarrow> w_redis w' = w_redis w \<Longrightarrow> J w'"
    and stores: "keeps J (TS_Add (the_whitelist su) a b)" "keeps J (TS_Remove (the_whitelist su) a b)"
      "keeps J (TS_IsAllowed (the_whitelist su) a b)" "keeps J (TS_Add (the_blacklist su) a b)"
      "keeps J (TS_IsAllowed (the_blacklist su) a b)"
    and resolver: "keeps J (RS_IDsByUIDs (the_userResolver su) uids)" "keeps J (RS_UIDsByIDs (the_userResolver su) ids)"
      "keeps J (RS_Invalidate (the_userResolver su) opts)"
    and elapse: "J w \<Longrightarrow> elapsed live w w' \<Longrightarrow> J w'"
begin

declare stores [kept] resolver [kept]

lemma through_db:
  assumes "\<And>i. table_invariant (I i) \<Longrightarrow> keeps (I i) m" shows "keeps J (on_db m)"
proof (rule keepsI, rule wp_on_db)
  fix w assume "J w"
  then obtain i where i: "I i (w_db w)" "\<forall>w'. only_db w w' \<longrightarrow> I i (w_db w') \<longrightarrow> J w'" using db by blast
  show "wp m (\<lambda>r d. \<forall>w'. only_db w w' \<longrightarrow> w_db w' = d \<longrightarrow> J w') (w_db w)"
    by (rule wp_mono [OF keepsD [OF assms [OF tables] i(1)]]) (use i(2) in blast)
qed

lemma through_elsewhere [kept]:
  "keeps J (on_tracker mt)" "keeps J (on_limiter ml)" "keeps J (on_events me)" "keeps J (on_outside mo)"
  by (rule keepsI, simp only: wp_zoom, rule wpI, erule other, simp, simp)+

lemma through_uid [kept]: "keeps J (UG_New (the_uidGen su))"
  by (rule keepsI, simp add: the_uidGen_def) (erule other; simp)

lemma through_publish [kept]: "keeps J (EP_Publish (the_eventPublisher su) msg)"
  by (simp add: the_eventPublisher_def kept)

text \<open>The ports of the services.\<close>

lemma through_users [kept]:
  "keeps J (UR_Create (the_userRepo su) u)" "keeps J (UR_Update (the_userRepo su) u)"
  "keeps J (UR_Delete (the_userRepo su) u)" "keeps J (UR_GetByID (the_userRepo su) i)"
  "keeps J (UR_GetByUID (the_userRepo su) v)" "keeps J (UR_GetByUsername (the_userRepo su) v)"
  "keeps J (UR_GetByEmail (the_userRepo su) v)" "keeps J (UR_List (the_userRepo su) p uf)"
  by (simp_all add: the_userRepo_def NewUserRepository_def Let_def through_db table_invariant.keeps_tables)

lemma through_devices [kept]:
  "keeps J (DR_Create (the_deviceRepo su) dv)" "keeps J (DR_Update (the_deviceRepo su) dv)"
  "keeps J (DR_Delete (the_deviceRepo su) dv)" "keeps J (DR_GetByID (the_deviceRepo su) i)"
  "keeps J (DR_GetByUID (the_deviceRepo su) v)" "keeps J (DR_GetByFingerprint (the_deviceRepo su) v)"
  "keeps J (DR_List (the_deviceRepo su) p df)" "keeps J (DR_ListByUserID (the_deviceRepo su) i p df)"
  by (simp_all add: the_deviceRepo_def NewDeviceRepository_def Let_def through_db table_invariant.keeps_tables)

lemma through_user_devices [kept]:
  "keeps J (UDR_Create (the_userDeviceRepo su) ud)" "keeps J (UDR_Update (the_userDeviceRepo su) ud)"
  "keeps J (UDR_UpdateSessionID (the_userDeviceRepo su) i j v)" "keeps J (UDR_Delete (the_userDeviceRepo su) ud)"
  "keeps J (UDR_GetByUserIDAndDeviceID (the_userDeviceRepo su) i j)" "keeps J (UDR_List (the_userDeviceRepo su) p udf)"
  "keeps J (UDR_Revoke (the_userDeviceRepo su) i j)"
  by (simp_all add: the_userDeviceRepo_def NewUserDeviceRepository_def Let_def through_db table_invariant.keeps_tables)

lemma through_pins [kept]:
  "keeps J (PR_Create (the_pinRepo su) pn)" "keeps J (PR_Update (the_pinRepo su) pn)"
  "keeps J (PR_Delete (the_pinRepo su) pn)" "keeps J (PR_GetByUserID (the_pinRepo su) i)"
  "keeps J (PFR_Create (the_profileRepo su) pf)" "keeps J (PFR_Update (the_profileRepo su) pf)"
  "keeps J (PFR_Delete (the_profileRepo su) pf)" "keeps J (PFR_GetByUserID (the_profileRepo su) i)"
  by (simp_all add: the_pinRepo_def NewPinRepository_def the_profileRepo_def NewProfileRepository_def Let_def through_db table_invariant.keeps_tables)

lemma through_files [kept]:
  "keeps J (FR_Create (the_userFileRepo su) fl)" "keeps J (FR_Update (the_userFileRepo su) fl)"
  "keeps J (FR_Delete (the_userFileRepo su) fl)" "keeps J (FR_GetByID (the_userFileRepo su) i)"
  "keeps J (FR_GetByUID (the_userFileRepo su) v)" "keeps J (FR_List (the_userFileRepo su) p ff)"
  by (simp_all add: the_userFileRepo_def NewUserFileRepository_def Let_def through_db table_invariant.keeps_tables)

lemma through_security [kept]:
  "keeps J (H_Hash (zoom_hasher h) p)" "keeps J (TG_GenerateToken (the_tokenGen su) c)"
  "keeps J (TG_ValidateToken (the_tokenGen su) t)"
  "keeps J (AT_Track (the_attemptTracker su) a)"
  "keeps J (AT_IsLocked (the_attemptTracker su) a)" "keeps J (AT_Reset (the_attemptTracker su) a)"
  "keeps J (RL_Acquire (the_rateLimiter su) a)" "keeps J (OP_GetAuthorizationURL (the_oauth su) a b)"
  "keeps J (OP_ExchangeCode (the_oauth su) a b c')" "keeps J (OP_GetUserInfo (the_oauth su) tk)"
  by (simp_all add: zoom_hasher_def the_tokenGen_def the_attemptTracker_def the_rateLimiter_def
      the_oauth_def Let_def kept)

lemma through_closed [kept]: "keeps J is_closed"
  by (rule keepsI) (simp add: is_closed_def)

lemma keeps_port_call: "port_call su m \<Longrightarrow> keeps J m"
  by (erule port_call.cases)
    (simp_all add: no_answer_def, (intro keeps_intros kept)+)

lemma port_steps_invariant: "port_steps su live w0 w \<Longrightarrow> J w0 \<Longrightarrow> J w"
  by (induction rule: port_steps.induct) (auto intro: elapse keeps_run [OF keeps_port_call _ prod.collapse [symmetric]])

lemma reachable_invariant: "reachable su live w0 w \<Longrightarrow> J w0 \<Longrightarrow> J w"
  by (rule port_steps_invariant [OF reachable_port_steps])

end

end
