(* ===== verification/Tables.thy ===== *)
theory Tables
  imports ServiceInvariant Demo
begin

text \<open>
  What every sequence of calls keeps of the tables, through every failure of a statement: the users
  that are not deleted have different e-mails and user names, the identifiers of users, devices and
  files are different, positive and below the next one of the sequence, and accounts never vanish.
\<close>

section \<open>Invariants of the tables are invariants of the service\<close>

context table_invariant
begin

abbreviation good :: "('r, 'e, 'x) world \<Rightarrow> bool" where
  "good w \<equiv> I (w_db w)"

lemma keeps_good_db: "keeps I m \<Longrightarrow> keeps good (on_db m)"
  by (rule keepsI, simp only: wp_zoom, erule (1) wp_mono [OF keepsD]) simp

lemma keeps_good_redis: "keeps good (on_redis mr)"
  by (rule keepsI, simp only: wp_zoom, rule wpI, simp)

lemma keeps_good_client:
  "keeps good (rc_Set (zoom_redis rc) k v ttl)" "keeps good (rc_Pipeline (zoom_redis rc) ks)"
  "keeps good (rc_Del (zoom_redis rc) ks)"
  by (simp_all add: zoom_redis_def keeps_good_redis)

lemma keeps_good_fetch: "keeps good (on_db (fetch_identity table getID getUID cond notFound))"
  unfolding fetch_identity_def Let_def by (intro keeps_good_db keeps_intros keeps_rows_here)

lemma keeps_good_mapper:
  assumes "\<And>k. keeps good (fetch k)"
  shows "keeps good (mapperIDs (zoom_redis rc) ks convert cacheKey fetch getValue render ttl)"
proof -
  have "keeps good (fetch_keys (zoom_redis rc) cacheKey fetch getValue render ttl ks' results)" for ks' results
  proof (induction ks' arbitrary: results)
    case (Cons k ks')
    show ?case by (simp, intro keeps_intros keeps_good_client assms Cons)
  qed (simp add: keeps_intros)
  then show ?thesis unfolding mapperIDs_def by (intro keeps_intros keeps_good_client)
qed

lemma service_invariant_tables:
  assumes "\<And>d t. I (d\<lparr>pg_now := t\<rparr>) = I d"
  shows "service_invariant su live good (\<lambda>_ :: unit. I)"
proof unfold_locales
  show "keeps good (TS_Add (the_whitelist su) a b)" "keeps good (TS_Remove (the_whitelist su) a b)"
    "keeps good (TS_IsAllowed (the_whitelist su) a b)" "keeps good (TS_Add (the_blacklist su) a b)"
    "keeps good (TS_IsAllowed (the_blacklist su) a b)" for a b
    by (simp_all add: the_whitelist_def the_blacklist_def zoom_store_def keeps_good_redis)
  show "keeps good (RS_IDsByUIDs (the_userResolver su) uids)" "keeps good (RS_UIDsByIDs (the_userResolver su) ids)"
    "keeps good (RS_Invalidate (the_userResolver su) opts)" for uids ids opts
    unfolding the_userResolver_def NewUserResolver_def new_resolver_def UserResolver.select_convs
      user_fetchIDFromDB_def user_fetchUIDFromDB_def invalidate_def Let_def
    by (intro keeps_intros keeps_good_client keeps_good_fetch keeps_good_mapper)+
qed (auto simp: elapsed_def script assms users devices files user_devices pins profiles)

lemmas reachable_good = service_invariant.reachable_invariant [OF service_invariant_tables]

end

section \<open>The invariant\<close>

definition ids_ok :: "('a \<Rightarrow> int) \<Rightarrow> int \<Rightarrow> 'a list \<Rightarrow> bool" where
  "ids_ok getID bound rows \<longleftrightarrow> distinct (map getID rows) \<and> (\<forall>r \<in> set rows. 0 < getID r \<and> getID r < bound)"

definition tables_ok :: "pgstate \<Rightarrow> bool" where
  "tables_ok d \<longleftrightarrow> emails_unique (pg_user d) \<and> usernames_unique (pg_user d) \<and> 0 < pg_seq d \<and>
     ids_ok u_ID (pg_seq d) (pg_user d) \<and> ids_ok d_ID (pg_seq d) (pg_device d) \<and> ids_ok f_ID (pg_seq d) (pg_user_file d)"

lemma ids_ok_append: "ids_ok getID b rows \<Longrightarrow> 0 < b \<Longrightarrow> getID r = b \<Longrightarrow> ids_ok getID (b + 1) (rows @ [r])"
  by (fastforce simp: ids_ok_def)

lemma ids_ok_later: "ids_ok getID b rows \<Longrightarrow> ids_ok getID (b + 1) rows"
  by (fastforce simp: ids_ok_def)

lemma ids_ok_map: "(\<And>r. getID (f r) = getID r) \<Longrightarrow> ids_ok getID b (map f rows) = ids_ok getID b rows"
  by (simp add: ids_ok_def comp_def)

lemma ids_ok_filter: "ids_ok getID b rows \<Longrightarrow> ids_ok getID b (filter P rows)"
  by (auto simp: ids_ok_def distinct_map intro: inj_on_subset)

lemma tables_ok_script [simp]: "tables_ok (d\<lparr>pg_script := os\<rparr>) = tables_ok d"
  by (simp add: tables_ok_def)


lemmas keeps_ok_statement = keeps_statement_inv [where I = tables_ok, OF _ tables_ok_script]

lemmas store_defs' = UserRepository_Create_def UserRepository_Update_def UserRepository_Delete_def
  DeviceRepository_Create_def DeviceRepository_Update_def DeviceRepository_Delete_def
  UserFileRepository_Create_def UserFileRepository_Update_def UserFileRepository_Delete_def
  UserDeviceRepository_Create_def UserDeviceRepository_Update_def UserDeviceRepository_UpdateSessionID_def
  UserDeviceRepository_Delete_def UserDeviceRepository_Revoke_def PinRepository_Create_def PinRepository_Update_def
  PinRepository_Delete_def ProfileRepository_Create_def ProfileRepository_Update_def ProfileRepository_Delete_def
  exec_map_def exec_delete_def

interpretation ok: table_invariant tables_ok
  by unfold_locales
    (unfold store_defs',
     (simp; fail |
      intro keeps_intros keeps_ok_statement;
        simp add: Let_def tables_ok_def store_users_def ids_ok_later ids_ok_append ids_ok_map ids_ok_filter split: option.split)+)

text \<open>
  Accounts are never removed: every row a table had is still there, with its identity and its time of
  creation, and a deleted account stays deleted.
\<close>

definition same_account :: "User \<Rightarrow> User \<Rightarrow> bool" where
  "same_account u u' \<longleftrightarrow> u_ID u' = u_ID u \<and> u_UID u' = u_UID u \<and> u_CreatedAt u' = u_CreatedAt u \<and>
     (u_DeletedAt u \<noteq> None \<longrightarrow> u_DeletedAt u' \<noteq> None)"

definition accounts_kept :: "User list \<Rightarrow> pgstate \<Rightarrow> bool" where
  "accounts_kept us d \<longleftrightarrow> (\<exists>old new. pg_user d = old @ new \<and> list_all2 same_account us old)"

lemma accounts_kept_append: "accounts_kept us d \<Longrightarrow> pg_user d' = pg_user d @ rows \<Longrightarrow> accounts_kept us d'"
  unfolding accounts_kept_def by (metis append_assoc)

lemma accounts_kept_map:
  assumes "accounts_kept us d" "pg_user d' = map f (pg_user d)" "\<And>u. same_account u (f u)"
  shows "accounts_kept us d'"
proof -
  from assms(1) obtain old new where "pg_user d = old @ new" "list_all2 same_account us old"
    by (auto simp: accounts_kept_def)
  moreover have "same_account a c" if "same_account a b" "same_account b c" for a b c
    using that by (auto simp: same_account_def)
  ultimately have "pg_user d' = map f old @ map f new" "list_all2 same_account us (map f old)"
    using assms(2,3) by (auto simp: list_all2_map2 elim: list_all2_mono)
  then show ?thesis by (auto simp: accounts_kept_def)
qed

lemma accounts_kept_script: "accounts_kept us (d\<lparr>pg_script := os\<rparr>) = accounts_kept us d"
  by (simp add: accounts_kept_def)

lemma accounts_kept_other: "accounts_kept us d \<Longrightarrow> pg_user d' = pg_user d \<Longrightarrow> accounts_kept us d'"
  by (simp add: accounts_kept_def)

lemma accounts_kept_store:
  assumes "accounts_kept us d" "pg_user d' = pg_user d" "us' = pg_user d @ rows \<or> us' = map f (pg_user d) \<and> (\<forall>u. same_account u (f u))"
  shows "accounts_kept us (snd (store_users us' a d'))"
proof -
  have "accounts_kept us (d'\<lparr>pg_user := us'\<rparr>)"
    using assms(3)
  proof (elim disjE conjE)
    assume "us' = pg_user d @ rows"
    then show ?thesis by (intro accounts_kept_append [OF assms(1)]) simp
  next
    assume "us' = map f (pg_user d)" "\<forall>u. same_account u (f u)"
    then show ?thesis by (intro accounts_kept_map [OF assms(1), of _ f]) simp_all
  qed
  with accounts_kept_other [OF assms(1,2)] show ?thesis by (simp add: store_users_def)
qed

lemmas keeps_kept_statement = keeps_statement_inv [where I = "accounts_kept us" for us, OF _ accounts_kept_script]

interpretation kept: table_invariant "accounts_kept us" for us
  by unfold_locales
    (unfold store_defs',
     (simp add: accounts_kept_script; fail |
      intro keeps_intros keeps_kept_statement;
        (erule accounts_kept_other, simp split: option.split; fail |
         auto simp: Let_def same_account_def intro!: accounts_kept_store))+)

section \<open>What holds in every reachable state\<close>


text \<open>
  On the demo deployment: a user is renamed while another request deletes it, between the port calls
  of the first.
\<close>

definition rename_bob :: service_call where
  "rename_bob = Call_UpdateUser ''u-bob''
     \<lparr>uu_Username = Some ''robert'', uu_Email = None, uu_Password = None, uu_Status = None\<rparr>"

abbreviation delete_bob :: "(mem_redis, EventMessage list, time) world \<Rightarrow> (mem_redis, EventMessage list, time) world" where
  "delete_bob w \<equiv> snd (run_state (serve 5 demo (Call_DeleteUser ''u-bob'')) w)"

lemma reachable_overlapped_demo:
  "reachable demo mem_live demo_world (overlapped 5 demo rename_bob [\<lambda>w. w, delete_bob] demo_world)"
  by (intro reachable.overlap reachable.start) (auto simp: other_requests_def intro: port_steps.start serve_port_steps)


text \<open>
  C11: No requests to the four services, one after the other or overlapping, remove a user row:
  every row keeps its place, its identifier, its UID and its time of creation, a deleted account
  stays deleted, and new rows come after the old ones.
\<close>

theorem accounts_never_vanish:
  assumes "reachable su live w0 w"
  shows "accounts_kept (pg_user (w_db w0)) (w_db w)"
proof (rule kept.reachable_good [OF _ assms])
  show "accounts_kept (pg_user (w_db w0)) (w_db w0)"
    unfolding accounts_kept_def
    by (rule exI [of _ "pg_user (w_db w0)"], rule exI [of _ "[]"]) (simp add: list_all2_same same_account_def)
qed (simp add: accounts_kept_def)

lemma accounts_never_vanish_witness:
  "accounts_kept [alice, bob] (w_db (overlapped 5 demo rename_bob [\<lambda>w. w, delete_bob] demo_world))"
  using accounts_never_vanish [OF reachable_overlapped_demo] by (simp add: demo_world_def demo_db_def)

end
