(* ===== verification/CacheProperties.thy ===== *)
theory CacheProperties
  imports Tables
begin

text \<open>
  The identifier cache of \<open>internal/adapter/resolver\<close> in the running service: every cached entry agrees
  with a row of the users in every reachable state, so the resolver never answers with another user's
  identifier, whatever expires or fails.
\<close>

section \<open>The cache agrees with the table\<close>

definition cache_ok :: "string \<Rightarrow> (string \<Rightarrow> string option) \<Rightarrow> User list \<Rightarrow> bool" where
  "cache_ok P lv us \<longleftrightarrow>
     (\<forall>uid v. lv (uid_key P uid) = Some v \<longrightarrow> (\<exists>u \<in> set us. u_UID u = uid \<and> v = FormatInt (u_ID u))) \<and>
     (\<forall>i v. lv (id_key P i) = Some v \<longrightarrow> (\<exists>u \<in> set us. u_ID u = i \<and> v = u_UID u))"

lemma resolver_keys [simp]:
  "uid_key P uid = uid_key P uid' \<longleftrightarrow> uid = uid'" "id_key P i = id_key P j \<longleftrightarrow> i = j"
  "uid_key P uid \<noteq> id_key P i" "id_key P i \<noteq> uid_key P uid"
proof -
  have ne: "uid_key P uid \<noteq> id_key P i"
  proof
    assume "uid_key P uid = id_key P i"
    then have "rev (uid_key P uid) ! 2 = rev (id_key P i) ! 2" by simp
    then show False by (simp add: uid_key_def id_key_def id_key_str_def)
  qed
  then show "uid_key P uid \<noteq> id_key P i" "id_key P i \<noteq> uid_key P uid" by metis+
  show "uid_key P uid = uid_key P uid' \<longleftrightarrow> uid = uid'" by (simp add: uid_key_def)
  show "id_key P i = id_key P j \<longleftrightarrow> i = j" by (auto simp: id_key_def id_key_str_def dest: FormatInt_inj)
qed

lemma cache_ok_fewer: "cache_ok P lv us \<Longrightarrow> lv' \<subseteq>\<^sub>m lv \<Longrightarrow> cache_ok P lv' us"
  unfolding cache_ok_def map_le_def by (metis domI)

lemma restrict_le: "lv |` A \<subseteq>\<^sub>m lv"
  by (auto simp: map_le_def restrict_map_def split: if_splits)

lemma cache_ok_other:
  assumes "cache_ok P lv us" "\<And>uid. k \<noteq> uid_key P uid" "\<And>i. k \<noteq> id_key P i"
  shows "cache_ok P (lv(k \<mapsto> x)) us"
  using assms unfolding cache_ok_def by (metis fun_upd_other)

lemma cache_ok_put:
  assumes "cache_ok P lv us" "u \<in> set us"
  shows "cache_ok P (lv(uid_key P (u_UID u) \<mapsto> FormatInt (u_ID u))) us" "cache_ok P (lv(id_key P (u_ID u) \<mapsto> u_UID u)) us"
proof -
  have uids: "\<exists>u \<in> set us. u_UID u = uid \<and> v = FormatInt (u_ID u)" if "lv (uid_key P uid) = Some v" for uid v
    using assms(1) that by (simp add: cache_ok_def)
  have ids: "\<exists>u \<in> set us. u_ID u = i \<and> v = u_UID u" if "lv (id_key P i) = Some v" for i v
    using assms(1) that by (simp add: cache_ok_def)
  show "cache_ok P (lv(uid_key P (u_UID u) \<mapsto> FormatInt (u_ID u))) us"
    unfolding cache_ok_def
    by (intro conjI allI impI) (use assms(2) in \<open>auto intro: ids uids split: if_splits\<close>)
  show "cache_ok P (lv(id_key P (u_ID u) \<mapsto> u_UID u)) us"
    unfolding cache_ok_def
    by (intro conjI allI impI) (use assms(2) in \<open>auto intro: ids uids split: if_splits\<close>)
qed

lemma cache_ok_kept:
  assumes "cache_ok P lv us" "accounts_kept us d" shows "cache_ok P lv (pg_user d)"
proof -
  have ex: "\<exists>u' \<in> set (pg_user d). u_UID u' = u_UID u \<and> u_ID u' = u_ID u" if "u \<in> set us" for u
  proof -
    from assms(2) obtain old new where "pg_user d = old @ new" "list_all2 same_account us old"
      by (auto simp: accounts_kept_def)
    moreover from that obtain i where "i < length us" "us ! i = u" by (auto simp: in_set_conv_nth)
    ultimately have "same_account u (old ! i)" "old ! i \<in> set (pg_user d)"
      using list_all2_nthD [of same_account us old i] by (auto dest: list_all2_lengthD)
    then show ?thesis by (auto simp: same_account_def)
  qed
  have old: "lv (uid_key P uid) = Some v \<Longrightarrow> \<exists>u \<in> set us. u_UID u = uid \<and> v = FormatInt (u_ID u)"
    "lv (id_key P i) = Some v \<Longrightarrow> \<exists>u \<in> set us. u_ID u = i \<and> v = u_UID u" for uid v i
    using assms(1) by (simp_all add: cache_ok_def)
  show ?thesis
    unfolding cache_ok_def
  proof (intro conjI allI impI)
    fix uid v assume "lv (uid_key P uid) = Some v"
    then obtain u where "u \<in> set us" "u_UID u = uid" "v = FormatInt (u_ID u)" using old(1) by blast
    with ex show "\<exists>u \<in> set (pg_user d). u_UID u = uid \<and> v = FormatInt (u_ID u)" by metis
  next
    fix i v assume "lv (id_key P i) = Some v"
    then obtain u where "u \<in> set us" "u_ID u = i" "v = u_UID u" using old(2) by blast
    with ex show "\<exists>u \<in> set (pg_user d). u_ID u = i \<and> v = u_UID u" by metis
  qed
qed

lemma accounts_kept_refl: "accounts_kept (pg_user d) d"
  unfolding accounts_kept_def
  by (rule exI [of _ "pg_user d"], rule exI [of _ "[]"]) (simp add: list_all2_same same_account_def)


section \<open>The cached lookup\<close>

text \<open>
  The lookup of \<open>helper.go\<close> over any client, query and invariant: when a cached value is \<open>good\<close> and a
  value of the query is \<open>fresh\<close>, every value of the answer is good.
\<close>

locale cached_mapper =
  fixes J :: "'s \<Rightarrow> bool" and rc :: "'s redis_client" and convert :: "string \<Rightarrow> 'v" and cacheKey :: "'k \<Rightarrow> string"
    and fetch :: "'k \<Rightarrow> ('s, 't result) prog" and getValue :: "'t \<Rightarrow> 'v" and render :: "'v \<Rightarrow> string"
    and ttl :: duration and fresh :: "'k \<Rightarrow> 'v \<Rightarrow> bool" and good :: "'k \<Rightarrow> 'v \<Rightarrow> bool"
  assumes fresh_good: "fresh k v \<Longrightarrow> good k v"
    and fetched: "J w \<Longrightarrow> wp (fetch k) (\<lambda>r w'. J w' \<and> (\<forall>x. r = Inr x \<longrightarrow> fresh k (getValue x))) w"
    and stored: "J w \<Longrightarrow> fresh k v \<Longrightarrow> wp (rc_Set rc (cacheKey k) (render v) ttl) (\<lambda>_. J) w"
    and piped: "J w \<Longrightarrow> wp (rc_Pipeline rc (map cacheKey ks))
      (\<lambda>rs w'. J w' \<and> list_all2 (\<lambda>k r. \<forall>v. r = Inr (Some v) \<longrightarrow> good k (convert v)) ks rs) w"
begin

definition all_good :: "('k \<rightharpoonup> 'v) \<Rightarrow> bool" where
  "all_good m \<longleftrightarrow> (\<forall>k v. m k = Some v \<longrightarrow> good k v)"

lemma all_good_empty [simp]: "all_good Map.empty"
  by (simp add: all_good_def)

lemma all_good_put: "all_good m \<Longrightarrow> good k v \<Longrightarrow> all_good (m(k \<mapsto> v))"
  by (simp add: all_good_def)

lemma hits_good:
  fixes rs :: "string option result list"
  assumes "list_all2 (\<lambda>k r. \<forall>v. r = Inr (Some v) \<longrightarrow> good k (convert v)) ks rs" "all_good m"
  shows "all_good (fst (cache_hits convert ks rs m))"
  using assms
proof (induction convert ks rs m rule: cache_hits.induct)
  case (2 convert k ks rs results)
  then show ?case by (cases "cache_hits convert ks rs results") simp
qed (simp_all add: all_good_put)

lemma wp_fetch_keys:
  "J w \<Longrightarrow> all_good m \<Longrightarrow>
   wp (fetch_keys rc cacheKey fetch getValue render ttl ks m) (\<lambda>r w'. J w' \<and> all_good (snd r)) w"
proof (induction ks arbitrary: m w)
  case (Cons k ks)
  show ?case
    unfolding fetch_keys.simps wp_bind wp_case_sum
  proof (rule wp_mono [OF fetched [OF Cons.prems(1), of k]], elim conjE)
    fix r :: "'t result" and w' assume r: "J w'" "\<forall>x. r = Inr x \<longrightarrow> fresh k (getValue x)"
    show "(case r of
        Inl e \<Rightarrow> wp (fetch_keys rc cacheKey fetch getValue render ttl ks m)
          (\<lambda>a. wp (case a of (uu, results') \<Rightarrow> ret (Some e, results')) (\<lambda>r w'. J w' \<and> all_good (snd r)))
      | Inr x \<Rightarrow> wp (rc_Set rc (cacheKey k) (render (getValue x)) ttl)
          (\<lambda>a. wp (fetch_keys rc cacheKey fetch getValue render ttl ks (m(k \<mapsto> getValue x)))
            (\<lambda>r w'. J w' \<and> all_good (snd r)))) w'"
    proof (cases r)
      case (Inl e)
      have "wp (fetch_keys rc cacheKey fetch getValue render ttl ks m)
          (\<lambda>a. wp (case a of (uu, results') \<Rightarrow> ret (Some e, results')) (\<lambda>r w'. J w' \<and> all_good (snd r))) w'"
        by (rule wp_mono [OF Cons.IH [OF r(1) Cons.prems(2)]]) auto
      with Inl show ?thesis by simp
    next
      case (Inr x)
      with r have fresh: "fresh k (getValue x)" by simp
      then have good: "all_good (m(k \<mapsto> getValue x))" by (intro all_good_put Cons.prems fresh_good)
      have "wp (rc_Set rc (cacheKey k) (render (getValue x)) ttl)
          (\<lambda>a. wp (fetch_keys rc cacheKey fetch getValue render ttl ks (m(k \<mapsto> getValue x)))
            (\<lambda>r w'. J w' \<and> all_good (snd r))) w'"
        by (rule wp_mono [OF stored [OF r(1) fresh]]) (rule Cons.IH [OF _ good])
      with Inr show ?thesis by simp
    qed
  qed
qed simp

lemma wp_mapper:
  assumes "J w"
  shows "wp (mapperIDs rc ks convert cacheKey fetch getValue render ttl) (\<lambda>r w'. J w' \<and> (\<forall>m. r = Inr m \<longrightarrow> all_good m)) w"
  unfolding mapperIDs_def wp_bind
proof (rule wp_mono [OF piped [OF assms, of ks]])
  fix rs :: "string option result list" and w' assume *: "J w' \<and> list_all2 (\<lambda>k r. \<forall>v. r = Inr (Some v) \<longrightarrow> good k (convert v)) ks rs"
  then have hits: "all_good (fst (cache_hits convert ks rs Map.empty))" by (intro hits_good) simp_all
  obtain m un where mu: "cache_hits convert ks rs Map.empty = (m, un)" by (cases "cache_hits convert ks rs Map.empty")
  with hits have "all_good m" by simp
  with * have "wp (fetch_keys rc cacheKey fetch getValue render ttl un m)
      (\<lambda>a. wp (case a of (err', results') \<Rightarrow> (case err' of None \<Rightarrow> ok results' | Some e \<Rightarrow> fail e))
        (\<lambda>r w'. J w' \<and> (\<forall>m. r = Inr m \<longrightarrow> all_good m))) w'"
    by (intro wp_mono [OF wp_fetch_keys]) (auto split: option.split)
  with * hits show "wp (case exec_error rs of None \<Rightarrow> ok (fst (cache_hits convert ks rs Map.empty))
      | Some err \<Rightarrow> if err \<noteq> RedisNil then fail err
          else case cache_hits convert ks rs Map.empty of (results, uncached) \<Rightarrow>
            State_Monad.bind (fetch_keys rc cacheKey fetch getValue render ttl uncached results)
              (\<lambda>(err', results'). case err' of None \<Rightarrow> ok results' | Some e \<Rightarrow> fail e))
      (\<lambda>r w'. J w' \<and> (\<forall>m. r = Inr m \<longrightarrow> all_good m)) w'"
    by (simp add: mu split: option.split)
qed

end

section \<open>The running service\<close>

text \<open>
  The code of a service keeps its keys apart from those of the token stores.
\<close>

definition code_ok :: "('r, 'e, 'x) deployment \<Rightarrow> bool" where
  "code_ok su \<longleftrightarrow> take 6 (su_code su) \<noteq> ''token-''"

lemma code_ok_keys:
  assumes "code_ok su"
  shows "buildKey \<lparr>ta_prefix = ''token-'' @ p, ta_defaultTTL = d\<rparr> u t \<noteq> resolver_prefix su @ x"
proof
  assume "buildKey \<lparr>ta_prefix = ''token-'' @ p, ta_defaultTTL = d\<rparr> u t = resolver_prefix su @ x"
  then have eq: "''token-'' @ (p @ u @ '':'' @ t) = su_code su @ '':'' @ (''resolver:user'' @ x)"
    by (simp add: buildKey_def resolver_prefix_def provider_user_prefix_def)
  show False
  proof (cases "6 \<le> length (su_code su)")
    case True
    moreover have "take 6 (su_code su @ '':'' @ (''resolver:user'' @ x)) = ''token-''"
      by (simp only: eq [symmetric]) simp
    ultimately show False using assms by (simp add: code_ok_def)
  next
    case False
    then have "(''token-'' @ (p @ u @ '':'' @ t)) ! length (su_code su) = ''token-'' ! length (su_code su)"
      by (subst nth_append) simp
    moreover have "(''token-'' @ (p @ u @ '':'' @ t)) ! length (su_code su) = CHR '':''"
      by (simp only: eq) simp
    ultimately have "''token-'' ! length (su_code su) = CHR '':''" by simp
    moreover have "''token-'' ! length (su_code su) \<in> set ''token-''" using False by (intro nth_mem) simp
    ultimately have "CHR '':'' \<in> set ''token-''" by simp
    then show False by simp
  qed
qed

definition cache_at :: "('r, 'e, 'x) deployment \<Rightarrow> ('r \<Rightarrow> string \<Rightarrow> string option) \<Rightarrow> User list \<Rightarrow> ('r, 'e, 'x) world \<Rightarrow> bool" where
  "cache_at su live us w \<longleftrightarrow> cache_ok (resolver_prefix su) (live (w_redis w)) us \<and> pg_user (w_db w) = us"

definition cache_good :: "('r, 'e, 'x) deployment \<Rightarrow> ('r \<Rightarrow> string \<Rightarrow> string option) \<Rightarrow> ('r, 'e, 'x) world \<Rightarrow> bool" where
  "cache_good su live w \<longleftrightarrow> cache_at su live (pg_user (w_db w)) w"

definition fresh_id :: "User list \<Rightarrow> string \<Rightarrow> int \<Rightarrow> bool" where
  "fresh_id us uid i \<longleftrightarrow> (\<exists>u \<in> set us. u_UID u = uid \<and> u_ID u = i)"

definition known_id :: "User list \<Rightarrow> string \<Rightarrow> int \<Rightarrow> bool" where
  "known_id us uid i \<longleftrightarrow> (\<exists>u \<in> set us. u_UID u = uid \<and> (i = u_ID u \<or> i = ParseInt_value (FormatInt (u_ID u))))"

definition known_uid :: "User list \<Rightarrow> int \<Rightarrow> string \<Rightarrow> bool" where
  "known_uid us i uid \<longleftrightarrow> (\<exists>u \<in> set us. u_ID u = i \<and> u_UID u = uid)"

lemma wp_fetch_identity:
  assumes "\<And>d' r. same_tables d d' \<Longrightarrow> r \<in> set (table d) \<Longrightarrow> cond r \<Longrightarrow> Q (Inr (getID r, getUID r)) d'"
    and "\<And>d' e. same_tables d d' \<Longrightarrow> Q (Inl e) d'"
    and "\<And>os. table (d\<lparr>pg_script := os\<rparr>) = table d"
  shows "wp (fetch_identity table getID getUID cond nf) Q d"
proof -
  have st: "same_tables d (d\<lparr>pg_script := os\<rparr>)" if "set os \<subseteq> set (pg_script d)" for os
    using that by (auto simp: same_tables_def)
  have last: "last (take n (filter cond (table d))) \<in> set (table d) \<and> cond (last (take n (filter cond (table d))))"
    if "take n (filter cond (table d)) \<noteq> []" for n
    using in_set_takeD [OF last_in_set [OF that]] by simp
  show ?thesis
    unfolding fetch_identity_def wp_call
  proof (rule wp_query_rows)
    fix os rows n err assume os: "set os \<subseteq> set (pg_script d)" and "Inr (filter cond (table (d\<lparr>pg_script := os\<rparr>))) = Inr rows"
    then have "rows = filter cond (table d)" by (simp add: assms(3))
    then show "(case Inr (map Inr (take n rows), err) of Inl e \<Rightarrow> Q (Inl e)
        | Inr x \<Rightarrow> wp (case x of (rows, rowsErr) \<Rightarrow> (case scanRows rows of Inl err \<Rightarrow> fail err
            | Inr found \<Rightarrow> let iden = if found = [] then (0, []) else (getID (last found), getUID (last found))
                in if fst iden = 0 then fail nf else ok iden)) Q) (d\<lparr>pg_script := os\<rparr>)"
      using assms(1,2) st [OF os] last [of n] by (auto simp: Let_def)
  next
    fix os e assume "set os \<subseteq> set (pg_script d)"
    then show "(case Inl e of Inl e \<Rightarrow> Q (Inl e)
        | Inr x \<Rightarrow> wp (case x of (rows, rowsErr) \<Rightarrow> (case scanRows rows of Inl err \<Rightarrow> fail err
            | Inr found \<Rightarrow> let iden = if found = [] then (0, []) else (getID (last found), getUID (last found))
                in if fst iden = 0 then fail nf else ok iden)) Q) (d\<lparr>pg_script := os\<rparr>)"
      using assms(2) st by simp
  qed
qed

context running
begin

lemma live_set:
  assumes "\<And>w'. only_redis w w' \<Longrightarrow> live (w_redis w') = live (w_redis w) \<or> live (w_redis w') = (live (w_redis w))(k \<mapsto> v) \<Longrightarrow> Q w'"
  shows "wp (rc_Set (zoom_redis (su_redis su)) k v resolver_ttl) (\<lambda>_. Q) w"
  unfolding zoom_redis_def redis_client.select_convs
  by (rule wp_on_redis, rule wl.wp_set) (use assms in \<open>auto simp: resolver_ttl_def second_def\<close>)

lemma live_del:
  assumes "\<And>w'. only_redis w w' \<Longrightarrow> live (w_redis w') \<subseteq>\<^sub>m live (w_redis w) \<Longrightarrow> Q w'"
  shows "wp (rc_Del (zoom_redis (su_redis su)) ks) (\<lambda>_. Q) w"
  unfolding zoom_redis_def redis_client.select_convs
  by (rule wp_on_redis, rule wl.wp_del) (use assms in \<open>auto simp: restrict_le\<close>)

lemma live_pipeline:
  fixes w :: "('r, 'e, 'x) world"
  assumes "\<And>rs w'. only_redis w w' \<Longrightarrow> live (w_redis w') = live (w_redis w) \<Longrightarrow>
      list_all2 (\<lambda>k r. \<forall>v. r = Inr (Some v) \<longrightarrow> live (w_redis w) k = Some v) ks rs \<Longrightarrow> Q rs w'"
  shows "wp (rc_Pipeline (zoom_redis (su_redis su)) ks) Q w"
  unfolding zoom_redis_def redis_client.select_convs
proof (rule wp_on_redis, rule wpI, intro allI impI)
  fix rs r' and w' :: "('r, 'e, 'x) world"
  assume run: "run_state (rc_Pipeline (su_redis su) ks) (w_redis w) = (rs, r')" and w': "only_redis w w'" "w_redis w' = r'"
  have "live r' = live (w_redis w)" using wl.pipeline_frame [OF run] .
  moreover have "list_all2 (\<lambda>k r. \<forall>v. r = Inr (Some v) \<longrightarrow> live (w_redis w) k = Some v) ks rs"
    using wl.pipeline_length [OF run] wl.pipeline_ok [OF run] by (auto simp: list_all2_conv_all_nth)
  ultimately show "Q rs w'" using assms w' by simp
qed

lemma cache_frame:
  "cache_at su live us w \<Longrightarrow> only_redis w w' \<Longrightarrow> live (w_redis w') \<subseteq>\<^sub>m live (w_redis w) \<Longrightarrow> cache_at su live us w'"
  by (auto simp: cache_at_def only_redis_def intro: cache_ok_fewer)

sublocale uids: cached_mapper "cache_at su live us" "zoom_redis (su_redis su)" ParseInt_value "uid_key (resolver_prefix su)"
  "\<lambda>uid. on_db (user_fetchIDFromDB uid)" fst FormatInt resolver_ttl "fresh_id us" "known_id us" for us
proof
  show "fresh_id us k v \<Longrightarrow> known_id us k v" for k v by (auto simp: fresh_id_def known_id_def)
  show "wp (on_db (user_fetchIDFromDB k)) (\<lambda>r w'. cache_at su live us w' \<and> (\<forall>x. r = Inr x \<longrightarrow> fresh_id us k (fst x))) w"
    if "cache_at su live us w" for w k
    unfolding user_fetchIDFromDB_def
    by (rule wp_on_db, rule wp_fetch_identity)
      (use that in \<open>auto simp: cache_at_def only_db_def same_tables_pg fresh_id_def\<close>)
  show "wp (rc_Set (zoom_redis (su_redis su)) (uid_key (resolver_prefix su) k) (FormatInt v) resolver_ttl) (\<lambda>_. cache_at su live us) w"
    if J: "cache_at su live us w" and "fresh_id us k v" for w k v
  proof (rule live_set)
    fix w' assume w': "only_redis w w'" "live (w_redis w') = live (w_redis w) \<or>
      live (w_redis w') = (live (w_redis w))(uid_key (resolver_prefix su) k \<mapsto> FormatInt v)"
    from that(2) obtain u where "u \<in> set us" "u_UID u = k" "u_ID u = v" by (auto simp: fresh_id_def)
    with J w' cache_ok_put(1) [of "resolver_prefix su" "live (w_redis w)" us u] show "cache_at su live us w'"
      by (auto simp: cache_at_def only_redis_def)
  qed
  show "wp (rc_Pipeline (zoom_redis (su_redis su)) (map (uid_key (resolver_prefix su)) ks))
      (\<lambda>rs w'. cache_at su live us w' \<and> list_all2 (\<lambda>k r. \<forall>v. r = Inr (Some v) \<longrightarrow> known_id us k (ParseInt_value v)) ks rs) w"
    if J: "cache_at su live us w" for w ks
  proof (rule live_pipeline, intro conjI)
    fix rs w' assume w': "only_redis w w'" "live (w_redis w') = live (w_redis w)"
      "list_all2 (\<lambda>k r. \<forall>v. r = Inr (Some v) \<longrightarrow> live (w_redis w) k = Some v) (map (uid_key (resolver_prefix su)) ks) rs"
    show "cache_at su live us w'" using J w' by (auto simp: cache_at_def only_redis_def)
    have "\<And>k v. live (w_redis w) (uid_key (resolver_prefix su) k) = Some v \<Longrightarrow> known_id us k (ParseInt_value v)"
      using J by (fastforce simp: cache_at_def cache_ok_def known_id_def)
    with w'(3) show "list_all2 (\<lambda>k r. \<forall>v. r = Inr (Some v) \<longrightarrow> known_id us k (ParseInt_value v)) ks rs"
      by (auto simp: list_all2_map1 elim: list_all2_mono)
  qed
qed

sublocale ids: cached_mapper "cache_at su live us" "zoom_redis (su_redis su)" "\<lambda>v. v" "id_key (resolver_prefix su)"
  "\<lambda>i. on_db (user_fetchUIDFromDB i)" snd "\<lambda>v. v" resolver_ttl "known_uid us" "known_uid us" for us
proof
  show "wp (on_db (user_fetchUIDFromDB k)) (\<lambda>r w'. cache_at su live us w' \<and> (\<forall>x. r = Inr x \<longrightarrow> known_uid us k (snd x))) w"
    if "cache_at su live us w" for w k
    unfolding user_fetchUIDFromDB_def
    by (rule wp_on_db, rule wp_fetch_identity)
      (use that in \<open>auto simp: cache_at_def only_db_def same_tables_pg known_uid_def\<close>)
  show "wp (rc_Set (zoom_redis (su_redis su)) (id_key (resolver_prefix su) k) v resolver_ttl) (\<lambda>_. cache_at su live us) w"
    if J: "cache_at su live us w" and "known_uid us k v" for w k v
  proof (rule live_set)
    fix w' assume w': "only_redis w w'" "live (w_redis w') = live (w_redis w) \<or>
      live (w_redis w') = (live (w_redis w))(id_key (resolver_prefix su) k \<mapsto> v)"
    from that(2) obtain u where "u \<in> set us" "u_ID u = k" "u_UID u = v" by (auto simp: known_uid_def)
    with J w' cache_ok_put(2) [of "resolver_prefix su" "live (w_redis w)" us u] show "cache_at su live us w'"
      by (auto simp: cache_at_def only_redis_def)
  qed
  show "wp (rc_Pipeline (zoom_redis (su_redis su)) (map (id_key (resolver_prefix su)) ks))
      (\<lambda>rs w'. cache_at su live us w' \<and> list_all2 (\<lambda>k r. \<forall>v. r = Inr (Some v) \<longrightarrow> known_uid us k v) ks rs) w"
    if J: "cache_at su live us w" for w ks
  proof (rule live_pipeline, intro conjI)
    fix rs w' assume w': "only_redis w w'" "live (w_redis w') = live (w_redis w)"
      "list_all2 (\<lambda>k r. \<forall>v. r = Inr (Some v) \<longrightarrow> live (w_redis w) k = Some v) (map (id_key (resolver_prefix su)) ks) rs"
    show "cache_at su live us w'" using J w' by (auto simp: cache_at_def only_redis_def)
    have "\<And>k v. live (w_redis w) (id_key (resolver_prefix su) k) = Some v \<Longrightarrow> known_uid us k v"
      using J by (fastforce simp: cache_at_def cache_ok_def known_uid_def)
    with w'(3) show "list_all2 (\<lambda>k r. \<forall>v. r = Inr (Some v) \<longrightarrow> known_uid us k v) ks rs"
      by (auto simp: list_all2_map1 elim: list_all2_mono)
  qed
qed

lemma cache_good_at: "cache_at su live us w \<Longrightarrow> cache_good su live w"
  by (simp add: cache_good_def cache_at_def)

lemma cache_good_same: "cache_good su live w \<Longrightarrow> only_redis w w' \<Longrightarrow> live (w_redis w') \<subseteq>\<^sub>m live (w_redis w) \<Longrightarrow> cache_good su live w'"
  unfolding cache_good_def by (metis cache_frame only_redis_def)

lemma cache_good_session:
  assumes "code_ok su" "cache_good su live w" "only_redis w w'"
    and "live (w_redis w') = (live (w_redis w))(buildKey \<lparr>ta_prefix = ''token-'' @ p, ta_defaultTTL = d\<rparr> u t \<mapsto> x)"
  shows "cache_good su live w'"
  using assms(2-) cache_ok_other [of "resolver_prefix su" "live (w_redis w)" "pg_user (w_db w)"] code_ok_keys [OF assms(1)]
  by (simp add: cache_good_def cache_at_def only_redis_def uid_key_def id_key_def id_key_str_def)

lemmas cache_good_wl = cache_good_session [where p = "''whitelist:''", simplified append.simps, folded whitelist_prefix_def]
lemmas cache_good_bl = cache_good_session [where p = "''blacklist:''", simplified append.simps, folded blacklist_prefix_def]

lemma cache_service_invariant:
  assumes "code_ok su"
  shows "service_invariant su live (cache_good su live) accounts_kept"
proof unfold_locales
  let ?J = "cache_good su live"
  show "\<exists>us. accounts_kept us (w_db w) \<and> (\<forall>w'. only_db w w' \<longrightarrow> accounts_kept us (w_db w') \<longrightarrow> ?J w')" if "?J w" for w
    using that
    by (intro exI [of _ "pg_user (w_db w)"])
      (auto simp: accounts_kept_refl cache_good_def cache_at_def only_db_def intro: cache_ok_kept)
  show "?J w'" if "?J w" "w_db w' = w_db w" "w_redis w' = w_redis w" for w w'
    using that by (simp add: cache_good_def cache_at_def)
  show "?J w'" if "?J w" "elapsed live w w'" for w w'
    using that by (auto simp: cache_good_def cache_at_def elapsed_def intro: cache_ok_fewer)
  show "keeps ?J (TS_Add (the_whitelist su) a b)" for a b
    by (rule keepsI, rule wp_wl_add) (auto intro: cache_good_wl [OF assms] cache_good_same)
  show "keeps ?J (TS_Remove (the_whitelist su) a b)" for a b
    by (rule keepsI, rule wp_wl_remove) (auto intro: cache_good_same simp: restrict_le)
  show "keeps ?J (TS_IsAllowed (the_whitelist su) a b)" for a b
    by (rule keepsI, rule wp_wl_is_allowed) (auto intro: cache_good_same)
  show "keeps ?J (TS_Add (the_blacklist su) a b)" for a b
    by (rule keepsI, rule wp_bl_add) (auto intro: cache_good_bl [OF assms] cache_good_same)
  show "keeps ?J (TS_IsAllowed (the_blacklist su) a b)" for a b
    by (rule keepsI, rule wp_bl_is_allowed) (auto intro: cache_good_same)
  show "keeps ?J (RS_IDsByUIDs (the_userResolver su) uidl)" for uidl
    unfolding the_userResolver_def NewUserResolver_def new_resolver_def UserResolver.select_convs
    by (rule keepsI, rule wp_mono [OF uids.wp_mapper]) (auto simp: cache_good_def intro: cache_good_at [unfolded cache_good_def])
  show "keeps ?J (RS_UIDsByIDs (the_userResolver su) idl)" for idl
    unfolding the_userResolver_def NewUserResolver_def new_resolver_def UserResolver.select_convs
    by (rule keepsI, rule wp_mono [OF ids.wp_mapper]) (auto simp: cache_good_def intro: cache_good_at [unfolded cache_good_def])
  show "keeps ?J (RS_Invalidate (the_userResolver su) opts)" for opts
    unfolding the_userResolver_def NewUserResolver_def new_resolver_def UserResolver.select_convs invalidate_def Let_def
    by (intro keeps_intros; rule keepsI; (rule live_pipeline | rule live_del); erule cache_good_same; simp)
qed

lemmas reachable_cache = service_invariant.reachable_invariant [OF cache_service_invariant]

lemma wp_ids_by_uids:
  assumes "cache_good su live w"
  shows "wp (RS_IDsByUIDs (the_userResolver su) ks)
    (\<lambda>r w'. \<forall>m k i. r = Inr m \<longrightarrow> m k = Some i \<longrightarrow> known_id (pg_user (w_db w)) k i) w"
  unfolding the_userResolver_def NewUserResolver_def new_resolver_def UserResolver.select_convs
  by (rule wp_mono [OF uids.wp_mapper]) (use assms in \<open>auto simp: cache_good_def uids.all_good_def\<close>)

lemma wp_uids_by_ids:
  assumes "cache_good su live w"
  shows "wp (RS_UIDsByIDs (the_userResolver su) ks)
    (\<lambda>r w'. \<forall>m k v. r = Inr m \<longrightarrow> m k = Some v \<longrightarrow> known_uid (pg_user (w_db w)) k v) w"
  unfolding the_userResolver_def NewUserResolver_def new_resolver_def UserResolver.select_convs
  by (rule wp_mono [OF ids.wp_mapper]) (use assms in \<open>auto simp: cache_good_def ids.all_good_def\<close>)

end

section \<open>What the resolver answers\<close>

definition ids_in_range :: "User list \<Rightarrow> bool" where
  "ids_in_range us \<longleftrightarrow> (\<forall>u \<in> set us. - (2 ^ 63) \<le> u_ID u \<and> u_ID u < 2 ^ 63)"

lemma known_id_exact: "known_id us uid i \<Longrightarrow> ids_in_range us \<Longrightarrow> \<exists>u \<in> set us. u_UID u = uid \<and> u_ID u = i"
  by (auto simp: known_id_def ids_in_range_def ParseInt_FormatInt)


text \<open>A service whose cache holds the UID of one user.\<close>

definition cached_world :: "(mem_redis, EventMessage list, time) world" where
  "cached_world = demo_world\<lparr>w_redis := \<lparr>ms_keys = [(''app:resolver:user:id:2:uid'', (''u-bob'', None))], ms_clock = 100, ms_faults = []\<rparr>\<rparr>"

lemma cached_world_good: "cache_good demo mem_live cached_world"
proof -
  have two: "FormatInt 2 = ''2''" by code_simp
  have key: "''app:resolver:user:id:2:uid'' = id_key (resolver_prefix demo) 2"
    by (simp add: id_key_def id_key_str_def two resolver_prefix_def provider_user_prefix_def demo_def)
  have live: "mem_live (w_redis cached_world) = [id_key (resolver_prefix demo) 2 \<mapsto> ''u-bob'']"
    by (simp add: cached_world_def mem_live_def fun_eq_iff flip: key)
  have bob: "bob \<in> set (pg_user (w_db cached_world))" "u_UID bob = ''u-bob''" "u_ID bob = 2"
    by (simp_all add: cached_world_def demo_world_def demo_db_def bob_def)
  show ?thesis
    unfolding cache_good_def cache_at_def cache_ok_def live
    by (intro conjI allI impI refl) (use bob in \<open>auto split: if_splits\<close>)
qed


end
