(* ===== verification/Accounts.thy ===== *)
theory Accounts
  imports CacheProperties SessionProperties
begin

text \<open>
  The methods of the user service on one account: the lookup of a user by its UID through the
  resolver's cache, the change of a password, PINs and the revocation of a device. The rules here
  carry them through every failure; the properties are in \<open>AccountProperties\<close>.
\<close>

section \<open>Finding the user of a request\<close>

text \<open>A call that only reads: the tables, the sessions and the counters stay as they are.\<close>

definition calm :: "('r \<Rightarrow> string \<Rightarrow> string option) \<Rightarrow> ('r, 'e, 'x) world \<Rightarrow> ('r, 'e, 'x) world \<Rightarrow> bool" where
  "calm live w w' \<longleftrightarrow> same_tables (w_db w) (w_db w') \<and> wl_sessions live w' = wl_sessions live w \<and>
     bl_sessions live w' = bl_sessions live w \<and> w_tracker w' = w_tracker w \<and> w_uids w' = w_uids w \<and> w_outside w' = w_outside w"

lemma same_tables_refl [simp]: "same_tables d d"
  by (simp add: same_tables_def, rule exI [of _ "pg_script d"]) simp

lemma same_tables_run: "set os \<subseteq> set (pg_script d) \<Longrightarrow> same_tables d (d\<lparr>pg_script := os\<rparr>)"
  by (auto simp: same_tables_def)

lemma same_tables_trans [trans]:
  assumes "same_tables a b" "same_tables b c" shows "same_tables a c"
proof -
  obtain os where b: "b = a\<lparr>pg_script := os\<rparr>" "set os \<subseteq> set (pg_script a)" using assms(1) by (auto simp: same_tables_def)
  obtain os' where "c = b\<lparr>pg_script := os'\<rparr>" "set os' \<subseteq> set (pg_script b)" using assms(2) by (auto simp: same_tables_def)
  with b have "c = a\<lparr>pg_script := os'\<rparr>" "set os' \<subseteq> set (pg_script a)" by auto
  then show ?thesis by (simp add: same_tables_run)
qed

lemma calm_refl [simp]: "calm live w w"
  by (simp add: calm_def)

lemma calm_trans [trans]: "calm live a b \<Longrightarrow> calm live b c \<Longrightarrow> calm live a c"
  by (auto simp: calm_def intro: same_tables_trans)

lemma calm_only_db: "only_db w w' \<Longrightarrow> same_tables (w_db w) (w_db w') \<Longrightarrow> calm live w w'"
  by (simp add: calm_def only_db_def wl_sessions_def bl_sessions_def fun_eq_iff)

lemma sessions_eqs:
  "wl_sessions live w = key_sessions wl_adapter (live (w_redis w))" "bl_sessions live w = key_sessions bl_adapter (live (w_redis w))"
  by (simp_all add: wl_sessions_def bl_sessions_def fun_eq_iff)

lemma calm_redis:
  assumes "calm live w0 w" "only_redis w w'"
    and "key_sessions wl_adapter (live (w_redis w')) = key_sessions wl_adapter (live (w_redis w))"
    and "key_sessions bl_adapter (live (w_redis w')) = key_sessions bl_adapter (live (w_redis w))"
  shows "calm live w0 w'"
  using assms by (simp add: calm_def only_redis_def sessions_eqs)

lemma calm_users: "calm live w w' \<Longrightarrow> pg_user (w_db w') = pg_user (w_db w)"
  by (simp add: calm_def same_tables_pg)

text \<open>Keys of the resolver are no sessions.\<close>

lemma sessions_other_key:
  assumes "\<And>u t. k \<noteq> buildKey a u t" shows "key_sessions a (m(k \<mapsto> x)) = key_sessions a m"
  by (rule ext) (use assms in \<open>auto simp: key_sessions_def\<close>)

lemma sessions_resolver_key:
  assumes "code_ok su"
  shows "key_sessions wl_adapter (m(resolver_prefix su @ k \<mapsto> x)) = key_sessions wl_adapter m"
    "key_sessions bl_adapter (m(resolver_prefix su @ k \<mapsto> x)) = key_sessions bl_adapter m"
proof -
  have "resolver_prefix su @ k \<noteq> buildKey wl_adapter u t" "resolver_prefix su @ k \<noteq> buildKey bl_adapter u t" for u t
    using code_ok_keys [OF assms, of "''whitelist:''" whitelist_ttl u t k]
      code_ok_keys [OF assms, of "''blacklist:''" blacklist_ttl u t k]
    by (simp_all add: whitelist_prefix_def blacklist_prefix_def)
  then show "key_sessions wl_adapter (m(resolver_prefix su @ k \<mapsto> x)) = key_sessions wl_adapter m"
    "key_sessions bl_adapter (m(resolver_prefix su @ k \<mapsto> x)) = key_sessions bl_adapter m"
    by (blast intro: sessions_other_key)+
qed

text \<open>The row of a user is determined by its identifier.\<close>

lemma same_row:
  "tables_ok d \<Longrightarrow> u \<in> set (pg_user d) \<Longrightarrow> v \<in> set (pg_user d) \<Longrightarrow> u_ID u = u_ID v \<Longrightarrow> u = v"
  by (auto simp: tables_ok_def ids_ok_def distinct_map dest: inj_onD)

text \<open>A state in which the resolver answers rightly and the tables are in order.\<close>

definition in_order :: "('r, 'e, 'x) deployment \<Rightarrow> ('r \<Rightarrow> string \<Rightarrow> string option) \<Rightarrow> ('r, 'e, 'x) world \<Rightarrow> bool" where
  "in_order su live w \<longleftrightarrow> code_ok su \<and> cache_good su live w \<and> tables_ok (w_db w) \<and> ids_in_range (pg_user (w_db w))"

text \<open>What the client and the query keep, the cached lookup keeps.\<close>

lemma keeps_mapperIDs:
  assumes put: "\<And>k v. keeps J (rc_Set rc (cacheKey k) (render v) ttl)" and pipe: "\<And>ks. keeps J (rc_Pipeline rc ks)"
    and fetch: "\<And>k. keeps J (dbFetch k)"
  shows "keeps J (mapperIDs rc ks convert cacheKey dbFetch getValue render ttl)"
proof -
  have "keeps J (fetch_keys rc cacheKey dbFetch getValue render ttl ks' m)" for ks' m
    by (induction ks' arbitrary: m) (simp add: keeps_intros, unfold fetch_keys.simps, intro keeps_intros put fetch)
  then show ?thesis unfolding mapperIDs_def by (intro keeps_intros pipe)
qed

context running
begin

lemma keeps_calm_client:
  fixes w0 :: "('r, 'e, 'x) world"
  assumes "code_ok su"
  shows "keeps (calm live w0) (rc_Set (zoom_redis (su_redis su)) (resolver_prefix su @ k) v resolver_ttl)"
    "keeps (calm live w0) (rc_Pipeline (zoom_redis (su_redis su)) ks)"
proof -
  show "keeps (calm live w0) (rc_Set (zoom_redis (su_redis su)) (resolver_prefix su @ k) v resolver_ttl)"
    by (rule keepsI, rule live_set, erule (1) calm_redis) (auto simp: sessions_resolver_key [OF assms])
  show "keeps (calm live w0) (rc_Pipeline (zoom_redis (su_redis su)) ks)"
    by (rule keepsI, rule live_pipeline, erule (1) calm_redis) simp_all
qed

lemma keeps_calm_fetch: "keeps (calm live w0) (on_db (fetch_identity table getID getUID cond nf))"
  unfolding fetch_identity_def
proof (rule keepsI, rule wp_on_db, unfold wp_call, rule wp_query_rows)
qed (auto simp: Let_def split: sum.split elim!: calm_trans intro!: calm_only_db same_tables_run)

lemma keeps_calm_ids:
  assumes "code_ok su" shows "keeps (calm live w0) (RS_IDsByUIDs (the_userResolver su) ks)"
  unfolding the_userResolver_def NewUserResolver_def new_resolver_def UserResolver.select_convs user_fetchIDFromDB_def
  using keeps_calm_client(1) [OF assms, of w0 "'':'' @ k @ '':id''" for k]
  by (intro keeps_mapperIDs keeps_calm_client(2) [OF assms] keeps_calm_fetch) (simp add: uid_key_def)

lemma us: "us_userRepo (the_users su) = the_userRepo su" "us_pinRepo (the_users su) = the_pinRepo su"
  "us_deviceRepo (the_users su) = the_deviceRepo su" "us_userDeviceRepo (the_users su) = the_userDeviceRepo su"
  "us_passwordHasher (the_users su) = zoom_hasher (su_passwordHasher su)"
  "us_pinHasher (the_users su) = zoom_hasher (su_pinHasher su)" "us_tokenWhitelist (the_users su) = the_whitelist su"
  "us_eventPublisher (the_users su) = the_eventPublisher su" "us_userResolver (the_users su) = the_userResolver su"
  "us_uidGen (the_users su) = the_uidGen su" "us_profileRepo (the_users su) = the_profileRepo su"
  by (simp_all add: the_users_def)

lemma wp_resolve_uid:
  assumes "in_order su live w"
    and "\<And>w' u. calm live w w' \<Longrightarrow> u \<in> set (pg_user (w_db w)) \<Longrightarrow> u_UID u = uid \<Longrightarrow> Q (Inr (u_ID u)) w'"
    and "\<And>e w'. Q (Inl e) w'"
  shows "wp (resolve_uid (the_users su) uid onErr) Q w"
proof -
  have id_row: "Q (Inr i) w'" if "calm live w w'" "known_id (pg_user (w_db w)) uid i" for i w'
    using assms(1,2) that by (auto simp: in_order_def dest!: known_id_exact)
  have "wp (RS_IDsByUIDs (the_userResolver su) [uid])
      (\<lambda>r w'. calm live w w' \<and> (\<forall>m k i. r = Inr m \<longrightarrow> m k = Some i \<longrightarrow> known_id (pg_user (w_db w)) k i)) w"
    unfolding wp_conj
    by (rule conjI [OF keepsD [OF keeps_calm_ids calm_refl] wp_ids_by_uids]) (use assms(1) in \<open>simp_all add: in_order_def\<close>)
  then show ?thesis
    unfolding resolve_uid_def us wp_bind
    by (rule wp_mono)
      (use assms id_row in \<open>auto split: sum.split option.split\<close>)
qed

lemma wp_own_row:
  assumes "tables_ok (w_db w0)" "u \<in> set (pg_user (w_db w0))" "calm live w0 w"
    and "\<And>w'. calm live w0 w' \<Longrightarrow> w_redis w' = w_redis w \<Longrightarrow> u_DeletedAt u = None \<Longrightarrow> Q (Inr u) w'" and "\<And>e w'. Q (Inl e) w'"
  shows "wp (UR_GetByID (the_userRepo su) (u_ID u)) Q w"
proof (rule wp_GetByID)
  fix w' v assume w': "only_db w w'" "same_tables (w_db w) (w_db w')" and "lookup_user (\<lambda>v. u_ID v = u_ID u) w = Some v"
  then have "v = u" "u_DeletedAt u = None"
    using same_row [OF assms(1) _ assms(2), of v] calm_users [OF assms(3)] by (auto dest!: lookup_user_Some)
  with calm_trans [OF assms(3) calm_only_db [OF w']] w'(1) show "Q (Inr v) w'" by (simp add: assms(4) only_db_def)
qed (rule assms(5))+

lemma wp_user_update:
  assumes "\<And>w'. only_db w w' \<Longrightarrow> pg_user (w_db w') = updated_users user (pg_user (w_db w)) \<Longrightarrow> Q (Inr ()) w'"
    and "\<And>e w'. Q (Inl e) w'"
  shows "wp (UR_Update (the_userRepo su) user) Q w"
  unfolding the_userRepo_def NewUserRepository_def UserRepository_Update_def Let_def UserRepository.select_convs
  by (rule wp_on_db, rule wp_statement) (auto simp: store_users_def simp flip: updated_users_def intro!: assms)

section \<open>The password\<close>

lemma updated_password:
  assumes "tables_ok d" "u \<in> set (pg_user d)"
  shows "updated_users (u\<lparr>u_Password := c\<rparr>) (pg_user d) = map (\<lambda>v. if v = u then u\<lparr>u_Password := c\<rparr> else v) (pg_user d)"
  unfolding updated_users_def using same_row [OF assms(1) _ assms(2)] by (intro map_cong) auto

lemma password_stored:
  assumes tables: "tables_ok (w_db w)" "u \<in> set (pg_user (w_db w))"
    and steps: "calm live w w2" "only_outside w2 w3" "only_db w3 w4" "only_events w4 w5"
    and hashed: "run_state (H_Hash (su_passwordHasher su) new) (w_outside w2) = (Inr c, w_outside w3)"
    and stored: "pg_user (w_db w4) = updated_users (u\<lparr>u_Password := c\<rparr>) (pg_user (w_db w3))"
  shows "H_Compare (su_passwordHasher su) c new \<and>
    pg_user (w_db w5) = map (\<lambda>v. if v = u then u\<lparr>u_Password := c\<rparr> else v) (pg_user (w_db w)) \<and>
    wl_sessions live w5 = wl_sessions live w \<and> bl_sessions live w5 = bl_sessions live w"
proof (intro conjI)
  show "H_Compare (su_passwordHasher su) c new" by (rule hasher.compare_hash [OF passwords hashed])
  show "pg_user (w_db w5) = map (\<lambda>v. if v = u then u\<lparr>u_Password := c\<rparr> else v) (pg_user (w_db w))"
    using steps stored calm_users [OF steps(1)] updated_password [OF tables] by (simp add: only_defs)
  show "wl_sessions live w5 = wl_sessions live w" "bl_sessions live w5 = bl_sessions live w"
    using steps by (simp_all add: calm_def only_defs sessions_eqs)
qed

lemma wp_ChangePassword:
  assumes order: "in_order su live w"
    and ok: "\<And>u c w'. u \<in> set (pg_user (w_db w)) \<Longrightarrow> u_UID u = uid \<Longrightarrow> u_DeletedAt u = None \<Longrightarrow>
      H_Compare (su_passwordHasher su) (u_Password u) (cp_CurrentPassword p) \<Longrightarrow>
      H_Compare (su_passwordHasher su) c (cp_NewPassword p) \<and>
      pg_user (w_db w') = map (\<lambda>v. if v = u then u\<lparr>u_Password := c\<rparr> else v) (pg_user (w_db w)) \<and>
      wl_sessions live w' = wl_sessions live w \<and> bl_sessions live w' = bl_sessions live w \<Longrightarrow> Q (Inr ()) w'"
    and err: "\<And>e w'. Q (Inl e) w'"
  shows "wp (ChangePassword (the_users su) uid p) Q w"
proof -
  have tables: "tables_ok (w_db w)" using order by (simp add: in_order_def)
  show ?thesis
    unfolding ChangePassword_def us wp_call
    by (auto simp: err Let_def IsDeleted_def intro!: wp_resolve_uid [OF order] wp_own_row [OF tables] wp_hash wp_user_update wp_publish_msg
        split: sum.split)
      (rule ok, assumption, erule sym, assumption, assumption, rule password_stored [OF tables]; assumption)
qed

end

section \<open>PINs\<close>

lemma calm_up: "calm live w w' \<Longrightarrow> db_up w \<Longrightarrow> w_db w' = w_db w"
  by (simp add: calm_def same_tables_script)

lemma find_append: "find P (xs @ ys) = (case find P xs of None \<Rightarrow> find P ys | Some x \<Rightarrow> Some x)"
  by (induction xs) auto

lemma filter_unique: "distinct (map f xs) \<Longrightarrow> x \<in> set xs \<Longrightarrow> filter (\<lambda>y. f y = f x) xs = [x]"
  by (induction xs) (auto simp: filter_empty_conv image_iff)

lemma user_ids_distinct: "tables_ok d \<Longrightarrow> distinct (map u_ID (pg_user d))"
  by (simp add: tables_ok_def ids_ok_def)

text \<open>The PIN of a user: the first row of its identifier, with the UID of the user.\<close>

definition pin_of :: "pgstate \<Rightarrow> int \<Rightarrow> UserPin option" where
  "pin_of d i = find (\<lambda>p. pin_UserID p = i) (pg_user_pin d)"

lemma find_pin_rows:
  assumes "distinct (map u_ID (pg_user d))" "u \<in> set (pg_user d)"
  shows "find (\<lambda>p. pin_UserID p = u_ID u) (pin_rows d) = map_option (\<lambda>p. p\<lparr>pin_UserUID := u_UID u\<rparr>) (pin_of d (u_ID u))"
proof -
  have own: "filter (\<lambda>v. u_ID v = u_ID u) (pg_user d) = [u]"
    using assms by (intro filter_unique)
  have "find (\<lambda>p. pin_UserID p = u_ID u) (concat (map (\<lambda>p. map (\<lambda>v. p\<lparr>pin_UserUID := u_UID v\<rparr>)
          (filter (\<lambda>v. u_ID v = pin_UserID p) (pg_user d))) ps))
      = map_option (\<lambda>p. p\<lparr>pin_UserUID := u_UID u\<rparr>) (find (\<lambda>p. pin_UserID p = u_ID u) ps)" for ps :: "UserPin list"
  proof (induction ps)
    case (Cons p ps)
    show ?case
    proof (cases "pin_UserID p = u_ID u")
      case True
      then show ?thesis by (simp add: own)
    next
      case False
      then have "find (\<lambda>p. pin_UserID p = u_ID u) (map (\<lambda>v. p\<lparr>pin_UserUID := u_UID v\<rparr>) vs) = None" for vs :: "User list"
        by (induction vs) simp_all
      with False Cons show ?thesis by (simp add: find_append)
    qed
  qed simp
  then show ?thesis by (simp add: pin_rows_def pin_of_def)
qed

lemma wp_pin_get_up:
  assumes "w_db w = d" "pg_script d = []" "distinct (map u_ID (pg_user d))" "u \<in> set (pg_user d)"
    and "\<And>p. pin_of d (u_ID u) = Some p \<Longrightarrow> Q (Inr (p\<lparr>pin_UserUID := u_UID u\<rparr>)) w"
    and "pin_of d (u_ID u) = None \<Longrightarrow> Q (Inl ErrPinNotSet) w"
  shows "wp (PR_GetByUserID (the_pinRepo su) (u_ID u)) Q w"
  unfolding the_pinRepo_def NewPinRepository_def PinRepository_GetByUserID_def Let_def UserPinRepository.select_convs
  by (rule wp_row_up [OF refl]) (use assms find_pin_rows [OF assms(3,4)] in \<open>auto\<close>)

lemma wp_pin_create_up:
  assumes "db_up w"
    and "Q (Inr pin) (w\<lparr>w_db := (w_db w)\<lparr>pg_user_pin := pg_user_pin (w_db w) @ [pin\<lparr>pin_UserUID := []\<rparr>]\<rparr>\<rparr>)"
  shows "wp (PR_Create (the_pinRepo su) pin) Q w"
  unfolding the_pinRepo_def NewPinRepository_def PinRepository_Create_def Let_def UserPinRepository.select_convs
  using assms by (simp add: wp_def)

lemma wp_pin_update_up:
  assumes "db_up w"
    and "Q (Inr ()) (w\<lparr>w_db := pg_user_pin_update (map (\<lambda>p. if pin_UserID p = pin_UserID pin
      then p\<lparr>pin_Code := pin_Code pin, pin_UpdatedAt := pin_UpdatedAt pin\<rparr> else p)) (w_db w)\<rparr>)"
  shows "wp (PR_Update (the_pinRepo su) pin) Q w"
  unfolding the_pinRepo_def NewPinRepository_def PinRepository_Update_def Let_def UserPinRepository.select_convs exec_map_def
  using assms by (simp add: wp_def)

lemma find_map_first:
  assumes "\<And>x. P (f x) = P x" shows "find P (map (\<lambda>x. if P x then f x else x) xs) = map_option f (find P xs)"
  by (induction xs) (auto simp: assms)

text \<open>The PIN of a user is the one it has set.\<close>

definition pin_set :: "('r, 'e, 'x) deployment \<Rightarrow> string \<Rightarrow> string \<Rightarrow> pgstate \<Rightarrow> pgstate \<Rightarrow> bool" where
  "pin_set su uid pin d d' \<longleftrightarrow> pg_user d' = pg_user d \<and> pg_script d' = [] \<and>
     (\<exists>u \<in> set (pg_user d). u_UID u = uid \<and> u_DeletedAt u = None \<and>
       (\<exists>p c x x'. pin_of d' (u_ID u) = Some p \<and> pin_Code p = c \<and>
          run_state (H_Hash (su_pinHasher su) pin) x = (Inr c, x')))"

context running
begin

text \<open>On a database that runs every statement.\<close>

lemma pin_stored:
  assumes "u \<in> set (pg_user (w_db w))" "u_UID u = uid" "u_DeletedAt u = None"
    and "run_state (H_Hash (su_pinHasher su) pin) x = (Inr c, x')" "only_events (w1\<lparr>w_db := d\<rparr>) w'"
    and "pg_user d = pg_user (w_db w)" "pg_script d = []" "pin_of d (u_ID u) = Some p" "pin_Code p = c"
  shows "pin_set su uid pin (w_db w) (w_db w')"
  using assms by (auto simp: pin_set_def only_events_def)

lemma wp_SetPin_up:
  assumes order: "in_order su live w" and up: "db_up w"
    and ok: "\<And>w'. pin_set su uid pin (w_db w) (w_db w') \<Longrightarrow> Q (Inr ()) w'" and err: "\<And>e w'. Q (Inl e) w'"
  shows "wp (SetPin (the_users su) uid pin) Q w"
proof -
  have tables: "tables_ok (w_db w)" using order by (simp add: in_order_def)
  have db: "only_outside w1 w2 \<Longrightarrow> calm live w w1 \<Longrightarrow> w_db w2 = w_db w" for w1 w2
    using up by (metis calm_up only_outside_def)
  have i: "pin_of (w_db w) j = Some p \<Longrightarrow> pin_UserID p = j" for j p by (auto simp: pin_of_def find_Some_iff)
  show ?thesis
    unfolding SetPin_def us wp_call
    by (auto simp: err Let_def IsDeleted_def up db i intro!: wp_resolve_uid [OF order] wp_own_row [OF tables] wp_hash
          wp_pin_get_up [OF _ up user_ids_distinct [OF tables]] wp_pin_update_up wp_pin_create_up wp_publish_msg split: sum.split)
      (rule ok, rule pin_stored, assumption, erule sym, assumption, assumption, assumption, simp, simp add: up,
        simp add: pin_of_def find_map_first find_append, simp)+
qed

lemma wp_VerifyPin_up:
  assumes up: "db_up w" and tables: "distinct (map u_ID (pg_user (w_db w)))" "distinct (map u_UID (pg_user (w_db w)))"
    and u: "u \<in> set (pg_user (w_db w))" "u_UID u = uid" "u_DeletedAt u = None"
    and p: "pin_of (w_db w) (u_ID u) = Some p" "pin_Code p \<noteq> []"
    and ok: "\<And>w'. only_events w w' \<Longrightarrow> Q (Inr (H_Compare (su_pinHasher su) (pin_Code p) pin)) w'"
  shows "wp (VerifyPin (the_auth su) uid pin) Q w"
proof -
  have own: "v = u" if "lookup_user (\<lambda>v. u_UID v = uid) w = Some v" for v
    using lookup_user_Some [OF that] u tables(2) by (metis distinct_map inj_on_def)
  have found: "lookup_user (\<lambda>v. u_UID v = uid) w \<noteq> None" using u by (auto simp: lookup_user_None)
  show ?thesis
    unfolding VerifyPin_def au wp_call
    by (auto simp: up tables(1) u p found IsSet_def dest!: own intro!: wp_GetByUID_up [OF up] wp_pin_get_up [OF refl up tables(1)] wp_async_msg)
      (use ok p in \<open>auto\<close>)
qed

end

section \<open>Devices\<close>

text \<open>What a revocation does to the rows of a user and a device, and to the sessions of the user.\<close>

definition device_revoked ::
  "('r \<Rightarrow> string \<Rightarrow> string option) \<Rightarrow> string \<Rightarrow> string \<Rightarrow> ('r, 'e, 'x) world \<Rightarrow> ('r, 'e, 'x) world \<Rightarrow> bool" where
  "device_revoked live uid duid w w' \<longleftrightarrow>
     (\<exists>u \<in> set (pg_user (w_db w)). \<exists>dv \<in> set (pg_device (w_db w)). \<exists>ud \<in> set (pg_user_device (w_db w)).
        u_UID u = uid \<and> u_DeletedAt u = None \<and> d_UID dv = duid \<and> ud_UserID ud = u_ID u \<and> ud_DeviceID ud = d_ID dv \<and>
        pg_user_device (w_db w') = map (\<lambda>r. if ud_UserID r = u_ID u \<and> ud_DeviceID r = d_ID dv
          then r\<lparr>ud_RevokedAt := Some (pg_now (w_db w))\<rparr> else r) (pg_user_device (w_db w)) \<and>
        wl_sessions live w' uid = (if ud_SessionID ud = [] then wl_sessions live w uid
                                   else wl_sessions live w uid - {ud_SessionID ud}))"

lemmas device_ports = the_deviceRepo_def NewDeviceRepository_def DeviceRepository_GetByUID_def the_userDeviceRepo_def
  NewUserDeviceRepository_def UserDeviceRepository_GetByUserIDAndDeviceID_def UserDeviceRepository_Revoke_def Let_def
  DeviceRepository.select_convs UserDeviceRepository.select_convs scan_defs

context healthy
begin

lemma keeps_steady_ids: "keeps redis_steady (RS_IDsByUIDs (the_userResolver su) ks)"
proof -
  have put: "keeps redis_steady (rc_Set (zoom_redis (su_redis su)) k v ttl)" for k v ttl
    unfolding zoom_redis_def redis_client.select_convs
    by (rule keepsI, rule wp_on_redis, rule wpI) (use rc.set_up in \<open>fastforce simp: only_redis_def\<close>)
  have pipe: "keeps redis_steady (rc_Pipeline (zoom_redis (su_redis su)) ks)" for ks
    unfolding zoom_redis_def redis_client.select_convs
    by (rule keepsI, rule wp_on_redis, rule wpI) (use rc.pipeline_up in \<open>fastforce simp: only_redis_def\<close>)
  have fetch: "keeps redis_steady (on_db m)" for m
    by (rule keepsI, simp only: wp_zoom, rule wpI, simp)
  show ?thesis
    unfolding the_userResolver_def NewUserResolver_def new_resolver_def UserResolver.select_convs
    by (intro keeps_mapperIDs put pipe fetch)
qed

lemma wp_resolve_uid_up:
  assumes "in_order su live w" "redis_steady w"
    and ok: "\<And>w' u. calm live w w' \<Longrightarrow> redis_steady w' \<Longrightarrow> u \<in> set (pg_user (w_db w)) \<Longrightarrow> u_UID u = uid \<Longrightarrow> Q (Inr (u_ID u)) w'"
    and err: "\<And>e w'. Q (Inl e) w'"
  shows "wp (resolve_uid (the_users su) uid onErr) Q w"
proof -
  have "keeps redis_steady (resolve_uid (the_users su) uid onErr)"
    unfolding resolve_uid_def us by (intro keeps_intros keeps_steady_ids)
  from keepsD [OF this assms(2)]
  have "wp (resolve_uid (the_users su) uid onErr) (\<lambda>r w'. redis_steady w' \<and>
      (\<forall>i. r = Inr i \<longrightarrow> (\<exists>u \<in> set (pg_user (w_db w)). calm live w w' \<and> u_UID u = uid \<and> i = u_ID u))) w"
    unfolding wp_conj by (rule conjI) (rule wp_resolve_uid [OF assms(1)]; auto)
  then show ?thesis by (rule wp_mono) (metis ok err sum.exhaust)
qed

lemma find_in: "find P xs = Some x \<Longrightarrow> x \<in> set xs \<and> P x"
  by (auto simp: find_Some_iff)

lemma wp_device_get:
  assumes "calm live w0 w"
    and "\<And>w' dv. calm live w0 w' \<Longrightarrow> w_redis w' = w_redis w \<Longrightarrow> dv \<in> set (pg_device (w_db w0)) \<Longrightarrow> d_UID dv = duid \<Longrightarrow> Q (Inr dv) w'"
    and "\<And>e w'. Q (Inl e) w'"
  shows "wp (DR_GetByUID (the_deviceRepo su) duid) Q w"
  unfolding device_ports
proof (rule wp_get_row [OF refl])
  fix w' dv assume w': "only_db w w'" "same_tables (w_db w) (w_db w')" and "find (\<lambda>d. d_UID d = duid) (pg_device (w_db w)) = Some dv"
  then show "Q (Inr dv) w'"
    using assms(1) by (intro assms(2) calm_trans [OF assms(1) calm_only_db]) (auto dest!: find_in simp: calm_def only_db_def same_tables_pg)
qed (simp_all add: assms(3))

lemma wp_user_device_get:
  assumes "calm live w0 w"
    and "\<And>w' ud. calm live w0 w' \<Longrightarrow> w_redis w' = w_redis w \<Longrightarrow> ud \<in> set (pg_user_device (w_db w0)) \<Longrightarrow>
      ud_UserID ud = i \<Longrightarrow> ud_DeviceID ud = j \<Longrightarrow> Q (Inr ud) w'"
    and "\<And>e w'. Q (Inl e) w'"
  shows "wp (UDR_GetByUserIDAndDeviceID (the_userDeviceRepo su) i j) Q w"
  unfolding device_ports
proof (rule wp_get_row [OF refl])
  fix w' ud assume w': "only_db w w'" "same_tables (w_db w) (w_db w')"
    and "find (\<lambda>ud. ud_UserID ud = i \<and> ud_DeviceID ud = j) (pg_user_device (w_db w)) = Some ud"
  then show "Q (Inr ud) w'"
    using assms(1) by (intro assms(2) calm_trans [OF assms(1) calm_only_db]) (auto dest!: find_in simp: calm_def only_db_def same_tables_pg)
qed (simp_all add: assms(3))

lemma wp_user_device_revoke:
  assumes "\<And>w'. only_db w w' \<Longrightarrow> pg_user_device (w_db w') = map (\<lambda>r. if ud_UserID r = i \<and> ud_DeviceID r = j
      then r\<lparr>ud_RevokedAt := Some (pg_now (w_db w))\<rparr> else r) (pg_user_device (w_db w)) \<Longrightarrow> Q (Inr ()) w'"
    and "\<And>e w'. Q (Inl e) w'"
  shows "wp (UDR_Revoke (the_userDeviceRepo su) i j) Q w"
  unfolding device_ports by (rule wp_on_db, rule wp_statement) (auto intro: assms)

lemma device_revokedI:
  assumes "u \<in> set (pg_user (w_db w))" "uid = u_UID u" "u_DeletedAt u = None" "dv \<in> set (pg_device (w_db w))" "duid = d_UID dv"
    and "ud \<in> set (pg_user_device (w_db w))" "ud_UserID ud = u_ID u" "ud_DeviceID ud = d_ID dv"
    and steps: "only_db w2 w3" "only_events w3 w4" "only_events w4 w5"
    and revoked: "pg_user_device (w_db w3) = map (\<lambda>r. if ud_UserID r = u_ID u \<and> ud_DeviceID r = d_ID dv
      then r\<lparr>ud_RevokedAt := Some (pg_now (w_db w2))\<rparr> else r) (pg_user_device (w_db w2))"
    and tables: "same_tables (w_db w) (w_db w2)"
    and ended: "wl_sessions live w2 uid = (if ud_SessionID ud = [] then wl_sessions live w uid
                                   else wl_sessions live w uid - {ud_SessionID ud})"
  shows "device_revoked live uid duid w w5"
  unfolding device_revoked_def
proof (intro bexI conjI)
  have "pg_now (w_db w2) = pg_now (w_db w)" "pg_user_device (w_db w2) = pg_user_device (w_db w)"
    using tables by (simp_all add: same_tables_pg)
  with steps revoked show "pg_user_device (w_db w5) = map (\<lambda>r. if ud_UserID r = u_ID u \<and> ud_DeviceID r = d_ID dv
      then r\<lparr>ud_RevokedAt := Some (pg_now (w_db w))\<rparr> else r) (pg_user_device (w_db w))"
    by (simp add: only_defs)
  show "wl_sessions live w5 uid = (if ud_SessionID ud = [] then wl_sessions live w uid
      else wl_sessions live w uid - {ud_SessionID ud})"
    using steps ended by (simp add: only_defs sessions_eqs)
qed (use assms in auto)

lemma wp_RevokeDevice_up:
  assumes order: "in_order su live w" and steady: "redis_steady w"
    and ok: "\<And>w'. device_revoked live uid duid w w' \<Longrightarrow> Q (Inr ()) w'" and err: "\<And>e w'. Q (Inl e) w'"
  shows "wp (RevokeDevice (the_users su) uid duid) Q w"
proof -
  have tables: "tables_ok (w_db w)" using order by (simp add: in_order_def)
  show ?thesis
    unfolding RevokeDevice_def us wp_call
    by (auto simp: err intro!: wp_resolve_uid_up [OF order steady] wp_own_row [OF tables] wp_device_get [where ?w0.0 = w]
        wp_user_device_get [where ?w0.0 = w] wp_wl_remove_up wp_user_device_revoke wp_publish_msg split: sum.split)
      (rule ok, erule (11) device_revokedI; simp add: calm_def only_redis_def sessions_eqs key_sessions_del)+
qed

end

end
