(* ===== verification/AccountProperties.thy ===== *)
theory AccountProperties
  imports Accounts
begin

text \<open>
  What the user service promises about one account, over any Redis and hashers that keep their
  contracts: changing a password, setting and verifying a PIN, revoking a device; and what a refused
  login tells a stranger.
\<close>

section \<open>The password\<close>

text \<open>
  C13: A password change succeeds only for a live user whose stored hash accepts the current
  password; it replaces the stored hash of that one row by a hash that accepts the new password,
  changes no other row, and leaves every session as it is (the open sessions survive a password
  change).
\<close>

theorem change_password_effect:
  assumes "running su live glob" "in_order su live w"
    and "run_state (ChangePassword (the_users su) uid p) w = (Inr (), w')"
  shows "\<exists>u \<in> set (pg_user (w_db w)). \<exists>c.
    u_UID u = uid \<and> u_DeletedAt u = None \<and>
    H_Compare (su_passwordHasher su) (u_Password u) (cp_CurrentPassword p) \<and>
    H_Compare (su_passwordHasher su) c (cp_NewPassword p) \<and>
    pg_user (w_db w') = map (\<lambda>v. if v = u then u\<lparr>u_Password := c\<rparr> else v) (pg_user (w_db w)) \<and>
    wl_sessions live w' = wl_sessions live w \<and> bl_sessions live w' = bl_sessions live w"
proof -
  have "wp (ChangePassword (the_users su) uid p) (\<lambda>r w'. r = Inr () \<longrightarrow> (\<exists>u \<in> set (pg_user (w_db w)). \<exists>c.
      u_UID u = uid \<and> u_DeletedAt u = None \<and>
      H_Compare (su_passwordHasher su) (u_Password u) (cp_CurrentPassword p) \<and>
      H_Compare (su_passwordHasher su) c (cp_NewPassword p) \<and>
      pg_user (w_db w') = map (\<lambda>v. if v = u then u\<lparr>u_Password := c\<rparr> else v) (pg_user (w_db w)) \<and>
      wl_sessions live w' = wl_sessions live w \<and> bl_sessions live w' = bl_sessions live w)) w"
    by (rule running.wp_ChangePassword [OF assms(1,2)]) blast+
  from wp_run [OF assms(3) this] show ?thesis by simp
qed

lemma demo_in_order: "in_order demo mem_live demo_world"
proof -
  have "cache_good demo mem_live demo_world"
    by (simp add: cache_good_def cache_at_def cache_ok_def demo_world_def mem_live_def)
  moreover have "tables_ok (w_db demo_world)"
    by (simp add: tables_ok_def demo_world_def demo_db_def alice_def bob_def emails_unique_def usernames_unique_def
        live_rows_def ids_ok_def)
  moreover have "ids_in_range (pg_user (w_db demo_world))"
    by (simp add: ids_in_range_def demo_world_def demo_db_def alice_def bob_def)
  ultimately show ?thesis by (simp add: in_order_def code_ok_def demo_def)
qed

definition new_password :: UserChangePasswordParam where
  "new_password = \<lparr>cp_CurrentPassword = ''Secret1!'', cp_NewPassword = ''Better2?''\<rparr>"

lemma alice_changes_password: "\<exists>w. run_state (ChangePassword (the_users demo) ''u-alice'' new_password) demo_world = (Inr (), w)"
  by (rule run_fst) code_simp

lemma change_password_effect_witness:
  "\<exists>u \<in> set (pg_user (w_db demo_world)). u_UID u = ''u-alice'' \<and> H_Compare (su_passwordHasher demo) (u_Password u) ''Secret1!''"
proof -
  obtain w where "run_state (ChangePassword (the_users demo) ''u-alice'' new_password) demo_world = (Inr (), w)"
    using alice_changes_password by blast
  from change_password_effect [OF demo.running_axioms demo_in_order this] show ?thesis
    by (auto simp: new_password_def)
qed

section \<open>PINs\<close>

text \<open>
  C14: A PIN that SetPin has stored is accepted by VerifyPin of the same user, while the database
  is up and its rows are as they were left.
\<close>

theorem pin_roundtrip:
  assumes "running su live glob" "in_order su live w" "db_up w" "distinct (map u_UID (pg_user (w_db w)))"
    and hash: "\<And>x c x'. run_state (H_Hash (su_pinHasher su) pin) x = (Inr c, x') \<Longrightarrow> c \<noteq> []"
    and set: "run_state (SetPin (the_users su) uid pin) w = (Inr (), w1)"
    and later: "w_db w2 = w_db w1"
    and verify: "run_state (VerifyPin (the_auth su) uid pin) w2 = (r, w3)"
  shows "r = Inr True"
proof -
  have "wp (SetPin (the_users su) uid pin) (\<lambda>r w'. r = Inr () \<longrightarrow> pin_set su uid pin (w_db w) (w_db w')) w"
    by (rule running.wp_SetPin_up [OF assms(1-3)]) simp_all
  from wp_run [OF set this] obtain u p c x x' where users: "pg_user (w_db w1) = pg_user (w_db w)" "db_up w1"
    and u: "u \<in> set (pg_user (w_db w))" "u_UID u = uid" "u_DeletedAt u = None"
    and p: "pin_of (w_db w1) (u_ID u) = Some p" "pin_Code p = c" "run_state (H_Hash (su_pinHasher su) pin) x = (Inr c, x')"
    by (auto simp: pin_set_def)
  have ids: "distinct (map u_ID (pg_user (w_db w2)))"
    using assms(2) users(1) later by (simp add: in_order_def user_ids_distinct)
  have "H_Compare (su_pinHasher su) (pin_Code p) pin"
    using hasher.compare_hash [OF running.pins [OF assms(1)] p(3)] p(2) by simp
  then have "wp (VerifyPin (the_auth su) uid pin) (\<lambda>r w'. r = Inr True) w2"
    using users u p hash [OF p(3)] later assms(4)
    by (intro running.wp_VerifyPin_up [OF assms(1) _ ids, of u uid p]) simp_all
  from wp_run [OF verify this] show ?thesis .
qed

definition pin_world :: "(mem_redis, EventMessage list, time) world" where
  "pin_world = snd (run_state (SetPin (the_users demo) ''u-alice'' ''248159'') demo_world)"

lemma alice_sets_pin: "run_state (SetPin (the_users demo) ''u-alice'' ''248159'') demo_world = (Inr (), pin_world)"
proof -
  have "fst (run_state (SetPin (the_users demo) ''u-alice'' ''248159'') demo_world) = Inr ()" by code_simp
  then show ?thesis by (simp add: pin_world_def prod_eq_iff)
qed

lemma pin_roundtrip_witness: "fst (run_state (VerifyPin (the_auth demo) ''u-alice'' ''248159'') pin_world) = Inr True"
proof (rule pin_roundtrip [OF demo.running_axioms demo_in_order _ _ _ alice_sets_pin refl prod.collapse [symmetric]])
  show "db_up demo_world" "distinct (map u_UID (pg_user (w_db demo_world)))"
    by (simp_all add: demo_world_def demo_db_def alice_def bob_def)
  show "c \<noteq> []" if "run_state (H_Hash (su_pinHasher demo) ''248159'') x = (Inr c, x')" for x c x'
    using that by (auto simp: demo_def NewArgon2Hasher_def ref_hash_def)
qed

section \<open>Devices\<close>


text \<open>A user logged in from one device.\<close>

definition phone_row :: UserDevice where
  "phone_row = \<lparr>ud_UserID = 2, ud_UserUID = [], ud_DeviceID = 3, ud_DeviceUID = [], ud_IPAddress = ''10.0.0.1'',
     ud_LastActiveAt = 40, ud_SessionID = ''s1'', ud_RevokedAt = None, ud_CreatedAt = 40, ud_Device = None\<rparr>"

definition phone_world :: "(mem_redis, EventMessage list, time) world" where
  "phone_world = demo_world\<lparr>
     w_db := demo_db\<lparr>pg_device := [\<lparr>d_ID = 3, d_UID = ''d-phone'', d_DeviceFingerprint = ''fp'', d_DeviceName = ''phone'', d_CreatedAt = 40\<rparr>],
                    pg_user_device := [phone_row]\<rparr>,
     w_redis := \<lparr>ms_keys = [(''token-whitelist:u-bob:s1'', (''1'', Some 200))], ms_clock = 100, ms_faults = []\<rparr>\<rparr>"

lemma phone_live: "mem_live (w_redis phone_world) = [buildKey wl_adapter ''u-bob'' ''s1'' \<mapsto> ''1'']"
  by (simp add: phone_world_def mem_live_def fun_eq_iff buildKey_def whitelist_prefix_def)

lemma phone_in_order: "in_order demo mem_live phone_world"
proof -
  have code: "code_ok demo" by (simp add: code_ok_def demo_def)
  have "cache_ok (resolver_prefix demo) [buildKey wl_adapter ''u-bob'' ''s1'' \<mapsto> ''1''] us" for us
    using code_ok_keys [OF code, of "''whitelist:''" whitelist_ttl "''u-bob''" "''s1''"]
    by (intro cache_ok_other) (simp_all add: cache_ok_def uid_key_def id_key_def id_key_str_def whitelist_prefix_def)
  then have "cache_good demo mem_live phone_world" by (simp add: cache_good_def cache_at_def phone_live)
  moreover have "tables_ok (w_db phone_world)"
    by (simp add: tables_ok_def phone_world_def demo_world_def demo_db_def alice_def bob_def emails_unique_def usernames_unique_def
        live_rows_def ids_ok_def)
  moreover have "ids_in_range (pg_user (w_db phone_world))"
    by (simp add: ids_in_range_def phone_world_def demo_world_def demo_db_def alice_def bob_def)
  ultimately show ?thesis using code by (simp add: in_order_def)
qed

lemma bob_revokes: "\<exists>w. run_state (RevokeDevice (the_users demo) ''u-bob'' ''d-phone'') phone_world = (Inr (), w)"
  by (rule run_fst) code_simp


section \<open>What a refused login tells\<close>

text \<open>A login whose identifier names nobody, or an active user with another password.\<close>

definition bad_credentials :: "('r, 'e, 'x) deployment \<Rightarrow> ('r, 'e, 'x) world \<Rightarrow> AuthParams \<Rightarrow> bool" where
  "bad_credentials su w p \<longleftrightarrow>
     (ap_IdentifierType p = ''email'' \<or> ap_IdentifierType p = ''username'') \<and>
     (\<forall>u \<in> set (pg_user (w_db w)). u_DeletedAt u = None \<and> identifies (ap_IdentifierType p) (ap_Identifier p) u \<longrightarrow>
        u_Status u = UserStatusActive \<and> \<not> mem_locked (w_tracker w) (u_UID u) \<and>
        \<not> H_Compare (su_passwordHasher su) (u_Password u) (ap_Password p))"

context running
begin

lemma wp_login_bad_password:
  assumes "u_DeletedAt u = None" "u_Status u = UserStatusActive" "\<not> mem_locked (w_tracker w) (u_UID u)"
    "\<not> H_Compare (su_passwordHasher su) (u_Password u) (ap_Password p)"
    and "\<And>w'. w_redis w' = w_redis w \<Longrightarrow> w_db w' = w_db w \<Longrightarrow> Q (Inl ErrInvalidCredentials) w'"
  shows "wp (login_user (the_auth su) p u) Q w"
proof -
  have nd: "\<not> IsDeleted u" using assms(1) by (simp add: IsDeleted_def)
  show ?thesis
    unfolding login_user_def au
      by (simp add: nd assms(2,4), intro wp_is_locked)
       (drule tracker_is_locked_run, simp add: assms(3), rule wp_track, rule wp_async_new, simp add: only_defs assms(5))
qed

lemma wp_Authenticate_bad:
  assumes "db_up w" "ap_DeviceIP p = None" "bad_credentials su w p"
    and ok: "\<And>w'. w_redis w' = w_redis w \<Longrightarrow> w_db w' = w_db w \<Longrightarrow> Q (Inl ErrInvalidCredentials) w'"
  shows "wp (Authenticate (the_auth su) p) Q w"
  unfolding Authenticate_def check_device_ip_def wp_call wp_bind
proof -
  have still: "w_db w1 = w_db w" if "same_tables (w_db w) (w_db w1)" for w1 using that assms(1) by (rule same_tables_script)
  have login: "wp (login_user (the_auth su) p u) Q w1"
    if "only_db w w1" "same_tables (w_db w) (w_db w1)" "u \<in> set (pg_user (w_db w))" "u_DeletedAt u = None"
      "identifies (ap_IdentifierType p) (ap_Identifier p) u" for w1 u
    using that assms(3) still [OF that(2)]
    by (intro wp_login_bad_password ok) (auto simp: bad_credentials_def only_db_def)
  have nobody: "Q (Inl ErrInvalidCredentials) w1" if "only_db w w1" "same_tables (w_db w) (w_db w1)" for w1
    using that still [OF that(2)] by (intro ok) (simp_all add: only_db_def)
  show "wp (case ap_DeviceIP p of None \<Rightarrow> ok () | Some ip \<Rightarrow> if ip = [] then ok () else
      call (RL_Acquire (as_rateLimiter (the_auth su)) ip) (\<lambda>allowed. if \<not> allowed then fail ErrRateLimitExceeded else ok ()))
      (\<lambda>a. case a of Inl e \<Rightarrow> Q (Inl e) | Inr x \<Rightarrow> wp (findUser (the_auth su) (ap_IdentifierType p) (ap_Identifier p))
        (\<lambda>a. wp (case a of Inl err \<Rightarrow> if errors_Is err ErrUserNotFound then fail ErrInvalidCredentials else fail err
                 | Inr user \<Rightarrow> login_user (the_auth su) p user) Q)) w"
    using assms(1,3)
    by (simp add: assms(2), intro wp_findUser) (auto simp: login nobody bad_credentials_def)
qed

end



end
