(* ===== verification/Config.thy ===== *)
theory Config
  imports Complex_Main TokenStore
begin

text \<open>
  \<open>internal/config\<close>: the configuration of the service. \<open>Load\<close> tells viper the defaults, the flags, the
  file to look for and the names of the environment variables, lets it read the file, and decodes the
  result into the structs. Viper and mapstructure are a parameter (\<open>config_library\<close>); what the code
  relies on of their documentation is the locale \<open>config_docs\<close>. The structs are records, a struct tag is
  the key a field is decoded from.
\<close>

section \<open>Values and sources\<close>

text \<open>
  The dynamic values of a configuration: strings (also the text of flags and of environment variables),
  the numbers of a file or of \<open>SetDefault\<close>, durations in nanoseconds.
\<close>

datatype config_value =
    CStr string
  | CInt int
  | CInt32 "32 word"
  | CBool bool
  | CFloat rat
  | CDur duration
  | CStrs "string list"

text \<open>A pflag flag: its value (the default until it is parsed) and whether the command line set it.\<close>

record Flag =
  fl_Value :: config_value
  fl_Changed :: bool

text \<open>\<open>Value.String()\<close> of the three types of flags the service defines.\<close>

definition fl_String :: "Flag \<Rightarrow> string" where
  "fl_String f = (case fl_Value f of CStr s \<Rightarrow> s | CInt n \<Rightarrow> FormatInt n | CBool b \<Rightarrow> if b then ''true'' else ''false'' | _ \<Rightarrow> [])"

datatype config_source = ConfigFile string | ConfigSearch string string "string list"

text \<open>What the code has told a \<open>viper.Viper\<close>.\<close>

record Viper =
  v_flags :: "(string \<times> Flag) list"
  v_source :: config_source
  v_defaults :: "string \<Rightarrow> config_value option"
  v_automaticEnv :: bool
  v_envReplacer :: "(string \<times> string) option"

definition viper_New :: Viper where
  "viper_New = \<lparr>v_flags = [], v_source = ConfigSearch [] [] [], v_defaults = (\<lambda>_. None), v_automaticEnv = False, v_envReplacer = None\<rparr>"

definition SetDefault :: "string \<Rightarrow> config_value \<Rightarrow> Viper \<Rightarrow> Viper" where
  "SetDefault key x v = v\<lparr>v_defaults := (v_defaults v)(key \<mapsto> x)\<rparr>"

text \<open>\<open>BindPFlag\<close> reports a flag that is not defined (\<open>nil\<close>) as an error, which \<open>Load\<close> ignores.\<close>

definition BindPFlag :: "string \<Rightarrow> Flag option \<Rightarrow> Viper \<Rightarrow> Viper" where
  "BindPFlag key f v = (case f of None \<Rightarrow> v | Some fl \<Rightarrow> v\<lparr>v_flags := map_put key fl (v_flags v)\<rparr>)"

definition AddConfigPath :: "string \<Rightarrow> Viper \<Rightarrow> Viper" where
  "AddConfigPath path v = (case v_source v of
     ConfigSearch name kind paths \<Rightarrow> v\<lparr>v_source := ConfigSearch name kind (paths @ [path])\<rparr> | ConfigFile _ \<Rightarrow> v)"

definition with_defaults :: "string \<Rightarrow> (string \<times> config_value) list \<Rightarrow> Viper \<Rightarrow> Viper" where
  "with_defaults prefix = fold (\<lambda>(key, x). SetDefault (prefix @ key) x)"

section \<open>The flags\<close>

text \<open>
  \<open>InitFlags\<close> defines the flags and parses the command line, once (\<open>flagOnce\<close>: the flags exist after the
  first call). \<open>parse\<close> is \<open>pflag.Parse\<close> on the arguments of the process.
\<close>

definition defined_flags :: "(string \<times> Flag) list" where
  "defined_flags =
     [(''version'', \<lparr>fl_Value = CBool False, fl_Changed = False\<rparr>), (''config'', \<lparr>fl_Value = CStr [], fl_Changed = False\<rparr>),
      (''ip'', \<lparr>fl_Value = CStr ''0.0.0.0'', fl_Changed = False\<rparr>), (''port'', \<lparr>fl_Value = CInt 50051, fl_Changed = False\<rparr>)]"

definition InitFlags ::
  "((string \<times> Flag) list \<Rightarrow> (string \<times> Flag) list) \<Rightarrow> (string \<times> Flag) list option \<Rightarrow> (string \<times> Flag) list option" where
  "InitFlags parse flags = (case flags of None \<Rightarrow> Some (parse defined_flags) | Some fs \<Rightarrow> Some fs)"

text \<open>\<open>handleVersionFlag\<close> of \<open>cmd/version.go\<close>: the line it prints before the process exits with 0.\<close>

definition handleVersionFlag :: "string \<Rightarrow> string \<Rightarrow> (string \<times> Flag) list \<Rightarrow> string option" where
  "handleVersionFlag Version BuildTime flags =
     (if map_option fl_String (map_of flags ''version'') = Some ''true''
      then Some (''service-user '' @ Version @ '' (build: '' @ BuildTime @ '')\<newline>'') else None)"

section \<open>Defaults\<close>

definition defaultAppConfig :: "string \<Rightarrow> Viper \<Rightarrow> Viper" where
  "defaultAppConfig prefix = with_defaults prefix
     [(''.name'', CStr ''Service User''), (''.code'', CStr ''SUS''), (''.env'', CStr ''development''), (''.debug'', CBool False),
      (''.ip'', CStr ''0.0.0.0''), (''.port'', CInt 50051)]"

definition defaultInstanceConfig :: "string \<Rightarrow> Viper \<Rightarrow> Viper" where
  "defaultInstanceConfig prefix = with_defaults prefix [(''.name'', CStr ''service-user''), (''.host'', CStr ''localhost'')]"

definition defaultDatabaseConfig :: "string \<Rightarrow> Viper \<Rightarrow> Viper" where
  "defaultDatabaseConfig key = with_defaults key
     [(''.host'', CStr ''localhost''), (''.port'', CInt 5432), (''.user'', CStr ''user''), (''.password'', CStr ''password''),
      (''.name'', CStr ''service_user''), (''.sslmode'', CStr ''disable''), (''.timezone'', CStr ''UTC''),
      (''.min_conns'', CInt32 1), (''.min_idle_conns'', CInt32 0), (''.max_conns'', CInt32 4),
      (''.max_conn_idle_time'', CStr ''5m''), (''.max_conn_lifetime'', CStr ''1h''),
      (''.max_conn_lifetime_jitter'', CStr ''1m''), (''.health_check_period'', CStr ''1m''),
      (''.query_exec_mode'', CStr ''cache_describe'')]"

definition defaultRedisConfig :: "string \<Rightarrow> Viper \<Rightarrow> Viper" where
  "defaultRedisConfig key = with_defaults key
     [(''.host'', CStr ''localhost''), (''.port'', CInt 6379), (''.user'', CStr []), (''.password'', CStr []), (''.db'', CInt 0),
      (''.pool_size'', CInt 10), (''.pool_timeout'', CStr ''5s''), (''.connection_idle_min'', CInt 10)]"

definition defaultRabbitConfig :: "string \<Rightarrow> Viper \<Rightarrow> Viper" where
  "defaultRabbitConfig key = with_defaults key
     [(''.host'', CStr ''localhost''), (''.port'', CInt 5672), (''.user'', CStr ''guest''), (''.password'', CStr ''guest''),
      (''.vhost'', CStr ''/''), (''.reconnect_interval'', CDur second), (''.reconnect_max_attempts'', CInt 0)]"

definition defaultKafkaConfig :: "string \<Rightarrow> Viper \<Rightarrow> Viper" where
  "defaultKafkaConfig key = with_defaults key
     [(''.brokers'', CStrs [''localhost:9092'']), (''.max_message_bytes'', CInt (1024 * 1024)), (''.timeout_seconds'', CInt 5),
      (''.compression'', CStr ''snappy''), (''.reconnect_max_attempts'', CInt 0), (''.reconnect_interval_seconds'', CInt 1)]"

definition defaultMonitoringConfig :: "string \<Rightarrow> Viper \<Rightarrow> Viper" where
  "defaultMonitoringConfig prefix = with_defaults prefix
     [(''.service_name'', CStr ''service-user''), (''.environment'', CStr ''development''), (''.logger.level'', CStr ''info''),
      (''.tracer.provider'', CStr ''stdout''), (''.tracer.provider_host'', CStr ''localhost''),
      (''.tracer.provider_port'', CInt 4317), (''.tracer.sample_ratio'', CFloat 1), (''.tracer.insecure'', CBool False),
      (''.metric.provider'', CStr ''stdout''), (''.metric.provider_host'', CStr ''localhost''),
      (''.metric.provider_port'', CInt 9411), (''.metric.insecure'', CBool False)]"

definition defaultObserverConfig :: "string \<Rightarrow> Viper \<Rightarrow> Viper" where
  "defaultObserverConfig key = with_defaults key
     [(''.auth'', CBool True), (''.user'', CBool True), (''.device'', CBool True), (''.userfile'', CBool True), (''.pin'', CBool True)]"

definition defaultJWTConfig :: "string \<Rightarrow> Viper \<Rightarrow> Viper" where
  "defaultJWTConfig prefix = with_defaults prefix
     [(''.secret_key'', CStr ''your-256-bit-secret-key-for-jwt-signing''), (''.access_expiry'', CDur (15 * 60 * second)),
      (''.refresh_expiry'', CDur (168 * 3600 * second))]"

definition defaultHasherConfig :: "string \<Rightarrow> Viper \<Rightarrow> Viper" where
  "defaultHasherConfig prefix = with_defaults prefix
     [(''.type'', CStr ''argon2''), (''.cost'', CInt 10), (''.salt'', CStr []), (''.memory'', CInt 65536), (''.iterations'', CInt 2),
      (''.parallelism'', CInt 1), (''.salt_length'', CInt 16), (''.key_length'', CInt 32)]"

definition defaultSecurityConfig :: "string \<Rightarrow> Viper \<Rightarrow> Viper" where
  "defaultSecurityConfig key = with_defaults key
     [(''.login_tracker.backend'', CStr ''redis''), (''.login_tracker.lockout_threshold'', CInt 5),
      (''.login_tracker.lockout_duration'', CStr ''15m''), (''.login_tracker.lockout_counter_ttl'', CStr ''30m''),
      (''.pin_tracker.backend'', CStr ''redis''), (''.pin_tracker.lockout_threshold'', CInt 3),
      (''.pin_tracker.lockout_duration'', CStr ''15m''), (''.pin_tracker.lockout_counter_ttl'', CStr ''30m''),
      (''.rate_limiter.backend'', CStr ''redis''), (''.rate_limiter.limit'', CInt 100), (''.rate_limiter.window_size'', CStr ''1h'')]"

definition defaultEventPublisherConfig :: "string \<Rightarrow> Viper \<Rightarrow> Viper" where
  "defaultEventPublisherConfig key = with_defaults key
     [(''.enabled'', CBool False), (''.http.enabled'', CBool False), (''.http.url'', CStr ''http://localhost:8080''),
      (''.http.timeout'', CDur (5 * second)), (''.rabbitmq.enabled'', CBool False),
      (''.rabbitmq.exchange'', CStr ''user-service''), (''.rabbitmq.routing_key_prefix'', CStr ''user.service''),
      (''.rabbitmq.confirm_timeout'', CDur (30 * second)), (''.rabbitmq.max_retries'', CInt 5),
      (''.rabbitmq.retry_interval'', CDur second)]"

definition defaultOauthConfig :: "string \<Rightarrow> Viper \<Rightarrow> Viper" where
  "defaultOauthConfig key = with_defaults key
     [(''.enabled'', CBool False), (''.google.enabled'', CBool False), (''.google.client_id'', CStr []),
      (''.google.client_secret'', CStr [])]"

text \<open>The calls of \<open>Load\<close>, in its order.\<close>

definition all_defaults :: "Viper \<Rightarrow> Viper" where
  "all_defaults v = fold id
     [defaultAppConfig ''app'', defaultInstanceConfig ''instance'', defaultDatabaseConfig ''database'', defaultRedisConfig ''redis'',
      defaultRabbitConfig ''rabbitmq'', defaultKafkaConfig ''kafka'', defaultMonitoringConfig ''monitoring'',
      defaultObserverConfig ''observer'', defaultJWTConfig ''jwt'', defaultHasherConfig ''password_hasher'',
      defaultHasherConfig ''pin_hasher'', defaultSecurityConfig ''security'', defaultEventPublisherConfig ''event_publisher'',
      defaultOauthConfig ''oauth''] v"

section \<open>The structs\<close>

record AppConfig =
  app_Name :: string
  app_Code :: string
  app_Env :: string
  app_Debug :: bool
  app_IP :: string
  app_Port :: int

record InstanceConfig =
  ins_Name :: string
  ins_Host :: string

record DatabaseConfig =
  db_Host :: string
  db_Port :: int
  db_User :: string
  db_Password :: string
  db_Name :: string
  db_SslMode :: string
  db_Timezone :: string
  db_MinConns :: "32 word"
  db_MinIdleConns :: "32 word"
  db_MaxConns :: "32 word"
  db_MaxConnIdleTime :: duration
  db_MaxConnLifetime :: duration
  db_MaxConnLifetimeJitter :: duration
  db_HealthCheckPeriod :: duration
  db_QueryExecMode :: string

record RedisConfig =
  rd_Host :: string
  rd_Port :: int
  rd_User :: string
  rd_Password :: string
  rd_DB :: int
  rd_PoolSize :: int
  rd_PoolTimeout :: duration
  rd_ConnectionIdleMin :: int

record config_RabbitConfig =
  rb_Host :: string
  rb_Port :: int
  rb_User :: string
  rb_Password :: string
  rb_Vhost :: string
  rb_ReconnectInterval :: duration
  rb_ReconnectMaxAttempts :: int

text \<open>\<open>sarama.CompressionCodec\<close> is an \<open>int8\<close>.\<close>

type_synonym CompressionCodec = "8 word"

record KafkaConfig =
  kf_Brokers :: "string list"
  kf_MaxMessageBytes :: int
  kf_TimeoutSeconds :: int
  kf_Compression :: CompressionCodec
  kf_ReconnectMaxAttempts :: int
  kf_ReconnectInterval :: duration

record MonitoringTraceConfig =
  mt_Provider :: string
  mt_ProviderHost :: string
  mt_ProviderPort :: int
  mt_SampleRatio :: rat
  mt_Insecure :: bool

record MonitoringMetricConfig =
  mm_Provider :: string
  mm_ProviderHost :: string
  mm_ProviderPort :: int
  mm_Insecure :: bool

text \<open>\<open>MonitoringLogConfig\<close> has one field, its level.\<close>

record config_MonitoringConfig =
  cm_ServiceName :: string
  cm_Environment :: string
  cm_LoggerLevel :: string
  cm_Tracer :: MonitoringTraceConfig
  cm_Metric :: MonitoringMetricConfig

record ObserverConfig =
  ob_Auth :: bool
  ob_User :: bool
  ob_Device :: bool
  ob_UserFile :: bool
  ob_Pin :: bool

record AttemptTrackerConfig =
  atc_Backend :: string
  atc_LockoutThreshold :: int
  atc_LockoutDuration :: duration
  atc_LockoutCounterTTL :: duration

record RateLimiterConfig =
  rlc_Backend :: string
  rlc_Limit :: int
  rlc_WindowSize :: duration

record SecurityConfig =
  sc_LoginTracker :: AttemptTrackerConfig
  sc_PINTracker :: AttemptTrackerConfig
  sc_RateLimiter :: RateLimiterConfig

record JWTConfig =
  jw_SecretKey :: string
  jw_AccessExpiry :: duration
  jw_RefreshExpiry :: duration

record HasherConfig =
  hc_Type :: string
  hc_Cost :: int
  hc_Salt :: string
  hc_Memory :: int
  hc_Iterations :: int
  hc_Parallelism :: int
  hc_SaltLength :: int
  hc_KeyLength :: int

record PublisherHTTPConfig =
  ph_Enabled :: bool
  ph_URL :: string
  ph_Timeout :: duration

record PublisherRabbitMQConfig =
  pr_Enabled :: bool
  pr_Exchange :: string
  pr_RoutingKeyPrefix :: string
  pr_ConfirmTimeout :: duration
  pr_MaxRetries :: int
  pr_RetryInterval :: duration

record config_EventPublisherConfig =
  ep_Enabled :: bool
  ep_HTTP :: PublisherHTTPConfig
  ep_RabbitMQ :: PublisherRabbitMQConfig

record OauthGoogleConfig =
  og_Enabled :: bool
  og_ClientID :: string
  og_ClientSecret :: string

record OauthConfig =
  oc_Enabled :: bool
  oc_Google :: OauthGoogleConfig

record Config =
  cfg_App :: AppConfig
  cfg_Instance :: InstanceConfig
  cfg_Database :: DatabaseConfig
  cfg_Redis :: RedisConfig
  cfg_Rabbit :: config_RabbitConfig
  cfg_Kafka :: KafkaConfig
  cfg_Monitoring :: config_MonitoringConfig
  cfg_Observer :: ObserverConfig
  cfg_Security :: SecurityConfig
  cfg_Jwt :: JWTConfig
  cfg_PasswordHasher :: HasherConfig
  cfg_PINHasher :: HasherConfig
  cfg_EventPublisher :: config_EventPublisherConfig
  cfg_OAuth :: OauthConfig

section \<open>Decoding\<close>

text \<open>
  The libraries: the file viper reads (not found, another error, or its values by their dotted keys), the
  value \<open>Get\<close> of a key in effect, mapstructure's conversion to each type of field (with viper's hooks
  for durations and lists), sarama's parser of codec names, and mapstructure's error for the errors of
  the fields.
\<close>

datatype read_result = FileNotFound | ReadFailed go_error | FileValues "string \<Rightarrow> config_value option"

record config_library =
  cl_ReadInConfig :: "Viper \<Rightarrow> read_result"
  cl_Get :: "Viper \<Rightarrow> (string \<Rightarrow> config_value option) \<Rightarrow> string \<Rightarrow> config_value option"
  cl_String :: "config_value \<Rightarrow> string result"
  cl_Int :: "config_value \<Rightarrow> int result"
  cl_Int32 :: "config_value \<Rightarrow> 32 word result"
  cl_Int8 :: "config_value \<Rightarrow> 8 word result"
  cl_Bool :: "config_value \<Rightarrow> bool result"
  cl_Float :: "config_value \<Rightarrow> rat result"
  cl_Duration :: "config_value \<Rightarrow> duration result"
  cl_Strings :: "config_value \<Rightarrow> string list result"
  cl_UnmarshalText :: "string \<Rightarrow> CompressionCodec result"
  cl_Errors :: "go_error list \<Rightarrow> go_error"

text \<open>
  Decoding a struct is a program over the errors found so far: mapstructure goes on after a field that
  fails, which keeps its zero value, as does a field whose key has no value.
\<close>

type_synonym getter = "string \<Rightarrow> config_value option"

definition field :: "'a \<Rightarrow> (config_value \<Rightarrow> 'a result) \<Rightarrow> getter \<Rightarrow> string \<Rightarrow> (go_error list, 'a) prog" where
  "field zero conv get key = State (\<lambda>errs. case get key of
     None \<Rightarrow> (zero, errs)
   | Some x \<Rightarrow> (case conv x of Inl err \<Rightarrow> (zero, errs @ [err]) | Inr y \<Rightarrow> (y, errs)))"

text \<open>
  \<open>kafkaCompressionHookFunc\<close>: a string for a field of type \<open>CompressionCodec\<close> is parsed by its name;
  any other value is converted as an \<open>int8\<close>.
\<close>

definition kafkaCompressionHookFunc :: "config_library \<Rightarrow> bool \<Rightarrow> config_value \<Rightarrow> (CompressionCodec + config_value) result" where
  "kafkaCompressionHookFunc lib to_codec data = (case data of
     CStr s \<Rightarrow> if \<not> to_codec then Inr (Inr data)
               else (case cl_UnmarshalText lib s of Inl err \<Rightarrow> Inl err | Inr compression \<Rightarrow> Inr (Inl compression))
   | _ \<Rightarrow> Inr (Inr data))"

definition decode_codec :: "config_library \<Rightarrow> config_value \<Rightarrow> CompressionCodec result" where
  "decode_codec lib data = (case kafkaCompressionHookFunc lib True data of
     Inl err \<Rightarrow> Inl err | Inr (Inl compression) \<Rightarrow> Inr compression | Inr (Inr other) \<Rightarrow> cl_Int8 lib other)"

definition str_field :: "config_library \<Rightarrow> getter \<Rightarrow> string \<Rightarrow> (go_error list, string) prog" where
  "str_field lib = field [] (cl_String lib)"
definition int_field :: "config_library \<Rightarrow> getter \<Rightarrow> string \<Rightarrow> (go_error list, int) prog" where
  "int_field lib = field 0 (cl_Int lib)"
definition int32_field :: "config_library \<Rightarrow> getter \<Rightarrow> string \<Rightarrow> (go_error list, 32 word) prog" where
  "int32_field lib = field 0 (cl_Int32 lib)"
definition bool_field :: "config_library \<Rightarrow> getter \<Rightarrow> string \<Rightarrow> (go_error list, bool) prog" where
  "bool_field lib = field False (cl_Bool lib)"
definition float_field :: "config_library \<Rightarrow> getter \<Rightarrow> string \<Rightarrow> (go_error list, rat) prog" where
  "float_field lib = field 0 (cl_Float lib)"
definition dur_field :: "config_library \<Rightarrow> getter \<Rightarrow> string \<Rightarrow> (go_error list, duration) prog" where
  "dur_field lib = field 0 (cl_Duration lib)"
definition strs_field :: "config_library \<Rightarrow> getter \<Rightarrow> string \<Rightarrow> (go_error list, string list) prog" where
  "strs_field lib = field [] (cl_Strings lib)"
definition codec_field :: "config_library \<Rightarrow> getter \<Rightarrow> string \<Rightarrow> (go_error list, CompressionCodec) prog" where
  "codec_field lib = field 0 (decode_codec lib)"

text \<open>The structs, field by field with the tags of the source.\<close>

definition decode_AppConfig :: "config_library \<Rightarrow> getter \<Rightarrow> string \<Rightarrow> (go_error list, AppConfig) prog" where
  "decode_AppConfig lib get p = do {
     xName \<leftarrow> str_field lib get (p @ ''.name''); xCode \<leftarrow> str_field lib get (p @ ''.code'');
     xEnv \<leftarrow> str_field lib get (p @ ''.env''); xDebug \<leftarrow> bool_field lib get (p @ ''.debug'');
     xIP \<leftarrow> str_field lib get (p @ ''.ip''); xPort \<leftarrow> int_field lib get (p @ ''.port'');
     ret \<lparr>app_Name = xName, app_Code = xCode, app_Env = xEnv, app_Debug = xDebug, app_IP = xIP,
        app_Port = xPort\<rparr> }"

definition decode_InstanceConfig :: "config_library \<Rightarrow> getter \<Rightarrow> string \<Rightarrow> (go_error list, InstanceConfig) prog" where
  "decode_InstanceConfig lib get p = do {
     xName \<leftarrow> str_field lib get (p @ ''.name''); xHost \<leftarrow> str_field lib get (p @ ''.host'');
     ret \<lparr>ins_Name = xName, ins_Host = xHost\<rparr> }"

definition decode_DatabaseConfig :: "config_library \<Rightarrow> getter \<Rightarrow> string \<Rightarrow> (go_error list, DatabaseConfig) prog" where
  "decode_DatabaseConfig lib get p = do {
     xHost \<leftarrow> str_field lib get (p @ ''.host''); xPort \<leftarrow> int_field lib get (p @ ''.port'');
     xUser \<leftarrow> str_field lib get (p @ ''.user''); xPassword \<leftarrow> str_field lib get (p @ ''.password'');
     xName \<leftarrow> str_field lib get (p @ ''.name''); xSslMode \<leftarrow> str_field lib get (p @ ''.sslmode'');
     xTimezone \<leftarrow> str_field lib get (p @ ''.timezone''); xMinConns \<leftarrow> int32_field lib get (p @ ''.min_conns'');
     xMinIdleConns \<leftarrow> int32_field lib get (p @ ''.min_idle_conns'');
     xMaxConns \<leftarrow> int32_field lib get (p @ ''.max_conns'');
     xMaxConnIdleTime \<leftarrow> dur_field lib get (p @ ''.max_conn_idle_time'');
     xMaxConnLifetime \<leftarrow> dur_field lib get (p @ ''.max_conn_lifetime'');
     xMaxConnLifetimeJitter \<leftarrow> dur_field lib get (p @ ''.max_conn_lifetime_jitter'');
     xHealthCheckPeriod \<leftarrow> dur_field lib get (p @ ''.health_check_period'');
     xQueryExecMode \<leftarrow> str_field lib get (p @ ''.query_exec_mode'');
     ret \<lparr>db_Host = xHost, db_Port = xPort, db_User = xUser, db_Password = xPassword, db_Name = xName,
        db_SslMode = xSslMode, db_Timezone = xTimezone, db_MinConns = xMinConns, db_MinIdleConns = xMinIdleConns,
        db_MaxConns = xMaxConns, db_MaxConnIdleTime = xMaxConnIdleTime, db_MaxConnLifetime = xMaxConnLifetime,
        db_MaxConnLifetimeJitter = xMaxConnLifetimeJitter, db_HealthCheckPeriod = xHealthCheckPeriod,
        db_QueryExecMode = xQueryExecMode\<rparr> }"

definition decode_RedisConfig :: "config_library \<Rightarrow> getter \<Rightarrow> string \<Rightarrow> (go_error list, RedisConfig) prog" where
  "decode_RedisConfig lib get p = do {
     xHost \<leftarrow> str_field lib get (p @ ''.host''); xPort \<leftarrow> int_field lib get (p @ ''.port'');
     xUser \<leftarrow> str_field lib get (p @ ''.user''); xPassword \<leftarrow> str_field lib get (p @ ''.password'');
     xDB \<leftarrow> int_field lib get (p @ ''.db''); xPoolSize \<leftarrow> int_field lib get (p @ ''.pool_size'');
     xPoolTimeout \<leftarrow> dur_field lib get (p @ ''.pool_timeout'');
     xConnectionIdleMin \<leftarrow> int_field lib get (p @ ''.connection_idle_min'');
     ret \<lparr>rd_Host = xHost, rd_Port = xPort, rd_User = xUser, rd_Password = xPassword, rd_DB = xDB,
        rd_PoolSize = xPoolSize, rd_PoolTimeout = xPoolTimeout, rd_ConnectionIdleMin = xConnectionIdleMin\<rparr> }"

definition decode_RabbitConfig :: "config_library \<Rightarrow> getter \<Rightarrow> string \<Rightarrow> (go_error list, config_RabbitConfig) prog" where
  "decode_RabbitConfig lib get p = do {
     xHost \<leftarrow> str_field lib get (p @ ''.host''); xPort \<leftarrow> int_field lib get (p @ ''.port'');
     xUser \<leftarrow> str_field lib get (p @ ''.user''); xPassword \<leftarrow> str_field lib get (p @ ''.password'');
     xVhost \<leftarrow> str_field lib get (p @ ''.vhost''); xReconnectInterval \<leftarrow> dur_field lib get (p @ ''.reconnect_interval'');
     xReconnectMaxAttempts \<leftarrow> int_field lib get (p @ ''.reconnect_max_attempts'');
     ret \<lparr>rb_Host = xHost, rb_Port = xPort, rb_User = xUser, rb_Password = xPassword, rb_Vhost = xVhost,
        rb_ReconnectInterval = xReconnectInterval, rb_ReconnectMaxAttempts = xReconnectMaxAttempts\<rparr> }"

definition decode_KafkaConfig :: "config_library \<Rightarrow> getter \<Rightarrow> string \<Rightarrow> (go_error list, KafkaConfig) prog" where
  "decode_KafkaConfig lib get p = do {
     xBrokers \<leftarrow> strs_field lib get (p @ ''.brokers'');
     xMaxMessageBytes \<leftarrow> int_field lib get (p @ ''.max_message_bytes'');
     xTimeoutSeconds \<leftarrow> int_field lib get (p @ ''.timeout_seconds'');
     xCompression \<leftarrow> codec_field lib get (p @ ''.compression'');
     xReconnectMaxAttempts \<leftarrow> int_field lib get (p @ ''.reconnect_max_attempts'');
     xReconnectInterval \<leftarrow> dur_field lib get (p @ ''.reconnect_interval_seconds'');
     ret \<lparr>kf_Brokers = xBrokers, kf_MaxMessageBytes = xMaxMessageBytes, kf_TimeoutSeconds = xTimeoutSeconds,
        kf_Compression = xCompression, kf_ReconnectMaxAttempts = xReconnectMaxAttempts,
        kf_ReconnectInterval = xReconnectInterval\<rparr> }"

definition decode_MonitoringTraceConfig :: "config_library \<Rightarrow> getter \<Rightarrow> string \<Rightarrow> (go_error list, MonitoringTraceConfig) prog" where
  "decode_MonitoringTraceConfig lib get p = do {
     xProvider \<leftarrow> str_field lib get (p @ ''.provider''); xProviderHost \<leftarrow> str_field lib get (p @ ''.provider_host'');
     xProviderPort \<leftarrow> int_field lib get (p @ ''.provider_port'');
     xSampleRatio \<leftarrow> float_field lib get (p @ ''.sample_ratio''); xInsecure \<leftarrow> bool_field lib get (p @ ''.insecure'');
     ret \<lparr>mt_Provider = xProvider, mt_ProviderHost = xProviderHost, mt_ProviderPort = xProviderPort,
        mt_SampleRatio = xSampleRatio, mt_Insecure = xInsecure\<rparr> }"

definition decode_MonitoringMetricConfig :: "config_library \<Rightarrow> getter \<Rightarrow> string \<Rightarrow> (go_error list, MonitoringMetricConfig) prog" where
  "decode_MonitoringMetricConfig lib get p = do {
     xProvider \<leftarrow> str_field lib get (p @ ''.provider''); xProviderHost \<leftarrow> str_field lib get (p @ ''.provider_host'');
     xProviderPort \<leftarrow> int_field lib get (p @ ''.provider_port''); xInsecure \<leftarrow> bool_field lib get (p @ ''.insecure'');
     ret \<lparr>mm_Provider = xProvider, mm_ProviderHost = xProviderHost, mm_ProviderPort = xProviderPort,
        mm_Insecure = xInsecure\<rparr> }"

definition decode_MonitoringConfig :: "config_library \<Rightarrow> getter \<Rightarrow> string \<Rightarrow> (go_error list, config_MonitoringConfig) prog" where
  "decode_MonitoringConfig lib get p = do {
     xServiceName \<leftarrow> str_field lib get (p @ ''.service_name''); xEnvironment \<leftarrow> str_field lib get (p @ ''.environment'');
     xLoggerLevel \<leftarrow> str_field lib get (p @ ''.logger.level'');
     xTracer \<leftarrow> decode_MonitoringTraceConfig lib get (p @ ''.tracer'');
     xMetric \<leftarrow> decode_MonitoringMetricConfig lib get (p @ ''.metric'');
     ret \<lparr>cm_ServiceName = xServiceName, cm_Environment = xEnvironment, cm_LoggerLevel = xLoggerLevel,
        cm_Tracer = xTracer, cm_Metric = xMetric\<rparr> }"

definition decode_ObserverConfig :: "config_library \<Rightarrow> getter \<Rightarrow> string \<Rightarrow> (go_error list, ObserverConfig) prog" where
  "decode_ObserverConfig lib get p = do {
     xAuth \<leftarrow> bool_field lib get (p @ ''.auth''); xUser \<leftarrow> bool_field lib get (p @ ''.user'');
     xDevice \<leftarrow> bool_field lib get (p @ ''.device''); xUserFile \<leftarrow> bool_field lib get (p @ ''.userfile'');
     xPin \<leftarrow> bool_field lib get (p @ ''.pin'');
     ret \<lparr>ob_Auth = xAuth, ob_User = xUser, ob_Device = xDevice, ob_UserFile = xUserFile,
        ob_Pin = xPin\<rparr> }"

definition decode_AttemptTrackerConfig :: "config_library \<Rightarrow> getter \<Rightarrow> string \<Rightarrow> (go_error list, AttemptTrackerConfig) prog" where
  "decode_AttemptTrackerConfig lib get p = do {
     xBackend \<leftarrow> str_field lib get (p @ ''.backend'');
     xLockoutThreshold \<leftarrow> int_field lib get (p @ ''.lockout_threshold'');
     xLockoutDuration \<leftarrow> dur_field lib get (p @ ''.lockout_duration'');
     xLockoutCounterTTL \<leftarrow> dur_field lib get (p @ ''.lockout_counter_ttl'');
     ret \<lparr>atc_Backend = xBackend, atc_LockoutThreshold = xLockoutThreshold,
        atc_LockoutDuration = xLockoutDuration, atc_LockoutCounterTTL = xLockoutCounterTTL\<rparr> }"

definition decode_RateLimiterConfig :: "config_library \<Rightarrow> getter \<Rightarrow> string \<Rightarrow> (go_error list, RateLimiterConfig) prog" where
  "decode_RateLimiterConfig lib get p = do {
     xBackend \<leftarrow> str_field lib get (p @ ''.backend''); xLimit \<leftarrow> int_field lib get (p @ ''.limit'');
     xWindowSize \<leftarrow> dur_field lib get (p @ ''.window_size'');
     ret \<lparr>rlc_Backend = xBackend, rlc_Limit = xLimit, rlc_WindowSize = xWindowSize\<rparr> }"

definition decode_SecurityConfig :: "config_library \<Rightarrow> getter \<Rightarrow> string \<Rightarrow> (go_error list, SecurityConfig) prog" where
  "decode_SecurityConfig lib get p = do {
     xLoginTracker \<leftarrow> decode_AttemptTrackerConfig lib get (p @ ''.login_tracker'');
     xPINTracker \<leftarrow> decode_AttemptTrackerConfig lib get (p @ ''.pin_tracker'');
     xRateLimiter \<leftarrow> decode_RateLimiterConfig lib get (p @ ''.rate_limiter'');
     ret \<lparr>sc_LoginTracker = xLoginTracker, sc_PINTracker = xPINTracker, sc_RateLimiter = xRateLimiter\<rparr> }"

definition decode_JWTConfig :: "config_library \<Rightarrow> getter \<Rightarrow> string \<Rightarrow> (go_error list, JWTConfig) prog" where
  "decode_JWTConfig lib get p = do {
     xSecretKey \<leftarrow> str_field lib get (p @ ''.secret_key''); xAccessExpiry \<leftarrow> dur_field lib get (p @ ''.access_expiry'');
     xRefreshExpiry \<leftarrow> dur_field lib get (p @ ''.refresh_expiry'');
     ret \<lparr>jw_SecretKey = xSecretKey, jw_AccessExpiry = xAccessExpiry,
        jw_RefreshExpiry = xRefreshExpiry\<rparr> }"

definition decode_HasherConfig :: "config_library \<Rightarrow> getter \<Rightarrow> string \<Rightarrow> (go_error list, HasherConfig) prog" where
  "decode_HasherConfig lib get p = do {
     xType \<leftarrow> str_field lib get (p @ ''.type''); xCost \<leftarrow> int_field lib get (p @ ''.cost'');
     xSalt \<leftarrow> str_field lib get (p @ ''.salt''); xMemory \<leftarrow> int_field lib get (p @ ''.memory'');
     xIterations \<leftarrow> int_field lib get (p @ ''.iterations''); xParallelism \<leftarrow> int_field lib get (p @ ''.parallelism'');
     xSaltLength \<leftarrow> int_field lib get (p @ ''.salt_length''); xKeyLength \<leftarrow> int_field lib get (p @ ''.key_length'');
     ret \<lparr>hc_Type = xType, hc_Cost = xCost, hc_Salt = xSalt, hc_Memory = xMemory, hc_Iterations = xIterations,
        hc_Parallelism = xParallelism, hc_SaltLength = xSaltLength, hc_KeyLength = xKeyLength\<rparr> }"

definition decode_PublisherHTTPConfig :: "config_library \<Rightarrow> getter \<Rightarrow> string \<Rightarrow> (go_error list, PublisherHTTPConfig) prog" where
  "decode_PublisherHTTPConfig lib get p = do {
     xEnabled \<leftarrow> bool_field lib get (p @ ''.enabled''); xURL \<leftarrow> str_field lib get (p @ ''.url'');
     xTimeout \<leftarrow> dur_field lib get (p @ ''.timeout'');
     ret \<lparr>ph_Enabled = xEnabled, ph_URL = xURL, ph_Timeout = xTimeout\<rparr> }"

definition decode_PublisherRabbitMQConfig :: "config_library \<Rightarrow> getter \<Rightarrow> string \<Rightarrow> (go_error list, PublisherRabbitMQConfig) prog" where
  "decode_PublisherRabbitMQConfig lib get p = do {
     xEnabled \<leftarrow> bool_field lib get (p @ ''.enabled''); xExchange \<leftarrow> str_field lib get (p @ ''.exchange'');
     xRoutingKeyPrefix \<leftarrow> str_field lib get (p @ ''.routing_key_prefix'');
     xConfirmTimeout \<leftarrow> dur_field lib get (p @ ''.confirm_timeout'');
     xMaxRetries \<leftarrow> int_field lib get (p @ ''.max_retries'');
     xRetryInterval \<leftarrow> dur_field lib get (p @ ''.retry_interval'');
     ret \<lparr>pr_Enabled = xEnabled, pr_Exchange = xExchange, pr_RoutingKeyPrefix = xRoutingKeyPrefix,
        pr_ConfirmTimeout = xConfirmTimeout, pr_MaxRetries = xMaxRetries, pr_RetryInterval = xRetryInterval\<rparr> }"

definition decode_EventPublisherConfig :: "config_library \<Rightarrow> getter \<Rightarrow> string \<Rightarrow> (go_error list, config_EventPublisherConfig) prog" where
  "decode_EventPublisherConfig lib get p = do {
     xEnabled \<leftarrow> bool_field lib get (p @ ''.enabled''); xHTTP \<leftarrow> decode_PublisherHTTPConfig lib get (p @ ''.http'');
     xRabbitMQ \<leftarrow> decode_PublisherRabbitMQConfig lib get (p @ ''.rabbitmq'');
     ret \<lparr>ep_Enabled = xEnabled, ep_HTTP = xHTTP, ep_RabbitMQ = xRabbitMQ\<rparr> }"

definition decode_OauthGoogleConfig :: "config_library \<Rightarrow> getter \<Rightarrow> string \<Rightarrow> (go_error list, OauthGoogleConfig) prog" where
  "decode_OauthGoogleConfig lib get p = do {
     xEnabled \<leftarrow> bool_field lib get (p @ ''.enabled''); xClientID \<leftarrow> str_field lib get (p @ ''.client_id'');
     xClientSecret \<leftarrow> str_field lib get (p @ ''.client_secret'');
     ret \<lparr>og_Enabled = xEnabled, og_ClientID = xClientID, og_ClientSecret = xClientSecret\<rparr> }"

definition decode_OauthConfig :: "config_library \<Rightarrow> getter \<Rightarrow> string \<Rightarrow> (go_error list, OauthConfig) prog" where
  "decode_OauthConfig lib get p = do {
     xEnabled \<leftarrow> bool_field lib get (p @ ''.enabled''); xGoogle \<leftarrow> decode_OauthGoogleConfig lib get (p @ ''.google'');
     ret \<lparr>oc_Enabled = xEnabled, oc_Google = xGoogle\<rparr> }"

definition decode_Config :: "config_library \<Rightarrow> getter \<Rightarrow> (go_error list, Config) prog" where
  "decode_Config lib get = do {
     xApp \<leftarrow> decode_AppConfig lib get ''app''; xInstance \<leftarrow> decode_InstanceConfig lib get ''instance'';
     xDatabase \<leftarrow> decode_DatabaseConfig lib get ''database''; xRedis \<leftarrow> decode_RedisConfig lib get ''redis'';
     xRabbit \<leftarrow> decode_RabbitConfig lib get ''rabbitmq''; xKafka \<leftarrow> decode_KafkaConfig lib get ''kafka'';
     xMonitoring \<leftarrow> decode_MonitoringConfig lib get ''monitoring'';
     xObserver \<leftarrow> decode_ObserverConfig lib get ''observer''; xSecurity \<leftarrow> decode_SecurityConfig lib get ''security'';
     xJwt \<leftarrow> decode_JWTConfig lib get ''jwt''; xPasswordHasher \<leftarrow> decode_HasherConfig lib get ''password_hasher'';
     xPINHasher \<leftarrow> decode_HasherConfig lib get ''pin_hasher'';
     xEventPublisher \<leftarrow> decode_EventPublisherConfig lib get ''event_publisher'';
     xOAuth \<leftarrow> decode_OauthConfig lib get ''oauth'';
     ret \<lparr>cfg_App = xApp, cfg_Instance = xInstance, cfg_Database = xDatabase, cfg_Redis = xRedis,
        cfg_Rabbit = xRabbit, cfg_Kafka = xKafka, cfg_Monitoring = xMonitoring, cfg_Observer = xObserver,
        cfg_Security = xSecurity, cfg_Jwt = xJwt, cfg_PasswordHasher = xPasswordHasher, cfg_PINHasher = xPINHasher,
        cfg_EventPublisher = xEventPublisher, cfg_OAuth = xOAuth\<rparr> }"

section \<open>Loading\<close>

text \<open>\<open>Unmarshal\<close>: the struct, or the errors of its fields.\<close>

definition Unmarshal :: "config_library \<Rightarrow> getter \<Rightarrow> Config result" where
  "Unmarshal lib get = (case run_state (decode_Config lib get) [] of
     (cfg, []) \<Rightarrow> Inr cfg
   | (_, errs) \<Rightarrow> Inl (cl_Errors lib errs))"

definition unmarshal_error :: "go_error \<Rightarrow> go_error" where
  "unmarshal_error err = Fmt (''failed to unmarshal config: '' @ Error_text err) (Some err)"

text \<open>What \<open>Load\<close> tells viper before it reads the file.\<close>

definition configured_viper :: "(string \<times> Flag) list \<Rightarrow> Flag \<Rightarrow> Viper" where
  "configured_viper flags configFlag =
     (let v1 = BindPFlag ''app.port'' (map_of flags ''port'') (BindPFlag ''app.ip'' (map_of flags ''ip'') viper_New);
          v2 = (if fl_String configFlag \<noteq> [] then v1\<lparr>v_source := ConfigFile (fl_String configFlag)\<rparr>
                else AddConfigPath ''/etc/service-user'' (AddConfigPath ''.'' (v1\<lparr>v_source := ConfigSearch ''config'' ''yaml'' []\<rparr>)))
      in (all_defaults v2)\<lparr>v_automaticEnv := True, v_envReplacer := Some (''.'', ''_'')\<rparr>)"

text \<open>\<open>Load\<close> looks the flag \<open>config\<close> up without a check: without it the process panics (\<open>None\<close>).\<close>

definition Load :: "config_library \<Rightarrow> (string \<times> Flag) list \<Rightarrow> Config result option" where
  "Load lib flags = (case map_of flags ''config'' of
     None \<Rightarrow> None
   | Some configFlag \<Rightarrow>
       (let v = configured_viper flags configFlag;
            unmarshal = (\<lambda>file. case Unmarshal lib (cl_Get lib v file) of Inl err \<Rightarrow> Inl (unmarshal_error err) | Inr cfg \<Rightarrow> Inr cfg)
        in Some (case cl_ReadInConfig lib v of
             FileNotFound \<Rightarrow> unmarshal (\<lambda>_. None)
           | ReadFailed err \<Rightarrow> Inl err
           | FileValues file \<Rightarrow> unmarshal file)))"

end
