(* ===== verification/Infra.thy ===== *)
theory Infra
  imports Config AttemptTracker RateLimiter
begin

text \<open>
  \<open>internal/infra\<close> without RabbitMQ (which is in \<open>Rabbit\<close>) and the choice of the security adapters: how
  the connections to PostgreSQL and Redis and the monitoring are made from a configuration, and which
  attempt trackers and rate limiter a configuration selects. The drivers are libraries over a state of
  their own; connections and pools are the handles they give out.
\<close>

section \<open>PostgreSQL\<close>

record PostgreConfig =
  pgc_Host :: string
  pgc_Port :: int
  pgc_User :: string
  pgc_Password :: string
  pgc_Name :: string
  pgc_SslMode :: string
  pgc_Timezone :: string
  pgc_MinConns :: "32 word"
  pgc_MinIdleConns :: "32 word"
  pgc_MaxConns :: "32 word"
  pgc_MaxConnIdleTime :: duration
  pgc_MaxConnLifetime :: duration
  pgc_MaxConnLifetimeJitter :: duration
  pgc_HealthCheckPeriod :: duration
  pgc_QueryExecMode :: string

datatype QueryExecMode = QueryExecModeCacheStatement | QueryExecModeCacheDescribe | QueryExecModeSimpleProtocol

definition getPostgreQueryExecMode :: "string \<Rightarrow> QueryExecMode" where
  "getPostgreQueryExecMode mode =
     (if mode = ''cache_statement'' then QueryExecModeCacheStatement
      else if mode = ''cache_describe'' then QueryExecModeCacheDescribe
      else if mode = ''simple_protocol'' then QueryExecModeSimpleProtocol
      else QueryExecModeCacheDescribe)"

text \<open>The connection URL. User, password and name are put in as they are.\<close>

definition connString :: "PostgreConfig \<Rightarrow> string" where
  "connString cfg = ''postgres://'' @ pgc_User cfg @ '':'' @ pgc_Password cfg @ ''@'' @ pgc_Host cfg @ '':'' @ FormatInt (pgc_Port cfg)
     @ ''/'' @ pgc_Name cfg @ ''?sslmode='' @ pgc_SslMode cfg @ ''&timezone='' @ pgc_Timezone cfg"

text \<open>A \<open>pgxpool.Config\<close>: what was parsed from the URL, and the settings of the pool.\<close>

record PoolConfig =
  pool_ConnString :: string
  pool_MinConns :: "32 word"
  pool_MinIdleConns :: "32 word"
  pool_MaxConns :: "32 word"
  pool_MaxConnLifetime :: duration
  pool_MaxConnLifetimeJitter :: duration
  pool_MaxConnIdleTime :: duration
  pool_HealthCheckPeriod :: duration
  pool_DefaultQueryExecMode :: QueryExecMode

record 's pgx_library =
  pgx_ParseConfig :: "string \<Rightarrow> PoolConfig result"
  pgx_NewWithConfig :: "PoolConfig \<Rightarrow> ('s, nat result) prog"
  pgx_Ping :: "nat \<Rightarrow> ('s, unit result) prog"
  pgx_Close :: "nat \<Rightarrow> ('s, unit) prog"

definition pool_settings :: "PostgreConfig \<Rightarrow> PoolConfig \<Rightarrow> PoolConfig" where
  "pool_settings cfg c = c\<lparr>pool_MinConns := pgc_MinConns cfg, pool_MinIdleConns := pgc_MinIdleConns cfg,
     pool_MaxConns := pgc_MaxConns cfg, pool_MaxConnLifetime := pgc_MaxConnLifetime cfg,
     pool_MaxConnLifetimeJitter := pgc_MaxConnLifetimeJitter cfg, pool_MaxConnIdleTime := pgc_MaxConnIdleTime cfg,
     pool_HealthCheckPeriod := pgc_HealthCheckPeriod cfg,
     pool_DefaultQueryExecMode := getPostgreQueryExecMode (pgc_QueryExecMode cfg)\<rparr>"

definition NewPostgreConnection :: "'s pgx_library \<Rightarrow> PostgreConfig \<Rightarrow> ('s, nat result) prog" where
  "NewPostgreConnection lib cfg = (case pgx_ParseConfig lib (connString cfg) of
     Inl err \<Rightarrow> fail err
   | Inr connConfig \<Rightarrow>
       call (pgx_NewWithConfig lib (pool_settings cfg connConfig)) (\<lambda>pool.
       call (pgx_Ping lib pool) (\<lambda>_. ok pool)))"

section \<open>Redis\<close>

record redis_Options =
  ro_Addr :: string
  ro_Username :: string
  ro_Password :: string
  ro_DB :: int
  ro_PoolSize :: int
  ro_PoolTimeout :: duration
  ro_MinIdleConns :: int

record 's redis_library =
  rl_NewClient :: "redis_Options \<Rightarrow> ('s, nat) prog"
  rl_Ping :: "nat \<Rightarrow> ('s, unit result) prog"
  rl_Close :: "nat \<Rightarrow> ('s, unit result) prog"

text \<open>\<open>infra.RedisConfig\<close> has the fields of \<open>config.RedisConfig\<close>, which stands for both.\<close>

definition NewRedisConnection :: "'s redis_library \<Rightarrow> RedisConfig \<Rightarrow> ('s, nat result) prog" where
  "NewRedisConnection lib cfg = do {
     rdb \<leftarrow> rl_NewClient lib \<lparr>ro_Addr = rd_Host cfg @ '':'' @ FormatInt (rd_Port cfg), ro_Username = rd_User cfg,
       ro_Password = rd_Password cfg, ro_DB = rd_DB cfg, ro_PoolSize = rd_PoolSize cfg,
       ro_PoolTimeout = rd_PoolTimeout cfg, ro_MinIdleConns = rd_ConnectionIdleMin cfg\<rparr>;
     call (rl_Ping lib rdb) (\<lambda>_. ok rdb) }"

section \<open>Monitoring\<close>

record MonitoringConfig =
  im_ServiceName :: string
  im_Environment :: string
  im_InstanceName :: string
  im_InstanceHost :: string
  im_LoggerLevel :: string
  im_LoggerCallerSkipNum :: int
  im_TracerProvider :: string
  im_TracerProviderHost :: string
  im_TracerProviderPort :: int
  im_TracerSampleRatio :: rat
  im_TracerInsecure :: bool
  im_MetricProvider :: string
  im_MetricProviderHost :: string
  im_MetricProviderPort :: int
  im_MetricInsecure :: bool

text \<open>The options of go-monitoring the code uses.\<close>

datatype gomon_Option =
    WithServiceName string
  | WithEnvironment string
  | WithInstance string string
  | WithLoggerLevel string
  | WithLoggerCallerSkipNum int
  | WithTracerProvider string string int
  | WithTracerSampleRatio rat
  | WithTracerInsecure bool
  | WithMetricProvider string string int
  | WithMetricInsecure bool
  | WithMetricInterval duration

definition ConvertConfigToOptions :: "MonitoringConfig \<Rightarrow> gomon_Option list" where
  "ConvertConfigToOptions cfg =
     [WithServiceName (im_ServiceName cfg)]
     @ (if im_Environment cfg \<noteq> [] then [WithEnvironment (im_Environment cfg)] else [])
     @ (if im_InstanceName cfg \<noteq> [] \<or> im_InstanceHost cfg \<noteq> []
        then [WithInstance (im_InstanceName cfg) (im_InstanceHost cfg)] else [])
     @ (if im_LoggerLevel cfg \<noteq> [] then [WithLoggerLevel (im_LoggerLevel cfg)] else [])
     @ (if im_LoggerCallerSkipNum cfg > 0 then [WithLoggerCallerSkipNum (im_LoggerCallerSkipNum cfg)] else [])
     @ (if im_TracerProvider cfg \<noteq> []
        then [WithTracerProvider (im_TracerProvider cfg) (im_TracerProviderHost cfg) (im_TracerProviderPort cfg),
              WithTracerSampleRatio (im_TracerSampleRatio cfg)]
           @ (if im_TracerInsecure cfg then [WithTracerInsecure (im_TracerInsecure cfg)] else [])
        else [])
     @ (if im_MetricProvider cfg \<noteq> []
        then [WithMetricProvider (im_MetricProvider cfg) (im_MetricProviderHost cfg) (im_MetricProviderPort cfg)]
           @ (if im_MetricInsecure cfg then [WithMetricInsecure (im_MetricInsecure cfg)] else [])
           @ [WithMetricInterval (60 * second)]
        else [])"

definition NewMonitoring :: "(gomon_Option list \<Rightarrow> ('s, unit result) prog) \<Rightarrow> MonitoringConfig \<Rightarrow> ('s, unit result) prog" where
  "NewMonitoring gomon_NewMonitoring cfg = gomon_NewMonitoring (ConvertConfigToOptions cfg)"

text \<open>\<open>NewLogger\<close> panics (\<open>None\<close>) when the library cannot make a logger.\<close>

definition NewLogger :: "('s, unit result) prog \<Rightarrow> ('s, unit option) prog" where
  "NewLogger gomon_NewLogger = do { r \<leftarrow> gomon_NewLogger; ret (case r of Inl _ \<Rightarrow> None | Inr logger \<Rightarrow> Some logger) }"

section \<open>UIDs\<close>

text \<open>
  \<open>UIDGenerator.New\<close>: a UUID of version 7, and a random one if it cannot be made. \<open>uuid.New\<close> panics
  when there is no randomness, so it has no error.
\<close>

definition UIDGenerator_New :: "('s, string result) prog \<Rightarrow> ('s, string) prog \<Rightarrow> ('s, string) prog" where
  "UIDGenerator_New uuid_NewV7 uuid_New = do {
     r \<leftarrow> uuid_NewV7;
     (case r of Inl _ \<Rightarrow> uuid_New | Inr u \<Rightarrow> ret u) }"

end
