(* ===== verification/SecurityWiring.thy ===== *)
theory SecurityWiring
  imports Infra RedisLimiter
begin

text \<open>
  \<open>internal/adapter/security/security_adapters.go\<close>: the configuration selects a backend for the attempt
  trackers and for the rate limiter; \<open>Close\<close> ends what they hold. The state is that of the process: the
  libraries and a log of what was opened and closed, in order.
\<close>

section \<open>The process\<close>

datatype resource =
    PostgresPool | RedisConnection | LoginTracker | PINTracker | RabbitConnection | Publisher | ServiceExecutor

datatype action = Opened resource | Closed resource | Serving string | FatalLog string

record 's process =
  pc_lib :: 's
  pc_log :: "action list"

definition on_library :: "('s, 'a) prog \<Rightarrow> ('s process, 'a) prog" where
  "on_library = zoom pc_lib (\<lambda>s. pc_lib_update (\<lambda>_. s))"

definition log_action :: "action \<Rightarrow> ('s process, unit) prog" where
  "log_action a = State (\<lambda>p. ((), p\<lparr>pc_log := pc_log p @ [a]\<rparr>))"

section \<open>Logged identifiers\<close>

text \<open>\<open>truncateID\<close>: at most eight characters of an identifier, with an ellipsis for the rest (in UTF-8).\<close>

definition ellipsis :: string where
  "ellipsis = [CHR 0xE2, CHR 0x80, CHR 0xA6]"

definition truncateID :: "string \<Rightarrow> string" where
  "truncateID uid = (if length uid \<le> 8 then uid else take 8 uid @ ellipsis)"

section \<open>Selecting a backend\<close>

text \<open>
  The structs \<open>AttemptTrackerConfig\<close>, \<open>RateLimiterConfig\<close> and \<open>SecurityConfig\<close> of the package have the
  fields of those of \<open>internal/config\<close>, which stand for both. The dynamic types of the adapters, with
  the handle of the Redis client:
\<close>

datatype tracker_adapter = MemoryTracker TrackerConfig | RedisBackedTracker nat TrackerConfig

datatype limiter_adapter = MemoryLimiter LimiterConfig | RedisBackedLimiter nat LimiterConfig

record SecurityAdapters =
  sa_LoginTracker :: tracker_adapter
  sa_PINTracker :: tracker_adapter
  sa_RateLimiter :: limiter_adapter
  sa_client :: "nat option"

definition tracker_settings :: "AttemptTrackerConfig \<Rightarrow> TrackerConfig" where
  "tracker_settings cfg = \<lparr>threshold = atc_LockoutThreshold cfg, lockoutDuration = atc_LockoutDuration cfg,
     counterTTL = atc_LockoutCounterTTL cfg\<rparr>"

text \<open>A negative limit grants nothing, as the limit zero.\<close>

definition limiter_settings :: "RateLimiterConfig \<Rightarrow> LimiterConfig" where
  "limiter_settings cfg = \<lparr>rl_limit = nat (rlc_Limit cfg), rl_windowSize = rlc_WindowSize cfg\<rparr>"

definition backend_choice :: string where
  "backend_choice = '' (must be '' @ CHR 0x27 # ''memory'' @ CHR 0x27 # '' or '' @ CHR 0x27 # ''redis'' @ CHR 0x27 # '')''"

definition newAttemptTracker :: "nat option \<Rightarrow> AttemptTrackerConfig \<Rightarrow> tracker_adapter result" where
  "newAttemptTracker client cfg =
     (if atc_Backend cfg = ''memory'' then Inr (MemoryTracker (tracker_settings cfg))
      else if atc_Backend cfg = ''redis'' then
        (case client of
           None \<Rightarrow> Inl (Fmt ''redis client is required for redis backend'' None)
         | Some c \<Rightarrow> Inr (RedisBackedTracker c (tracker_settings cfg)))
      else Inl (Fmt (''unknown attempt tracker backend: '' @ atc_Backend cfg @ backend_choice) None))"

definition newRateLimiter :: "nat option \<Rightarrow> RateLimiterConfig \<Rightarrow> limiter_adapter result" where
  "newRateLimiter client cfg =
     (if rlc_Backend cfg = ''memory'' then Inr (MemoryLimiter (limiter_settings cfg))
      else if rlc_Backend cfg = ''redis'' then
        (case client of
           None \<Rightarrow> Inl (Fmt ''redis client is required for redis backend'' None)
         | Some c \<Rightarrow> Inr (RedisBackedLimiter c (limiter_settings cfg)))
      else Inl (Fmt (''unknown rate limiter backend: '' @ rlc_Backend cfg @ backend_choice) None))"

text \<open>A memory tracker starts its cleanup goroutine when it is made, and \<open>Close\<close> ends it.\<close>

definition start_tracker :: "resource \<Rightarrow> tracker_adapter \<Rightarrow> ('s process, unit) prog" where
  "start_tracker r t = (case t of MemoryTracker _ \<Rightarrow> log_action (Opened r) | RedisBackedTracker _ _ \<Rightarrow> ret ())"

definition close_tracker :: "resource \<Rightarrow> tracker_adapter \<Rightarrow> ('s process, unit) prog" where
  "close_tracker r t = (case t of MemoryTracker _ \<Rightarrow> log_action (Closed r) | RedisBackedTracker _ _ \<Rightarrow> ret ())"

definition close_redis :: "'s redis_library \<Rightarrow> nat option \<Rightarrow> ('s process, unit result) prog" where
  "close_redis lib client = (case client of
     None \<Rightarrow> ok () | Some c \<Rightarrow> do { _ \<leftarrow> log_action (Closed RedisConnection); on_library (rl_Close lib c) })"

definition SecurityAdapters_Close :: "'s redis_library \<Rightarrow> SecurityAdapters \<Rightarrow> ('s process, unit result) prog" where
  "SecurityAdapters_Close lib s = do {
     _ \<leftarrow> close_tracker LoginTracker (sa_LoginTracker s);
     _ \<leftarrow> close_tracker PINTracker (sa_PINTracker s);
     close_redis lib (sa_client s) }"

definition adapter_error :: "string \<Rightarrow> go_error \<Rightarrow> go_error" where
  "adapter_error what err = Fmt (''failed to create '' @ what @ '': '' @ Error_text err) (Some err)"

definition NewSecurityAdapters ::
  "'s redis_library \<Rightarrow> SecurityConfig \<Rightarrow> nat option \<Rightarrow> bool \<Rightarrow> ('s process, SecurityAdapters result) prog" where
  "NewSecurityAdapters lib cfg redisClient tracer =
     (let needsRedis = atc_Backend (sc_LoginTracker cfg) = ''redis'' \<or> atc_Backend (sc_PINTracker cfg) = ''redis'' \<or>
            rlc_Backend (sc_RateLimiter cfg) = ''redis'';
          give_up = (\<lambda>what err. do { _ \<leftarrow> close_redis lib redisClient; fail (adapter_error what err) })
      in if needsRedis \<and> redisClient = None then fail (Fmt ''redis client is required for redis backend'' None)
         else if needsRedis \<and> \<not> tracer then fail (Fmt ''tracer is required for redis backend'' None)
         else case newAttemptTracker redisClient (sc_LoginTracker cfg) of
           Inl err \<Rightarrow> give_up ''login tracker'' err
         | Inr loginTracker \<Rightarrow> do {
             _ \<leftarrow> start_tracker LoginTracker loginTracker;
             (case newAttemptTracker redisClient (sc_PINTracker cfg) of
                Inl err \<Rightarrow> give_up ''PIN tracker'' err
              | Inr pinTracker \<Rightarrow> do {
                  _ \<leftarrow> start_tracker PINTracker pinTracker;
                  (case newRateLimiter redisClient (sc_RateLimiter cfg) of
                     Inl err \<Rightarrow> give_up ''rate limiter'' err
                   | Inr rateLimiter \<Rightarrow>
                       ok \<lparr>sa_LoginTracker = loginTracker, sa_PINTracker = pinTracker, sa_RateLimiter = rateLimiter,
                           sa_client = redisClient\<rparr>) }) })"

end
