(* ===== verification/Startup.thy ===== *)
theory Startup
  imports SecurityWiring Hashers Jwt Rabbit Publishers GoogleProvider Middleware
begin

text \<open>
  \<open>cmd/main.go\<close>: the start of the service, from the flags to the server, and its end. A deferred call
  runs when \<open>main\<close> returns or panics, the last one first; \<open>logger.Fatal\<close> ends the process at once, so no
  deferred call runs. The log of the process tells what was opened and closed.
\<close>

section \<open>The end of the process and deferred calls\<close>

text \<open>
  \<open>Connecting\<close>: the connection to RabbitMQ is still being retried when the fuel of the model is used up.
\<close>

datatype main_end = Returned | Exited nat | Panicked | Connecting

definition runs_defers :: "main_end \<Rightarrow> bool" where
  "runs_defers r \<longleftrightarrow> r = Returned \<or> r = Panicked"

definition deferring :: "('s, 'a) prog \<Rightarrow> ('s, main_end) prog \<Rightarrow> ('s, main_end) prog" where
  "deferring close_call body = do {
     r \<leftarrow> body;
     (if runs_defers r then do { _ \<leftarrow> close_call; ret r } else ret r) }"

definition Fatal :: "string \<Rightarrow> ('s process, main_end) prog" where
  "Fatal message = do { _ \<leftarrow> log_action (FatalLog message); ret (Exited 1) }"

definition or_fatal :: "string \<Rightarrow> ('s process, 'a result) prog \<Rightarrow> ('a \<Rightarrow> ('s process, main_end) prog) \<Rightarrow> ('s process, main_end) prog" where
  "or_fatal message m f = do { r \<leftarrow> m; (case r of Inl err \<Rightarrow> Fatal message | Inr a \<Rightarrow> f a) }"

section \<open>The libraries of the process\<close>

record ('s, 'x) boot_library =
  bl_config :: config_library
  bl_Parse :: "(string \<times> Flag) list \<Rightarrow> (string \<times> Flag) list"
  bl_NewLogger :: "('s, unit result) prog"
  bl_NewMonitoring :: "gomon_Option list \<Rightarrow> ('s, unit result) prog"
  bl_pgx :: "'s pgx_library"
  bl_redis :: "'s redis_library"
  bl_hash :: "'x hash_library"
  bl_amqp :: "'s amqp_library"
  bl_rabbit :: "'s RabbitConn"
  bl_event :: "'s event_library"
  bl_GoogleEndpoint :: Oauth2Endpoint
  bl_Listen :: "string \<Rightarrow> ('s, string result) prog"
  bl_Serve :: "Server \<Rightarrow> ('s, unit result) prog"

section \<open>What main makes of the configuration\<close>

definition main_monitoring :: "Config \<Rightarrow> MonitoringConfig" where
  "main_monitoring cfg = (let m = cfg_Monitoring cfg; t = cm_Tracer m; mt = cm_Metric m in
     \<lparr>im_ServiceName = cm_ServiceName m, im_Environment = cm_Environment m,
      im_InstanceName = ins_Name (cfg_Instance cfg), im_InstanceHost = ins_Host (cfg_Instance cfg),
      im_LoggerLevel = cm_LoggerLevel m, im_LoggerCallerSkipNum = 0,
      im_TracerProvider = mt_Provider t, im_TracerProviderHost = mt_ProviderHost t, im_TracerProviderPort = mt_ProviderPort t,
      im_TracerSampleRatio = mt_SampleRatio t, im_TracerInsecure = mt_Insecure t,
      im_MetricProvider = mm_Provider mt, im_MetricProviderHost = mm_ProviderHost mt,
      im_MetricProviderPort = mm_ProviderPort mt, im_MetricInsecure = mm_Insecure mt\<rparr>)"

definition main_postgres :: "Config \<Rightarrow> PostgreConfig" where
  "main_postgres cfg = (let d = cfg_Database cfg in
     \<lparr>pgc_Host = db_Host d, pgc_Port = db_Port d, pgc_User = db_User d, pgc_Password = db_Password d, pgc_Name = db_Name d,
      pgc_SslMode = db_SslMode d, pgc_Timezone = db_Timezone d, pgc_MinConns = db_MinConns d,
      pgc_MinIdleConns = db_MinIdleConns d, pgc_MaxConns = db_MaxConns d, pgc_MaxConnIdleTime = db_MaxConnIdleTime d,
      pgc_MaxConnLifetime = db_MaxConnLifetime d, pgc_MaxConnLifetimeJitter = db_MaxConnLifetimeJitter d,
      pgc_HealthCheckPeriod = db_HealthCheckPeriod d, pgc_QueryExecMode = db_QueryExecMode d\<rparr>)"

text \<open>The PIN hasher has a cost and a number of iterations of its own, whatever is configured.\<close>

definition main_passwordHasher :: "'x hash_library \<Rightarrow> Config \<Rightarrow> 'x Hasher result" where
  "main_passwordHasher lib cfg = (let h = cfg_PasswordHasher cfg in
     NewHasher lib (hc_Type h) (main_hasher_options (hc_Cost h) (hc_Salt h) (hc_Memory h) (hc_Iterations h)
       (hc_Parallelism h) (hc_SaltLength h) (hc_KeyLength h)))"

definition main_pinHasher :: "'x hash_library \<Rightarrow> Config \<Rightarrow> 'x Hasher result" where
  "main_pinHasher lib cfg = (let h = cfg_PINHasher cfg in
     NewHasher lib (hc_Type h) (main_hasher_options 14 (hc_Salt h) (hc_Memory h) 4
       (hc_Parallelism h) (hc_SaltLength h) (hc_KeyLength h)))"

definition main_tokenGen :: "Config \<Rightarrow> JWTGenerator" where
  "main_tokenGen cfg = \<lparr>g_secretKey = jw_SecretKey (cfg_Jwt cfg), g_accessExpiry = jw_AccessExpiry (cfg_Jwt cfg),
     g_refreshExpiry = jw_RefreshExpiry (cfg_Jwt cfg)\<rparr>"

definition main_rabbit :: "Config \<Rightarrow> RabbitConfig" where
  "main_rabbit cfg = (let r = cfg_Rabbit cfg in
     \<lparr>rc_Host = rb_Host r, rc_Port = rb_Port r, rc_User = rb_User r, rc_Password = rb_Password r, rc_Vhost = rb_Vhost r,
      rc_ReconnectInterval = rb_ReconnectInterval r, rc_ReconnectMaxAttempts = rb_ReconnectMaxAttempts r\<rparr>)"

definition main_events :: "Config \<Rightarrow> EventPublisherConfig" where
  "main_events cfg = (let e = cfg_EventPublisher cfg; r = ep_RabbitMQ e in
     \<lparr>epc_Enabled = ep_Enabled e, epc_HTTPEnabled = ph_Enabled (ep_HTTP e), epc_HTTPURL = ph_URL (ep_HTTP e),
      epc_RabbitEnabled = pr_Enabled r,
      epc_Rabbit = \<lparr>rpc_Exchange = pr_Exchange r, rpc_RoutingKeyPrefix = pr_RoutingKeyPrefix r,
        rpc_ConfirmTimeout = pr_ConfirmTimeout r, rpc_MaxRetries = pr_MaxRetries r, rpc_RetryInterval = pr_RetryInterval r\<rparr>\<rparr>)"

definition uses_rabbit :: "Config \<Rightarrow> bool" where
  "uses_rabbit cfg \<longleftrightarrow> ep_Enabled (cfg_EventPublisher cfg) \<and> pr_Enabled (ep_RabbitMQ (cfg_EventPublisher cfg))"

text \<open>\<open>None\<close> in the result: OAuth is not enabled, the provider stays a nil interface.\<close>

definition main_oauth :: "Oauth2Endpoint \<Rightarrow> Config \<Rightarrow> GoogleOAuth option result" where
  "main_oauth endpoint cfg =
     (if oc_Enabled (cfg_OAuth cfg) then
        (case NewGoogleOAuth endpoint (Some (zero_config\<lparr>gc_ClientID := og_ClientID (oc_Google (cfg_OAuth cfg)),
             gc_ClientSecret := og_ClientSecret (oc_Google (cfg_OAuth cfg))\<rparr>)) of
           Inl err \<Rightarrow> Inl err | Inr g \<Rightarrow> Inr (Some g))
      else Inr None)"

definition main_addr :: "Config \<Rightarrow> string" where
  "main_addr cfg = app_IP (cfg_App cfg) @ '':'' @ FormatInt (app_Port (cfg_App cfg))"

section \<open>The steps of main, the last one first\<close>

text \<open>
  The server: \<open>Serve\<close> returns no error after the signal handler has called \<open>Stop\<close>.
\<close>

definition serve :: "('s, 'x) boot_library \<Rightarrow> Config \<Rightarrow> ('s process, main_end) prog" where
  "serve lib cfg = do {
     l \<leftarrow> on_library (bl_Listen lib (main_addr cfg));
     (case Server_Start l NewServer of
        (Inl err, _) \<Rightarrow> Fatal ''failed to serve''
      | (Inr _, srv) \<Rightarrow> do {
          _ \<leftarrow> log_action (Serving (main_addr cfg));
          or_fatal ''failed to serve'' (on_library (bl_Serve lib srv)) (\<lambda>_. ret Returned) }) }"

definition with_executor :: "('s, 'x) boot_library \<Rightarrow> Config \<Rightarrow> ('s process, main_end) prog" where
  "with_executor lib cfg = (case main_oauth (bl_GoogleEndpoint lib) cfg of
     Inl err \<Rightarrow> Fatal ''failed to initialize OAuth provider''
   | Inr oauthProvider \<Rightarrow> do {
       _ \<leftarrow> log_action (Opened ServiceExecutor);
       deferring (log_action (Closed ServiceExecutor)) (serve lib cfg) })"

definition with_publisher :: "('s, 'x) boot_library \<Rightarrow> Config \<Rightarrow> ('s process, main_end) prog" where
  "with_publisher lib cfg = do {
     _ \<leftarrow> log_action (Opened Publisher);
     deferring (do { _ \<leftarrow> log_action (Closed Publisher);
                     on_library (pub_Close (main_publisher (bl_event lib) (bl_rabbit lib) (main_events cfg))) })
       (with_executor lib cfg) }"

definition with_rabbit :: "('s, 'x) boot_library \<Rightarrow> nat \<Rightarrow> Config \<Rightarrow> ('s process, main_end) prog" where
  "with_rabbit lib fuel cfg =
     (if \<not> uses_rabbit cfg then with_publisher lib cfg
      else do {
        r \<leftarrow> on_library (State (\<lambda>s. case NewRabbitConnection (bl_amqp lib) fuel (main_rabbit cfg) s of (r, rb) \<Rightarrow> (r, rb_lib rb)));
        (case r of
           None \<Rightarrow> ret Connecting
         | Some (Inl err) \<Rightarrow> Fatal ''failed to connect to rabbitmq''
         | Some (Inr rabbitmqConn) \<Rightarrow> do {
             _ \<leftarrow> log_action (Opened RabbitConnection);
             deferring (do { _ \<leftarrow> log_action (Closed RabbitConnection); on_library (RC_Close (bl_rabbit lib)) })
               (with_publisher lib cfg) }) })"

definition with_adapters :: "('s, 'x) boot_library \<Rightarrow> nat \<Rightarrow> Config \<Rightarrow> nat \<Rightarrow> ('s process, main_end) prog" where
  "with_adapters lib fuel cfg redisClient = (case main_passwordHasher (bl_hash lib) cfg of
     Inl err \<Rightarrow> Fatal ''failed to initialize password hasher''
   | Inr passwordHasher \<Rightarrow> (case main_pinHasher (bl_hash lib) cfg of
       Inl err \<Rightarrow> Fatal ''failed to initialize pin hasher''
     | Inr pinHasher \<Rightarrow>
         or_fatal ''failed to initialize security adapters''
           (NewSecurityAdapters (bl_redis lib) (cfg_Security cfg) (Some redisClient) True)
           (\<lambda>securityAdapters.
             deferring (SecurityAdapters_Close (bl_redis lib) securityAdapters) (with_rabbit lib fuel cfg))))"

definition with_redis :: "('s, 'x) boot_library \<Rightarrow> nat \<Rightarrow> Config \<Rightarrow> ('s process, main_end) prog" where
  "with_redis lib fuel cfg =
     or_fatal ''failed to connect to redis'' (on_library (NewRedisConnection (bl_redis lib) (cfg_Redis cfg))) (\<lambda>redisClient. do {
       _ \<leftarrow> log_action (Opened RedisConnection);
       deferring (close_redis (bl_redis lib) (Some redisClient)) (with_adapters lib fuel cfg redisClient) })"

definition with_config :: "('s, 'x) boot_library \<Rightarrow> nat \<Rightarrow> Config \<Rightarrow> ('s process, main_end) prog" where
  "with_config lib fuel cfg = do {
     logger \<leftarrow> on_library (NewLogger (bl_NewLogger lib));
     (case logger of
        None \<Rightarrow> ret Panicked
      | Some _ \<Rightarrow>
          or_fatal ''failed to initialize monitoring'' (on_library (NewMonitoring (bl_NewMonitoring lib) (main_monitoring cfg))) (\<lambda>_.
          or_fatal ''failed to connect to database'' (on_library (NewPostgreConnection (bl_pgx lib) (main_postgres cfg))) (\<lambda>dbPool. do {
            _ \<leftarrow> log_action (Opened PostgresPool);
            deferring (do { _ \<leftarrow> log_action (Closed PostgresPool); on_library (pgx_Close (bl_pgx lib) dbPool) })
              (with_redis lib fuel cfg) }))) }"

definition main :: "('s, 'x) boot_library \<Rightarrow> string \<Rightarrow> string \<Rightarrow> nat \<Rightarrow> ('s process, main_end) prog" where
  "main lib Version BuildTime fuel = (case InitFlags (bl_Parse lib) None of
     None \<Rightarrow> ret Panicked
   | Some flags \<Rightarrow>
       (case handleVersionFlag Version BuildTime flags of
          Some line \<Rightarrow> ret (Exited 0)
        | None \<Rightarrow> (case Load (bl_config lib) flags of
            None \<Rightarrow> ret Panicked
          | Some (Inl err) \<Rightarrow> ret Panicked
          | Some (Inr cfg) \<Rightarrow> with_config lib fuel cfg)))"

end
