(* ===== verification/ConfigProperties.thy ===== *)
theory ConfigProperties
  imports Config
begin

text \<open>
  What \<open>Load\<close> guarantees when viper and mapstructure do what they document: every field of the
  configuration has a default of its own type, so a configuration can only be refused for a value that
  the operator gave; flags win over the environment, the environment over the file.
\<close>

section \<open>The keys and their types\<close>

text \<open>
  The schema the struct tags define: the dotted key of every field with the type it is decoded to.
\<close>

datatype kind = KStr | KInt | KInt32 | KBool | KFloat | KDur | KStrs | KCodec

definition under :: "string \<Rightarrow> (string \<times> kind) list \<Rightarrow> (string \<times> kind) list" where
  "under p keys = map (\<lambda>(key, kd). (p @ key, kd)) keys"

definition keys_AppConfig :: "string \<Rightarrow> (string \<times> kind) list" where
  "keys_AppConfig p =
     under p [(''.name'', KStr), (''.code'', KStr), (''.env'', KStr), (''.debug'', KBool), (''.ip'', KStr),
     (''.port'', KInt)]"

definition keys_InstanceConfig :: "string \<Rightarrow> (string \<times> kind) list" where
  "keys_InstanceConfig p =
     under p [(''.name'', KStr), (''.host'', KStr)]"

definition keys_DatabaseConfig :: "string \<Rightarrow> (string \<times> kind) list" where
  "keys_DatabaseConfig p =
     under p [(''.host'', KStr), (''.port'', KInt), (''.user'', KStr), (''.password'', KStr), (''.name'', KStr),
     (''.sslmode'', KStr), (''.timezone'', KStr), (''.min_conns'', KInt32), (''.min_idle_conns'', KInt32),
     (''.max_conns'', KInt32), (''.max_conn_idle_time'', KDur), (''.max_conn_lifetime'', KDur),
     (''.max_conn_lifetime_jitter'', KDur), (''.health_check_period'', KDur), (''.query_exec_mode'', KStr)]"

definition keys_RedisConfig :: "string \<Rightarrow> (string \<times> kind) list" where
  "keys_RedisConfig p =
     under p [(''.host'', KStr), (''.port'', KInt), (''.user'', KStr), (''.password'', KStr), (''.db'', KInt),
     (''.pool_size'', KInt), (''.pool_timeout'', KDur), (''.connection_idle_min'', KInt)]"

definition keys_RabbitConfig :: "string \<Rightarrow> (string \<times> kind) list" where
  "keys_RabbitConfig p =
     under p [(''.host'', KStr), (''.port'', KInt), (''.user'', KStr), (''.password'', KStr),
     (''.vhost'', KStr), (''.reconnect_interval'', KDur), (''.reconnect_max_attempts'', KInt)]"

definition keys_KafkaConfig :: "string \<Rightarrow> (string \<times> kind) list" where
  "keys_KafkaConfig p =
     under p [(''.brokers'', KStrs), (''.max_message_bytes'', KInt), (''.timeout_seconds'', KInt),
     (''.compression'', KCodec), (''.reconnect_max_attempts'', KInt), (''.reconnect_interval_seconds'', KDur)]"

definition keys_MonitoringTraceConfig :: "string \<Rightarrow> (string \<times> kind) list" where
  "keys_MonitoringTraceConfig p =
     under p [(''.provider'', KStr), (''.provider_host'', KStr), (''.provider_port'', KInt),
     (''.sample_ratio'', KFloat), (''.insecure'', KBool)]"

definition keys_MonitoringMetricConfig :: "string \<Rightarrow> (string \<times> kind) list" where
  "keys_MonitoringMetricConfig p =
     under p [(''.provider'', KStr), (''.provider_host'', KStr), (''.provider_port'', KInt),
     (''.insecure'', KBool)]"

definition keys_MonitoringConfig :: "string \<Rightarrow> (string \<times> kind) list" where
  "keys_MonitoringConfig p =
     under p [(''.service_name'', KStr), (''.environment'', KStr), (''.logger.level'', KStr)]
     @ keys_MonitoringTraceConfig (p @ ''.tracer'') @ keys_MonitoringMetricConfig (p @ ''.metric'')"

definition keys_ObserverConfig :: "string \<Rightarrow> (string \<times> kind) list" where
  "keys_ObserverConfig p =
     under p [(''.auth'', KBool), (''.user'', KBool), (''.device'', KBool), (''.userfile'', KBool),
     (''.pin'', KBool)]"

definition keys_AttemptTrackerConfig :: "string \<Rightarrow> (string \<times> kind) list" where
  "keys_AttemptTrackerConfig p =
     under p [(''.backend'', KStr), (''.lockout_threshold'', KInt), (''.lockout_duration'', KDur),
     (''.lockout_counter_ttl'', KDur)]"

definition keys_RateLimiterConfig :: "string \<Rightarrow> (string \<times> kind) list" where
  "keys_RateLimiterConfig p =
     under p [(''.backend'', KStr), (''.limit'', KInt), (''.window_size'', KDur)]"

definition keys_SecurityConfig :: "string \<Rightarrow> (string \<times> kind) list" where
  "keys_SecurityConfig p =
     keys_AttemptTrackerConfig (p @ ''.login_tracker'') @ keys_AttemptTrackerConfig (p @ ''.pin_tracker'')
     @ keys_RateLimiterConfig (p @ ''.rate_limiter'')"

definition keys_JWTConfig :: "string \<Rightarrow> (string \<times> kind) list" where
  "keys_JWTConfig p =
     under p [(''.secret_key'', KStr), (''.access_expiry'', KDur), (''.refresh_expiry'', KDur)]"

definition keys_HasherConfig :: "string \<Rightarrow> (string \<times> kind) list" where
  "keys_HasherConfig p =
     under p [(''.type'', KStr), (''.cost'', KInt), (''.salt'', KStr), (''.memory'', KInt),
     (''.iterations'', KInt), (''.parallelism'', KInt), (''.salt_length'', KInt), (''.key_length'', KInt)]"

definition keys_PublisherHTTPConfig :: "string \<Rightarrow> (string \<times> kind) list" where
  "keys_PublisherHTTPConfig p =
     under p [(''.enabled'', KBool), (''.url'', KStr), (''.timeout'', KDur)]"

definition keys_PublisherRabbitMQConfig :: "string \<Rightarrow> (string \<times> kind) list" where
  "keys_PublisherRabbitMQConfig p =
     under p [(''.enabled'', KBool), (''.exchange'', KStr), (''.routing_key_prefix'', KStr),
     (''.confirm_timeout'', KDur), (''.max_retries'', KInt), (''.retry_interval'', KDur)]"

definition keys_EventPublisherConfig :: "string \<Rightarrow> (string \<times> kind) list" where
  "keys_EventPublisherConfig p =
     under p [(''.enabled'', KBool)] @ keys_PublisherHTTPConfig (p @ ''.http'')
     @ keys_PublisherRabbitMQConfig (p @ ''.rabbitmq'')"

definition keys_OauthGoogleConfig :: "string \<Rightarrow> (string \<times> kind) list" where
  "keys_OauthGoogleConfig p =
     under p [(''.enabled'', KBool), (''.client_id'', KStr), (''.client_secret'', KStr)]"

definition keys_OauthConfig :: "string \<Rightarrow> (string \<times> kind) list" where
  "keys_OauthConfig p =
     under p [(''.enabled'', KBool)] @ keys_OauthGoogleConfig (p @ ''.google'')"

definition keys_Config :: "(string \<times> kind) list" where
  "keys_Config =
     keys_AppConfig ''app'' @ keys_InstanceConfig ''instance'' @ keys_DatabaseConfig ''database''
     @ keys_RedisConfig ''redis'' @ keys_RabbitConfig ''rabbitmq'' @ keys_KafkaConfig ''kafka''
     @ keys_MonitoringConfig ''monitoring'' @ keys_ObserverConfig ''observer''
     @ keys_SecurityConfig ''security'' @ keys_JWTConfig ''jwt'' @ keys_HasherConfig ''password_hasher''
     @ keys_HasherConfig ''pin_hasher'' @ keys_EventPublisherConfig ''event_publisher''
     @ keys_OauthConfig ''oauth''"

definition failure :: "'a result \<Rightarrow> go_error list" where
  "failure r = (case r of Inl err \<Rightarrow> [err] | Inr _ \<Rightarrow> [])"

text \<open>The error of converting a value to a type of field, if it has one.\<close>

fun refused :: "config_library \<Rightarrow> kind \<Rightarrow> config_value \<Rightarrow> go_error list" where
  "refused lib KStr x = failure (cl_String lib x)"
| "refused lib KInt x = failure (cl_Int lib x)"
| "refused lib KInt32 x = failure (cl_Int32 lib x)"
| "refused lib KBool x = failure (cl_Bool lib x)"
| "refused lib KFloat x = failure (cl_Float lib x)"
| "refused lib KDur x = failure (cl_Duration lib x)"
| "refused lib KStrs x = failure (cl_Strings lib x)"
| "refused lib KCodec x = failure (decode_codec lib x)"

definition key_errors :: "config_library \<Rightarrow> getter \<Rightarrow> (string \<times> kind) list \<Rightarrow> go_error list" where
  "key_errors lib get keys = concat (map (\<lambda>(key, kd). case get key of None \<Rightarrow> [] | Some x \<Rightarrow> refused lib kd x) keys)"

section \<open>Decoding reports exactly the refused keys\<close>

definition reports :: "(go_error list, 'a) prog \<Rightarrow> go_error list \<Rightarrow> bool" where
  "reports m es \<longleftrightarrow> (\<forall>errs. wp m (\<lambda>_ errs'. errs' = errs @ es) errs)"

named_theorems reports \<open>the errors a decoder reports\<close>

lemma reports_eq: "reports m es \<Longrightarrow> es = es' \<Longrightarrow> reports m es'" by simp

lemma reports_bind [reports]:
  assumes "reports m es" "\<And>a. reports (f a) es'"
  shows "reports (State_Monad.bind m f) (es @ es')"
  unfolding reports_def wp_bind
proof
  fix errs
  have "wp m (\<lambda>_ errs'. errs' = errs @ es) errs" using assms(1) by (simp add: reports_def)
  then show "wp m (\<lambda>a. wp (f a) (\<lambda>_ errs'. errs' = errs @ es @ es')) errs"
  proof (rule wp_mono)
    fix a errs' assume "errs' = errs @ es"
    moreover have "wp (f a) (\<lambda>_ e. e = errs' @ es') errs'" using assms(2) [of a] by (simp add: reports_def)
    ultimately show "wp (f a) (\<lambda>_ errs'. errs' = errs @ es @ es') errs'" by simp
  qed
qed

lemma reports_ret [reports]: "reports (ret a) []"
  by (simp add: reports_def)

lemma reports_field: "reports (field zero conv get key) (case get key of None \<Rightarrow> [] | Some x \<Rightarrow> failure (conv x))"
  by (simp add: reports_def field_def failure_def split: option.split sum.split)

lemma reports_fields [reports]:
  "reports (str_field lib get key) (key_errors lib get [(key, KStr)])"
  "reports (int_field lib get key) (key_errors lib get [(key, KInt)])"
  "reports (int32_field lib get key) (key_errors lib get [(key, KInt32)])"
  "reports (bool_field lib get key) (key_errors lib get [(key, KBool)])"
  "reports (float_field lib get key) (key_errors lib get [(key, KFloat)])"
  "reports (dur_field lib get key) (key_errors lib get [(key, KDur)])"
  "reports (strs_field lib get key) (key_errors lib get [(key, KStrs)])"
  "reports (codec_field lib get key) (key_errors lib get [(key, KCodec)])"
  unfolding str_field_def int_field_def int32_field_def bool_field_def float_field_def dur_field_def strs_field_def codec_field_def
  by (simp_all add: key_errors_def reports_field cong: option.case_cong)

lemma reports_AppConfig [reports]: "reports (decode_AppConfig lib get p) (key_errors lib get (keys_AppConfig p))"
  unfolding decode_AppConfig_def keys_AppConfig_def by (rule reports_eq, (rule reports)+) (simp add: key_errors_def under_def)

lemma reports_InstanceConfig [reports]: "reports (decode_InstanceConfig lib get p) (key_errors lib get (keys_InstanceConfig p))"
  unfolding decode_InstanceConfig_def keys_InstanceConfig_def by (rule reports_eq, (rule reports)+) (simp add: key_errors_def under_def)

lemma reports_DatabaseConfig [reports]: "reports (decode_DatabaseConfig lib get p) (key_errors lib get (keys_DatabaseConfig p))"
  unfolding decode_DatabaseConfig_def keys_DatabaseConfig_def by (rule reports_eq, (rule reports)+) (simp add: key_errors_def under_def)

lemma reports_RedisConfig [reports]: "reports (decode_RedisConfig lib get p) (key_errors lib get (keys_RedisConfig p))"
  unfolding decode_RedisConfig_def keys_RedisConfig_def by (rule reports_eq, (rule reports)+) (simp add: key_errors_def under_def)

lemma reports_RabbitConfig [reports]: "reports (decode_RabbitConfig lib get p) (key_errors lib get (keys_RabbitConfig p))"
  unfolding decode_RabbitConfig_def keys_RabbitConfig_def by (rule reports_eq, (rule reports)+) (simp add: key_errors_def under_def)

lemma reports_KafkaConfig [reports]: "reports (decode_KafkaConfig lib get p) (key_errors lib get (keys_KafkaConfig p))"
  unfolding decode_KafkaConfig_def keys_KafkaConfig_def by (rule reports_eq, (rule reports)+) (simp add: key_errors_def under_def)

lemma reports_MonitoringTraceConfig [reports]: "reports (decode_MonitoringTraceConfig lib get p) (key_errors lib get (keys_MonitoringTraceConfig p))"
  unfolding decode_MonitoringTraceConfig_def keys_MonitoringTraceConfig_def by (rule reports_eq, (rule reports)+) (simp add: key_errors_def under_def)

lemma reports_MonitoringMetricConfig [reports]: "reports (decode_MonitoringMetricConfig lib get p) (key_errors lib get (keys_MonitoringMetricConfig p))"
  unfolding decode_MonitoringMetricConfig_def keys_MonitoringMetricConfig_def by (rule reports_eq, (rule reports)+) (simp add: key_errors_def under_def)

lemma reports_MonitoringConfig [reports]: "reports (decode_MonitoringConfig lib get p) (key_errors lib get (keys_MonitoringConfig p))"
  unfolding decode_MonitoringConfig_def keys_MonitoringConfig_def by (rule reports_eq, (rule reports)+) (simp add: key_errors_def under_def)

lemma reports_ObserverConfig [reports]: "reports (decode_ObserverConfig lib get p) (key_errors lib get (keys_ObserverConfig p))"
  unfolding decode_ObserverConfig_def keys_ObserverConfig_def by (rule reports_eq, (rule reports)+) (simp add: key_errors_def under_def)

lemma reports_AttemptTrackerConfig [reports]: "reports (decode_AttemptTrackerConfig lib get p) (key_errors lib get (keys_AttemptTrackerConfig p))"
  unfolding decode_AttemptTrackerConfig_def keys_AttemptTrackerConfig_def by (rule reports_eq, (rule reports)+) (simp add: key_errors_def under_def)

lemma reports_RateLimiterConfig [reports]: "reports (decode_RateLimiterConfig lib get p) (key_errors lib get (keys_RateLimiterConfig p))"
  unfolding decode_RateLimiterConfig_def keys_RateLimiterConfig_def by (rule reports_eq, (rule reports)+) (simp add: key_errors_def under_def)

lemma reports_SecurityConfig [reports]: "reports (decode_SecurityConfig lib get p) (key_errors lib get (keys_SecurityConfig p))"
  unfolding decode_SecurityConfig_def keys_SecurityConfig_def by (rule reports_eq, (rule reports)+) (simp add: key_errors_def under_def)

lemma reports_JWTConfig [reports]: "reports (decode_JWTConfig lib get p) (key_errors lib get (keys_JWTConfig p))"
  unfolding decode_JWTConfig_def keys_JWTConfig_def by (rule reports_eq, (rule reports)+) (simp add: key_errors_def under_def)

lemma reports_HasherConfig [reports]: "reports (decode_HasherConfig lib get p) (key_errors lib get (keys_HasherConfig p))"
  unfolding decode_HasherConfig_def keys_HasherConfig_def by (rule reports_eq, (rule reports)+) (simp add: key_errors_def under_def)

lemma reports_PublisherHTTPConfig [reports]: "reports (decode_PublisherHTTPConfig lib get p) (key_errors lib get (keys_PublisherHTTPConfig p))"
  unfolding decode_PublisherHTTPConfig_def keys_PublisherHTTPConfig_def by (rule reports_eq, (rule reports)+) (simp add: key_errors_def under_def)

lemma reports_PublisherRabbitMQConfig [reports]: "reports (decode_PublisherRabbitMQConfig lib get p) (key_errors lib get (keys_PublisherRabbitMQConfig p))"
  unfolding decode_PublisherRabbitMQConfig_def keys_PublisherRabbitMQConfig_def by (rule reports_eq, (rule reports)+) (simp add: key_errors_def under_def)

lemma reports_EventPublisherConfig [reports]: "reports (decode_EventPublisherConfig lib get p) (key_errors lib get (keys_EventPublisherConfig p))"
  unfolding decode_EventPublisherConfig_def keys_EventPublisherConfig_def by (rule reports_eq, (rule reports)+) (simp add: key_errors_def under_def)

lemma reports_OauthGoogleConfig [reports]: "reports (decode_OauthGoogleConfig lib get p) (key_errors lib get (keys_OauthGoogleConfig p))"
  unfolding decode_OauthGoogleConfig_def keys_OauthGoogleConfig_def by (rule reports_eq, (rule reports)+) (simp add: key_errors_def under_def)

lemma reports_OauthConfig [reports]: "reports (decode_OauthConfig lib get p) (key_errors lib get (keys_OauthConfig p))"
  unfolding decode_OauthConfig_def keys_OauthConfig_def by (rule reports_eq, (rule reports)+) (simp add: key_errors_def under_def)

lemma reports_Config [reports]: "reports (decode_Config lib get) (key_errors lib get (keys_Config))"
  unfolding decode_Config_def keys_Config_def by (rule reports_eq, (rule reports)+) (simp add: key_errors_def under_def)

lemma Unmarshal_cases:
  "if key_errors lib get keys_Config = [] then \<exists>cfg. Unmarshal lib get = Inr cfg
   else Unmarshal lib get = Inl (cl_Errors lib (key_errors lib get keys_Config))"
proof -
  obtain cfg errs where run: "run_state (decode_Config lib get) [] = (cfg, errs)" by (rule prod.exhaust)
  have "errs = key_errors lib get keys_Config"
    using reports_Config [of lib get] run by (auto simp: reports_def wp_def dest: spec [of _ "[]"])
  then show ?thesis using run by (simp add: Unmarshal_def split: list.split)
qed

section \<open>What the libraries document\<close>

text \<open>
  \<open>time.ParseDuration\<close> on one number with one unit, the form of the defaults.
\<close>

definition duration_unit :: "string \<Rightarrow> duration option" where
  "duration_unit u = map_of [(''s'', second), (''m'', 60 * second), (''h'', 3600 * second)] u"

definition digits_value :: "string \<Rightarrow> int option" where
  "digits_value s = foldl (\<lambda>acc c. case (acc, digit_val c) of (Some n, Some d) \<Rightarrow> Some (10 * n + int d) | _ \<Rightarrow> None) (Some 0) s"

definition simple_duration :: "string \<Rightarrow> duration option" where
  "simple_duration s = (if length s < 2 then None else
     case (digits_value (butlast s), duration_unit [last s]) of (Some n, Some unit) \<Rightarrow> Some (n * unit) | _ \<Rightarrow> None)"

text \<open>The values each type of field takes without a conversion of its own.\<close>

fun typed :: "kind \<Rightarrow> config_value \<Rightarrow> bool" where
  "typed KStr (CStr _) = True"
| "typed KInt (CInt _) = True"
| "typed KInt32 (CInt32 _) = True"
| "typed KBool (CBool _) = True"
| "typed KFloat (CFloat _) = True"
| "typed KDur (CDur _) = True"
| "typed KDur (CInt _) = True"
| "typed KDur (CStr s) = (simple_duration s \<noteq> None)"
| "typed KStrs (CStrs _) = True"
| "typed KCodec (CStr s) = (s = ''snappy'')"
| "typed _ _ = False"

text \<open>
  The name of the environment variable of a key (\<open>AutomaticEnv\<close> with the replacer), and what the operator
  gives for it: a flag of the command line, a variable of the environment, a value of the file, in this
  order.
\<close>

definition upper :: "char \<Rightarrow> char" where
  "upper c = (let n = of_char c :: nat in if 97 \<le> n \<and> n \<le> 122 then char_of (n - 32) else c)"

definition env_name :: "Viper \<Rightarrow> string \<Rightarrow> string" where
  "env_name v key = map upper (case v_envReplacer v of
     None \<Rightarrow> key | Some (old, new) \<Rightarrow> concat (map (\<lambda>c. if [c] = old then new else [c]) key))"

definition given_flag :: "Viper \<Rightarrow> getter" where
  "given_flag v key = (case map_of (v_flags v) key of
     Some f \<Rightarrow> if fl_Changed f then Some (fl_Value f) else None | None \<Rightarrow> None)"

definition given_env :: "(string \<Rightarrow> string option) \<Rightarrow> Viper \<Rightarrow> getter" where
  "given_env env v key = (if \<not> v_automaticEnv v then None else
     case env (env_name v key) of Some s \<Rightarrow> if s = [] then None else Some (CStr s) | None \<Rightarrow> None)"

definition given :: "(string \<Rightarrow> string option) \<Rightarrow> Viper \<Rightarrow> getter \<Rightarrow> getter" where
  "given env v file key =
     (case given_flag v key of Some x \<Rightarrow> Some x
      | None \<Rightarrow> (case given_env env v key of Some x \<Rightarrow> Some x | None \<Rightarrow> file key))"

text \<open>
  What \<open>Load\<close> relies on: the order of the sources, and conversions of a value that has the type already.
  \<open>snappy\<close> is codec 2.
\<close>

locale config_docs =
  fixes lib :: config_library and env :: "string \<Rightarrow> string option"
  assumes get_value: "v_defaults v key = Some preset \<Longrightarrow>
      cl_Get lib v file key = Some (case given env v file key of Some x \<Rightarrow> x | None \<Rightarrow> preset)"
    and conversions: "cl_String lib (CStr s) = Inr s" "cl_Int lib (CInt n) = Inr n" "cl_Int32 lib (CInt32 i) = Inr i"
      "cl_Bool lib (CBool b) = Inr b" "cl_Float lib (CFloat q) = Inr q" "cl_Duration lib (CDur d) = Inr d"
      "cl_Duration lib (CInt n) = Inr n" "cl_Strings lib (CStrs ss) = Inr ss" "cl_UnmarshalText lib ''snappy'' = Inr 2"
    and duration_text: "simple_duration s = Some d \<Longrightarrow> cl_Duration lib (CStr s) = Inr d"
begin

lemma typed_accepted: "typed kd x \<Longrightarrow> refused lib kd x = []"
  by (induction kd x rule: typed.induct)
     (auto simp: failure_def conversions duration_text decode_codec_def kafkaCompressionHookFunc_def)

end

section \<open>The defaults\<close>

definition the_defaults :: getter where
  "the_defaults = v_defaults (all_defaults viper_New)"

text \<open>The last value set for a key of a section.\<close>

fun strip :: "string \<Rightarrow> string \<Rightarrow> string option" where
  "strip [] key = Some key"
| "strip (c # cs) [] = None"
| "strip (c # cs) (d # ds) = (if c = d then strip cs ds else None)"

lemma strip_Some: "strip p key = Some k \<longleftrightarrow> key = p @ k"
  by (induction p key rule: strip.induct) auto

lemma strip_append [simp]: "strip p (p @ k) = Some k"
  by (simp add: strip_Some)

fun last_of :: "string \<Rightarrow> (string \<times> config_value) list \<Rightarrow> config_value option \<Rightarrow> config_value option" where
  "last_of k [] d = d"
| "last_of k ((k', x) # keys) d = last_of k keys (if k = k' then Some x else d)"

definition or_before :: "string \<Rightarrow> string \<Rightarrow> (string \<times> config_value) list \<Rightarrow> config_value option \<Rightarrow> config_value option" where
  "or_before p key keys = (case strip p key of None \<Rightarrow> (\<lambda>d. d) | Some k \<Rightarrow> last_of k keys)"

lemma with_defaults_lookup: "v_defaults (with_defaults p keys v) key = or_before p key keys (v_defaults v key)"
proof (induction keys arbitrary: v)
  case (Cons a keys)
  have "with_defaults p (a # keys) v = with_defaults p keys (SetDefault (p @ fst a) (snd a) v)"
    by (cases a) (simp add: with_defaults_def)
  with Cons show ?case by (cases a) (auto simp: SetDefault_def or_before_def strip_Some split: option.split)
qed (simp add: with_defaults_def or_before_def split: option.split)

lemma with_defaults_cong:
  "v_defaults v = v_defaults w \<Longrightarrow> v_defaults (with_defaults p keys v) = v_defaults (with_defaults p keys w)"
  by (rule ext) (simp add: with_defaults_lookup)

lemmas default_defs = all_defaults_def defaultAppConfig_def defaultInstanceConfig_def defaultDatabaseConfig_def
  defaultRedisConfig_def defaultRabbitConfig_def defaultKafkaConfig_def defaultMonitoringConfig_def defaultObserverConfig_def
  defaultJWTConfig_def defaultHasherConfig_def defaultSecurityConfig_def defaultEventPublisherConfig_def defaultOauthConfig_def

lemma configured_defaults: "v_defaults (configured_viper flags f) = the_defaults"
proof -
  have cong: "v_defaults (all_defaults v) = v_defaults (all_defaults w)" if "v_defaults v = v_defaults w" for v w
    unfolding default_defs fold.simps comp_def id_def by (intro with_defaults_cong that)
  have base: "v_defaults (BindPFlag k g v) = v_defaults v" "v_defaults (AddConfigPath q v) = v_defaults v" for k g q v
    by (simp_all add: BindPFlag_def AddConfigPath_def split: option.split config_source.split)
  show ?thesis
    unfolding configured_viper_def the_defaults_def Let_def by (auto intro!: cong simp: base)
qed

lemmas the_defaults_lookup = fun_cong [OF the_defaults_def [unfolded default_defs fold.simps comp_def id_def],
  unfolded with_defaults_lookup]

text \<open>Every key of the schema has a default of its type.\<close>

definition default_typed :: "string \<times> kind \<Rightarrow> bool" where
  "default_typed = (\<lambda>(key, kd). case the_defaults key of Some x \<Rightarrow> typed kd x | None \<Rightarrow> False)"

lemmas keys_defs = keys_AppConfig_def keys_InstanceConfig_def keys_DatabaseConfig_def keys_RedisConfig_def keys_RabbitConfig_def
  keys_KafkaConfig_def keys_MonitoringConfig_def keys_MonitoringTraceConfig_def keys_MonitoringMetricConfig_def
  keys_ObserverConfig_def keys_JWTConfig_def keys_HasherConfig_def keys_SecurityConfig_def keys_AttemptTrackerConfig_def
  keys_RateLimiterConfig_def keys_EventPublisherConfig_def keys_PublisherHTTPConfig_def keys_PublisherRabbitMQConfig_def
  keys_OauthConfig_def keys_OauthGoogleConfig_def

lemma durations_typed:
  "simple_duration ''5m'' = Some (300 * second)" "simple_duration ''1h'' = Some (3600 * second)"
  "simple_duration ''1m'' = Some (60 * second)" "simple_duration ''5s'' = Some (5 * second)"
  "simple_duration ''15m'' = Some (900 * second)" "simple_duration ''30m'' = Some (1800 * second)"
  by (simp_all add: simple_duration_def digits_value_def digit_val_def duration_unit_def)

lemmas typed_simps = keys_defs under_def default_typed_def the_defaults_lookup or_before_def durations_typed

lemma defaults_typed: "list_all default_typed keys_Config"
  unfolding keys_Config_def list_all_append by (intro conjI) (simp_all add: typed_simps)

section \<open>What Load can refuse\<close>

text \<open>\<open>pflag.Parse\<close> sets values of flags; it defines none and removes none.\<close>

definition clean_parse :: "((string \<times> Flag) list \<Rightarrow> (string \<times> Flag) list) \<Rightarrow> bool" where
  "clean_parse parse \<longleftrightarrow> (\<forall>fs. map fst (parse fs) = map fst fs)"

text \<open>The errors of the values the operator gave, field by field.\<close>

definition given_errors ::
  "config_library \<Rightarrow> (string \<Rightarrow> string option) \<Rightarrow> Viper \<Rightarrow> getter \<Rightarrow> go_error list" where
  "given_errors lib env v file =
     concat (map (\<lambda>(key, kd). case given env v file key of Some x \<Rightarrow> refused lib kd x | None \<Rightarrow> []) keys_Config)"

context config_docs
begin

lemma key_errors_given:
  assumes "v_defaults v = the_defaults"
  shows "key_errors lib (cl_Get lib v file) keys_Config = given_errors lib env v file"
proof -
  have "(case cl_Get lib v file key of None \<Rightarrow> [] | Some x \<Rightarrow> refused lib kd x) =
      (case given env v file key of Some x \<Rightarrow> refused lib kd x | None \<Rightarrow> [])" if "(key, kd) \<in> set keys_Config" for key kd
  proof -
    from that defaults_typed obtain d where d: "the_defaults key = Some d" "typed kd d"
      by (fastforce simp: list_all_iff default_typed_def split: option.splits)
    then show ?thesis
      using get_value [of v key d] typed_accepted [OF d(2)] assms by (simp split: option.split)
  qed
  then show ?thesis
    unfolding key_errors_def given_errors_def by (intro arg_cong [where f = concat] map_cong) auto
qed

end


section \<open>A reference library\<close>

definition mismatch :: "'a result" where
  "mismatch = Inl (Fmt ''unconvertible type'' None)"

definition reference_library :: "(string \<Rightarrow> string option) \<Rightarrow> read_result \<Rightarrow> config_library" where
  "reference_library env file =
     \<lparr>cl_ReadInConfig = (\<lambda>_. file),
      cl_Get = (\<lambda>v file key. case given env v file key of Some x \<Rightarrow> Some x | None \<Rightarrow> v_defaults v key),
      cl_String = (\<lambda>x. case x of CStr s \<Rightarrow> Inr s | _ \<Rightarrow> mismatch),
      cl_Int = (\<lambda>x. case x of CInt n \<Rightarrow> Inr n | _ \<Rightarrow> mismatch),
      cl_Int32 = (\<lambda>x. case x of CInt32 n \<Rightarrow> Inr n | _ \<Rightarrow> mismatch),
      cl_Int8 = (\<lambda>x. case x of CInt n \<Rightarrow> Inr (word_of_int n) | _ \<Rightarrow> mismatch),
      cl_Bool = (\<lambda>x. case x of CBool b \<Rightarrow> Inr b | _ \<Rightarrow> mismatch),
      cl_Float = (\<lambda>x. case x of CFloat q \<Rightarrow> Inr q | _ \<Rightarrow> mismatch),
      cl_Duration = (\<lambda>x. case x of CDur d \<Rightarrow> Inr d | CInt n \<Rightarrow> Inr n
        | CStr s \<Rightarrow> (case simple_duration s of Some d \<Rightarrow> Inr d | None \<Rightarrow> mismatch) | _ \<Rightarrow> mismatch),
      cl_Strings = (\<lambda>x. case x of CStrs ss \<Rightarrow> Inr ss | _ \<Rightarrow> mismatch),
      cl_UnmarshalText = (\<lambda>s. if s = ''snappy'' then Inr 2 else mismatch),
      cl_Errors = (\<lambda>errs. Fmt ''decoding failed'' None)\<rparr>"

interpretation reference: config_docs "reference_library env found" env for env found
  by unfold_locales (auto simp: reference_library_def split: option.split)

definition silent :: "string \<Rightarrow> string option" where "silent = (\<lambda>_. None)"

definition bad_port :: getter where
  "bad_port = (\<lambda>key. if key = ''app.port'' then Some (CStr ''many'') else None)"

lemma unset_flags: "given silent (configured_viper defined_flags f) file = file"
proof -
  have "v_flags (with_defaults p keys v) = v_flags v" for p keys v
    by (induction keys arbitrary: v) (auto simp: with_defaults_def SetDefault_def)
  then have keep: "v_flags (all_defaults v) = v_flags v" for v by (simp add: default_defs)
  have "given_flag (configured_viper defined_flags f) key = None" for key
    by (auto simp: given_flag_def configured_viper_def keep defined_flags_def BindPFlag_def AddConfigPath_def viper_New_def Let_def
        split: config_source.split)
  then show ?thesis by (auto simp: given_def given_env_def silent_def fun_eq_iff)
qed


section \<open>The configuration nobody set\<close>

definition default_hasher :: HasherConfig where
  "default_hasher = \<lparr>hc_Type = ''argon2'', hc_Cost = 10, hc_Salt = [], hc_Memory = 65536, hc_Iterations = 2,
     hc_Parallelism = 1, hc_SaltLength = 16, hc_KeyLength = 32\<rparr>"

definition default_config :: Config where
  "default_config =
     \<lparr>cfg_App = \<lparr>app_Name = ''Service User'', app_Code = ''SUS'', app_Env = ''development'', app_Debug = False,
        app_IP = ''0.0.0.0'', app_Port = 50051\<rparr>,
      cfg_Instance = \<lparr>ins_Name = ''service-user'', ins_Host = ''localhost''\<rparr>,
      cfg_Database = \<lparr>db_Host = ''localhost'', db_Port = 5432, db_User = ''user'', db_Password = ''password'',
        db_Name = ''service_user'', db_SslMode = ''disable'', db_Timezone = ''UTC'', db_MinConns = 1, db_MinIdleConns = 0,
        db_MaxConns = 4, db_MaxConnIdleTime = 300 * second, db_MaxConnLifetime = 3600 * second,
        db_MaxConnLifetimeJitter = 60 * second, db_HealthCheckPeriod = 60 * second, db_QueryExecMode = ''cache_describe''\<rparr>,
      cfg_Redis = \<lparr>rd_Host = ''localhost'', rd_Port = 6379, rd_User = [], rd_Password = [], rd_DB = 0, rd_PoolSize = 10,
        rd_PoolTimeout = 5 * second, rd_ConnectionIdleMin = 10\<rparr>,
      cfg_Rabbit = \<lparr>rb_Host = ''localhost'', rb_Port = 5672, rb_User = ''guest'', rb_Password = ''guest'', rb_Vhost = ''/'',
        rb_ReconnectInterval = second, rb_ReconnectMaxAttempts = 0\<rparr>,
      cfg_Kafka = \<lparr>kf_Brokers = [''localhost:9092''], kf_MaxMessageBytes = 1048576, kf_TimeoutSeconds = 5,
        kf_Compression = 2, kf_ReconnectMaxAttempts = 0, kf_ReconnectInterval = 1\<rparr>,
      cfg_Monitoring = \<lparr>cm_ServiceName = ''service-user'', cm_Environment = ''development'', cm_LoggerLevel = ''info'',
        cm_Tracer = \<lparr>mt_Provider = ''stdout'', mt_ProviderHost = ''localhost'', mt_ProviderPort = 4317, mt_SampleRatio = 1,
          mt_Insecure = False\<rparr>,
        cm_Metric = \<lparr>mm_Provider = ''stdout'', mm_ProviderHost = ''localhost'', mm_ProviderPort = 9411, mm_Insecure = False\<rparr>\<rparr>,
      cfg_Observer = \<lparr>ob_Auth = True, ob_User = True, ob_Device = True, ob_UserFile = True, ob_Pin = True\<rparr>,
      cfg_Security = \<lparr>
        sc_LoginTracker = \<lparr>atc_Backend = ''redis'', atc_LockoutThreshold = 5, atc_LockoutDuration = 900 * second,
          atc_LockoutCounterTTL = 1800 * second\<rparr>,
        sc_PINTracker = \<lparr>atc_Backend = ''redis'', atc_LockoutThreshold = 3, atc_LockoutDuration = 900 * second,
          atc_LockoutCounterTTL = 1800 * second\<rparr>,
        sc_RateLimiter = \<lparr>rlc_Backend = ''redis'', rlc_Limit = 100, rlc_WindowSize = 3600 * second\<rparr>\<rparr>,
      cfg_Jwt = \<lparr>jw_SecretKey = ''your-256-bit-secret-key-for-jwt-signing'', jw_AccessExpiry = 900 * second,
        jw_RefreshExpiry = 604800 * second\<rparr>,
      cfg_PasswordHasher = default_hasher,
      cfg_PINHasher = default_hasher,
      cfg_EventPublisher = \<lparr>ep_Enabled = False,
        ep_HTTP = \<lparr>ph_Enabled = False, ph_URL = ''http://localhost:8080'', ph_Timeout = 5 * second\<rparr>,
        ep_RabbitMQ = \<lparr>pr_Enabled = False, pr_Exchange = ''user-service'', pr_RoutingKeyPrefix = ''user.service'',
          pr_ConfirmTimeout = 30 * second, pr_MaxRetries = 5, pr_RetryInterval = second\<rparr>\<rparr>,
      cfg_OAuth = \<lparr>oc_Enabled = False, oc_Google = \<lparr>og_Enabled = False, og_ClientID = [], og_ClientSecret = []\<rparr>\<rparr>\<rparr>"

lemmas field_defs = str_field_def int_field_def int32_field_def bool_field_def float_field_def dur_field_def strs_field_def
  codec_field_def decode_codec_def kafkaCompressionHookFunc_def

lemmas decode_defs = decode_AppConfig_def decode_InstanceConfig_def decode_DatabaseConfig_def decode_RedisConfig_def
  decode_RabbitConfig_def decode_KafkaConfig_def decode_MonitoringTraceConfig_def decode_MonitoringMetricConfig_def
  decode_MonitoringConfig_def decode_ObserverConfig_def decode_AttemptTrackerConfig_def decode_RateLimiterConfig_def
  decode_SecurityConfig_def decode_JWTConfig_def decode_HasherConfig_def decode_PublisherHTTPConfig_def
  decode_PublisherRabbitMQConfig_def decode_EventPublisherConfig_def decode_OauthGoogleConfig_def decode_OauthConfig_def

lemma run_field:
  "run_state (field zero conv get key) errs = (case get key of
     None \<Rightarrow> (zero, errs) | Some x \<Rightarrow> (case conv x of Inl err \<Rightarrow> (zero, errs @ [err]) | Inr y \<Rightarrow> (y, errs)))"
  by (simp add: field_def)

context config_docs
begin

lemma decode_default_sections:
  assumes "\<And>key. the_defaults key \<noteq> None \<Longrightarrow> get key = the_defaults key"
  shows "run_state (decode_AppConfig lib get ''app'') errs = (cfg_App default_config, errs)"
    and "run_state (decode_InstanceConfig lib get ''instance'') errs = (cfg_Instance default_config, errs)"
    and "run_state (decode_DatabaseConfig lib get ''database'') errs = (cfg_Database default_config, errs)"
    and "run_state (decode_RedisConfig lib get ''redis'') errs = (cfg_Redis default_config, errs)"
    and "run_state (decode_RabbitConfig lib get ''rabbitmq'') errs = (cfg_Rabbit default_config, errs)"
    and "run_state (decode_KafkaConfig lib get ''kafka'') errs = (cfg_Kafka default_config, errs)"
    and "run_state (decode_MonitoringConfig lib get ''monitoring'') errs = (cfg_Monitoring default_config, errs)"
    and "run_state (decode_ObserverConfig lib get ''observer'') errs = (cfg_Observer default_config, errs)"
    and "run_state (decode_SecurityConfig lib get ''security'') errs = (cfg_Security default_config, errs)"
    and "run_state (decode_JWTConfig lib get ''jwt'') errs = (cfg_Jwt default_config, errs)"
    and "run_state (decode_HasherConfig lib get ''password_hasher'') errs = (cfg_PasswordHasher default_config, errs)"
    and "run_state (decode_HasherConfig lib get ''pin_hasher'') errs = (cfg_PINHasher default_config, errs)"
    and "run_state (decode_EventPublisherConfig lib get ''event_publisher'') errs = (cfg_EventPublisher default_config, errs)"
    and "run_state (decode_OauthConfig lib get ''oauth'') errs = (cfg_OAuth default_config, errs)"
  by (simp_all add: decode_defs field_defs run_field assms the_defaults_lookup or_before_def default_config_def default_hasher_def
      run_state_bind conversions duration_text durations_typed)

end

lemma Load_unset:
  assumes "config_docs lib env" "map_of flags ''config'' = Some configFlag"
    and v: "v = configured_viper flags configFlag"
    and read: "cl_ReadInConfig lib v = FileNotFound" and unset: "given env v (\<lambda>_. None) = (\<lambda>_. None)"
  shows "Load lib flags = Some (Inr default_config)"
proof -
  have get: "cl_Get lib v (\<lambda>_. None) key = the_defaults key" if "the_defaults key \<noteq> None" for key
    using that config_docs.get_value [OF assms(1), of v key _ "\<lambda>_. None"] by (auto simp: unset [unfolded v] v configured_defaults)
  have "run_state (decode_Config lib (cl_Get lib v (\<lambda>_. None))) [] = (default_config, [])"
    by (simp add: decode_Config_def run_state_bind config_docs.decode_default_sections [OF assms(1) get])
  then show ?thesis using assms(2) read by (simp add: Load_def Unmarshal_def v)
qed

lemma config_flag: "map_of defined_flags ''config'' = Some \<lparr>fl_Value = CStr [], fl_Changed = False\<rparr>"
  by (simp add: defined_flags_def)

lemma nothing_found: "cl_ReadInConfig (reference_library silent FileNotFound) v = FileNotFound"
  by (simp add: reference_library_def)

lemma reference_loads: "Load (reference_library silent FileNotFound) defined_flags = Some (Inr default_config)"
  by (rule Load_unset [OF reference.config_docs_axioms config_flag refl nothing_found]) (simp add: unset_flags)

text \<open>
  With no flag, environment variable or file, Load returns this configuration: among others
  port 50051, Redis backends with 5 and 3 attempts and 100 requests an hour, tokens of 15 minutes
  and 7 days; the Kafka reconnect interval is one nanosecond.
\<close>

theorem load_defaults:
  assumes "config_docs lib env" "map_of flags ''config'' = Some configFlag"
    and "v = configured_viper flags configFlag"
    and "cl_ReadInConfig lib v = FileNotFound" and "given env v (\<lambda>_. None) = (\<lambda>_. None)"
  shows "Load lib flags = Some (Inr default_config)"
  using assms by (rule Load_unset)

lemma load_defaults_witness: "Load (reference_library silent FileNotFound) defined_flags = Some (Inr default_config)"
  by (rule load_defaults [OF reference.config_docs_axioms config_flag refl nothing_found]) (simp add: unset_flags)

end
