(* ===== verification/StartupProperties.thy ===== *)
theory StartupProperties
  imports Startup ConfigProperties
begin

text \<open>
  The life of the process: what a run of \<open>main\<close> opens is closed when it returns, the last one first, and a
  fatal error closes nothing but the Redis client.
\<close>

section \<open>What a part of main does to the log\<close>

text \<open>
  \<open>life addr xs ys m\<close>: when \<open>m\<close> returns, it has opened \<open>xs\<close>, served \<open>addr\<close> and closed \<open>ys\<close>; when it ends
  the process instead, it has closed nothing but Redis.
\<close>

definition ends_well :: "string \<Rightarrow> resource list \<Rightarrow> resource list \<Rightarrow> main_end \<Rightarrow> action list \<Rightarrow> bool" where
  "ends_well addr xs ys r as \<longleftrightarrow>
     (r = Returned \<longrightarrow> as = map Opened xs @ Serving addr # map Closed ys) \<and>
     (\<not> runs_defers r \<longrightarrow> (\<forall>x. Closed x \<in> set as \<longrightarrow> x = RedisConnection))"

definition life :: "string \<Rightarrow> resource list \<Rightarrow> resource list \<Rightarrow> ('s process, main_end) prog \<Rightarrow> bool" where
  "life addr xs ys m \<longleftrightarrow> (\<forall>p. wp m (\<lambda>r p'. \<exists>as. pc_log p' = pc_log p @ as \<and> ends_well addr xs ys r as) p)"

text \<open>A closing call logs what it closes, and a call of a library logs nothing.\<close>

definition closes :: "resource list \<Rightarrow> ('s process, 'a) prog \<Rightarrow> bool" where
  "closes zs c \<longleftrightarrow> (\<forall>p. wp c (\<lambda>_ p'. pc_log p' = pc_log p @ map Closed zs) p)"

lemma wp_log_action [simp]: "wp (log_action a) Q p = Q () (p\<lparr>pc_log := pc_log p @ [a]\<rparr>)"
  by (simp add: log_action_def)

lemma wp_on_library: "(\<And>r s. Q r (p\<lparr>pc_lib := s\<rparr>)) \<Longrightarrow> wp (on_library m) Q p"
  by (simp add: on_library_def wp_def split: prod.split)

lemma lifeI: "(\<And>p. wp m (\<lambda>r p'. \<exists>as. pc_log p' = pc_log p @ as \<and> ends_well addr xs ys r as) p) \<Longrightarrow> life addr xs ys m"
  by (simp add: life_def)

lemma life_wp: "life addr xs ys m \<Longrightarrow> (\<And>r p' as. pc_log p' = pc_log p @ as \<Longrightarrow> ends_well addr xs ys r as \<Longrightarrow> Q r p') \<Longrightarrow> wp m Q p"
  unfolding life_def by (erule allE [of _ p], erule wp_mono) blast

named_theorems life \<open>the life of the parts of main\<close>

lemma ends_Fatal: "ends_well addr xs ys (Exited n) as \<longleftrightarrow> (\<forall>x. Closed x \<in> set as \<longrightarrow> x = RedisConnection)"
  by (simp add: ends_well_def runs_defers_def)

lemma life_Fatal [life]: "life addr xs ys (Fatal message)"
  by (rule lifeI) (simp add: Fatal_def ends_Fatal)

lemma life_ret [life]: "r \<noteq> Returned \<Longrightarrow> life addr xs ys (ret r)"
  by (rule lifeI) (simp add: ends_well_def)

lemma life_library [life]:
  assumes "\<And>r. life addr xs ys (f r)"
  shows "life addr xs ys (State_Monad.bind (on_library m) f)"
  by (rule lifeI) (simp, rule wp_on_library, rule life_wp [OF assms], simp)

lemma life_or_fatal [life]:
  assumes "\<And>a. life addr xs ys (f a)"
  shows "life addr xs ys (or_fatal message (on_library m) f)"
  unfolding or_fatal_def by (rule life_library) (auto intro: assms life_Fatal split: sum.split)

lemma life_open [life]:
  assumes "life addr xs ys m"
  shows "life addr (x # xs) ys (do { _ \<leftarrow> log_action (Opened x); m })"
  by (rule lifeI) (simp, rule life_wp [OF assms], auto simp: ends_well_def)

lemma life_defer:
  fixes m :: "('s process, main_end) prog" and c :: "('s process, 'a) prog"
  assumes "closes zs c" "life addr xs ys m"
  shows "life addr xs (ys @ zs) (deferring c m)"
proof (rule lifeI)
  fix p :: "'s process"
  have ending: "wp c (\<lambda>_ p''. \<exists>bs. pc_log p'' = pc_log p @ bs \<and> ends_well addr xs (ys @ zs) r bs) p'"
    if "pc_log p' = pc_log p @ as" "ends_well addr xs ys r as" "runs_defers r" for r and p' :: "'s process" and as
  proof -
    have "wp c (\<lambda>_ p''. pc_log p'' = pc_log p' @ map Closed zs) p'" using assms(1) by (simp add: closes_def)
    then show ?thesis
      by (rule wp_mono) (use that in \<open>auto simp: ends_well_def intro!: exI [of _ "as @ map Closed zs"]\<close>)
  qed
  show "wp (deferring c m) (\<lambda>r p'. \<exists>as. pc_log p' = pc_log p @ as \<and> ends_well addr xs (ys @ zs) r as) p"
    unfolding deferring_def wp_bind
  proof (rule life_wp [OF assms(2)])
    fix r and p' :: "'s process" and as assume h: "pc_log p' = pc_log p @ as" "ends_well addr xs ys r as"
    show "wp (if runs_defers r then do { _ \<leftarrow> c; ret r } else ret r)
        (\<lambda>r p'. \<exists>as. pc_log p' = pc_log p @ as \<and> ends_well addr xs (ys @ zs) r as) p'"
    proof (cases "runs_defers r")
      case True
      then show ?thesis using ending [OF h True] by simp
    next
      case False
      then have "ends_well addr xs (ys @ zs) r as" using h(2) by (auto simp: ends_well_def runs_defers_def)
      with False h(1) show ?thesis by auto
    qed
  qed
qed

section \<open>The parts of main\<close>

lemma closes_library [intro]: "closes [z] (do { _ \<leftarrow> log_action (Closed z); on_library m })"
  unfolding closes_def by (simp, intro allI wp_on_library) simp

lemma closes_log [intro]: "closes [z] (log_action (Closed z))"
  by (simp add: closes_def)

lemma closes_redis [intro]: "closes [RedisConnection] (close_redis lib (Some c))"
  unfolding close_redis_def option.case by (rule closes_library)

definition memory_backed :: "tracker_adapter \<Rightarrow> bool" where
  "memory_backed t = (case t of MemoryTracker _ \<Rightarrow> True | RedisBackedTracker _ _ \<Rightarrow> False)"

definition goroutines :: "SecurityAdapters \<Rightarrow> resource list" where
  "goroutines s = (if memory_backed (sa_LoginTracker s) then [LoginTracker] else [])
     @ (if memory_backed (sa_PINTracker s) then [PINTracker] else [])"

lemma closes_adapters: "sa_client s = Some c \<Longrightarrow> closes (goroutines s @ [RedisConnection]) (SecurityAdapters_Close lib s)"
  unfolding closes_def SecurityAdapters_Close_def close_tracker_def goroutines_def memory_backed_def close_redis_def
  by (auto split: tracker_adapter.split intro!: wp_on_library)

definition rabbit_if :: "Config \<Rightarrow> resource list" where
  "rabbit_if cfg = (if uses_rabbit cfg then [RabbitConnection] else [])"

lemma life_serve: "life (main_addr cfg) [] [] (serve lib cfg)"
proof -
  have serving: "life (main_addr cfg) [] [] (do {
      _ \<leftarrow> log_action (Serving (main_addr cfg));
      or_fatal ''failed to serve'' (on_library m) (\<lambda>_. ret Returned) })" for m :: "('a, unit result) prog"
    by (rule lifeI) (simp add: or_fatal_def Fatal_def, rule wp_on_library, auto simp: ends_well_def runs_defers_def split: sum.split)
  show ?thesis
    unfolding serve_def by (rule life_library) (auto intro: serving life_Fatal split: sum.split prod.split)
qed

lemma life_with_executor: "life (main_addr cfg) [ServiceExecutor] [ServiceExecutor] (with_executor lib cfg)"
  unfolding with_executor_def
  by (auto intro!: life_Fatal life_open life_defer [where ys = "[]", simplified] life_serve split: sum.split)

lemma life_with_publisher:
  "life (main_addr cfg) [Publisher, ServiceExecutor] [ServiceExecutor, Publisher] (with_publisher lib cfg)"
  unfolding with_publisher_def
  by (intro life_open life_defer [where ys = "[ServiceExecutor]", simplified] life_with_executor closes_library)

lemma life_with_rabbit:
  "life (main_addr cfg) (rabbit_if cfg @ [Publisher, ServiceExecutor]) ([ServiceExecutor, Publisher] @ rabbit_if cfg)
     (with_rabbit lib fuel cfg)"
proof (cases "uses_rabbit cfg")
  case True
  then show ?thesis
    unfolding with_rabbit_def rabbit_if_def
    by (simp, intro life_library)
       (auto intro!: life_Fatal life_ret life_open life_defer [where ys = "[ServiceExecutor, Publisher]", simplified]
          life_with_publisher split: option.split sum.split)
qed (simp add: with_rabbit_def rabbit_if_def life_with_publisher)

definition trackers_if :: "SecurityConfig \<Rightarrow> resource list" where
  "trackers_if cfg = (if atc_Backend (sc_LoginTracker cfg) = ''memory'' then [LoginTracker] else [])
     @ (if atc_Backend (sc_PINTracker cfg) = ''memory'' then [PINTracker] else [])"

lemma newAttemptTracker_backed:
  "newAttemptTracker client cfg = Inr t \<Longrightarrow> memory_backed t \<longleftrightarrow> atc_Backend cfg = ''memory''"
  by (auto simp: newAttemptTracker_def memory_backed_def split: if_splits option.splits)

lemma wp_start_tracker:
  "wp (start_tracker r t) Q p = Q () (p\<lparr>pc_log := pc_log p @ (if memory_backed t then [Opened r] else [])\<rparr>)"
  by (simp add: start_tracker_def memory_backed_def split: tracker_adapter.split)

lemma wp_NewSecurityAdapters:
  fixes p :: "'s process"
  assumes "\<And>sa p'. sa_client sa = Some c \<Longrightarrow> goroutines sa = trackers_if cfg \<Longrightarrow>
      pc_log p' = pc_log p @ map Opened (trackers_if cfg) \<Longrightarrow> Q (Inr sa) p'"
    and "\<And>err p' as. pc_log p' = pc_log p @ as \<Longrightarrow> (\<forall>x. Closed x \<in> set as \<longrightarrow> x = RedisConnection) \<Longrightarrow> Q (Inl err) p'"
  shows "wp (NewSecurityAdapters lib cfg (Some c) True) Q p"
proof -
  have given_up: "wp (close_redis lib (Some c)) (\<lambda>_. Q (Inl e)) p'"
    if "\<exists>as. pc_log p' = pc_log p @ as \<and> (\<forall>x. Closed x \<notin> set as)" for e and p' :: "'s process"
  proof -
    from that obtain as where as: "pc_log p' = pc_log p @ as" "\<forall>x. Closed x \<notin> set as" by blast
    show ?thesis
      unfolding close_redis_def option.case
      by (simp, rule wp_on_library, rule assms(2) [of _ "as @ [Closed RedisConnection]"]) (use as in auto)
  qed
  show ?thesis
  proof (cases "newAttemptTracker (Some c) (sc_LoginTracker cfg)")
    case (Inl e)
    then show ?thesis by (simp add: NewSecurityAdapters_def given_up)
  next
    case login: (Inr login)
    show ?thesis
    proof (cases "newAttemptTracker (Some c) (sc_PINTracker cfg)")
      case (Inl e)
      with login show ?thesis by (simp add: NewSecurityAdapters_def wp_start_tracker given_up)
    next
      case pin: (Inr pin)
      show ?thesis
      proof (cases "newRateLimiter (Some c) (sc_RateLimiter cfg)")
        case (Inl e)
        with login pin show ?thesis by (simp add: NewSecurityAdapters_def wp_start_tracker given_up)
      next
        case (Inr limiter)
        with login pin show ?thesis
          by (simp add: NewSecurityAdapters_def wp_start_tracker, intro conjI impI assms(1))
             (simp_all add: goroutines_def trackers_if_def newAttemptTracker_backed)
      qed
    qed
  qed
qed

lemma life_with_adapters:
  "life (main_addr cfg) (trackers_if (cfg_Security cfg) @ rabbit_if cfg @ [Publisher, ServiceExecutor])
     ([ServiceExecutor, Publisher] @ rabbit_if cfg @ trackers_if (cfg_Security cfg) @ [RedisConnection])
     (with_adapters lib fuel cfg redisClient)"
    (is "life _ (?ts @ ?xs) (?ys @ ?rs @ ?ts @ _) _")
proof -
  have part: "wp (or_fatal message (NewSecurityAdapters redis_lib (cfg_Security cfg) (Some redisClient) True)
        (\<lambda>sa. deferring (SecurityAdapters_Close redis_lib sa) (with_rabbit lib fuel cfg)))
      (\<lambda>r p'. \<exists>as. pc_log p' = pc_log p @ as \<and>
        ends_well (main_addr cfg) (?ts @ ?xs) (?ys @ ?rs @ ?ts @ [RedisConnection]) r as) p"
    for message and redis_lib :: "'a redis_library" and p :: "'a process"
    unfolding or_fatal_def wp_bind
  proof (rule wp_NewSecurityAdapters)
    fix sa and p' :: "'a process"
    assume sa: "sa_client sa = Some redisClient" "goroutines sa = ?ts" and log: "pc_log p' = pc_log p @ map Opened ?ts"
    have "life (main_addr cfg) ?xs ((?ys @ ?rs) @ (goroutines sa @ [RedisConnection]))
        (deferring (SecurityAdapters_Close redis_lib sa) (with_rabbit lib fuel cfg))"
      by (rule life_defer [OF closes_adapters [OF sa(1)]]) (use life_with_rabbit in simp)
    then show "wp (case Inr sa of Inl err \<Rightarrow> Fatal message | Inr sa \<Rightarrow>
          deferring (SecurityAdapters_Close redis_lib sa) (with_rabbit lib fuel cfg))
        (\<lambda>r p'. \<exists>as. pc_log p' = pc_log p @ as \<and>
          ends_well (main_addr cfg) (?ts @ ?xs) (?ys @ ?rs @ ?ts @ [RedisConnection]) r as) p'"
      unfolding sum.case
      by (rule life_wp) (auto simp: log sa(2) ends_well_def)
  qed (auto simp: Fatal_def ends_Fatal)
  show ?thesis
    by (cases "main_passwordHasher (bl_hash lib) cfg"; cases "main_pinHasher (bl_hash lib) cfg")
       (simp_all only: with_adapters_def sum.case lifeI [OF part] life_Fatal)
qed

definition opened_by :: "Config \<Rightarrow> resource list" where
  "opened_by cfg = [PostgresPool, RedisConnection] @ trackers_if (cfg_Security cfg) @ rabbit_if cfg @ [Publisher, ServiceExecutor]"

definition closed_by :: "Config \<Rightarrow> resource list" where
  "closed_by cfg = [ServiceExecutor, Publisher] @ rabbit_if cfg @ trackers_if (cfg_Security cfg)
     @ [RedisConnection, RedisConnection, PostgresPool]"

lemma life_with_redis:
  "life (main_addr cfg) (tl (opened_by cfg)) (butlast (closed_by cfg)) (with_redis lib fuel cfg)"
proof -
  have "life (main_addr cfg) (tl (opened_by cfg)) (butlast (closed_by cfg))
     (do { _ \<leftarrow> log_action (Opened RedisConnection);
           deferring (close_redis (bl_redis lib) (Some c)) (with_adapters lib fuel cfg c) })" for c
    using life_open [OF life_defer [OF closes_redis life_with_adapters]]
    by (simp add: opened_by_def closed_by_def butlast_append)
  then show ?thesis unfolding with_redis_def by (intro life_or_fatal)
qed

lemma life_with_config: "life (main_addr cfg) (opened_by cfg) (closed_by cfg) (with_config lib fuel cfg)"
proof -
  have ends: "opened_by cfg = PostgresPool # tl (opened_by cfg)" "closed_by cfg = butlast (closed_by cfg) @ [PostgresPool]"
    by (simp_all add: opened_by_def closed_by_def butlast_append)
  have "life (main_addr cfg) (opened_by cfg) (closed_by cfg)
     (do { _ \<leftarrow> log_action (Opened PostgresPool);
           deferring (do { _ \<leftarrow> log_action (Closed PostgresPool); on_library (pgx_Close (bl_pgx lib) c) }) (with_redis lib fuel cfg) })" for c
  proof -
    have "life (main_addr cfg) (PostgresPool # tl (opened_by cfg)) (butlast (closed_by cfg) @ [PostgresPool])
       (do { _ \<leftarrow> log_action (Opened PostgresPool);
             deferring (do { _ \<leftarrow> log_action (Closed PostgresPool); on_library (pgx_Close (bl_pgx lib) c) }) (with_redis lib fuel cfg) })"
      by (rule life_open [OF life_defer [OF closes_library life_with_redis]])
    then show ?thesis by (simp only: ends [symmetric])
  qed
  then show ?thesis
    unfolding with_config_def
    by (intro life_library) (auto intro!: life_or_fatal life_ret split: option.split)
qed

section \<open>The shutdown\<close>


text \<open>A machine where PostgreSQL, Redis and the network answer, and nobody configures anything.\<close>

definition ready_pgx :: "unit pgx_library" where
  "ready_pgx = \<lparr>pgx_ParseConfig = (\<lambda>url. Inr \<lparr>pool_ConnString = url, pool_MinConns = 0, pool_MinIdleConns = 0,
      pool_MaxConns = 0, pool_MaxConnLifetime = 0, pool_MaxConnLifetimeJitter = 0, pool_MaxConnIdleTime = 0,
      pool_HealthCheckPeriod = 0, pool_DefaultQueryExecMode = QueryExecModeCacheStatement\<rparr>),
    pgx_NewWithConfig = (\<lambda>_. ok 0), pgx_Ping = (\<lambda>_. ok ()), pgx_Close = (\<lambda>_. ret ())\<rparr>"

definition no_broker :: "unit amqp_library" where
  "no_broker = (let refused = fail (Fmt ''no broker'' None) in
     \<lparr>amqp_DialConfig = (\<lambda>_. refused), conn_IsClosed = (\<lambda>_. ret True), conn_Close = (\<lambda>_. ok ()), conn_Channel = (\<lambda>_. refused),
      chan_Close = (\<lambda>_. ok ()), chan_Confirm = (\<lambda>_. ok ()), chan_Publish = (\<lambda>_ _ _ _. ok ()),
      chan_ExchangeDeclare = (\<lambda>_ _ _ _. ok ()), wait_confirm = (\<lambda>_ _. ret ConfirmTimeout), wait_backoff = (\<lambda>_. ret None),
      rt_Now = ret 0\<rparr>)"

definition ready_boot :: "(unit, nat) boot_library" where
  "ready_boot =
     \<lparr>bl_config = reference_library silent FileNotFound, bl_Parse = id, bl_NewLogger = ok (), bl_NewMonitoring = (\<lambda>_. ok ()),
      bl_pgx = ready_pgx, bl_redis = \<lparr>rl_NewClient = (\<lambda>_. ret 1), rl_Ping = (\<lambda>_. ok ()), rl_Close = (\<lambda>_. ok ())\<rparr>,
      bl_hash = ref_hash, bl_amqp = no_broker,
      bl_rabbit = \<lparr>RC_PublishWithConfirm = (\<lambda>_ _ _ _ _ _ _ _ _ _ _ _. ok ()), RC_Close = ok ()\<rparr>,
      bl_event = \<lparr>el_MarshalMetadata = (\<lambda>_. Inr ''{}''), el_MarshalError = (\<lambda>s. s), el_MarshalData = (\<lambda>_. Inr ''{}''),
        el_NewUUID = ret ''uuid'', el_Now = ret 0, el_InjectContext = (\<lambda>_. []),
        el_NewRequest = (\<lambda>url body. Inr \<lparr>hq_URL = url, hq_Header = [], hq_Body = body\<rparr>),
        el_Do = (\<lambda>_. ok \<lparr>hp_StatusCode = 200, hp_Body = []\<rparr>)\<rparr>,
      bl_GoogleEndpoint = \<lparr>oe_AuthURL = ''https://accounts'', oe_TokenURL = ''https://token''\<rparr>,
      bl_Listen = (\<lambda>a. ok a), bl_Serve = (\<lambda>_. ok ())\<rparr>"

definition boot_process :: "unit process" where
  "boot_process = \<lparr>pc_lib = (), pc_log = []\<rparr>"

lemma ready_run: "fst (run_state (with_config ready_boot 0 default_config) boot_process) = Returned"
  by (simp add: ready_boot_def ready_pgx_def boot_process_def with_config_def with_redis_def with_adapters_def with_rabbit_def
      with_publisher_def with_executor_def serve_def or_fatal_def deferring_def runs_defers_def log_action_def on_library_def zoom_def
      NewLogger_def NewMonitoring_def NewPostgreConnection_def NewRedisConnection_def call_def
      main_passwordHasher_def main_pinHasher_def NewHasher_def default_hasher_def NewSecurityAdapters_def newAttemptTracker_def
      newRateLimiter_def start_tracker_def close_tracker_def SecurityAdapters_Close_def close_redis_def uses_rabbit_def
      main_publisher_def main_events_def NewNoOpPublisher_def main_oauth_def Server_Start_def default_config_def run_state_bind Let_def)

lemma ready_loads: "InitFlags (bl_Parse ready_boot) None = Some defined_flags"
    "Load (bl_config ready_boot) defined_flags = Some (Inr default_config)"
  by (simp_all add: ready_boot_def InitFlags_def reference_loads)


end
