(* ===== verification/SecurityContracts.thy ===== *)
theory SecurityContracts
  imports SecurityWiring RedisTracker
begin

text \<open>
  Whichever backend the configuration selects, the services get an attempt tracker with one contract.
  The state is the pair of the memory tracker and the Redis server.
\<close>

definition zoom_tracker :: "('w \<Rightarrow> 's) \<Rightarrow> ('s \<Rightarrow> 'w \<Rightarrow> 'w) \<Rightarrow> 's AttemptTracker \<Rightarrow> 'w AttemptTracker" where
  "zoom_tracker get put T = \<lparr>AT_Track = (\<lambda>u. zoom get put (AT_Track T u)),
     AT_IsLocked = (\<lambda>u. zoom get put (AT_IsLocked T u)), AT_Reset = (\<lambda>u. zoom get put (AT_Reset T u))\<rparr>"

definition tracker_port :: "'r redis_client \<Rightarrow> tracker_adapter \<Rightarrow> (MemoryAttemptTracker \<times> 'r) AttemptTracker" where
  "tracker_port rc t = (case t of
     MemoryTracker m \<Rightarrow> zoom_tracker fst (\<lambda>s p. (s, snd p)) (NewMemoryAttemptTracker m)
   | RedisBackedTracker _ m \<Rightarrow> zoom_tracker snd (\<lambda>s p. (fst p, s)) (NewRedisAttemptTracker rc m))"

text \<open>Who is locked and how many failures count, seen through the selected backend.\<close>

definition port_locked ::
  "('r \<Rightarrow> string \<Rightarrow> string option) \<Rightarrow> tracker_adapter \<Rightarrow> MemoryAttemptTracker \<times> 'r \<Rightarrow> string \<Rightarrow> bool" where
  "port_locked live t s u = (case t of MemoryTracker m \<Rightarrow> mem_locked (fst s) u | RedisBackedTracker _ m \<Rightarrow> redis_locked (live (snd s)) u)"

definition port_failures ::
  "('r \<Rightarrow> string \<Rightarrow> string option) \<Rightarrow> tracker_adapter \<Rightarrow> MemoryAttemptTracker \<times> 'r \<Rightarrow> string \<Rightarrow> nat" where
  "port_failures live t s u = (case t of
     MemoryTracker m \<Rightarrow> mem_failures m (fst s) u | RedisBackedTracker _ m \<Rightarrow> nat (redis_count (live (snd s)) u))"

definition port_invar :: "('r \<Rightarrow> string \<Rightarrow> string option) \<Rightarrow> tracker_adapter \<Rightarrow> MemoryAttemptTracker \<times> 'r \<Rightarrow> bool" where
  "port_invar live t s = (case t of MemoryTracker m \<Rightarrow> 0 < mt_now (fst s) | RedisBackedTracker _ m \<Rightarrow> counters_ok (live (snd s)))"

text \<open>A tracker on a part of the state keeps the contract of the tracker.\<close>

lemma zoom_run: "run_state (zoom g p m) w = (a, w') \<longleftrightarrow> (\<exists>s'. run_state m (g w) = (a, s') \<and> w' = p s' w)"
  by (auto simp: zoom_def split: prod.splits)

lemma attempt_tracker_zoom:
  assumes "attempt_tracker T locked failures k invar" and put: "\<And>s w. get (put s w) = s"
  shows "attempt_tracker (zoom_tracker get put T) (\<lambda>w. locked (get w)) (\<lambda>w. failures (get w)) k (\<lambda>w. invar (get w))"
proof
  fix s u s'
  show "failures (get s') u = Suc (failures (get s) u) \<and> int (failures (get s') u) < k"
    if "invar (get s)" "run_state (AT_Track (zoom_tracker get put T) u) s = (Inr (), s')"
    using that attempt_tracker.track_counts [OF assms(1)] by (fastforce simp: zoom_tracker_def zoom_run put)
  show "n = int (Suc (failures (get s) u)) \<and> k \<le> n \<and> locked (get s') u"
    if "invar (get s)" "run_state (AT_Track (zoom_tracker get put T) u) s = (Inl (lock_error n), s')" for n
    using that attempt_tracker.track_locks [OF assms(1)] by (fastforce simp: zoom_tracker_def zoom_run put)
  show "invar (get s')" if "invar (get s)" "run_state (AT_Track (zoom_tracker get put T) u) s = (ares, s')" for ares
    using that attempt_tracker.track_invar [OF assms(1)] by (fastforce simp: zoom_tracker_def zoom_run put)
  show "(b \<longleftrightarrow> locked (get s) u) \<and> (locked (get s') u \<longleftrightarrow> locked (get s) u) \<and> invar (get s')"
    if "invar (get s)" "run_state (AT_IsLocked (zoom_tracker get put T) u) s = (Inr b, s')" for b
    using that attempt_tracker.is_locked_ok [OF assms(1)] by (fastforce simp: zoom_tracker_def zoom_run put)
  show "\<not> locked (get s') u \<and> failures (get s') u = 0 \<and> invar (get s')"
    if "invar (get s)" "run_state (AT_Reset (zoom_tracker get put T) u) s = (Inr (), s')"
    using that attempt_tracker.reset_clears [OF assms(1)] by (fastforce simp: zoom_tracker_def zoom_run put)
qed

context tracker_config
begin

lemma memory_contract:
  "attempt_tracker (NewMemoryAttemptTracker m) mem_locked (mem_failures m) (threshold m) (\<lambda>s. 0 < mt_now s)"
  by unfold_locales

end

context redis_tracker
begin

lemma redis_contract:
  "attempt_tracker (NewRedisAttemptTracker rc m) (\<lambda>s. redis_locked (live s)) (\<lambda>s u. nat (redis_count (live s) u)) (threshold m)
     (\<lambda>s. counters_ok (live s))"
  by unfold_locales

end

lemma newAttemptTracker_cases:
  assumes "newAttemptTracker client cfg = Inr t"
  obtains "t = MemoryTracker (tracker_settings cfg)" | c where "t = RedisBackedTracker c (tracker_settings cfg)"
  using assms by (auto simp: newAttemptTracker_def split: if_splits option.splits)

lemma configured_tracker_contract:
  assumes "redis_kv rc live glob" "newAttemptTracker client cfg = Inr t"
    and "0 < atc_LockoutDuration cfg" "0 < atc_LockoutCounterTTL cfg" "atc_LockoutThreshold cfg \<le> 2 ^ 62"
  shows "attempt_tracker (tracker_port rc t) (port_locked live t) (port_failures live t) (atc_LockoutThreshold cfg) (port_invar live t)"
proof -
  let ?m = "tracker_settings cfg"
  have m: "tracker_config ?m" "threshold ?m = atc_LockoutThreshold cfg"
    using assms(3,4) by (simp_all add: tracker_config_def tracker_settings_def)
  have memory: "attempt_tracker (NewMemoryAttemptTracker ?m) mem_locked (mem_failures ?m) (threshold ?m) (\<lambda>s. 0 < mt_now s)"
    by (rule tracker_config.memory_contract [OF m(1)])
  have redis: "attempt_tracker (NewRedisAttemptTracker rc ?m) (\<lambda>s. redis_locked (live s))
      (\<lambda>s u. nat (redis_count (live s) u)) (threshold ?m) (\<lambda>s. counters_ok (live s))"
    using assms(1,5) m by (intro redis_tracker.redis_contract)
      (simp add: redis_tracker_def redis_tracker_axioms_def)
  from assms(2) show ?thesis
  proof (cases rule: newAttemptTracker_cases)
    case 1
    then show ?thesis
      using attempt_tracker_zoom [OF memory, of fst "\<lambda>s p. (s, snd p)"] m(2)
      by (simp add: tracker_port_def port_locked_def [abs_def] port_failures_def [abs_def] port_invar_def [abs_def])
  next
    case (2 c)
    then show ?thesis
      using attempt_tracker_zoom [OF redis, of snd "\<lambda>s p. (fst p, s)"] m(2)
      by (simp add: tracker_port_def port_locked_def [abs_def] port_failures_def [abs_def] port_invar_def [abs_def])
  qed
qed

text \<open>
  C22: Whichever backend the configuration selects, memory or Redis, the tracker of the services
  keeps one contract: a tracked failure counts by one and stays below the configured threshold, or
  it is answered with the lock error, has reached the threshold, and the next query reports the
  user as locked.
\<close>

theorem configured_lockout:
  assumes "redis_kv rc live glob" "newAttemptTracker client cfg = Inr t"
    and "0 < atc_LockoutDuration cfg" "0 < atc_LockoutCounterTTL cfg" "atc_LockoutThreshold cfg \<le> 2 ^ 62"
    and "port_invar live t s"
    and "run_state (AT_Track (tracker_port rc t) u) s = (r, s1)"
    and "run_state (AT_IsLocked (tracker_port rc t) u) s1 = (Inr b, s2)"
  shows "(r = Inr () \<longrightarrow> port_failures live t s1 u = Suc (port_failures live t s u) \<and>
            int (port_failures live t s1 u) < atc_LockoutThreshold cfg) \<and>
         (\<forall>n. r = Inl (lock_error n) \<longrightarrow> n = int (Suc (port_failures live t s u)) \<and> atc_LockoutThreshold cfg \<le> n \<and> b)"
proof -
  note contract = configured_tracker_contract [OF assms(1-5)]
  show ?thesis
    using attempt_tracker.track_counts [OF contract assms(6)] attempt_tracker.track_locks [OF contract assms(6)]
      attempt_tracker.lock_then_locked [OF contract assms(6)] assms(7,8) by blast
qed

definition strict_cfg :: AttemptTrackerConfig where
  "strict_cfg = \<lparr>atc_Backend = ''memory'', atc_LockoutThreshold = 1, atc_LockoutDuration = 900, atc_LockoutCounterTTL = 1800\<rparr>"

definition strict_start :: "MemoryAttemptTracker \<times> mem_redis" where
  "strict_start = (\<lparr>mt_users = (\<lambda>_. None), mt_now = 1\<rparr>, \<lparr>ms_keys = [], ms_clock = 0, ms_faults = []\<rparr>)"

lemma strict_run:
  "\<exists>s1 s2. run_state (AT_Track (tracker_port mem_client (MemoryTracker (tracker_settings strict_cfg))) ''u'') strict_start
      = (Inl (lock_error 1), s1) \<and>
    run_state (AT_IsLocked (tracker_port mem_client (MemoryTracker (tracker_settings strict_cfg))) ''u'') s1 = (Inr True, s2)"
  by (simp add: tracker_port_def zoom_tracker_def zoom_run strict_cfg_def strict_start_def tracker_settings_def memory_tracker_defs)

lemma configured_lockout_witness:
  "\<exists>s1 s2. run_state (AT_Track (tracker_port mem_client (MemoryTracker (tracker_settings strict_cfg))) ''u'') strict_start
      = (Inl (lock_error 1), s1) \<and> 1 = int (Suc (port_failures mem_live (MemoryTracker (tracker_settings strict_cfg)) strict_start ''u''))"
proof -
  have t: "newAttemptTracker None strict_cfg = Inr (MemoryTracker (tracker_settings strict_cfg))"
    "0 < atc_LockoutDuration strict_cfg" "0 < atc_LockoutCounterTTL strict_cfg" "atc_LockoutThreshold strict_cfg \<le> 2 ^ 62"
    by (simp_all add: newAttemptTracker_def strict_cfg_def)
  have start: "port_invar mem_live (MemoryTracker (tracker_settings strict_cfg)) strict_start"
    by (simp add: port_invar_def strict_start_def)
  from strict_run show ?thesis using configured_lockout [OF mem.redis_kv_axioms t start] by blast
qed

end
