(* ===== verification/Lookups.thy ===== *)
theory Lookups
  imports Resolver TokenStore
begin

text \<open>
  Operations no service calls: the lookup of one key in the cache (\<open>mapperID\<close>), which is the lookup of
  several keys (\<open>mapperIDs\<close>) on a list of one; the no-op whitelist; and the rest of the user repository.
\<close>

section \<open>One key\<close>

text \<open>An error of Redis is only logged: the value is then read from the database.\<close>

definition mapperID ::
  "'s redis_client \<Rightarrow> 'k \<Rightarrow> (string \<Rightarrow> 'v) \<Rightarrow> ('k \<Rightarrow> string) \<Rightarrow> ('k \<Rightarrow> ('s, 't result) prog) \<Rightarrow> ('t \<Rightarrow> 'v)
     \<Rightarrow> ('v \<Rightarrow> string) \<Rightarrow> duration \<Rightarrow> ('s, 'v result) prog" where
  "mapperID rc key convert cacheKey dbFetch getValue render ttl = do {
     cached \<leftarrow> rc_Get rc (cacheKey key);
     (case cached of
        Inr (Some v) \<Rightarrow> ok (convert v)
      | _ \<Rightarrow> call (dbFetch key) (\<lambda>value. do {
          _ \<leftarrow> rc_Set rc (cacheKey key) (render (getValue value)) ttl;
          ok (getValue value) })) }"

text \<open>The answer of \<open>mapperIDs\<close> for one key.\<close>

definition only_value :: "'k \<Rightarrow> ('k \<rightharpoonup> 'v) result \<Rightarrow> 'v result" where
  "only_value k r = (case r of Inl err \<Rightarrow> Inl err | Inr m \<Rightarrow> (case m k of Some v \<Rightarrow> Inr v | None \<Rightarrow> Inl ErrUserNotFound))"

text \<open>
  On a server that answers \<open>GET\<close> as it answers a pipeline of one \<open>GET\<close>, the two agree on the answer and
  on the state.
\<close>

lemma mapperID_is_mapperIDs:
  assumes "run_state (rc_Get rc (cacheKey k)) s = (Inr ov, s1)"
    and "run_state (rc_Pipeline rc [cacheKey k]) s = ([Inr ov], s1)"
  shows "run_state (mapperID rc k convert cacheKey dbFetch getValue render ttl) s =
    (case run_state (mapperIDs rc [k] convert cacheKey dbFetch getValue render ttl) s of (r, s') \<Rightarrow> (only_value k r, s'))"
  using assms
  by (cases ov)
     (auto simp: mapperID_def mapperIDs_def run_state_bind call_def only_value_def split: prod.split sum.split)

text \<open>A Redis that fails: \<open>mapperID\<close> goes to the database, \<open>mapperIDs\<close> gives up.\<close>

lemma mapperID_survives_redis:
  assumes "run_state (rc_Get rc (cacheKey k)) s = (Inl e, s1)" "run_state (dbFetch k) s1 = (Inr value, s2)"
  shows "fst (run_state (mapperID rc k convert cacheKey dbFetch getValue render ttl) s) = Inr (getValue value)"
  using assms by (simp add: mapperID_def run_state_bind call_def split: prod.split)

lemma mapperIDs_needs_redis:
  assumes "run_state (rc_Pipeline rc [cacheKey k]) s = ([Inl e], s1)" "e \<noteq> RedisNil"
  shows "run_state (mapperIDs rc [k] convert cacheKey dbFetch getValue render ttl) s = (Inl e, s1)"
  using assms by (simp add: mapperIDs_def run_state_bind)

section \<open>The no-op whitelist\<close>

definition NewTokenWhitelistNoOpAdapter :: "'r TokenStore" where
  "NewTokenWhitelistNoOpAdapter =
     \<lparr>TS_Add = (\<lambda>userUID tid. ok ()), TS_Remove = (\<lambda>userUID tid. ok ()), TS_RemoveAll = (\<lambda>userUID. ok ()),
      TS_IsAllowed = (\<lambda>userUID tid. ok True)\<rparr>"

section \<open>The rest of the user repository\<close>

text \<open>
  The rows of the model have no phone number (no other statement reads or writes the column): it is
  given by \<open>phone_of\<close>.
\<close>

definition UserRepository_GetByPhone :: "(User \<Rightarrow> string) \<Rightarrow> string \<Rightarrow> (pgstate, User result) prog" where
  "UserRepository_GetByPhone phone_of phone =
     scan_or ErrUserNotFound (query_row pg_user (\<lambda>u. phone_of u = phone \<and> u_DeletedAt u = None))"

definition UserRepository_AddUserDevice :: "User \<Rightarrow> Device \<Rightarrow> (pgstate, unit result) prog" where
  "UserRepository_AddUserDevice user device = ok ()"

end
