(* ===== verification/Listing.thy ===== *)
theory Listing
  imports Repositories Demo
begin

text \<open>
  The lists of the repositories: while nothing is written in between, the pages a listing reports are,
  one after the other, all the matching rows in the order of the database, each once. The loops over
  rows do not ask why they ended, so an answer cut by a lost connection passes as complete.
\<close>

lemma concat_pages: "concat (map (\<lambda>k. take l (drop (k * l) xs)) [0..<n]) = take (n * l) xs"
proof (induction n)
  case (Suc n)
  then show ?case using take_add [of "n * l" l xs] by (simp add: add.commute)
qed simp

lemma quot_nonneg: "0 \<le> a \<Longrightarrow> 0 < b \<Longrightarrow> quot a b = a div b"
  by (cases "a = 0") (simp_all add: quot_def)

lemma wrap64_id: "- (2 ^ 63) \<le> i \<Longrightarrow> i < 2 ^ 63 \<Longrightarrow> wrap64 i = i"
  by (simp add: wrap64_def)

text \<open>The number of pages is the least that holds all rows, and one for none.\<close>

lemma calcTotalPages_nat:
  assumes "0 < l" "int n + int l < 2 ^ 63"
  shows "calcTotalPages (int n) (int l) = int (if n = 0 then 1 else (n + l - 1) div l)"
proof (cases "n = 0")
  case False
  have "int n + int l - 1 = int (n + l - 1)" using assms(1) by simp
  moreover have "wrap64 (int n + int l - 1) = int n + int l - 1" using assms False by (intro wrap64_id) simp_all
  ultimately have "calcTotalPages (int n) (int l) = int (n + l - 1) div int l"
    using assms False by (simp add: calcTotalPages_def quot_nonneg)
  then show ?thesis using False by (simp only: zdiv_int if_False)
qed (simp add: calcTotalPages_def)

lemma pages_hold_all: "0 < l \<Longrightarrow> n \<le> (n + l - 1) div l * (l :: nat)"
  using div_mult_mod_eq [of "n + l - 1" l] mod_less_divisor [of l "n + l - 1"] by linarith

definition at_page :: "PaginationParam \<Rightarrow> nat \<Rightarrow> PaginationParam option" where
  "at_page p k = Some (p\<lparr>p_Page := Some (int k + 1)\<rparr>)"

text \<open>One page of any list.\<close>

lemma list_rows_page:
  assumes "pg_script s = []" "p_Limit p = Some (int l)" "validateOrderBy (Some p) ''created_at'' allowed = Inr column"
    and "arrange (order_clause (Some p) (al @ column)) (filter cond (table s)) = Inr rows" "length rows = length (filter cond (table s))"
    and "int (k * l) < 2 ^ 63"
  shows "run_state (list_rows arrange table cond allowed al (at_page p k)) s =
    (Inr \<lparr>Items = take l (drop (k * l) rows),
          Meta = \<lparr>m_Page = int k + 1, m_Limit = int l, m_Total = int (length rows), m_Pages = calcTotalPages (int (length rows)) (int l)\<rparr>\<rparr>, s)"
proof -
  have col: "validateOrderBy (at_page p k) ''created_at'' allowed = Inr column"
    using assms(3) by (simp add: validateOrderBy_def at_page_def)
  have clause: "order_clause (at_page p k) c = order_clause (Some p) c" for c
    by (simp add: order_clause_def at_page_def)
  have "wrap64 (int k * int l) = int k * int l" using assms(6) by (intro wrap64_id) (simp_all add: order_trans [of _ 0])
  then have bounds: "page_bounds (at_page p k) = (int l, int (k * l), int k + 1)"
    using assms(2) by (simp add: page_bounds_def at_page_def Let_def)
  show ?thesis
    using assms(1,4,5)
    by (simp add: list_rows_def bounds col clause call_def run_state_bind query_count_def query_page_def statement_def
        buildMeta_def del: of_nat_mult)
qed



section \<open>A connection lost in the middle\<close>

lemma statement_Done: "pg_script s = Done # os \<Longrightarrow> run_state (statement f) s = f (s\<lparr>pg_script := os\<rparr>)"
  by (simp add: statement_def)

lemma query_rows_Cut:
  "pg_script s = Cut n e # os \<Longrightarrow> run_state (query_rows select) s =
     (map_sum id (\<lambda>rows. (map Inr (take n rows), Some e)) (select (s\<lparr>pg_script := os\<rparr>)), s\<lparr>pg_script := os\<rparr>)"
  by (simp add: query_rows_def Let_def)

text \<open>
  C18: When the connection to the database is lost after n rows of an answer, List of the users
  returns the first n rows of the page without an error, under the total of all rows, and a lookup
  of the resolver cut before its row answers ErrUserNotFound for a user that exists.
\<close>

theorem interrupted_reads_look_complete:
  assumes script: "pg_script s = [Done, Cut n e]" and limit: "p_Limit p = Some (int l)" "int (k * l) < 2 ^ 63"
    and column: "validateOrderBy (Some p) ''created_at'' allowedOrderByUser = Inr column"
    and rows: "order_users db (order_clause (Some p) column) (filter (user_filter flt) (pg_user s)) = Inr rows"
    and permuted: "mset rows = mset (filter (user_filter flt) (pg_user s))"
    and lookup: "pg_script s' = [Cut 0 e]"
  shows "fst (run_state (UserRepository_List db (at_page p k) flt) s) =
      Inr \<lparr>Items = take n (take l (drop (k * l) rows)),
           Meta = \<lparr>m_Page = int k + 1, m_Limit = int l, m_Total = int (length rows), m_Pages = calcTotalPages (int (length rows)) (int l)\<rparr>\<rparr> \<and>
    fst (run_state (user_fetchIDFromDB uid) s') = Inl ErrUserNotFound"
proof
  have col: "validateOrderBy (at_page p k) ''created_at'' allowedOrderByUser = Inr column"
    using column by (simp add: validateOrderBy_def at_page_def)
  have clause: "order_clause (at_page p k) c = order_clause (Some p) c" for c
    by (simp add: order_clause_def at_page_def)
  have "wrap64 (int k * int l) = int k * int l" using limit(2) by (intro wrap64_id) (simp_all add: order_trans [of _ 0])
  then have bounds: "page_bounds (at_page p k) = (int l, int (k * l), int k + 1)"
    using limit(1) by (simp add: page_bounds_def at_page_def Let_def)
  have same: "length (filter (user_filter flt) (pg_user s)) = length rows" using permuted [symmetric] by (rule mset_eq_length)
  have read: "take n (take l (drop (k * l) rows)) = take (min n l) (drop (k * l) rows)" by simp
  show "fst (run_state (UserRepository_List db (at_page p k) flt) s) =
      Inr \<lparr>Items = take n (take l (drop (k * l) rows)),
           Meta = \<lparr>m_Page = int k + 1, m_Limit = int l, m_Total = int (length rows), m_Pages = calcTotalPages (int (length rows)) (int l)\<rparr>\<rparr>"
    using script same rows
    by (simp add: UserRepository_List_def list_rows_def bounds col clause call_def run_state_bind query_count_def query_page_def
        statement_Done query_rows_Cut buildMeta_def del: of_nat_mult take_take)
  show "fst (run_state (user_fetchIDFromDB uid) s') = Inl ErrUserNotFound"
    using lookup by (simp add: user_fetchIDFromDB_def fetch_identity_def call_def run_state_bind query_rows_Cut)
qed

lemma interrupted_reads_look_complete_witness:
  "fst (run_state (UserRepository_List demo_engine (at_page \<lparr>p_Page = None, p_Limit = Some 10, p_OrderBy = None, p_Sort = None\<rparr> 0) None)
     (demo_db\<lparr>pg_script := [Done, Cut 1 (PgErr ''08006'' [])]\<rparr>)) =
     Inr \<lparr>Items = [alice], Meta = \<lparr>m_Page = 1, m_Limit = 10, m_Total = 2, m_Pages = 1\<rparr>\<rparr> \<and>
   fst (run_state (user_fetchIDFromDB ''u-alice'') (demo_db\<lparr>pg_script := [Cut 0 (PgErr ''08006'' [])]\<rparr>)) = Inl ErrUserNotFound"
proof -
  let ?p = "\<lparr>p_Page = None, p_Limit = Some (int 10), p_OrderBy = None, p_Sort = None\<rparr>"
  have users: "filter (user_filter None) (pg_user demo_db) = [alice, bob]"
    by (simp add: demo_db_def user_filter_def alice_def bob_def)
  have "calcTotalPages 2 10 = 1" by code_simp
  then show ?thesis
    using interrupted_reads_look_complete [where p = ?p and l = 10 and k = 0 and n = 1 and s = "demo_db\<lparr>pg_script := [Done, Cut 1 (PgErr ''08006'' [])]\<rparr>"
        and s' = "demo_db\<lparr>pg_script := [Cut 0 (PgErr ''08006'' [])]\<rparr>" and e = "PgErr ''08006'' []" and flt = None and db = demo_engine and uid = "''u-alice''"
        and rows = "[alice, bob]" and column = "''created_at''"]
    by (simp add: users validateOrderBy_def demo_engine_def)
qed

end
