(* ===== verification/Interfaces.thy ===== *)
theory Interfaces
  imports World
begin

text \<open>
  The interfaces the gRPC adapter and the composition root call (\<open>internal/core/port/service\<close>, the
  resolver provider) as records of programs, what implements them, and the enumerations of
  \<open>internal/core/domain/param\<close>. \<open>Handlers\<close> calls the services directly.
\<close>

section \<open>The services\<close>

text \<open>A call of \<open>HandleGoogleOAuth\<close> may search for a user name forever: it has fuel.\<close>

record 's AuthService =
  ASV_Authenticate :: "AuthParams \<Rightarrow> ('s, Token result) prog"
  ASV_GoogleOAuth :: "string \<Rightarrow> ('s, (string \<times> string) result) prog"
  ASV_HandleGoogleOAuth :: "nat \<Rightarrow> string \<Rightarrow> string \<Rightarrow> string \<Rightarrow> ('s, Token result option) prog"
  ASV_RefreshToken :: "string \<Rightarrow> ('s, Token result) prog"
  ASV_ValidateToken :: "string \<Rightarrow> ('s, TokenClaims result) prog"
  ASV_RevokeToken :: "string \<Rightarrow> string \<Rightarrow> ('s, unit result) prog"
  ASV_VerifyPin :: "string \<Rightarrow> string \<Rightarrow> ('s, bool result) prog"

record 's UserService =
  USV_Get :: "string \<Rightarrow> ('s, User result) prog"
  USV_List :: "PaginationParam option \<Rightarrow> UserListFilterParam option \<Rightarrow> ('s, User page result) prog"
  USV_Create :: "UserCreateParam \<Rightarrow> ('s, User result) prog"
  USV_Update :: "string \<Rightarrow> UserUpdateParam \<Rightarrow> ('s, unit result) prog"
  USV_Delete :: "string \<Rightarrow> ('s, unit result) prog"
  USV_GetProfile :: "string \<Rightarrow> ('s, UserProfile result) prog"
  USV_UpdateProfile :: "string \<Rightarrow> UserProfileUpdateParam \<Rightarrow> ('s, unit result) prog"
  USV_SetPin :: "string \<Rightarrow> string \<Rightarrow> ('s, unit result) prog"
  USV_ListDevice :: "string \<Rightarrow> PaginationParam option \<Rightarrow> UserDeviceListFilterParam option \<Rightarrow> ('s, Device page result) prog"
  USV_RevokeDevice :: "string \<Rightarrow> string \<Rightarrow> ('s, unit result) prog"
  USV_ChangePassword :: "string \<Rightarrow> UserChangePasswordParam \<Rightarrow> ('s, unit result) prog"

record 's DeviceService =
  DSV_Get :: "string \<Rightarrow> ('s, Device result) prog"
  DSV_List :: "PaginationParam option \<Rightarrow> DeviceListFilterParam option \<Rightarrow> ('s, Device page result) prog"
  DSV_Delete :: "string \<Rightarrow> ('s, unit result) prog"

record 's UserFileService =
  FSV_Get :: "string \<Rightarrow> ('s, UserFile result) prog"
  FSV_List :: "PaginationParam option \<Rightarrow> UserFileListFilterParam option \<Rightarrow> ('s, UserFile page result) prog"
  FSV_Add :: "UserFileCreateParam \<Rightarrow> ('s, UserFile result) prog"
  FSV_Update :: "string \<Rightarrow> UserFileUpdateParam \<Rightarrow> ('s, unit result) prog"
  FSV_Delete :: "string \<Rightarrow> ('s, unit result) prog"

text \<open>The constructors return the interfaces.\<close>

definition NewAuthService :: "'s authService \<Rightarrow> 's AuthService" where
  "NewAuthService s = \<lparr>ASV_Authenticate = Authenticate s, ASV_GoogleOAuth = GoogleOAuth s,
     ASV_HandleGoogleOAuth = (\<lambda>fuel. HandleGoogleOAuth fuel s), ASV_RefreshToken = RefreshToken s,
     ASV_ValidateToken = ValidateToken s, ASV_RevokeToken = RevokeToken s, ASV_VerifyPin = VerifyPin s\<rparr>"

definition NewUserService :: "'s userService \<Rightarrow> 's UserService" where
  "NewUserService s = \<lparr>USV_Get = UserService_Get s, USV_List = UserService_List s, USV_Create = UserService_Create s,
     USV_Update = UserService_Update s, USV_Delete = UserService_Delete s, USV_GetProfile = GetProfile s,
     USV_UpdateProfile = UpdateProfile s, USV_SetPin = SetPin s, USV_ListDevice = ListDevice s,
     USV_RevokeDevice = RevokeDevice s, USV_ChangePassword = ChangePassword s\<rparr>"

definition NewDeviceService :: "'s deviceService \<Rightarrow> 's DeviceService" where
  "NewDeviceService s = \<lparr>DSV_Get = DeviceService_Get s, DSV_List = DeviceService_List s, DSV_Delete = DeviceService_Delete s\<rparr>"

definition NewUserFileService :: "'s userFileService \<Rightarrow> 's UserFileService" where
  "NewUserFileService s = \<lparr>FSV_Get = UserFileService_Get s, FSV_List = UserFileService_List s, FSV_Add = UserFileService_Add s,
     FSV_Update = UserFileService_Update s, FSV_Delete = UserFileService_Delete s\<rparr>"

section \<open>The resolver provider\<close>

text \<open>\<open>NewResolverProvider\<close> panics (\<open>None\<close>) without a database, a Redis client or a tracer.\<close>

type_synonym 's DeviceResolver = "'s UserResolver"

record 's ResolverProvider =
  RP_User :: "'s UserResolver"
  RP_Device :: "'s DeviceResolver"

definition NewResolverProvider ::
  "((pgstate, (int \<times> string) result) prog \<Rightarrow> ('s, (int \<times> string) result) prog) option \<Rightarrow> 's redis_client option \<Rightarrow> string
     \<Rightarrow> duration \<Rightarrow> bool \<Rightarrow> 's ResolverProvider option" where
  "NewResolverProvider db redisClient redisPrefix ttl tracer = (case (db, redisClient) of
     (Some ondb, Some rc) \<Rightarrow> if \<not> tracer then None
       else Some \<lparr>RP_User = NewUserResolver ondb rc (redisPrefix @ '':user'') ttl,
                  RP_Device = NewDeviceResolver ondb rc (redisPrefix @ '':device'') ttl\<rparr>
   | _ \<Rightarrow> None)"

text \<open>The user resolver of the services is the one of the provider \<open>main\<close> makes.\<close>

lemma provider_user_resolver:
  "map_option RP_User (NewResolverProvider (Some on_db) (Some (zoom_redis (su_redis su))) (su_code su @ '':resolver'') resolver_ttl True)
     = Some (the_userResolver su)"
  by (simp add: NewResolverProvider_def the_userResolver_def resolver_prefix_def provider_user_prefix_def)

text \<open>Two more ports: the resolver of files, which \<open>main\<close> does not make, and a cache no code implements.\<close>

record 's UserFileResolver =
  FLR_IDsByUIDs :: "string list \<Rightarrow> ('s, (string \<rightharpoonup> int) result) prog"
  FLR_UIDsByIDs :: "int list \<Rightarrow> ('s, (int \<rightharpoonup> string) result) prog"

definition user_file_resolver :: "'s UserResolver \<Rightarrow> 's UserFileResolver" where
  "user_file_resolver R = \<lparr>FLR_IDsByUIDs = RS_IDsByUIDs R, FLR_UIDsByIDs = RS_UIDsByIDs R\<rparr>"

record 's UserCache =
  UC_Get :: "string \<Rightarrow> (string \<Rightarrow> ('s, User result) prog) \<Rightarrow> ('s, User result) prog"

section \<open>The columns a list can be ordered by\<close>

definition UserOrderBy :: "string list" where
  "UserOrderBy = [''id'', ''uid'', ''username'', ''email'', ''status'', ''created_at'', ''updated_at'']"

definition DeviceOrderBy :: "string list" where
  "DeviceOrderBy = [''id'', ''uid'', ''device_fingerprint'', ''device_name'', ''created_at'']"

definition UserDeviceOrderBy :: "string list" where
  "UserDeviceOrderBy = [''id'', ''user_id'', ''device_id'', ''last_active_at'', ''created_at'']"

definition UserFileOrderBy :: "string list" where
  "UserFileOrderBy = [''id'', ''uid'', ''user_id'', ''file_type'', ''file_name'', ''created_at'']"

definition UserPinOrderBy :: "string list" where
  "UserPinOrderBy = [''user_id'', ''created_at'', ''updated_at'']"

definition UserProfileOrderBy :: "string list" where
  "UserProfileOrderBy = [''user_id'', ''created_at'', ''updated_at'']"

text \<open>The repositories accept exactly the enumerated columns.\<close>

lemma allowed_columns:
  "allowedOrderByUser = UserOrderBy" "allowedOrderByDevice = DeviceOrderBy" "allowedOrderByUserDevice = UserDeviceOrderBy"
  "allowedOrderByUserFile = UserFileOrderBy" "allowedOrderByUserPin = UserPinOrderBy" "allowedOrderByUserProfile = UserProfileOrderBy"
  by (simp_all add: allowedOrderByUser_def UserOrderBy_def allowedOrderByDevice_def DeviceOrderBy_def
      allowedOrderByUserDevice_def UserDeviceOrderBy_def allowedOrderByUserFile_def UserFileOrderBy_def
      allowedOrderByUserPin_def UserPinOrderBy_def allowedOrderByUserProfile_def UserProfileOrderBy_def)

section \<open>The no-op logger and tracer\<close>

text \<open>
  The methods of \<open>NoopLogger\<close> do nothing; \<open>Fatal\<close> returns, unlike that of the real logger. \<open>NoopTracer\<close>
  neither reads nor writes trace headers.
\<close>

datatype log_call = SetLogLevel string | LogDebug string | LogInfo string | LogWarn string | LogError string | LogFatal string

definition NoopLogger_call :: "log_call \<Rightarrow> ('s, unit) prog" where
  "NoopLogger_call c = ret ()"

definition NoopLogger_Sync :: "('s, unit result) prog" where
  "NoopLogger_Sync = ok ()"

definition NoopTracer_ExtractContext :: "'c \<Rightarrow> (string \<times> string list) list \<Rightarrow> 'c" where
  "NoopTracer_ExtractContext ctx md = ctx"

definition NoopTracer_InjectContext :: "'c \<Rightarrow> (string \<times> string list) list" where
  "NoopTracer_InjectContext ctx = []"

definition NoopTracer_Shutdown :: "('s, unit result) prog" where
  "NoopTracer_Shutdown = ok ()"

end
