(* ===== verification/Races.thy ===== *)
theory Races
  imports SessionProperties Interleaving
begin

text \<open>
  Two requests that overlap on one session. \<open>RefreshToken\<close> looks the session up, issues the new one and
  only then removes the old one, so a request that comes in between still finds it.
\<close>

section \<open>Refreshing when nothing fails\<close>

definition always_signs :: "('r, 'e, 'x) deployment \<Rightarrow> bool" where
  "always_signs su \<longleftrightarrow> (\<forall>c x. \<exists>t x'. run_state (TG_GenerateToken (su_tokenGen su) c) x = (Inr t, x'))"

definition always_reads :: "('r, 'e, 'x) deployment \<Rightarrow> string \<Rightarrow> TokenClaims \<Rightarrow> bool" where
  "always_reads su t c \<longleftrightarrow> (\<forall>x. fst (run_state (TG_ValidateToken (su_tokenGen su) t) x) = Inr c)"

definition active_user :: "('r, 'e, 'x) world \<Rightarrow> string \<Rightarrow> bool" where
  "active_user w uid \<longleftrightarrow> (\<exists>u. lookup_user (\<lambda>u. u_UID u = uid) w = Some u \<and> u_Status u = UserStatusActive)"

lemma wp_signed:
  assumes "always_signs su" and "\<And>t w'. only_outside w w' \<Longrightarrow> Q (Inr t) w'"
  shows "wp (TG_GenerateToken (the_tokenGen su) c) Q w"
proof (rule wp_generate)
  fix r w' assume "only_outside w w'" "run_state (TG_GenerateToken (su_tokenGen su) c) (w_outside w) = (r, w_outside w')"
  moreover obtain t x' where "run_state (TG_GenerateToken (su_tokenGen su) c) (w_outside w) = (Inr t, x')"
    using assms(1) unfolding always_signs_def by blast
  ultimately show "Q r w'" using assms(2) by auto
qed

lemma wp_read:
  assumes "always_reads su t c" and "\<And>w'. only_outside w w' \<Longrightarrow> Q (Inr c) w'"
  shows "wp (TG_ValidateToken (the_tokenGen su) t) Q w"
proof (rule wp_validate)
  fix r w' assume "only_outside w w'" "run_state (TG_ValidateToken (su_tokenGen su) t) (w_outside w) = (r, w_outside w')"
  moreover have "fst (run_state (TG_ValidateToken (su_tokenGen su) t) (w_outside w)) = Inr c"
    using assms(1) by (simp add: always_reads_def)
  ultimately show "Q r w'" using assms(2) by simp
qed

text \<open>What the device part of a refresh leaves alone.\<close>

definition same_session :: "('r, 'e, 'x) world \<Rightarrow> ('r, 'e, 'x) world \<Rightarrow> bool" where
  "same_session w0 w \<longleftrightarrow> users_and_sessions w0 w \<and> w_uids w = w_uids w0 \<and> db_up w"

lemma keeps_script:
  "(\<And>d. pg_script (snd (f d)) = pg_script d) \<Longrightarrow> keeps (\<lambda>d. pg_script d = []) (statement f)"
  by (rule keepsI) (simp add: wp_def split_beta)

lemma keeps_same_session:
  assumes "\<And>us ps. keeps (users_are us ps) m" "keeps (\<lambda>d. pg_script d = []) m" shows "keeps (same_session w0) (on_db m)"
proof (rule keepsI, rule wp_on_db)
  fix w assume w: "same_session w0 w"
  have "wp m (\<lambda>_ d. users_are (pg_user (w_db w0)) (pg_user_pin (w_db w0)) d) (w_db w)" "wp m (\<lambda>_ d. pg_script d = []) (w_db w)"
    using w by (auto intro!: keepsD [OF assms(1)] keepsD [OF assms(2)] simp: same_session_def users_and_sessions_def)
  then have "wp m (\<lambda>_ d. users_are (pg_user (w_db w0)) (pg_user_pin (w_db w0)) d \<and> pg_script d = []) (w_db w)"
    by (simp add: wp_conj)
  then show "wp m (\<lambda>r d. \<forall>w'. only_db w w' \<longrightarrow> w_db w' = d \<longrightarrow> same_session w0 w') (w_db w)"
    by (rule wp_mono) (use w in \<open>auto simp: same_session_def users_and_sessions_def only_db_def\<close>)
qed

lemma keeps_session_devices:
  "keeps (same_session w0) (DR_GetByUID (the_deviceRepo su) uid)"
  "keeps (same_session w0) (UDR_UpdateSessionID (the_userDeviceRepo su) i j sid)"
  unfolding device_repo_defs statement_defs DeviceRepository.select_convs UserDeviceRepository.select_convs
  by (rule keeps_same_session; intro keeps_intros keeps_statement keeps_script; simp split: option.split)+

text \<open>One request on the shared state, when no other one follows.\<close>

definition at_rest :: "('w \<Rightarrow> bool) \<Rightarrow> 'w shared \<Rightarrow> bool" where
  "at_rest J s \<longleftrightarrow> J (fst s) \<and> snd s = []"

lemma keeps_at_rest: "keeps J m \<Longrightarrow> keeps (at_rest J) (interfere m)"
proof (rule keepsI)
  fix s :: "'a shared" assume "keeps J m" "at_rest J s"
  then show "wp (interfere m) (\<lambda>_. at_rest J) s"
    by (cases s) (auto simp: at_rest_def wp_interfere dest: keepsD)
qed

lemma keeps_shared_refresh_device: "keeps (at_rest (same_session w0)) (refresh_device (shared_auth su) c u sid)"
  unfolding refresh_device_def shared_auth_def authService.select_convs shared_device_repo_def shared_user_device_repo_def
    DeviceRepository.select_convs UserDeviceRepository.select_convs
  by (intro keeps_intros keeps_at_rest keeps_session_devices)

lemma keeps_refresh_device': "keeps (same_session w0) (refresh_device (the_auth su) c u sid)"
  unfolding refresh_device_def the_auth_def authService.select_convs
  by (intro keeps_intros keeps_session_devices)

definition refreshed :: "('r \<Rightarrow> string \<Rightarrow> string option) \<Rightarrow> ('r, 'e, 'x) deployment \<Rightarrow> TokenClaims \<Rightarrow> ('r, 'e, 'x) world \<Rightarrow> ('r, 'e, 'x) world \<Rightarrow> bool" where
  "refreshed live su c w w' \<longleftrightarrow> live (w_redis w') = (live (w_redis w))(buildKey wl_adapter (c_Uid c) (su_uid su (w_uids w)) \<mapsto> ''1'')
       |` (- {buildKey wl_adapter (c_Uid c) (c_Sid c)}) \<and>
     pg_user (w_db w') = pg_user (w_db w) \<and> w_uids w' = Suc (w_uids w) \<and> db_up w'"

lemma refreshed_sessions:
  assumes "refreshed live su c w w'" "su_uid su (w_uids w) \<noteq> c_Sid c"
  shows "wl_sessions live w' (c_Uid c) = insert (su_uid su (w_uids w)) (wl_sessions live w (c_Uid c) - {c_Sid c})"
proof -
  have "wl_sessions live w' (c_Uid c) = insert (su_uid su (w_uids w)) (wl_sessions live w (c_Uid c)) - {c_Sid c}"
    using assms(1) by (simp only: refreshed_def wl_sessions_def key_sessions_put(1) key_sessions_del(1) conj_ac)
  with assms(2) show ?thesis by auto
qed

lemma active_user_same: "pg_user (w_db w') = pg_user (w_db w) \<Longrightarrow> active_user w' uid = active_user w uid"
  by (simp add: active_user_def lookup_user_def)

lemma wp_refresh_device':
  assumes "db_up w" "\<And>w'. same_session w w' \<Longrightarrow> Q () w'"
  shows "wp (refresh_device (the_auth su) c u sid) Q w"
  by (rule wp_mono [OF keepsD [OF keeps_refresh_device' [of w]]]) (use assms in \<open>auto simp: same_session_def\<close>)

lemma wp_shared_refresh_device:
  assumes "db_up w" "\<And>w'. same_session w w' \<Longrightarrow> Q () (w', [])"
  shows "wp (refresh_device (shared_auth su) c u sid) Q (w, [])"
  by (rule wp_mono [OF keepsD [OF keeps_shared_refresh_device [of w]]])
     (use assms in \<open>auto simp: at_rest_def same_session_def\<close>)

lemma wp_shared_async:
  assumes "\<And>r w'. only_events w w' \<Longrightarrow> Q r (w', [])"
  shows "wp (EX_DoAsync shared_executor name (publish_new (shared_publisher (the_eventPublisher su)) t en d)) Q (w, [])"
  unfolding shared_executor_def Executor.select_convs publish_new_def
  by (cases "NewMessage t en d")
     (auto simp: wp_interfere is_closed_def shared_publisher_def intro!: wp_publish assms)

lemmas shared_session_defs = shared_token_gen_def shared_store_def shared_user_repo_def shared_uid_gen_def

lemma sau: "as_tokenGen (shared_auth su) = shared_token_gen (the_tokenGen su)" "as_tokenWhitelist (shared_auth su) = shared_store (the_whitelist su)"
  "as_userRepo (shared_auth su) = shared_user_repo (the_userRepo su)" "as_uidGen (shared_auth su) = shared_uid_gen (the_uidGen su)"
  "as_executor (shared_auth su) = shared_executor" "as_eventPublisher (shared_auth su) = shared_publisher (the_eventPublisher su)"
  by (simp_all add: shared_auth_def)

context healthy
begin

lemma wp_refresh_up:
  assumes "redis_steady w" "db_up w" "always_signs su" "always_reads su t c"
    and "IsRefresh c" "c_Sid c \<in> wl_sessions live w (c_Uid c)" "active_user w (c_Uid c)"
    and "\<And>tok w'. refreshed live su c w w' \<Longrightarrow> redis_steady w' \<Longrightarrow> Q (Inr tok) w'"
  shows "wp (RefreshToken (the_auth su) t) Q w"
proof -
  from assms(7) obtain u where u: "lookup_user (\<lambda>u. u_UID u = c_Uid c) w = Some u" "u_Status u = UserStatusActive"
    by (auto simp: active_user_def)
  then have "u_DeletedAt u = None" by (auto dest: lookup_user_Some)
  with assms u show ?thesis
    unfolding RefreshToken_def au wp_call issue_tokens_def
    by (auto simp: only_defs IsDeleted_def wl_sessions_def lookup_user_def same_session_def users_and_sessions_def refreshed_def
        intro!: wp_read wp_wl_is_allowed_up wp_GetByUID_up wp_new_uid wp_refresh_device' wp_signed wp_wl_add_up
          wp_wl_remove_up wp_async_new)
qed

text \<open>
  The same request when another one runs between its look at the whitelist and the rest: the port calls
  before are validating the token and that look.
\<close>

lemma wp_refresh_overlapped:
  assumes "redis_steady w" "always_signs su" "always_reads su t c" "IsRefresh c" "c_Sid c \<in> wl_sessions live w (c_Uid c)"
    and other: "\<And>w1 w2. only_outside w w1 \<Longrightarrow> only_redis w1 w2 \<Longrightarrow> live (w_redis w2) = live (w_redis w) \<Longrightarrow> redis_steady w2 \<Longrightarrow>
      redis_steady (e w2) \<and> db_up (e w2) \<and> active_user (e w2) (c_Uid c) \<and>
      (\<forall>tok w'. refreshed live su c (e w2) w' \<longrightarrow> redis_steady w' \<longrightarrow> Q (Inr tok) (w', []))"
  shows "wp (RefreshToken (shared_auth su) t) Q (w, [\<lambda>w. w, \<lambda>w. w, e])"
  unfolding RefreshToken_def sau wp_call shared_token_gen_def TokenGenerator.select_convs wp_interfere
proof (rule wp_read [OF assms(3)], goal_cases)
  case (1 w1)
  then have w1: "redis_steady w1" "live (w_redis w1) = live (w_redis w)" using assms(1) by (simp_all add: only_outside_def)
  show ?case
  proof (simp add: assms(4) shared_store_def wp_interfere, rule wp_wl_is_allowed_up [OF w1(1)], goal_cases)
    case (1 w2)
    with w1 have w2: "redis_steady (e w2)" "db_up (e w2)" "active_user (e w2) (c_Uid c)"
      "\<And>tok w'. refreshed live su c (e w2) w' \<Longrightarrow> redis_steady w' \<Longrightarrow> Q (Inr tok) (w', [])"
      using other [OF \<open>only_outside w w1\<close>, of w2] by simp_all
    have "c_Sid c \<in> wl_sessions live w1 (c_Uid c)" using assms(5) w1(2) by (simp add: wl_sessions_def)
    moreover obtain u where u: "lookup_user (\<lambda>u. u_UID u = c_Uid c) (e w2) = Some u" "u_Status u = UserStatusActive"
      using w2(3) by (auto simp: active_user_def)
    moreover from u have "u_DeletedAt u = None" by (auto dest: lookup_user_Some)
    ultimately show ?case using w2(1,2,4) assms(2)
      by (auto simp: shared_session_defs wp_interfere issue_tokens_def sau only_defs IsDeleted_def lookup_user_def same_session_def users_and_sessions_def
          refreshed_def intro!: wp_GetByUID_up wp_new_uid wp_shared_refresh_device wp_signed wp_wl_add_up wp_wl_remove_up wp_shared_async)
  qed
qed

end

text \<open>
  C7: Two overlapping refreshes with one refresh token are both granted: when the second runs
  between the first one's look at the whitelist and its lookup of the user, the one session is
  replaced by two new ones, of the second request and of the first (on a service where nothing
  fails).
\<close>

theorem overlapping_refreshes_both_granted:
  assumes "healthy su live glob steady" "steady (w_redis w)" "db_up w" "always_signs su" "always_reads su t c"
    and "IsRefresh c" "c_Sid c \<in> wl_sessions live w (c_Uid c)" "active_user w (c_Uid c)"
    and "su_uid su (w_uids w) \<noteq> c_Sid c" "su_uid su (Suc (w_uids w)) \<noteq> c_Sid c"
  shows "\<exists>tok w'. run_state (RefreshToken (shared_auth su) t)
      (w, [\<lambda>w. w, \<lambda>w. w, \<lambda>w. snd (run_state (RefreshToken (the_auth su) t) w)]) = (Inr tok, (w', [])) \<and>
    wl_sessions live w' (c_Uid c) =
      {su_uid su (w_uids w), su_uid su (Suc (w_uids w))} \<union> (wl_sessions live w (c_Uid c) - {c_Sid c})"
proof -
  let ?e = "\<lambda>w. snd (run_state (RefreshToken (the_auth su) t) w)" and ?u = "c_Uid c"
  let ?Q = "\<lambda>r s. \<exists>tok. r = Inr tok \<and> snd s = [] \<and> wl_sessions live (fst s) ?u =
    {su_uid su (w_uids w), su_uid su (Suc (w_uids w))} \<union> (wl_sessions live w ?u - {c_Sid c})"
  have "wp (RefreshToken (shared_auth su) t) ?Q (w, [\<lambda>w. w, \<lambda>w. w, ?e])"
  proof (rule healthy.wp_refresh_overlapped [OF assms(1,2,4,5,6,7)])
    fix w1 w2 assume w: "only_outside w w1" "only_redis w1 w2" "live (w_redis w2) = live (w_redis w)" "steady (w_redis w2)"
    then have db: "w_db w2 = w_db w" "w_uids w2 = w_uids w" by (simp_all add: only_defs)
    have "wp (RefreshToken (the_auth su) t) (\<lambda>_ w'. refreshed live su c w2 w' \<and> steady (w_redis w')) w2"
      using assms w db
      by (intro healthy.wp_refresh_up [OF assms(1) w(4) _ assms(4,5,6)])
        (simp_all add: wl_sessions_def active_user_same [of w2 w])
    then have e: "refreshed live su c w2 (?e w2)" "steady (w_redis (?e w2))" by (simp_all add: wp_def split_beta)
    then have uids: "w_uids (?e w2) = Suc (w_uids w)" "pg_user (w_db (?e w2)) = pg_user (w_db w)" "db_up (?e w2)"
      using db by (simp_all add: refreshed_def)
    have "wl_sessions live (?e w2) ?u = insert (su_uid su (w_uids w)) (wl_sessions live w ?u - {c_Sid c})"
      using refreshed_sessions [OF e(1)] assms(9) db(2) w(3) by (simp add: wl_sessions_def)
    then have "?Q (Inr tok) (w', [])" if "refreshed live su c (?e w2) w'" for tok w'
      using refreshed_sessions [OF that] assms(9,10) uids(1) by auto
    with e uids show "steady (w_redis (?e w2)) \<and> db_up (?e w2) \<and> active_user (?e w2) ?u \<and>
        (\<forall>tok w'. refreshed live su c (?e w2) w' \<longrightarrow> steady (w_redis w') \<longrightarrow> ?Q (Inr tok) (w', []))"
      using assms(8) by (simp add: active_user_same [of "?e w2" w])
  qed
  then show ?thesis
    by (cases "run_state (RefreshToken (shared_auth su) t) (w, [\<lambda>w. w, \<lambda>w. w, ?e])") (auto simp: wp_def)
qed

lemma overlapping_refreshes_witness:
  "\<exists>tok w'. run_state (RefreshToken (shared_auth demo) (alice_token TokenTypeRefresh))
      (alice_login, [\<lambda>w. w, \<lambda>w. w, \<lambda>w. snd (run_state (RefreshToken (the_auth demo) (alice_token TokenTypeRefresh)) w)]) = (Inr tok, (w', [])) \<and>
    {''uid-1'', ''uid-2''} \<subseteq> wl_sessions mem_live w' ''u-alice''"
proof -
  let ?c = "\<lparr>c_Uid = ''u-alice'', c_Sid = ''uid-0'', c_Type = TokenTypeRefresh, c_Identifier = [], c_IdentifierType = [], c_Extra = None\<rparr>"
  have signs: "always_signs demo" by (simp add: always_signs_def demo_def demo_tokens_def)
  have reads: "always_reads demo (alice_token TokenTypeRefresh) ?c"
    by (simp add: always_reads_def alice_token_def demo_def demo_tokens_def dec_demo_token)
  have up: "db_up alice_login" unfolding alice_login_def by code_simp
  have user: "active_user alice_login (c_Uid ?c)"
  proof -
    have "pg_user (w_db alice_login) = [alice, bob]" unfolding alice_login_def by code_simp
    then show ?thesis by (simp add: active_user_def lookup_user_def alice_def)
  qed
  have uids: "su_uid demo (w_uids alice_login) = ''uid-1''" "su_uid demo (Suc (w_uids alice_login)) = ''uid-2''"
    unfolding alice_login_state by code_simp+
  have sid: "c_Sid ?c \<in> wl_sessions mem_live alice_login (c_Uid ?c)"
  proof (rule ccontr)
    assume "c_Sid ?c \<notin> wl_sessions mem_live alice_login (c_Uid ?c)"
    then show False
      using isl_validate(1) [OF demo.running_axioms, of alice_login "alice_token TokenTypeAccess"] alice_validates
      by (auto simp: alice_token_def demo_claims)
  qed
  have r: "IsRefresh ?c" by (simp add: IsRefresh_def)
  have ne: "su_uid demo (w_uids alice_login) \<noteq> c_Sid ?c" "su_uid demo (Suc (w_uids alice_login)) \<noteq> c_Sid ?c"
    by (simp_all add: uids)
  from overlapping_refreshes_both_granted [OF healthy_demo alice_login_state(1) up signs reads r sid user ne]
  show ?thesis by (auto simp: uids)
qed

end
