(* ===== verification/OAuthLogin.thy ===== *)
theory OAuthLogin
  imports Races
begin

text \<open>
  The login through Google beside the login by password: what \<open>HandleGoogleOAuth\<close> does not check.
\<close>

definition google_vouches :: "('r, 'e, 'x) deployment \<Rightarrow> string \<Rightarrow> string \<Rightarrow> string \<Rightarrow> OAuthUserInfo \<Rightarrow> bool" where
  "google_vouches su code st uri info \<longleftrightarrow>
     (\<exists>tokens. (\<forall>x. fst (run_state (OP_ExchangeCode (su_oauth su) code st uri) x) = Inr tokens) \<and>
       (\<forall>x. fst (run_state (OP_GetUserInfo (su_oauth su) tokens) x) = Inr info))"

lemma wp_outside_answer:
  assumes "\<And>x. fst (run_state m x) = r" "\<And>w'. only_outside w w' \<Longrightarrow> Q r w'" shows "wp (on_outside m) Q w"
proof (rule wp_on_outside)
  fix r' w' assume "only_outside w w'" "run_state m (w_outside w) = (r', w_outside w')"
  with assms show "Q r' w'" by (metis fst_conv)
qed

context healthy
begin

lemma wp_issue_up:
  assumes "redis_steady w" "always_signs su"
    and "\<And>tok w'. redis_steady w' \<Longrightarrow> live (w_redis w') = (live (w_redis w))(buildKey wl_adapter uid sid \<mapsto> ''1'') \<Longrightarrow> Q (Inr tok) w'"
  shows "wp (issue_tokens (the_auth su) uid sid identifier ty extra) Q w"
  unfolding issue_tokens_def au wp_call
  using assms by (auto simp: only_defs intro!: wp_signed wp_wl_add_up)

lemma wp_google_login:
  assumes "redis_steady w" "db_up w" "always_signs su" "google_vouches su code st uri info"
    and "lookup_user (\<lambda>u. u_Email u = oi_Email info) w = Some u"
    and "\<And>tok w'. live (w_redis w') = (live (w_redis w))(buildKey wl_adapter (u_UID u) (su_uid su (w_uids w)) \<mapsto> ''1'') \<Longrightarrow>
      Q (Some (Inr tok)) w'"
  shows "wp (HandleGoogleOAuth fuel (the_auth su) code st uri) Q w"
proof -
  from assms(4) obtain tokens where oauth: "\<And>x. fst (run_state (OP_ExchangeCode (su_oauth su) code st uri) x) = Inr tokens"
    "\<And>x. fst (run_state (OP_GetUserInfo (su_oauth su) tokens) x) = Inr info" by (auto simp: google_vouches_def)
  have parts: "OP_ExchangeCode (as_oauthProvider (the_auth su)) code st uri = on_outside (OP_ExchangeCode (su_oauth su) code st uri)"
    "OP_GetUserInfo (as_oauthProvider (the_auth su)) tk = on_outside (OP_GetUserInfo (su_oauth su) tk)" for tk
    by (simp_all add: the_auth_def the_oauth_def)
  from assms(5) have user: "lookup_user (\<lambda>u. u_Email u = oi_Email info) w' = Some u" if "w_db w' = w_db w" for w' :: "('r, 'e, 'x) world"
    using that by (simp add: lookup_user_def)
  show ?thesis
    unfolding HandleGoogleOAuth_def oauth_user_def oauth_session_def wp_bind wp_call parts au
    using assms(1,2,3,6) user
    by (auto simp: only_defs simp del: wp_zoom intro!: wp_outside_answer [OF oauth(1)] wp_outside_answer [OF oauth(2)]
        wp_GetByEmail_up wp_new_uid wp_issue_up wp_async_new)
qed

end

text \<open>
  C9: A user whose status is not active cannot log in with any password, but is logged in by
  HandleGoogleOAuth as soon as Google reports its e-mail, verified or not: a session of that user
  is whitelisted (on a service where nothing fails).
\<close>

theorem google_login_ignores_status:
  assumes "healthy su live glob steady" "steady (w_redis w)" "db_up w" "always_signs su" "google_vouches su code st uri info"
    and "lookup_user (\<lambda>u. u_Email u = oi_Email info) w = Some u" "emails_unique (pg_user (w_db w))"
    and "u_Status u \<noteq> UserStatusActive" "ap_IdentifierType p = ''email''" "ap_Identifier p = oi_Email info"
  shows "isl (fst (run_state (Authenticate (the_auth su) p) w)) \<and>
    (\<exists>tok w'. run_state (HandleGoogleOAuth fuel (the_auth su) code st uri) w = (Some (Inr tok), w') \<and>
      wl_sessions live w' (u_UID u) = insert (su_uid su (w_uids w)) (wl_sessions live w (u_UID u)))"
proof
  have run: "running su live glob" using assms(1) by (simp add: healthy_def)
  have only: "v = u" if "v \<in> set (pg_user (w_db w))" "u_DeletedAt v = None" "u_Email v = oi_Email info" for v
  proof -
    have "v \<in> set (live_rows (pg_user (w_db w)))" "u \<in> set (live_rows (pg_user (w_db w)))" "u_Email u = u_Email v"
      using that lookup_user_Some [OF assms(6)] by (simp_all add: live_rows_def)
    with assms(7) show ?thesis by (auto simp: emails_unique_def distinct_map dest: inj_onD)
  qed
  have "wp (Authenticate (the_auth su) p) (\<lambda>r _. isl r) w"
  proof (rule running.wp_Authenticate [OF run])
    fix v tok w' assume "v \<in> set (pg_user (w_db w))" "may_login su w p v"
    then show "isl (Inr tok)" using only [of v] assms(8,9,10) by (auto simp: may_login_def identifies_def)
  qed simp
  then show "isl (fst (run_state (Authenticate (the_auth su) p) w))" by (simp add: wp_def split: prod.splits)
  have "wp (HandleGoogleOAuth fuel (the_auth su) code st uri) (\<lambda>r w'. \<exists>tok. r = Some (Inr tok) \<and>
      wl_sessions live w' (u_UID u) = insert (su_uid su (w_uids w)) (wl_sessions live w (u_UID u))) w"
    by (rule healthy.wp_google_login [OF assms(1-6)]) (simp add: wl_sessions_def key_sessions_put(1))
  then show "\<exists>tok w'. run_state (HandleGoogleOAuth fuel (the_auth su) code st uri) w = (Some (Inr tok), w') \<and>
      wl_sessions live w' (u_UID u) = insert (su_uid su (w_uids w)) (wl_sessions live w (u_UID u))"
    by (cases "run_state (HandleGoogleOAuth fuel (the_auth su) code st uri) w") (auto simp: wp_def)
qed

text \<open>The Google account that carries the address of the banned user.\<close>

definition bob_google :: OAuthUserInfo where
  "bob_google = \<lparr>oi_ProviderID = ''1'', oi_Email = ''bob@x'', oi_EmailVerified = True, oi_FirstName = [],
     oi_LastName = [], oi_FullName = [], oi_Picture = [], oi_Locale = [], oi_ExpiresAt = None\<rparr>"

definition bob_request :: AuthParams where
  "bob_request = (login_request ''bob@x'' ''Hidden2?'')\<lparr>ap_IdentifierType := ''email''\<rparr>"

lemma google_login_ignores_status_witness:
  "isl (fst (run_state (Authenticate (the_auth demo) bob_request) demo_world)) \<and>
   (\<exists>tok w'. run_state (HandleGoogleOAuth 5 (the_auth demo) ''bob@x'' ''state'' ''https://app'') demo_world = (Some (Inr tok), w') \<and>
      wl_sessions mem_live w' (u_UID bob) = insert (su_uid demo (w_uids demo_world)) (wl_sessions mem_live demo_world (u_UID bob)))"
proof (rule google_login_ignores_status [OF healthy_demo, where info = bob_google])
  show "mem_steady (w_redis demo_world)" by (simp add: mem_steady_def demo_world_def)
  show "db_up demo_world" by (simp add: demo_world_def demo_db_def)
  show "always_signs demo" by (simp add: always_signs_def demo_def demo_tokens_def)
  show "google_vouches demo ''bob@x'' ''state'' ''https://app'' bob_google"
    by (simp add: google_vouches_def demo_def demo_oauth_def bob_google_def)
  show "lookup_user (\<lambda>u. u_Email u = oi_Email bob_google) demo_world = Some bob"
    by (simp add: lookup_user_def bob_google_def demo_world_def demo_db_def alice_def bob_def)
  show "emails_unique (pg_user (w_db demo_world))"
    by (simp add: demo_world_def demo_db_def alice_def bob_def emails_unique_def live_rows_def)
qed (simp_all add: bob_def bob_request_def login_request_def bob_google_def UserStatusActive_def UserStatusBanned_def)

end
