(* ===== verification/DefaultLogin.thy ===== *)
theory DefaultLogin
  imports SessionProperties RedisTracker
begin

text \<open>
  The login with the attempt tracker of the default configuration, which keeps its counters in the Redis
  of the sessions: the authentication service of \<open>World\<close> with that tracker in the place of the
  in-memory one.
\<close>

definition redis_attempts :: "('r, 'e, 'x) deployment \<Rightarrow> TrackerConfig \<Rightarrow> ('r, 'e, 'x) world AttemptTracker" where
  "redis_attempts su m = (let T = NewRedisAttemptTracker (su_redis su) m in
     \<lparr>AT_Track = (\<lambda>u. on_redis (AT_Track T u)), AT_IsLocked = (\<lambda>u. on_redis (AT_IsLocked T u)),
      AT_Reset = (\<lambda>u. on_redis (AT_Reset T u))\<rparr>)"

definition redis_auth :: "('r, 'e, 'x) deployment \<Rightarrow> TrackerConfig \<Rightarrow> ('r, 'e, 'x) world authService" where
  "redis_auth su m = (the_auth su)\<lparr>as_attemptTracker := redis_attempts su m\<rparr>"

lemma redis_auth_parts:
  "findUser (redis_auth su m) = findUser (the_auth su)"
  "check_device_ip (redis_auth su m) = check_device_ip (the_auth su)"
  "login_device (redis_auth su m) = login_device (the_auth su)"
  "issue_tokens (redis_auth su m) = issue_tokens (the_auth su)"
  "as_attemptTracker (redis_auth su m) = redis_attempts su m"
  "as_uidGen (redis_auth su m) = the_uidGen su" "as_executor (redis_auth su m) = the_executor"
  "as_eventPublisher (redis_auth su m) = the_eventPublisher su"
  "as_passwordHasher (redis_auth su m) = zoom_hasher (su_passwordHasher su)"
  by (simp_all add: fun_eq_iff redis_auth_def findUser_def check_device_ip_def login_device_def findOrCreateDevice_def
      findOrCreateUserDevice_def issue_tokens_def cong: option.case_cong sum.case_cong if_cong)
    (simp_all add: the_auth_def)

text \<open>A tracker in Redis touches nothing but Redis.\<close>

lemma wp_attempts_redis:
  assumes "\<And>r w'. only_redis w w' \<Longrightarrow> Q r w'"
  shows "wp (AT_Track (redis_attempts su m) u) Q w" "wp (AT_Reset (redis_attempts su m) u) Q w"
  unfolding redis_attempts_def Let_def Ports.AttemptTracker.select_convs
  by (rule wp_on_redis, rule wpI, simp add: assms)+

text \<open>Who gets a session.\<close>

definition may_login_redis ::
  "('r, 'e, 'x) deployment \<Rightarrow> ('r \<Rightarrow> string \<Rightarrow> string option) \<Rightarrow> ('r, 'e, 'x) world \<Rightarrow> AuthParams \<Rightarrow> User \<Rightarrow> bool" where
  "may_login_redis su live w p u \<longleftrightarrow> u_DeletedAt u = None \<and> u_Status u = UserStatusActive \<and>
     identifies (ap_IdentifierType p) (ap_Identifier p) u \<and> \<not> redis_locked (live (w_redis w)) (u_UID u) \<and>
     H_Compare (su_passwordHasher su) (u_Password u) (ap_Password p)"

definition session_opened ::
  "('r, 'e, 'x) deployment \<Rightarrow> ('r \<Rightarrow> string \<Rightarrow> string option) \<Rightarrow> string \<Rightarrow> AuthParams \<Rightarrow> User \<Rightarrow> Token \<Rightarrow> ('r, 'e, 'x) world \<Rightarrow> bool" where
  "session_opened su live sid p u tok w' \<longleftrightarrow> sid \<in> wl_sessions live w' (u_UID u) \<and>
     (\<exists>extra. issued su (u_UID u) sid (ap_Identifier p) (ap_IdentifierType p) (Some extra) tok)"

context running
begin

lemma wp_attempts_locked:
  assumes "\<And>w'. only_redis w w' \<Longrightarrow> Q (Inr (redis_locked (live (w_redis w)) u)) w'" "\<And>e w'. only_redis w w' \<Longrightarrow> Q (Inl e) w'"
  shows "wp (AT_IsLocked (redis_attempts su m) u) Q w"
  unfolding redis_attempts_def NewRedisAttemptTracker_def Redis_IsLocked_def Let_def Ports.AttemptTracker.select_convs
  by (rule wp_on_redis, unfold wp_bind, rule wl.wp_exists) (use assms in \<open>auto simp: redis_locked_def\<close>)

lemma wp_open_session_redis:
  assumes "\<And>tok w'. session_opened su live (su_uid su (w_uids w)) p u tok w' \<Longrightarrow> Q (Inr tok) w'" "\<And>e w'. Q (Inl e) w'"
  shows "wp (open_session (redis_auth su m) p u) Q w"
proof -
  let ?sid = "su_uid su (w_uids w)"
  have rest: "wp (login_device (the_auth su) p u ?sid)
      (\<lambda>a. wp (case a of (device, userDevice) \<Rightarrow>
          call (issue_tokens (the_auth su) (u_UID u) ?sid (ap_Identifier p) (ap_IdentifierType p)
              (Some (login_extra p device userDevice)))
            (\<lambda>token. EX_DoAsync the_executor ''auth.publish''
               (publish_new (the_eventPublisher su) EventLogin (NewUserEntity u)
                 (LoginData (login_event p device userDevice))) \<bind> (\<lambda>_. ok token))) Q) w2" for w2
  proof (rule wp_mono [OF keepsD [OF keeps_login_device users_and_sessions_refl]])
    fix a :: "Device option \<times> UserDevice option" and w3
    show "wp (case a of (device, userDevice) \<Rightarrow>
          call (issue_tokens (the_auth su) (u_UID u) ?sid (ap_Identifier p) (ap_IdentifierType p)
              (Some (login_extra p device userDevice)))
            (\<lambda>token. EX_DoAsync the_executor ''auth.publish''
               (publish_new (the_eventPublisher su) EventLogin (NewUserEntity u)
                 (LoginData (login_event p device userDevice))) \<bind> (\<lambda>_. ok token))) Q w3"
      by (cases a)
        (auto simp: assms(2) session_opened_def wl_sessions_def key_sessions_put(1) only_events_def
          intro!: wp_issue_tokens wp_async_new assms(1), blast+)
  qed
  show ?thesis
    unfolding open_session_def wp_bind redis_auth_parts
    by (rule wp_attempts_redis, rule wp_new_uid) (use rest in \<open>simp add: only_redis_def\<close>)
qed

lemma wp_login_user_redis:
  assumes "identifies (ap_IdentifierType p) (ap_Identifier p) u" "u_DeletedAt u = None"
    and "\<And>tok w'. may_login_redis su live w p u \<Longrightarrow> session_opened su live (su_uid su (w_uids w)) p u tok w' \<Longrightarrow> Q (Inr tok) w'"
    and "\<And>e w'. Q (Inl e) w'"
  shows "wp (login_user (redis_auth su m) p u) Q w"
  using assms(1,2)
  unfolding login_user_def redis_auth_parts wp_if wp_call
  by (auto simp: IsDeleted_def assms(4) only_redis_def
      intro!: wp_attempts_locked wp_async_new wp_attempts_redis wp_open_session_redis)
     (auto simp: may_login_redis_def intro!: assms(3))

lemma wp_Authenticate_redis:
  assumes "\<And>u tok w'. u \<in> set (pg_user (w_db w)) \<Longrightarrow> may_login_redis su live w p u \<Longrightarrow>
      session_opened su live (su_uid su (w_uids w)) p u tok w' \<Longrightarrow> Q (Inr tok) w'"
    and "\<And>e w'. Q (Inl e) w'"
  shows "wp (Authenticate (redis_auth su m) p) Q w"
  unfolding Authenticate_def wp_call wp_bind redis_auth_parts
proof (rule wp_check_device_ip)
  fix w1 assume w1: "only_limiter w w1"
  have login: "wp (login_user (redis_auth su m) p u) Q w2"
    if "only_db w1 w2" "same_tables (w_db w1) (w_db w2)" "u \<in> set (pg_user (w_db w1))" "u_DeletedAt u = None"
      "identifies (ap_IdentifierType p) (ap_Identifier p) u" for u w2
    using that w1
    by (intro wp_login_user_redis assms)
       (auto simp: may_login_redis_def only_db_def only_limiter_def same_tables_pg)
  show "(case Inr () of Inl e \<Rightarrow> Q (Inl e) | Inr x \<Rightarrow>
      wp (findUser (the_auth su) (ap_IdentifierType p) (ap_Identifier p))
        (\<lambda>a. wp (case a of Inl err \<Rightarrow> if errors_Is err ErrUserNotFound then fail ErrInvalidCredentials else fail err
                 | Inr user \<Rightarrow> login_user (redis_auth su m) p user) Q)) w1"
    by (simp, intro wp_findUser) (simp_all add: login assms)
qed (simp add: assms)

end

section \<open>Logging in\<close>

text \<open>
  C8: With the attempt tracker in Redis, which the default configuration selects, Authenticate
  returns tokens only for a user of the table that is not deleted, is active, is named by the
  identifier, has no live lockout key and whose stored hash accepts the password; the tokens carry
  that user and a fresh session, which is then in the whitelist. The tracker and the sessions
  share one Redis, and this holds through every failure of it: a lock that cannot be read refuses
  the login. Unlike the in-memory tracker, a reset that fails leaves the counter.
\<close>

theorem default_login_sound:
  assumes "running su live glob" and "run_state (Authenticate (redis_auth su m) p) w = (Inr tok, w')"
  shows "\<exists>u \<in> set (pg_user (w_db w)). may_login_redis su live w p u \<and>
    session_opened su live (su_uid su (w_uids w)) p u tok w'"
proof -
  have "wp (Authenticate (redis_auth su m) p) (\<lambda>r w'. \<forall>tok. r = Inr tok \<longrightarrow>
      (\<exists>u \<in> set (pg_user (w_db w)). may_login_redis su live w p u \<and>
        session_opened su live (su_uid su (w_uids w)) p u tok w')) w"
    by (rule running.wp_Authenticate_redis [OF assms(1)]) blast+
  from wp_run [OF assms(2) this] show ?thesis by simp
qed

definition alice_default_login :: "(mem_redis, EventMessage list, time) world" where
  "alice_default_login =
     snd (run_state (Authenticate (redis_auth demo login_tracker) (login_request ''alice'' ''Secret1!'')) demo_world)"

lemma alice_logs_in_by_default:
  "run_state (Authenticate (redis_auth demo login_tracker) (login_request ''alice'' ''Secret1!'')) demo_world =
     (Inr \<lparr>Access = alice_token TokenTypeAccess, Refresh = alice_token TokenTypeRefresh\<rparr>, alice_default_login)"
proof -
  have "fst (run_state (Authenticate (redis_auth demo login_tracker) (login_request ''alice'' ''Secret1!'')) demo_world) =
      Inr \<lparr>Access = alice_token TokenTypeAccess, Refresh = alice_token TokenTypeRefresh\<rparr>"
    by code_simp
  then show ?thesis by (simp add: alice_default_login_def prod_eq_iff)
qed

lemma default_login_sound_witness:
  "\<exists>u \<in> set (pg_user (w_db demo_world)). may_login_redis demo mem_live demo_world (login_request ''alice'' ''Secret1!'') u \<and>
     session_opened demo mem_live (su_uid demo 0) (login_request ''alice'' ''Secret1!'') u
       \<lparr>Access = alice_token TokenTypeAccess, Refresh = alice_token TokenTypeRefresh\<rparr> alice_default_login"
  using default_login_sound [OF demo.running_axioms alice_logs_in_by_default]
  by (simp add: demo_world_def [THEN arg_cong [where f = w_uids]])

end
