(* ===== verification/Spec2Isabelle.thy ===== *)
theory Spec2Isabelle
  imports SessionProperties Executor RabbitProperties PublisherProperties GrpcProperties GoogleProvider RedisTracker
    RedisLimiter CacheProperties AccountProperties StartupProperties
    SecurityContracts Lookups Listing Interfaces OAuthLogin DefaultLogin
begin

text \<open>
  \<^bold>\<open>service-user\<close>: a gRPC service in Go for user accounts, devices, files and login sessions.
  The domain (\<open>internal/core/domain\<close>) is used by four services (\<open>internal/core/service\<close>), which call
  their ports (\<open>internal/core/port\<close>); the adapters (\<open>internal/adapter\<close>) implement the ports over
  PostgreSQL, Redis, RabbitMQ, JWT, hashing and OAuth libraries, and \<open>cmd/main.go\<close> puts them together.

  \<^bold>\<open>How the model corresponds to the code.\<close> A method is a program over explicit state
  (\<open>('s, 'a) prog\<close>, the state monad), its \<open>(T, error)\<close> result a sum, \<open>call\<close> the idiom
  \<open>if err != nil { return err }\<close>. A port is a record of programs; an adapter makes such a record over
  its own state; \<open>World\<close> brings all of them to the state of the running service by \<open>zoom\<close>. A library
  that is not in the repository is a parameter: a record of programs whose documented behaviour is the
  assumption of a locale, interpreted on a reference implementation.

  \<^item> \<open>Prelude\<close>: programs and their weakest preconditions, Go maps and strings, decimal notation.
  \<^item> \<open>Errors\<close>, \<open>Model\<close>, \<open>Events\<close>: the domain errors with \<open>errors.Is\<close>, the data, the event messages.
  \<^item> \<open>Ports\<close>: the interfaces as records of programs and as locales.
  \<^item> \<open>Redis\<close>, \<open>TokenStore\<close>, \<open>AttemptTracker\<close>, \<open>RateLimiter\<close>, \<open>Resolver\<close>, \<open>Password\<close>, \<open>Jwt\<close>, \<open>Hashers\<close>:
    the security adapters. Their lemmas refine token stores to sets of sessions, bound password guesses
    and granted requests per window, and give the round trip of tokens.
  \<^item> \<open>Postgres\<close>, \<open>Repositories\<close>: the database as tables with their constraints, one definition per
    repository operation; a script may reject a statement, lose its answer or cut the rows of a query.
    \<open>Listing\<close>: the pages of a list together are the list, and what a cut answer looks like.
  \<^item> \<open>AuthService\<close>, \<open>UserService\<close>, \<open>DeviceService\<close>: the services, method by method (the file service
    is in \<open>DeviceService\<close>).
  \<^item> \<open>World\<close>, \<open>Running\<close>, \<open>Healthy\<close>: the wiring of \<open>cmd/main.go\<close>, one proof rule per port for a deployment
    whose parts keep their contracts (locale \<open>running\<close>), and sharper rules when nothing fails
    (\<open>healthy\<close>). \<open>Demo\<close> is a concrete deployment, the interpretation of both.
  \<^item> \<open>AuthProperties\<close>, \<open>Sessions\<close>, \<open>SessionProperties\<close>: the life of a session from login over
    validation and rotation to its end, as a refinement to sets of sessions.
  \<^item> \<open>SharedPorts\<close>, \<open>Interleaving\<close>: requests that overlap. A port call is one step; a schedule says what
    other requests do before each port call of a request. Locale \<open>kept_by_ports\<close> brings a predicate that
    every port keeps through every method of the services, for the services alone and for overlapping
    requests, so overlapping requests go only through states that port calls reach one by one.
  \<^item> \<open>ServiceInvariant\<close>, \<open>Tables\<close>, \<open>CacheProperties\<close>: invariants of the whole service, kept by every port
    call (locales \<open>table_invariant\<close> and \<open>service_invariant\<close>) and thus true in every state that requests
    reach, overlapping or not: unique e-mails and names, accounts that never vanish, a cache that never
    names the wrong user.
  \<^item> \<open>Races\<close>, \<open>OAuthLogin\<close>: two overlapping refreshes of one session, and what the login through Google
    does not check.
  \<^item> \<open>DefaultLogin\<close>: the password login over the Redis attempt tracker of the default configuration.
  \<^item> \<open>Accounts\<close>, \<open>AccountProperties\<close>: what the user service promises about one account (changing the
    password, setting and verifying a PIN, revoking a device) and what a refused login tells.
  \<^item> \<open>GoogleProvider\<close>, \<open>RedisTracker\<close>, \<open>RedisLimiter\<close>: the OAuth provider with its PKCE verifier, and the
    Redis backends of the attempt tracker and of the rate limiter against the in-memory ones.
  \<^item> \<open>Executor\<close>: background and parallel tasks as step relations with their invariants.
  \<^item> \<open>Rabbit\<close>, \<open>RabbitProperties\<close>: the RabbitMQ connection, its retries and what a confirmation means.
  \<^item> \<open>Publishers\<close>, \<open>PublisherProperties\<close>: the request context, cloud events, the event publishers and
    the delivery of an event.
  \<^item> \<open>Validation\<close>, \<open>Requests\<close>, \<open>Responses\<close>, \<open>Handlers\<close>, \<open>Middleware\<close>: the gRPC adapter. A request is
    built from its message, validated by its tags and turned into parameters; a handler calls its
    service; the interceptors recover panics, attach the request context and make the status of an
    error. \<open>GrpcProperties\<close> holds what they show together with the services.

  \<^item> \<open>Config\<close>, \<open>ConfigProperties\<close>: \<open>internal/config\<close>. The structs, their tags and defaults, the flags and
    \<open>Load\<close>, over viper and mapstructure as they are documented: what a configuration can be refused for,
    and the configuration nobody set.
  \<^item> \<open>Infra\<close>, \<open>SecurityWiring\<close>, \<open>SecurityContracts\<close>: the connections, the monitoring options, and the choice
    of the backends of trackers and limiters, with one contract for both trackers.
  \<^item> \<open>Startup\<close>, \<open>StartupProperties\<close>: \<open>cmd/main.go\<close> from the flags to the end of the server, with deferred
    calls and fatal errors, and the order of the shutdown.
  \<^item> \<open>Lookups\<close>: operations no service calls (the single-key lookup, the no-op whitelist).
  \<^item> \<open>Interfaces\<close>: the service interfaces of \<open>internal/core/port/service\<close> and their constructors, the
    resolver provider, the columns a list can be ordered by, the no-op logger and tracer.

  \<^bold>\<open>Bounds and fuel.\<close> The search for a free user name and \<open>connect\<close> without a maximum have no bound in
  the code: they take fuel, and running out is a value of its own. With a maximum, one unit of fuel
  per attempt and one more is enough, which is proved (\<open>connect_returns\<close>). 32-bit and 64-bit words
  are kept where the code wraps (page arithmetic, hash parameters); times and durations are unbounded
  nanosecond counts.

  \<^bold>\<open>Not modelled.\<close> Log lines, tracing spans and metrics have no effect on results. Asynchronous tasks of
  the services run at once. The session properties are about requests that do not overlap; where requests
  overlap, a port call (for the resolver a whole lookup) is one step. SQL text is represented by its
  meaning on tables. \<open>World\<close> puts the services together with the in-memory attempt tracker and rate
  limiter; the Redis ones, which the default configuration selects, are modelled and related to them in
  \<open>SecurityContracts\<close>, \<open>RedisTracker\<close> and \<open>RedisLimiter\<close>, and the login is proved over the Redis tracker
  in \<open>DefaultLogin\<close> as well. The tickers that call the cleanup of the in-memory adapters, the delivery of signals, the wire format of
  gRPC and generated mocks are glue.
\<close>

end
